(* ===== verification/Prelude.thy ===== *)
theory Prelude
  imports Main "HOL-Library.Word" "HOL-Library.AList" "HOL-Library.Char_ord"
    "HOL-Library.List_Lexorder"
begin

text \<open>
  Shared vocabulary of the development: the machine integers of the Rust source, the
  outcome of a Rust function (a value, an error, a panic), the sequencing of calls that
  act on the outside world (the LND node behind its gRPC stubs, the file system), and
  general facts on association lists and strings that the component theories use.

  Conventions. A Rust \<open>HashMap\<close> that the code iterates over is an association list with
  distinct keys (the iteration order of a \<open>HashMap\<close> is unspecified, so theorems about
  an iteration speak of sets, never of the order); a \<open>HashMap\<close> that is only looked up is
  a map. A \<open>String\<close> is a list of bytes (\<open>string\<close>). Logging has no effect in the model.
\<close>

named_theorems io_simps \<open>unfolding of the sequencing operations\<close>

section \<open>Machine integers\<close>

type_synonym u8 = "8 word"
type_synonym u16 = "16 word"
type_synonym u32 = "32 word"
type_synonym u64 = "64 word"
type_synonym u128 = "128 word"
type_synonym i32 = "32 word"
type_synonym i64 = "64 word"

text \<open>Time: \<open>Instant\<close> and \<open>Duration\<close> are non-negative; \<open>duration_since\<close> saturates at zero,
  as subtraction on \<open>nat\<close> does. They count nanoseconds.\<close>

type_synonym instant = nat
type_synonym duration = nat

definition from_secs :: "u64 \<Rightarrow> duration" where
  "from_secs s = unat s * 1000000000"

text \<open>\<open>SystemTime\<close>, relative to the epoch, keeps its seconds in 64 bits with a sign.\<close>

definition SYSTEM_TIME_END :: int where
  "SYSTEM_TIME_END = 2 ^ 63 * 1000000000"

section \<open>Outcomes\<close>

text \<open>\<open>Ok\<close> and \<open>Err\<close> are Rust's \<open>Result\<close>; \<open>Panic\<close> is a failed \<open>unwrap\<close>, \<open>expect\<close> or index.\<close>

datatype ('e, 'a) res = Ok 'a | Err 'e | Panic string

fun res_bind :: "('e, 'a) res \<Rightarrow> ('a \<Rightarrow> ('e, 'b) res) \<Rightarrow> ('e, 'b) res" where
  "res_bind (Ok a) k = k a"
| "res_bind (Err e) k = Err e"
| "res_bind (Panic s) k = Panic s"

fun map_err :: "('e \<Rightarrow> 'f) \<Rightarrow> ('e, 'a) res \<Rightarrow> ('f, 'a) res" where
  "map_err f (Ok a) = Ok a"
| "map_err f (Err e) = Err (f e)"
| "map_err f (Panic s) = Panic s"

fun expect :: "string \<Rightarrow> ('e, 'a) res \<Rightarrow> ('f, 'a) res" where
  "expect msg (Ok a) = Ok a"
| "expect msg (Err e) = Panic msg"
| "expect msg (Panic s) = Panic s"

definition ok_or :: "'e \<Rightarrow> 'a option \<Rightarrow> ('e, 'a) res" where
  "ok_or e x = (case x of Some a \<Rightarrow> Ok a | None \<Rightarrow> Err e)"

definition unwrap :: "'a option \<Rightarrow> ('e, 'a) res" where
  "unwrap x = (case x of Some a \<Rightarrow> Ok a | None \<Rightarrow> Panic ''unwrap'')"

fun is_panic :: "('e, 'a) res \<Rightarrow> bool" where
  "is_panic (Panic s) = True"
| "is_panic (Ok a) = False"
| "is_panic (Err e) = False"

fun is_ok :: "('e, 'a) res \<Rightarrow> bool" where
  "is_ok (Ok a) = True"
| "is_ok (Err e) = False"
| "is_ok (Panic s) = False"

lemma res_bind_Ok_iff: "res_bind m k = Ok b \<longleftrightarrow> (\<exists>a. m = Ok a \<and> k a = Ok b)"
  by (cases m) auto

lemma res_bind_not_panic:
  "\<not> is_panic m \<Longrightarrow> (\<And>a. m = Ok a \<Longrightarrow> \<not> is_panic (k a)) \<Longrightarrow> \<not> is_panic (res_bind m k)"
  by (cases m) auto

lemma is_panic_bind_iff: "is_panic (res_bind m k) \<longleftrightarrow> is_panic m \<or> (\<exists>a. m = Ok a \<and> is_panic (k a))"
  by (cases m) auto

text \<open>Collecting the outcomes of a list, stopping at the first that is not \<open>Ok\<close>.\<close>

fun map_res :: "('a \<Rightarrow> ('e, 'b) res) \<Rightarrow> 'a list \<Rightarrow> ('e, 'b list) res" where
  "map_res f [] = Ok []"
| "map_res f (x # xs) = res_bind (f x) (\<lambda>y. res_bind (map_res f xs) (\<lambda>ys. Ok (y # ys)))"

lemma map_res_Ok_iff: "map_res f xs = Ok ys \<longleftrightarrow> list_all2 (\<lambda>x y. f x = Ok y) xs ys"
  by (induction xs arbitrary: ys) (auto simp: res_bind_Ok_iff list_all2_Cons1)

lemma map_res_map_Ok: "(\<And>x. x \<in> set xs \<Longrightarrow> f (g x) = Ok (h x)) \<Longrightarrow> map_res f (map g xs) = Ok (map h xs)"
  by (induction xs) auto

lemma map_res_total:
  "(\<And>x. x \<in> set xs \<Longrightarrow> is_ok (f x)) \<Longrightarrow> is_ok (map_res f xs)"
proof (induction xs)
  case (Cons x xs)
  then have "is_ok (f x)" "is_ok (map_res f xs)" by auto
  then show ?case by (cases "f x"; cases "map_res f xs") auto
qed simp

lemma map_res_is_ok_iff: "is_ok (map_res f xs) \<longleftrightarrow> (\<forall>x\<in>set xs. is_ok (f x))"
proof (induction xs)
  case (Cons x xs)
  then show ?case by (cases "f x"; cases "map_res f xs") auto
qed simp

lemma ok_or_simps [simp]: "ok_or e (Some a) = Ok a" "ok_or e None = Err e"
  by (simp_all add: ok_or_def)

lemma unwrap_simps [simp]: "unwrap (Some a) = Ok a" "unwrap None = Panic ''unwrap''"
  by (simp_all add: unwrap_def)

lemma ok_or_Ok_iff [simp]: "ok_or e x = Ok a \<longleftrightarrow> x = Some a" "Ok a = ok_or e x \<longleftrightarrow> x = Some a"
  by (cases x; auto)+

lemma unwrap_Ok_iff [simp]: "unwrap x = Ok a \<longleftrightarrow> x = Some a" "Ok a = unwrap x \<longleftrightarrow> x = Some a"
  by (cases x; auto)+

lemma ok_or_not_panic [simp]: "\<not> is_panic (ok_or e x)"
  by (cases x) auto

lemma map_err_Ok_iff [simp]: "map_err f m = Ok a \<longleftrightarrow> m = Ok a"
  by (cases m) auto

lemma map_err_Err_iff: "map_err f m = Err e \<longleftrightarrow> (\<exists>e'. m = Err e' \<and> e = f e')"
  by (cases m) auto

lemma is_panic_map_err [simp]: "is_panic (map_err f m) = is_panic m"
  by (cases m) auto

section \<open>Calls on the outside world\<close>

text \<open>
  The outside world is a state \<open>'w\<close>; an \<open>async\<close> function of the source is a function from
  a world to an outcome and the world its calls leave behind. A gRPC stub returns a
  \<open>Result\<close>, so its type is a sum (\<open>Inl\<close> the status, \<open>Inr\<close> the response) and it never
  panics; \<open>rpc\<close> makes an outcome of it.
\<close>

type_synonym ('w, 'e, 'a) io = "'w \<Rightarrow> ('e, 'a) res \<times> 'w"
type_synonym ('w, 'e, 'a) stub = "'w \<Rightarrow> ('e + 'a) \<times> 'w"

definition io_return :: "'a \<Rightarrow> ('w, 'e, 'a) io" where
  "io_return a = (\<lambda>w. (Ok a, w))"

definition io_err :: "'e \<Rightarrow> ('w, 'e, 'a) io" where
  "io_err e = (\<lambda>w. (Err e, w))"

definition io_lift :: "('e, 'a) res \<Rightarrow> ('w, 'e, 'a) io" where
  "io_lift r = (\<lambda>w. (r, w))"

definition io_bind :: "('w, 'e, 'a) io \<Rightarrow> ('a \<Rightarrow> ('w, 'e, 'b) io) \<Rightarrow> ('w, 'e, 'b) io" where
  "io_bind m k = (\<lambda>w. case m w of
     (Ok a, w') \<Rightarrow> k a w'
   | (Err e, w') \<Rightarrow> (Err e, w')
   | (Panic s, w') \<Rightarrow> (Panic s, w'))"

definition io_map_err :: "('e \<Rightarrow> 'f) \<Rightarrow> ('w, 'e, 'a) io \<Rightarrow> ('w, 'f, 'a) io" where
  "io_map_err f m = (\<lambda>w. case m w of (r, w') \<Rightarrow> (map_err f r, w'))"

definition io_expect :: "string \<Rightarrow> ('w, 'e, 'a) io \<Rightarrow> ('w, 'f, 'a) io" where
  "io_expect msg m = (\<lambda>w. case m w of (r, w') \<Rightarrow> (expect msg r, w'))"

text \<open>\<open>match\<close> on the result of a call.\<close>

definition io_match ::
  "('w, 'e, 'a) io \<Rightarrow> ('a \<Rightarrow> ('w, 'f, 'b) io) \<Rightarrow> ('e \<Rightarrow> ('w, 'f, 'b) io) \<Rightarrow> ('w, 'f, 'b) io" where
  "io_match m f g = (\<lambda>w. case m w of
     (Ok a, w') \<Rightarrow> f a w'
   | (Err e, w') \<Rightarrow> g e w'
   | (Panic s, w') \<Rightarrow> (Panic s, w'))"

fun res_of_sum :: "'e + 'a \<Rightarrow> ('e, 'a) res" where
  "res_of_sum (Inl e) = Err e"
| "res_of_sum (Inr a) = Ok a"

definition rpc :: "('w, 'e, 'a) stub \<Rightarrow> ('w, 'e, 'a) io" where
  "rpc f = (\<lambda>w. case f w of (r, w') \<Rightarrow> (res_of_sum r, w'))"

declare io_return_def [io_simps] io_err_def [io_simps] io_lift_def [io_simps]
  io_bind_def [io_simps] io_map_err_def [io_simps] io_expect_def [io_simps] rpc_def [io_simps]
  io_match_def [io_simps]

text \<open>Total operations: no call of the source panics in them.\<close>

definition no_panic :: "('w, 'e, 'a) io \<Rightarrow> bool" where
  "no_panic m \<longleftrightarrow> (\<forall>w. \<not> is_panic (fst (m w)))"

lemma no_panicI [intro]: "(\<And>w. \<not> is_panic (fst (m w))) \<Longrightarrow> no_panic m"
  by (simp add: no_panic_def)

lemma no_panicD: "no_panic m \<Longrightarrow> m w \<noteq> (Panic s, w')"
  by (metis fst_conv is_panic.simps(1) no_panic_def)

lemma res_of_sum_Ok [simp]: "res_of_sum r = Ok a \<longleftrightarrow> r = Inr a"
  by (cases r) auto

lemma res_of_sum_not_panic [simp]: "\<not> is_panic (res_of_sum r)"
  by (cases r) auto

lemma no_panic_return [simp]: "no_panic (io_return a)"
  by (simp add: no_panic_def io_simps)

lemma no_panic_err [simp]: "no_panic (io_err e)"
  by (simp add: no_panic_def io_simps)

lemma no_panic_lift [simp]: "no_panic (io_lift r) \<longleftrightarrow> \<not> is_panic r"
  by (simp add: no_panic_def io_simps)

lemma no_panic_rpc [simp]: "no_panic (rpc f)"
  by (simp add: no_panic_def io_simps split: prod.split)

lemma no_panic_map_err [simp]: "no_panic (io_map_err f m) = no_panic m"
  by (simp add: no_panic_def io_simps case_prod_beta)

lemma no_panic_bind: "no_panic m \<Longrightarrow> (\<And>a. no_panic (k a)) \<Longrightarrow> no_panic (io_bind m k)"
  by (auto simp: no_panic_def io_simps split: prod.split res.split) (metis fst_conv is_panic.simps(1))

lemma no_panic_match:
  "no_panic m \<Longrightarrow> (\<And>a. no_panic (f a)) \<Longrightarrow> (\<And>e. no_panic (g e)) \<Longrightarrow> no_panic (io_match m f g)"
  by (auto simp: no_panic_def io_simps split: prod.split res.split) (metis fst_conv is_panic.simps(1))

lemma io_match_Ok_iff:
  "io_match m f g w = (Ok b, w'') \<longleftrightarrow>
     (\<exists>a w'. m w = (Ok a, w') \<and> f a w' = (Ok b, w'')) \<or> (\<exists>e w'. m w = (Err e, w') \<and> g e w' = (Ok b, w''))"
  by (auto simp: io_simps split: prod.split res.split)

lemma io_bind_Ok_iff:
  "io_bind m k w = (Ok b, w'') \<longleftrightarrow> (\<exists>a w'. m w = (Ok a, w') \<and> k a w' = (Ok b, w''))"
  by (auto simp: io_simps split: prod.split res.split)

lemma io_bind_Err_iff:
  "io_bind m k w = (Err e, w'') \<longleftrightarrow>
     m w = (Err e, w'') \<or> (\<exists>a w'. m w = (Ok a, w') \<and> k a w' = (Err e, w''))"
  by (auto simp: io_simps split: prod.split res.split)

lemma io_map_err_Ok_iff [simp]: "io_map_err f m w = (Ok a, w') \<longleftrightarrow> m w = (Ok a, w')"
  by (auto simp: io_simps split: prod.split)

lemma io_map_err_Err_iff:
  "io_map_err f m w = (Err e, w') \<longleftrightarrow> (\<exists>e'. m w = (Err e', w') \<and> e = f e')"
  by (auto simp: io_simps map_err_Err_iff split: prod.split)

lemma rpc_Ok_iff [simp]: "rpc f w = (Ok a, w') \<longleftrightarrow> f w = (Inr a, w')"
  by (cases "f w"; cases "fst (f w)") (auto simp: io_simps)

lemma rpc_Err_iff [simp]: "rpc f w = (Err e, w') \<longleftrightarrow> f w = (Inl e, w')"
  by (cases "f w"; cases "fst (f w)") (auto simp: io_simps)

lemma io_return_iff [simp]: "io_return a w = (r, w') \<longleftrightarrow> r = Ok a \<and> w' = w"
  by (auto simp: io_simps)

lemma io_err_iff [simp]: "io_err e w = (r, w') \<longleftrightarrow> r = Err e \<and> w' = w"
  by (auto simp: io_simps)

lemma io_lift_iff [simp]: "io_lift x w = (r, w') \<longleftrightarrow> x = r \<and> w' = w"
  by (auto simp: io_simps)

section \<open>Association lists\<close>

abbreviation keys_of :: "('k \<times> 'v) list \<Rightarrow> 'k list" where
  "keys_of xs \<equiv> map fst xs"

definition map_values :: "('v \<Rightarrow> 'u) \<Rightarrow> ('k \<times> 'v) list \<Rightarrow> ('k \<times> 'u) list" where
  "map_values f xs = map (\<lambda>(k, v). (k, f v)) xs"

lemma keys_map_values [simp]: "keys_of (map_values f xs) = keys_of xs"
  by (induction xs) (auto simp: map_values_def)

lemma map_of_map_values [simp]: "map_of (map_values f xs) k = map_option f (map_of xs k)"
  by (induction xs) (auto simp: map_values_def)

lemma map_of_filter_value:
  "distinct (keys_of xs) \<Longrightarrow>
   map_of (filter (\<lambda>p. P (snd p)) xs) k = (case map_of xs k of
      Some v \<Rightarrow> if P v then Some v else None | None \<Rightarrow> None)"
proof (induction xs)
  case (Cons x xs)
  have "map_of xs (fst x) = None"
    using Cons.prems by (simp add: map_of_eq_None_iff)
  then show ?case
    using Cons by (cases x) (auto split: option.splits)
qed simp

lemma distinct_keys_filter [simp]:
  "distinct (keys_of xs) \<Longrightarrow> distinct (keys_of (filter P xs))"
  by (induction xs) (auto simp: image_iff)

lemma set_keys_filter:
  "distinct (keys_of xs) \<Longrightarrow>
   k \<in> set (keys_of (filter (\<lambda>p. P (snd p)) xs)) \<longleftrightarrow> (\<exists>v. map_of xs k = Some v \<and> P v)"
  by (auto simp: image_iff map_of_eq_Some_iff)

section \<open>Decimal numbers in messages\<close>

text \<open>The decimal rendering of an unsigned integer by Rust's \<open>Display\<close>.\<close>

fun decimal :: "nat \<Rightarrow> string" where
  "decimal n = (if n < 10 then [char_of (48 + n)] else decimal (n div 10) @ [char_of (48 + n mod 10)])"

declare decimal.simps [simp del]

end
