(* ===== verification/Ldk_Types.thy ===== *)
theory Ldk_Types
  imports Prelude
begin

text \<open>
  Values of the libraries the source calls (secp256k1, rust-lightning), as far as the source
  looks at them. Their own code is not part of the repository: operations on them are
  parameters of the model, gathered in records that the definitions take as arguments.
\<close>

section \<open>Public keys\<close>

text \<open>A key is opaque: the source compares keys and converts them with the four library
  functions below. It is identified by a number of as many bits as its 33-byte compressed
  form has; which of these numbers are points of the curve plays no role.\<close>

datatype public_key = PublicKey "264 word"

record secp =
  pk_from_str :: "string \<Rightarrow> public_key option"
  pk_to_string :: "public_key \<Rightarrow> string"
  pk_from_slice :: "u8 list \<Rightarrow> public_key option"
  pk_serialize :: "public_key \<Rightarrow> u8 list"

text \<open>
  What the documentation of secp256k1 says of them: \<open>to_string\<close> writes the 33-byte
  compressed form as 66 hexadecimal digits, \<open>from_str\<close> reads it back, \<open>from_slice\<close> accepts
  the 33-byte and the 65-byte form only and reads back \<open>serialize\<close>.
\<close>

definition secp_documented :: "secp \<Rightarrow> bool" where
  "secp_documented K \<longleftrightarrow>
     (\<forall>k. pk_from_str K (pk_to_string K k) = Some k) \<and>
     (\<forall>k. length (pk_to_string K k) = 66) \<and>
     (\<forall>k. pk_from_slice K (pk_serialize K k) = Some k) \<and>
     (\<forall>bs. length bs \<noteq> 33 \<and> length bs \<noteq> 65 \<longrightarrow> pk_from_slice K bs = None)"

text \<open>\<open>str::as_bytes\<close>.\<close>

definition as_bytes :: "string \<Rightarrow> u8 list" where
  "as_bytes s = map of_char s"

lemma length_as_bytes [simp]: "length (as_bytes s) = length s"
  by (simp add: as_bytes_def)

lemma pk_to_string_inj:
  assumes "secp_documented K" and "pk_to_string K a = pk_to_string K b"
  shows "a = b"
proof -
  have "Some a = Some b"
    using assms unfolding secp_documented_def by metis
  then show ?thesis by simp
qed

text \<open>A concrete instance of these laws: fixed-length digits in base 16 and in base 256.\<close>

fun digits :: "nat \<Rightarrow> nat \<Rightarrow> nat \<Rightarrow> nat list" where
  "digits b 0 n = []"
| "digits b (Suc l) n = n mod b # digits b l (n div b)"

fun undigits :: "nat \<Rightarrow> nat list \<Rightarrow> nat" where
  "undigits b [] = 0"
| "undigits b (d # ds) = d + b * undigits b ds"

definition sample_secp :: secp where
  "sample_secp =
     \<lparr>pk_from_str = (\<lambda>s. if length s = 66
        then Some (PublicKey (of_nat (undigits 16 (map of_char s)))) else None),
      pk_to_string = (\<lambda>k. case k of PublicKey x \<Rightarrow> map char_of (digits 16 66 (unat x))),
      pk_from_slice = (\<lambda>bs. if length bs = 33
        then Some (PublicKey (of_nat (undigits 256 (map unat bs)))) else None),
      pk_serialize = (\<lambda>k. case k of PublicKey x \<Rightarrow> map of_nat (digits 256 33 (unat x)))\<rparr>"

lemma length_digits [simp]: "length (digits b l n) = l"
  by (induction l arbitrary: n) auto

lemma undigits_digits: "n < b ^ l \<Longrightarrow> undigits b (digits b l n) = n"
proof (induction l arbitrary: n)
  case (Suc l)
  then have "n div b < b ^ l" by (simp add: less_mult_imp_div_less mult.commute)
  with Suc.IH show ?case by simp
qed simp

lemma digits_bounded: "0 < b \<Longrightarrow> d \<in> set (digits b l n) \<Longrightarrow> d < b"
  by (induction l arbitrary: n) auto

lemma digits_as_chars: "map of_char (map char_of (digits 16 l n) :: char list) = digits 16 l n"
proof -
  have "of_char (char_of d :: char) = d" if "d \<in> set (digits 16 l n)" for d
    using digits_bounded [OF _ that] by simp
  then show ?thesis by (simp add: map_idI)
qed

lemma digits_as_bytes: "map unat (map of_nat (digits 256 l n) :: u8 list) = digits 256 l n"
proof -
  have "unat (of_nat d :: u8) = d" if "d \<in> set (digits 256 l n)" for d
    using digits_bounded [OF _ that] by (simp add: unat_of_nat take_bit_nat_eq_self)
  then show ?thesis by (simp add: map_idI)
qed

lemma undigits_digits_key:
  "undigits 16 (digits 16 66 (unat (x :: 264 word))) = unat x"
  "undigits 256 (digits 256 33 (unat (x :: 264 word))) = unat x"
proof -
  have "unat x < 2 ^ 264" using unsigned_less [of x] by simp
  then show "undigits 16 (digits 16 66 (unat x)) = unat x" "undigits 256 (digits 256 33 (unat x)) = unat x"
    by (intro undigits_digits; simp)+
qed

lemma sample_secp_documented: "secp_documented sample_secp"
  unfolding secp_documented_def sample_secp_def
  by (simp del: map_map add: digits_as_chars digits_as_bytes undigits_digits_key
      split: public_key.split)

section \<open>Networks, amounts and paths\<close>

datatype network = Bitcoin | Testnet | Signet | Regtest

datatype amount = AmountBitcoin u64 | AmountCurrency string u64

datatype direction = NodeOne | NodeTwo

datatype introduction_node = NodeId public_key | DirectedShortChannelId direction u64

record blinded_hop =
  bh_node_id :: public_key
  bh_encrypted_payload :: "u8 list"

record blinded_message_path =
  bmp_introduction_node :: introduction_node
  bmp_blinding_point :: public_key
  bmp_hops :: "blinded_hop list"

text \<open>The features of a hop are kept as the little-endian bytes they are made from.\<close>

record blinded_pay_info =
  pi_fee_base_msat :: u32
  pi_fee_proportional_millionths :: u32
  pi_cltv_expiry_delta :: u16
  pi_htlc_minimum_msat :: u64
  pi_htlc_maximum_msat :: u64
  pi_features :: "u8 list"

record blinded_payment_path =
  bpp_introduction_node :: introduction_node
  bpp_blinding_point :: public_key
  bpp_hops :: "blinded_hop list"
  bpp_payinfo :: blinded_pay_info

datatype destination = DestNode public_key | DestBlindedPath blinded_message_path

datatype quantity = QuantityBounded u64 | QuantityUnbounded | QuantityOne

section \<open>Offers, invoice requests and invoices\<close>

text \<open>
  Keys, nonces, codes and builders are opaque to the source. An offer, an invoice request
  and an invoice carry their encoding and what the accessors the source calls return.
\<close>

datatype expanded_key = ExpandedKey "u8 list"
datatype nonce = Nonce "u8 list"
datatype hmac = Hmac "u8 list"
datatype payment_id = PaymentId "u8 list"
datatype payment_hash = PaymentHash "u8 list"
datatype request_builder = RequestBuilder "u8 list"

datatype verified_request = VerifiedRequest "u8 list"
datatype invoice_builder = InvoiceBuilder payment_hash "blinded_payment_path list" "u8 list"

record offer_terms =
  offer_chains :: "network list"
  offer_amount :: "amount option"
  offer_paths :: "blinded_message_path list"
  offer_description :: "string option"
  offer_issuer :: "string option"
  offer_supported_quantity :: quantity
  offer_absolute_expiry :: "duration option"

record offer = offer_terms +
  offer_bytes :: "u8 list"
  offer_issuer_signing_pubkey :: "public_key option"

text \<open>An offer under construction has the terms set so far.\<close>

datatype offer_builder = OfferBuilder (built: offer_terms) "u8 list"

record invoice_request =
  ir_bytes :: "u8 list"
  ir_amount :: "amount option"
  ir_description :: "string option"

record bolt12_invoice =
  inv_bytes :: "u8 list"
  inv_chain :: string
  inv_quantity :: "u64 option"
  inv_amount :: "amount option"
  inv_amount_msats :: u64
  inv_description :: "string option"
  inv_payment_hash :: payment_hash
  inv_created_at_secs :: u64
  inv_relative_expiry_secs :: u64
  inv_signing_pubkey :: public_key
  inv_signature :: string
  inv_payment_paths :: "blinded_payment_path list"
  inv_payer_note :: "string option"

datatype offers_context =
    CtxInvoiceRequest nonce
  | CtxOutboundPayment payment_id nonce "hmac option"
  | CtxInboundPayment payment_hash nonce hmac

datatype message_context = OffersCtx offers_context | OtherCtx

datatype invoice_error = InvoiceError string

datatype offers_message =
    MsgInvoiceRequest invoice_request
  | MsgInvoice bolt12_invoice
  | MsgInvoiceError invoice_error

datatype responder = Responder blinded_message_path

text \<open>How a message is to be sent: along a given reply path, or as the answer of a responder.\<close>

datatype send_instructions =
    WithSpecifiedReplyPath destination blinded_message_path
  | ForReply responder

datatype response_instruction = Respond responder

record message_forward_node =
  fwd_node_id :: public_key
  fwd_short_channel_id :: "u64 option"

section \<open>The library's operations on them\<close>

text \<open>
  The operations of rust-lightning and of the random number generator that the source calls.
  They may use up randomness, so those that do act on the world \<open>'w\<close>. A failure carries the
  text of the library's error.
\<close>

record 'w ldk =
  get_secure_random_bytes :: "'w \<Rightarrow> u8 list \<times> 'w"
  nonce_from_entropy_source :: "'w \<Rightarrow> nonce \<times> 'w"
  offer_from_str :: "string \<Rightarrow> string + offer"
  request_invoice ::
    "offer \<Rightarrow> expanded_key \<Rightarrow> nonce \<Rightarrow> payment_id \<Rightarrow> string + request_builder"
  irb_chain :: "request_builder \<Rightarrow> network \<Rightarrow> string + request_builder"
  irb_amount_msats :: "request_builder \<Rightarrow> u64 \<Rightarrow> string + request_builder"
  irb_payer_note :: "request_builder \<Rightarrow> string \<Rightarrow> request_builder"
  irb_build_and_sign :: "request_builder \<Rightarrow> string + invoice_request"
  hmac_for_offer_payment :: "payment_id \<Rightarrow> nonce \<Rightarrow> expanded_key \<Rightarrow> hmac"
  verify_for_offer_payment :: "payment_id \<Rightarrow> hmac \<Rightarrow> nonce \<Rightarrow> expanded_key \<Rightarrow> bool"
  verify_using_payer_data ::
    "bolt12_invoice \<Rightarrow> payment_id \<Rightarrow> nonce \<Rightarrow> expanded_key \<Rightarrow> payment_id option"
  verify_using_recipient_data ::
    "invoice_request \<Rightarrow> nonce \<Rightarrow> expanded_key \<Rightarrow> verified_request option"
  respond_using_derived_keys ::
    "verified_request \<Rightarrow> blinded_payment_path list \<Rightarrow> payment_hash \<Rightarrow> string + invoice_builder"
  ib_build_and_sign :: "invoice_builder \<Rightarrow> string + bolt12_invoice"
  invoice_error_from :: "string \<Rightarrow> invoice_error"
  path_one_hop :: "public_key \<Rightarrow> message_context \<Rightarrow> 'w \<Rightarrow> blinded_message_path option \<times> 'w"
  path_new :: "message_forward_node list \<Rightarrow> public_key \<Rightarrow> message_context \<Rightarrow> 'w \<Rightarrow>
    blinded_message_path option \<times> 'w"
  ob_deriving_signing_pubkey :: "public_key \<Rightarrow> expanded_key \<Rightarrow> nonce \<Rightarrow> offer_builder"
  ob_chain :: "offer_builder \<Rightarrow> network \<Rightarrow> offer_builder"
  ob_amount_msats :: "offer_builder \<Rightarrow> u64 \<Rightarrow> offer_builder"
  ob_path :: "offer_builder \<Rightarrow> blinded_message_path \<Rightarrow> offer_builder"
  ob_description :: "offer_builder \<Rightarrow> string \<Rightarrow> offer_builder"
  ob_issuer :: "offer_builder \<Rightarrow> string \<Rightarrow> offer_builder"
  ob_supported_quantity :: "offer_builder \<Rightarrow> quantity \<Rightarrow> offer_builder"
  ob_absolute_expiry :: "offer_builder \<Rightarrow> duration \<Rightarrow> offer_builder"
  ob_build :: "offer_builder \<Rightarrow> string + offer"
  system_time_now :: "'w \<Rightarrow> int \<times> 'w"
  sha256_hash :: "u8 list \<Rightarrow> u8 list"
  sha256_from_str :: "string \<Rightarrow> string + u8 list"

text \<open>Operations without a failure, as calls on the world.\<close>

definition run_total :: "('w \<Rightarrow> 'a \<times> 'w) \<Rightarrow> ('w, 'e, 'a) io" where
  "run_total f = (\<lambda>w. case f w of (a, w') \<Rightarrow> (Ok a, w'))"

declare run_total_def [io_simps]

lemma no_panic_run_total [simp]: "no_panic (run_total f)"
  by (simp add: no_panic_def io_simps split: prod.split)

text \<open>
  What rust-lightning documents of the code it attaches to an outgoing payment: the code made
  for a payment verifies for it, and a verified invoice is reported under the payment id it was
  verified for.
\<close>

definition ldk_documented :: "'w ldk \<Rightarrow> bool" where
  "ldk_documented L \<longleftrightarrow>
     (\<forall>pid n key. verify_for_offer_payment L pid (hmac_for_offer_payment L pid n key) n key) \<and>
     (\<forall>inv pid n key pid'. verify_using_payer_data L inv pid n key = Some pid' \<longrightarrow> pid' = pid)"

text \<open>
  What rust-lightning documents of building an offer: a new builder has no terms, each setter
  sets its own, an amount of zero counts as none, a chain or a path is added to those there,
  and the offer built has the terms of the builder, with an empty description if it has
  an amount and none was given.
\<close>

definition no_terms :: offer_terms where
  "no_terms = \<lparr>offer_chains = [], offer_amount = None, offer_paths = [], offer_description = None,
     offer_issuer = None, offer_supported_quantity = QuantityOne, offer_absolute_expiry = None\<rparr>"

definition amount_term :: "u64 \<Rightarrow> amount option" where
  "amount_term a = (if a = 0 then None else Some (AmountBitcoin a))"

definition described :: "offer_terms \<Rightarrow> offer_terms" where
  "described t = (if offer_amount t \<noteq> None \<and> offer_description t = None then t\<lparr>offer_description := Some ''''\<rparr> else t)"

definition builder_documented :: "'w ldk \<Rightarrow> bool" where
  "builder_documented L \<longleftrightarrow>
     (\<forall>k key n. built (ob_deriving_signing_pubkey L k key n) = no_terms) \<and>
     (\<forall>b n. built (ob_chain L b n) = (built b)\<lparr>offer_chains :=
        (if n \<in> set (offer_chains (built b)) then offer_chains (built b) else offer_chains (built b) @ [n])\<rparr>) \<and>
     (\<forall>b a. built (ob_amount_msats L b a) = (built b)\<lparr>offer_amount := amount_term a\<rparr>) \<and>
     (\<forall>b p. built (ob_path L b p) = (built b)\<lparr>offer_paths := offer_paths (built b) @ [p]\<rparr>) \<and>
     (\<forall>b d. built (ob_description L b d) = (built b)\<lparr>offer_description := Some d\<rparr>) \<and>
     (\<forall>b i. built (ob_issuer L b i) = (built b)\<lparr>offer_issuer := Some i\<rparr>) \<and>
     (\<forall>b q. built (ob_supported_quantity L b q) = (built b)\<lparr>offer_supported_quantity := q\<rparr>) \<and>
     (\<forall>b e. built (ob_absolute_expiry L b e) = (built b)\<lparr>offer_absolute_expiry := Some e\<rparr>) \<and>
     (\<forall>b o'. ob_build L b = Inr o' \<longrightarrow> offer_terms.truncate o' = described (built b))"

text \<open>
  And of answering an invoice request: the invoice built has the payment hash and the paths it
  was asked for.
\<close>

definition answer_documented :: "'w ldk \<Rightarrow> bool" where
  "answer_documented L \<longleftrightarrow>
     (\<forall>v paths hash b invoice. respond_using_derived_keys L v paths hash = Inr b \<and> ib_build_and_sign L b = Inr invoice \<longrightarrow>
        inv_payment_hash invoice = hash \<and> inv_payment_paths invoice = paths)"

text \<open>An instance: randomness counts up, and every construction succeeds.\<close>

definition sample_path :: "public_key \<Rightarrow> blinded_message_path" where
  "sample_path k = \<lparr>bmp_introduction_node = NodeId k, bmp_blinding_point = k, bmp_hops = []\<rparr>"

definition sample_offer :: offer where
  "sample_offer = \<lparr>offer_chains = [], offer_amount = Some (AmountBitcoin 1000), offer_paths = [],
     offer_description = None, offer_issuer = None, offer_supported_quantity = QuantityOne,
     offer_absolute_expiry = None, offer_bytes = [1], offer_issuer_signing_pubkey = Some (PublicKey 9)\<rparr>"

definition sample_request :: invoice_request where
  "sample_request = \<lparr>ir_bytes = [2], ir_amount = Some (AmountBitcoin 1000), ir_description = None\<rparr>"

definition sample_invoice :: bolt12_invoice where
  "sample_invoice = \<lparr>inv_bytes = [3], inv_chain = ''bitcoin'', inv_quantity = None,
     inv_amount = Some (AmountBitcoin 1000), inv_amount_msats = 1000, inv_description = None,
     inv_payment_hash = PaymentHash [4], inv_created_at_secs = 0, inv_relative_expiry_secs = 7200,
     inv_signing_pubkey = PublicKey 9, inv_signature = '''', inv_payment_paths = [], inv_payer_note = None\<rparr>"

definition with_terms :: "(offer_terms \<Rightarrow> offer_terms) \<Rightarrow> offer_builder \<Rightarrow> offer_builder" where
  "with_terms f b = (case b of OfferBuilder t bs \<Rightarrow> OfferBuilder (f t) bs)"

lemma built_with_terms [simp]: "built (with_terms f b) = f (built b)"
  by (cases b) (simp add: with_terms_def)

definition sample_ldk :: "nat ldk" where
  "sample_ldk =
     \<lparr>get_secure_random_bytes = (\<lambda>w. ([of_nat w], Suc w)),
      nonce_from_entropy_source = (\<lambda>w. (Nonce [of_nat w], Suc w)),
      offer_from_str = (\<lambda>s. if s = '''' then Inl ''empty'' else Inr sample_offer),
      request_invoice = (\<lambda>_ _ _ _. Inr (RequestBuilder [])),
      irb_chain = (\<lambda>b _. Inr b), irb_amount_msats = (\<lambda>b _. Inr b), irb_payer_note = (\<lambda>b _. b),
      irb_build_and_sign = (\<lambda>_. Inr sample_request),
      hmac_for_offer_payment = (\<lambda>pid n key. case pid of PaymentId bs \<Rightarrow> Hmac bs),
      verify_for_offer_payment = (\<lambda>pid h n key. case pid of PaymentId bs \<Rightarrow> h = Hmac bs),
      verify_using_payer_data = (\<lambda>inv pid n key. Some pid),
      verify_using_recipient_data = (\<lambda>ir n key. Some (VerifiedRequest (ir_bytes ir))),
      respond_using_derived_keys = (\<lambda>_ paths hash. Inr (InvoiceBuilder hash paths [])),
      ib_build_and_sign = (\<lambda>b. case b of InvoiceBuilder hash paths _ \<Rightarrow>
        Inr (sample_invoice\<lparr>inv_payment_hash := hash, inv_payment_paths := paths\<rparr>)),
      invoice_error_from = InvoiceError,
      path_one_hop = (\<lambda>k _ w. (Some (sample_path k), w)),
      path_new = (\<lambda>ns k _ w. (Some (sample_path (case ns of [] \<Rightarrow> k | n # _ \<Rightarrow> fwd_node_id n)), w)),
      ob_deriving_signing_pubkey = (\<lambda>_ _ _. OfferBuilder no_terms []),
      ob_chain = (\<lambda>b n. with_terms (\<lambda>t. t\<lparr>offer_chains :=
        (if n \<in> set (offer_chains t) then offer_chains t else offer_chains t @ [n])\<rparr>) b),
      ob_amount_msats = (\<lambda>b a. with_terms (offer_amount_update (\<lambda>_. amount_term a)) b),
      ob_path = (\<lambda>b p. with_terms (offer_paths_update (\<lambda>ps. ps @ [p])) b),
      ob_description = (\<lambda>b d. with_terms (offer_description_update (\<lambda>_. Some d)) b),
      ob_issuer = (\<lambda>b i. with_terms (offer_issuer_update (\<lambda>_. Some i)) b),
      ob_supported_quantity = (\<lambda>b q. with_terms (offer_supported_quantity_update (\<lambda>_. q)) b),
      ob_absolute_expiry = (\<lambda>b e. with_terms (offer_absolute_expiry_update (\<lambda>_. Some e)) b),
      ob_build = (\<lambda>b. Inr (offer_terms.extend (described (built b)) (offer.fields [1] (Some (PublicKey 9))))),
      system_time_now = (\<lambda>w. (int w, w)),
      sha256_hash = (\<lambda>bs. bs), sha256_from_str = (\<lambda>s. Inr (as_bytes s))\<rparr>"

lemma sample_ldk_documented: "ldk_documented sample_ldk"
  by (simp add: ldk_documented_def sample_ldk_def split: payment_id.split)

lemma sample_builder_documented: "builder_documented sample_ldk"
  by (simp add: builder_documented_def sample_ldk_def offer_terms.defs offer.defs)

lemma sample_answer_documented: "answer_documented sample_ldk"
  by (auto simp: answer_documented_def sample_ldk_def)

end
