(* ===== verification/Rate_Limit.thy ===== *)
theory Rate_Limit
  imports Ldk_Types
begin

text \<open>
  The token bucket of \<open>src/rate_limit.rs\<close> with the clock of \<open>src/clock.rs\<close>: the state and
  the operations of \<open>TokenLimiter\<close>, the trait \<open>RateLimiter\<close> as a record of operations, its
  contract as a locale (with an extension for a limiter that serves what is paced), and the interpretations
  of the contract on \<open>TokenLimiter\<close>.

  A clock is the sequence of the instants its successive readings return; the state counts
  the readings, so that \<open>needs_update\<close> and \<open>update\<close> read the clock twice, as the code does.
\<close>

section \<open>State\<close>

record peer_record =
  online :: bool
  remaining_calls :: u8

record token_limiter =
  peer_map :: "(public_key \<times> peer_record) list"
  clock :: "nat \<Rightarrow> instant"
  readings :: nat
  call_count :: u8
  call_frequency :: duration
  last_update :: instant

record rate_limiter_cfg =
  cfg_call_count :: u8
  cfg_call_period_secs :: duration

section \<open>Operations\<close>

definition now :: "token_limiter \<Rightarrow> instant \<times> token_limiter" where
  "now l = (clock l (readings l), l\<lparr>readings := Suc (readings l)\<rparr>)"

definition PeerRecord_new :: "bool \<Rightarrow> u8 \<Rightarrow> peer_record" where
  "PeerRecord_new b n = \<lparr>online = b, remaining_calls = n\<rparr>"

definition TokenLimiter_new ::
  "public_key list \<Rightarrow> u8 \<Rightarrow> duration \<Rightarrow> (nat \<Rightarrow> instant) \<Rightarrow> token_limiter" where
  "TokenLimiter_new peers n freq c =
     \<lparr>peer_map = fold (\<lambda>p. AList.update p (PeerRecord_new True n)) peers [],
      clock = c, readings = 1, call_count = n, call_frequency = freq, last_update = c 0\<rparr>"

definition needs_update :: "token_limiter \<Rightarrow> bool \<times> token_limiter" where
  "needs_update l = (case now l of (t, l') \<Rightarrow> (call_frequency l \<le> t - last_update l, l'))"

definition update_buckets :: "token_limiter \<Rightarrow> token_limiter" where
  "update_buckets l =
     (let pm = filter (\<lambda>p. online (snd p)) (peer_map l);
          pm' = map_values (\<lambda>v. v\<lparr>remaining_calls := call_count l\<rparr>) pm
      in case now l of (t, l') \<Rightarrow> l'\<lparr>peer_map := pm', last_update := t\<rparr>)"

definition hit :: "public_key \<Rightarrow> token_limiter \<Rightarrow> bool \<times> token_limiter" where
  "hit k l =
     (case map_of (peer_map l) k of
        Some v \<Rightarrow>
          (if remaining_calls v = 0 then (False, l)
           else (True, l\<lparr>peer_map :=
                   AList.update k (v\<lparr>remaining_calls := remaining_calls v - 1\<rparr>) (peer_map l)\<rparr>))
      | None \<Rightarrow> (False, l))"

definition peer_connected :: "public_key \<Rightarrow> token_limiter \<Rightarrow> token_limiter" where
  "peer_connected k l =
     l\<lparr>peer_map :=
       (case map_of (peer_map l) k of
          Some e \<Rightarrow> AList.update k (e\<lparr>online := True\<rparr>) (peer_map l)
        | None \<Rightarrow> AList.update k (PeerRecord_new True (call_count l)) (peer_map l))\<rparr>"

definition peer_disconnected :: "public_key \<Rightarrow> token_limiter \<Rightarrow> token_limiter" where
  "peer_disconnected k l =
     l\<lparr>peer_map :=
       (case map_of (peer_map l) k of
          Some e \<Rightarrow> AList.update k (e\<lparr>online := False\<rparr>) (peer_map l)
        | None \<Rightarrow> peer_map l)\<rparr>"

definition peers :: "token_limiter \<Rightarrow> public_key list" where
  "peers l = keys_of (filter (\<lambda>p. online (snd p)) (peer_map l))"

definition query_peer :: "public_key \<Rightarrow> token_limiter \<Rightarrow> bool \<times> token_limiter" where
  "query_peer k l =
     (case needs_update l of (b, l') \<Rightarrow> hit k (if b then update_buckets l' else l'))"

section \<open>The trait and sequences of calls\<close>

record 's rate_limiter_ops =
  rl_peer_connected :: "public_key \<Rightarrow> 's \<Rightarrow> 's"
  rl_peer_disconnected :: "public_key \<Rightarrow> 's \<Rightarrow> 's"
  rl_peers :: "'s \<Rightarrow> public_key list"
  rl_query_peer :: "public_key \<Rightarrow> 's \<Rightarrow> bool \<times> 's"

definition token_limiter_ops :: "token_limiter rate_limiter_ops" where
  "token_limiter_ops =
     \<lparr>rl_peer_connected = peer_connected, rl_peer_disconnected = peer_disconnected,
      rl_peers = peers, rl_query_peer = query_peer\<rparr>"

datatype limiter_op = OpConnected public_key | OpDisconnected public_key | OpQuery public_key

text \<open>A sequence of calls, counting the queries for \<open>k\<close> that were allowed.\<close>

fun run_ops ::
  "'s rate_limiter_ops \<Rightarrow> public_key \<Rightarrow> limiter_op list \<Rightarrow> 's \<Rightarrow> nat \<times> 's" where
  "run_ops R k [] s = (0, s)"
| "run_ops R k (OpConnected p # ops) s = run_ops R k ops (rl_peer_connected R p s)"
| "run_ops R k (OpDisconnected p # ops) s = run_ops R k ops (rl_peer_disconnected R p s)"
| "run_ops R k (OpQuery p # ops) s =
     (case rl_query_peer R p s of (b, s') \<Rightarrow>
        case run_ops R k ops s' of (n, s'') \<Rightarrow> ((if b \<and> p = k then Suc n else n), s''))"

text \<open>
  When the queries for \<open>k\<close> of a sequence of calls are made: the time the clock shows at the query and the time
  at which it is done, which is later when the query refills the buckets; \<open>stamp\<close> is the time of the last refill
  and \<open>time\<close> what the clock shows. They are paced when a query is made a full period after the one
  that is \<open>q\<close> places before it was done, that is, when a period has no more than \<open>q\<close> of them.
\<close>

fun query_times ::
  "'s rate_limiter_ops \<Rightarrow> ('s \<Rightarrow> instant) \<Rightarrow> ('s \<Rightarrow> instant) \<Rightarrow> public_key \<Rightarrow> limiter_op list \<Rightarrow> 's \<Rightarrow>
   (instant \<times> instant) list" where
  "query_times R stamp time k [] s = []"
| "query_times R stamp time k (OpConnected p # ops) s = query_times R stamp time k ops (rl_peer_connected R p s)"
| "query_times R stamp time k (OpDisconnected p # ops) s = query_times R stamp time k ops (rl_peer_disconnected R p s)"
| "query_times R stamp time k (OpQuery p # ops) s =
     (case rl_query_peer R p s of (b, s') \<Rightarrow>
        (if p = k then [(time s, max (time s) (stamp s'))] else []) @ query_times R stamp time k ops s')"

definition paced :: "nat \<Rightarrow> duration \<Rightarrow> (instant \<times> instant) list \<Rightarrow> bool" where
  "paced q d ts \<longleftrightarrow> (\<forall>i<length ts - q. snd (ts ! i) + d \<le> fst (ts ! (i + q)))"

lemma paced_suffix: "paced q d (us @ ts) \<Longrightarrow> paced q d ts"
  unfolding paced_def
proof (intro allI impI)
  fix i assume p: "\<forall>i<length (us @ ts) - q. snd ((us @ ts) ! i) + d \<le> fst ((us @ ts) ! (i + q))"
    and i: "i < length ts - q"
  from p [rule_format, of "length us + i"] i show "snd (ts ! i) + d \<le> fst (ts ! (i + q))"
    by (simp add: nth_append add.assoc)
qed

lemma paced_next:
  assumes "paced q d (us @ t # ts)" and "q \<le> length us" and "0 < q"
  shows "snd (us ! (length us - q)) + d \<le> fst t"
proof -
  from assms(2,3) have "length us - q < length (us @ t # ts) - q" "length us - q < length us" by auto
  with assms(1) [unfolded paced_def, rule_format, of "length us - q"] assms(2) show ?thesis
    by (simp add: nth_append)
qed

text \<open>The set of online peers, as an abstract state.\<close>

fun track_online :: "limiter_op \<Rightarrow> public_key set \<Rightarrow> public_key set" where
  "track_online (OpConnected p) P = insert p P"
| "track_online (OpDisconnected p) P = P - {p}"
| "track_online (OpQuery p) P = P"

section \<open>The contract of a rate limiter\<close>

text \<open>
  \<open>budget s k\<close> bounds the calls peer \<open>k\<close> may still make before the next refill, \<open>quota\<close>
  is what a refill grants, \<open>stamp\<close> the time of the last refill, \<open>period\<close> the least time
  between two refills and \<open>time\<close> what the clock shows next.
\<close>

locale rate_limiter =
  fixes R :: "'s rate_limiter_ops"
    and invar :: "'s \<Rightarrow> bool"
    and budget :: "'s \<Rightarrow> public_key \<Rightarrow> nat"
    and quota :: "'s \<Rightarrow> nat"
    and period :: "'s \<Rightarrow> duration"
    and stamp :: "'s \<Rightarrow> instant"
    and time :: "'s \<Rightarrow> instant"
  assumes connected_invar: "invar s \<Longrightarrow> invar (rl_peer_connected R k s)"
    and disconnected_invar: "invar s \<Longrightarrow> invar (rl_peer_disconnected R k s)"
    and query_invar: "invar s \<Longrightarrow> rl_query_peer R k s = (b, s') \<Longrightarrow> invar s'"
    and budget_quota: "invar s \<Longrightarrow> budget s k \<le> quota s"
    and connected_peers:
      "invar s \<Longrightarrow> set (rl_peers R (rl_peer_connected R k s)) = insert k (set (rl_peers R s))"
    and disconnected_peers:
      "invar s \<Longrightarrow> set (rl_peers R (rl_peer_disconnected R k s)) = set (rl_peers R s) - {k}"
    and query_peers:
      "invar s \<Longrightarrow> rl_query_peer R k s = (b, s') \<Longrightarrow> set (rl_peers R s') = set (rl_peers R s)"
    and connected_frame:
      "invar s \<Longrightarrow> budget (rl_peer_connected R k s) j = budget s j \<and>
         quota (rl_peer_connected R k s) = quota s \<and>
         period (rl_peer_connected R k s) = period s \<and>
         stamp (rl_peer_connected R k s) = stamp s \<and> time (rl_peer_connected R k s) = time s"
    and disconnected_frame:
      "invar s \<Longrightarrow> budget (rl_peer_disconnected R k s) j = budget s j \<and>
         quota (rl_peer_disconnected R k s) = quota s \<and>
         period (rl_peer_disconnected R k s) = period s \<and>
         stamp (rl_peer_disconnected R k s) = stamp s \<and> time (rl_peer_disconnected R k s) = time s"
    and query_frame:
      "rl_query_peer R k s = (b, s') \<Longrightarrow> quota s' = quota s \<and> period s' = period s"
    and stamp_past: "invar s \<Longrightarrow> stamp s \<le> time s"
    and query_time: "invar s \<Longrightarrow> rl_query_peer R k s = (b, s') \<Longrightarrow> time s \<le> time s'"
    and query_spends:
      "invar s \<Longrightarrow> rl_query_peer R k s = (b, s') \<Longrightarrow>
         (stamp s' = stamp s \<and> budget s' j + of_bool (b \<and> j = k) \<le> budget s j) \<or>
         (stamp s + period s \<le> stamp s' \<and> time s \<le> stamp s' \<and>
          budget s' j + of_bool (b \<and> j = k) \<le> quota s)"
begin

text \<open>Every allowed call is paid for by the budget or by a refill, and refills are at least
  \<open>period\<close> apart.\<close>

lemma run_ops_spends:
  assumes "invar s" and "run_ops R k ops s = (n, s')"
  shows "invar s' \<and> quota s' = quota s \<and> period s' = period s \<and>
    (\<exists>r. n + budget s' k \<le> budget s k + quota s * r \<and> stamp s + r * period s \<le> stamp s' \<and>
       (r = 0 \<or> time s + (r - 1) * period s \<le> stamp s'))"
  using assms
proof (induction ops arbitrary: s n)
  case Nil
  then show ?case by (auto intro: exI [of _ 0])
next
  case (Cons op ops)
  show ?case
  proof (cases op)
    case (OpConnected p)
    with Cons.prems have *: "run_ops R k ops (rl_peer_connected R p s) = (n, s')" by simp
    from Cons.IH [OF connected_invar [OF Cons.prems(1)] *] show ?thesis
      using connected_frame [OF Cons.prems(1)] by simp
  next
    case (OpDisconnected p)
    with Cons.prems have *: "run_ops R k ops (rl_peer_disconnected R p s) = (n, s')" by simp
    from Cons.IH [OF disconnected_invar [OF Cons.prems(1)] *] show ?thesis
      using disconnected_frame [OF Cons.prems(1)] by simp
  next
    case (OpQuery p)
    obtain b s1 where q: "rl_query_peer R p s = (b, s1)" by fastforce
    obtain m where m: "run_ops R k ops s1 = (m, s')" and n: "n = m + of_bool (b \<and> k = p)"
      using Cons.prems(2) OpQuery q by (auto split: prod.splits if_splits)
    have inv: "invar s1" and fr: "quota s1 = quota s" "period s1 = period s"
      using query_invar [OF Cons.prems(1) q] query_frame [OF q] by auto
    obtain r where r: "m + budget s' k \<le> budget s1 k + quota s * r"
        "stamp s1 + r * period s \<le> stamp s'" "r = 0 \<or> time s1 + (r - 1) * period s \<le> stamp s'"
      and rest: "invar s'" "quota s' = quota s" "period s' = period s"
      using Cons.IH [OF inv m] fr by auto
    from query_spends [OF Cons.prems(1) q, of k] show ?thesis
    proof (elim disjE conjE)
      assume "stamp s1 = stamp s" "budget s1 k + of_bool (b \<and> k = p) \<le> budget s k"
      with r rest n query_time [OF Cons.prems(1) q] show ?thesis
        by (intro conjI exI [of _ r]) auto
    next
      assume "stamp s + period s \<le> stamp s1" "time s \<le> stamp s1" "budget s1 k + of_bool (b \<and> k = p) \<le> quota s"
      with r rest n show ?thesis by (intro conjI exI [of _ "Suc r"]) auto
    qed
  qed
qed

text \<open>The calls allowed in a stretch of time: one budget, one refill at once, and one more
  refill for each full period that passes.\<close>

lemma run_ops_window:
  assumes "invar s" and "0 < period s" and "run_ops R k ops s = (n, s')"
  shows "n \<le> quota s * (2 + (time s' - time s) div period s)"
proof -
  obtain r where r: "n + budget s' k \<le> budget s k + quota s * r"
    "r = 0 \<or> time s + (r - 1) * period s \<le> stamp s'" and inv: "invar s'"
    using run_ops_spends [OF assms(1,3)] by blast
  have "(r - 1) * period s \<le> time s' - time s"
    using r(2) stamp_past [OF inv] by (cases "r = 0") auto
  then have "r - 1 \<le> (time s' - time s) div period s"
    using assms(2) by (simp add: less_eq_div_iff_mult_less_eq)
  then have "1 + r \<le> 2 + (time s' - time s) div period s" by simp
  then have "quota s * (1 + r) \<le> quota s * (2 + (time s' - time s) div period s)"
    by (rule mult_le_mono2)
  moreover have "n \<le> quota s * (1 + r)"
    using r(1) budget_quota [OF assms(1), of k] by (simp add: algebra_simps)
  ultimately show ?thesis by simp
qed

text \<open>Between two refills no call sequence gains anything, reconnecting included.\<close>

lemma run_ops_same_period:
  assumes "invar s" and "0 < period s" and "run_ops R k ops s = (n, s')" and "stamp s' = stamp s"
  shows "n + budget s' k \<le> budget s k"
  using run_ops_spends [OF assms(1,3)] assms(2,4) by auto

lemma run_ops_peers:
  assumes "invar s" and "run_ops R k ops s = (n, s')"
  shows "set (rl_peers R s') = fold track_online ops (set (rl_peers R s))"
  using assms
proof (induction ops arbitrary: s n)
  case (Cons op ops)
  show ?case
  proof (cases op)
    case (OpConnected p)
    with Cons.IH [OF connected_invar [OF Cons.prems(1)]] Cons.prems connected_peers show ?thesis
      by simp
  next
    case (OpDisconnected p)
    with Cons.IH [OF disconnected_invar [OF Cons.prems(1)]] Cons.prems disconnected_peers show ?thesis
      by simp
  next
    case (OpQuery p)
    obtain b s1 where q: "rl_query_peer R p s = (b, s1)" by fastforce
    obtain m where m: "run_ops R k ops s1 = (m, s')"
      using Cons.prems(2) OpQuery q by (auto split: prod.splits if_splits)
    from Cons.IH [OF query_invar [OF Cons.prems(1) q] m] show ?thesis
      using OpQuery query_peers [OF Cons.prems(1) q] by simp
  qed
qed simp

end

text \<open>
  A limiter that also refuses no call there is budget for, and that refills as soon as a query is made a period after
  the last refill.
\<close>

locale serving_limiter = rate_limiter +
  assumes query_serves:
      "invar s \<Longrightarrow> rl_query_peer R k s = (b, s') \<Longrightarrow> k \<in> set (rl_peers R s) \<Longrightarrow> 0 < budget s k \<Longrightarrow> b"
    and query_keeps:
      "invar s \<Longrightarrow> rl_query_peer R k s = (b, s') \<Longrightarrow> budget s j \<le> budget s' j + of_bool (b \<and> j = k)"
    and query_waits:
      "invar s \<Longrightarrow> rl_query_peer R k s = (b, s') \<Longrightarrow> time s < stamp s + period s \<Longrightarrow> stamp s' = stamp s"
    and query_refills:
      "invar s \<Longrightarrow> rl_query_peer R k s = (b, s') \<Longrightarrow> stamp s + period s \<le> time s \<Longrightarrow>
         quota s \<le> budget s' j + of_bool (b \<and> j = k)"
    and query_serves_refilled:
      "invar s \<Longrightarrow> rl_query_peer R k s = (b, s') \<Longrightarrow> k \<in> set (rl_peers R s) \<Longrightarrow> stamp s + period s \<le> time s \<Longrightarrow>
         0 < quota s \<Longrightarrow> b"
begin

text \<open>
  The queries for \<open>k\<close> since the last refill account for what is missing from its budget; a query
  that is paced with them finds budget left or makes the limiter refill.
\<close>

lemma query_paced:
  assumes "invar s" and "k \<in> set (rl_peers R s)" and "0 < quota s" and "rl_query_peer R k s = (b, s')"
    and "quota s \<le> budget s k + length us" and "\<forall>u\<in>set us. stamp s \<le> snd u"
    and "paced (quota s) (period s) (us @ (time s, f) # ts)"
  shows b
proof (cases "stamp s + period s \<le> time s")
  case True
  with query_serves_refilled [OF assms(1,4,2)] assms(3) show ?thesis by simp
next
  case False
  have "0 < budget s k"
  proof (rule ccontr)
    assume "\<not> 0 < budget s k"
    with assms(5) have q: "quota s \<le> length us" by simp
    with assms(3) have "us ! (length us - quota s) \<in> set us" by simp
    with paced_next [OF assms(7) q assms(3)] assms(6) False show False by fastforce
  qed
  with query_serves [OF assms(1,4,2)] show ?thesis .
qed

text \<open>The account after a query, for any peer \<open>p\<close>.\<close>

lemma query_accounts:
  assumes "invar s" and "rl_query_peer R p s = (b, s')"
    and "quota s \<le> budget s k + length us" and "\<forall>u\<in>set us. stamp s \<le> snd u"
    and "paced (quota s) (period s) (us @ (if p = k then [(time s, max (time s) (stamp s'))] else []) @ ts)"
  obtains vs where "quota s \<le> budget s' k + length vs" "\<forall>v\<in>set vs. stamp s' \<le> snd v"
    "paced (quota s) (period s) (vs @ ts)"
proof (cases "stamp s + period s \<le> time s")
  case True
  let ?new = "if p = k then [(time s, max (time s) (stamp s'))] else []"
  have "quota s \<le> budget s' k + length ?new"
    using query_refills [OF assms(1,2) True, of k] by (cases b) auto
  moreover have "\<forall>v\<in>set ?new. stamp s' \<le> snd v" by simp
  ultimately show ?thesis using paced_suffix [OF assms(5)] by (rule that)
next
  case False
  let ?vs = "us @ (if p = k then [(time s, max (time s) (stamp s'))] else [])"
  have "quota s \<le> budget s' k + length ?vs"
    using query_keeps [OF assms(1,2), of k] assms(3) by (cases b) auto
  moreover have "\<forall>v\<in>set ?vs. stamp s' \<le> snd v"
    using query_waits [OF assms(1,2)] False assms(4) by auto
  ultimately show ?thesis using assms(5) by (intro that [of ?vs]) simp_all
qed

text \<open>A peer that stays connected and paces its calls is never refused.\<close>

lemma run_ops_serves:
  assumes "invar s" and "k \<in> set (rl_peers R s)" and "OpDisconnected k \<notin> set ops" and "0 < quota s"
    and "quota s \<le> budget s k + length us" and "\<forall>u\<in>set us. stamp s \<le> snd u"
    and "paced (quota s) (period s) (us @ query_times R stamp time k ops s)" and "run_ops R k ops s = (n, s')"
  shows "n = count_list ops (OpQuery k)"
  using assms
proof (induction ops arbitrary: s n us)
  case (Cons op ops)
  show ?case
  proof (cases op)
    case (OpConnected p)
    with Cons.IH [OF connected_invar [OF Cons.prems(1)], of p us n] Cons.prems
      connected_peers [OF Cons.prems(1)] connected_frame [OF Cons.prems(1)]
    show ?thesis by simp
  next
    case (OpDisconnected p)
    with Cons.prems(3) have "k \<noteq> p" by auto
    with OpDisconnected Cons.IH [OF disconnected_invar [OF Cons.prems(1)], of p us n] Cons.prems
      disconnected_peers [OF Cons.prems(1)] disconnected_frame [OF Cons.prems(1)]
    show ?thesis by simp
  next
    case (OpQuery p)
    obtain b s1 where q: "rl_query_peer R p s = (b, s1)" by fastforce
    obtain m where m: "run_ops R k ops s1 = (m, s')" and n: "n = m + of_bool (b \<and> k = p)"
      using Cons.prems(8) OpQuery q by (auto split: prod.splits if_splits)
    let ?ts = "query_times R stamp time k ops s1"
    have pace: "paced (quota s) (period s) (us @ (if p = k then [(time s, max (time s) (stamp s1))] else []) @ ?ts)"
      using Cons.prems(7) OpQuery q by simp
    have b: "b" if "p = k"
      by (rule query_paced [OF Cons.prems(1,2,4) _ Cons.prems(5,6)]) (use q pace that in simp_all)
    obtain vs where vs: "quota s \<le> budget s1 k + length vs" "\<forall>v\<in>set vs. stamp s1 \<le> snd v"
      "paced (quota s) (period s) (vs @ ?ts)"
      by (rule query_accounts [OF Cons.prems(1) q Cons.prems(5,6) pace])
    have "m = count_list ops (OpQuery k)"
      by (rule Cons.IH [OF query_invar [OF Cons.prems(1) q] _ _ _ _ vs(2) _ m])
        (use vs Cons.prems(2-4) query_peers [OF Cons.prems(1) q] query_frame [OF q] in auto)
    with n b OpQuery show ?thesis by auto
  qed
qed simp

end

section \<open>\<open>TokenLimiter\<close> meets the contract\<close>

definition buckets_wf :: "token_limiter \<Rightarrow> bool" where
  "buckets_wf l \<longleftrightarrow> distinct (keys_of (peer_map l)) \<and>
     list_all (\<lambda>p. remaining_calls (snd p) \<le> call_count l) (peer_map l)"

text \<open>The clock is monotone (\<open>Instant::now\<close> never goes back) and the last refill is in the
  past.\<close>

definition clock_ok :: "token_limiter \<Rightarrow> bool" where
  "clock_ok l \<longleftrightarrow> mono (clock l) \<and> last_update l \<le> clock l (readings l)"

definition limiter_invar :: "token_limiter \<Rightarrow> bool" where
  "limiter_invar l \<longleftrightarrow> buckets_wf l \<and> clock_ok l"

definition limiter_budget :: "token_limiter \<Rightarrow> public_key \<Rightarrow> nat" where
  "limiter_budget l k =
     (case map_of (peer_map l) k of Some v \<Rightarrow> unat (remaining_calls v) | None \<Rightarrow> unat (call_count l))"

definition limiter_time :: "token_limiter \<Rightarrow> instant" where
  "limiter_time l = clock l (readings l)"

definition limiter_quota :: "token_limiter \<Rightarrow> nat" where
  "limiter_quota l = unat (call_count l)"

lemma buckets_wf_iff:
  "buckets_wf l \<longleftrightarrow> distinct (keys_of (peer_map l)) \<and>
     (\<forall>k v. map_of (peer_map l) k = Some v \<longrightarrow> remaining_calls v \<le> call_count l)"
  by (fastforce simp: buckets_wf_def list_all_iff)

lemma map_of_update_eq [simp]: "map_of (AList.update k v xs) = (map_of xs)(k \<mapsto> v)"
  by (rule AList.update_conv')

lemma set_peers:
  "distinct (keys_of (peer_map l)) \<Longrightarrow>
   set (peers l) = {k. \<exists>v. map_of (peer_map l) k = Some v \<and> online v}"
  unfolding peers_def using set_keys_filter [of "peer_map l" _ online] by blast

text \<open>Effect of each operation on the table, as a map.\<close>

lemma connected_map:
  "map_of (peer_map (peer_connected k l)) =
     (map_of (peer_map l))(k \<mapsto> (case map_of (peer_map l) k of
        Some e \<Rightarrow> e\<lparr>online := True\<rparr> | None \<Rightarrow> PeerRecord_new True (call_count l)))"
  by (simp add: peer_connected_def split: option.split)

lemma disconnected_map:
  "map_of (peer_map (peer_disconnected k l)) =
     (case map_of (peer_map l) k of
        Some e \<Rightarrow> (map_of (peer_map l))(k \<mapsto> e\<lparr>online := False\<rparr>) | None \<Rightarrow> map_of (peer_map l))"
  by (simp add: peer_disconnected_def split: option.split)

lemma update_buckets_map:
  "distinct (keys_of (peer_map l)) \<Longrightarrow>
   map_of (peer_map (update_buckets l)) k = (case map_of (peer_map l) k of
      Some v \<Rightarrow> if online v then Some (v\<lparr>remaining_calls := call_count l\<rparr>) else None
    | None \<Rightarrow> None)"
  by (simp add: update_buckets_def now_def map_of_filter_value split: option.split)

lemma hit_map:
  "map_of (peer_map (snd (hit k l))) = (case map_of (peer_map l) k of
      Some v \<Rightarrow> if remaining_calls v = 0 then map_of (peer_map l)
               else (map_of (peer_map l))(k \<mapsto> v\<lparr>remaining_calls := remaining_calls v - 1\<rparr>)
    | None \<Rightarrow> map_of (peer_map l))"
  by (simp add: hit_def split: option.split)

lemma hit_allowed:
  "fst (hit k l) \<longleftrightarrow> (\<exists>v. map_of (peer_map l) k = Some v \<and> remaining_calls v \<noteq> 0)"
  by (simp add: hit_def split: option.split)

text \<open>Fields the operations keep.\<close>

lemma connected_fields [simp]:
  "clock (peer_connected k l) = clock l" "readings (peer_connected k l) = readings l"
  "call_count (peer_connected k l) = call_count l"
  "call_frequency (peer_connected k l) = call_frequency l"
  "last_update (peer_connected k l) = last_update l"
  by (simp_all add: peer_connected_def)

lemma disconnected_fields [simp]:
  "clock (peer_disconnected k l) = clock l" "readings (peer_disconnected k l) = readings l"
  "call_count (peer_disconnected k l) = call_count l"
  "call_frequency (peer_disconnected k l) = call_frequency l"
  "last_update (peer_disconnected k l) = last_update l"
  by (simp_all add: peer_disconnected_def)

lemma hit_fields [simp]:
  "clock (snd (hit k l)) = clock l" "readings (snd (hit k l)) = readings l"
  "call_count (snd (hit k l)) = call_count l"
  "call_frequency (snd (hit k l)) = call_frequency l"
  "last_update (snd (hit k l)) = last_update l"
  by (simp_all add: hit_def split: option.split)

lemma update_buckets_fields [simp]:
  "clock (update_buckets l) = clock l" "readings (update_buckets l) = Suc (readings l)"
  "call_count (update_buckets l) = call_count l"
  "call_frequency (update_buckets l) = call_frequency l"
  "last_update (update_buckets l) = clock l (readings l)"
  by (simp_all add: update_buckets_def now_def)

lemma keys_distinct_ops:
  "distinct (keys_of (peer_map l)) \<Longrightarrow> distinct (keys_of (peer_map (peer_connected k l)))"
  "distinct (keys_of (peer_map l)) \<Longrightarrow> distinct (keys_of (peer_map (peer_disconnected k l)))"
  "distinct (keys_of (peer_map l)) \<Longrightarrow> distinct (keys_of (peer_map (update_buckets l)))"
  "distinct (keys_of (peer_map l)) \<Longrightarrow> distinct (keys_of (peer_map (snd (hit k l))))"
  by (simp_all add: peer_connected_def peer_disconnected_def update_buckets_def now_def hit_def
      distinct_update split: option.split)

text \<open>The state a query leaves: the clock is read, a due refill is done, then the hit.\<close>

definition refilled :: "token_limiter \<Rightarrow> token_limiter" where
  "refilled l = (case needs_update l of (b, l') \<Rightarrow> if b then update_buckets l' else l')"

definition refill_due :: "token_limiter \<Rightarrow> bool" where
  "refill_due l \<longleftrightarrow> call_frequency l \<le> clock l (readings l) - last_update l"

lemma query_peer_refilled: "query_peer k l = hit k (refilled l)"
  by (simp add: query_peer_def refilled_def split: prod.split)

lemma refilled_cases:
  "refilled l = (if refill_due l then update_buckets (l\<lparr>readings := Suc (readings l)\<rparr>)
                 else l\<lparr>readings := Suc (readings l)\<rparr>)"
  by (simp add: refilled_def needs_update_def now_def refill_due_def)

lemma buckets_wf_connected: "buckets_wf l \<Longrightarrow> buckets_wf (peer_connected k l)"
  by (auto simp: buckets_wf_iff keys_distinct_ops connected_map PeerRecord_new_def
      split: option.splits if_splits)

lemma buckets_wf_disconnected: "buckets_wf l \<Longrightarrow> buckets_wf (peer_disconnected k l)"
  by (auto simp: buckets_wf_iff keys_distinct_ops disconnected_map split: option.splits if_splits)

lemma buckets_wf_update_buckets: "buckets_wf l \<Longrightarrow> buckets_wf (update_buckets l)"
  by (auto simp: buckets_wf_iff keys_distinct_ops update_buckets_map split: option.splits if_splits)

lemma u8_pred_le: "(x :: u8) \<noteq> 0 \<Longrightarrow> x \<le> c \<Longrightarrow> x - 1 \<le> c"
  by (metis (no_types, opaque_lifting) le_less_trans less_imp_le word_less_sub1 word_neq_0_conv
      linorder_not_less word_le_less_eq measure_unat unat_1 word_less_nat_alt)

lemma buckets_wf_hit: "buckets_wf l \<Longrightarrow> buckets_wf (snd (hit k l))"
  by (auto simp: buckets_wf_iff keys_distinct_ops hit_map u8_pred_le split: option.splits if_splits)

lemma buckets_wf_readings [simp]: "buckets_wf (l\<lparr>readings := n\<rparr>) = buckets_wf l"
  by (simp add: buckets_wf_def)

lemma buckets_wf_refilled: "buckets_wf l \<Longrightarrow> buckets_wf (refilled l)"
  by (simp add: refilled_cases buckets_wf_update_buckets)

lemma clock_ok_refilled: "clock_ok l \<Longrightarrow> clock_ok (refilled l)"
  unfolding clock_ok_def refilled_cases
  by (auto simp: mono_def intro: le_trans [of _ "clock l (readings l)"])

lemma limiter_invar_query: "limiter_invar l \<Longrightarrow> limiter_invar (snd (query_peer k l))"
  unfolding limiter_invar_def query_peer_refilled
  using buckets_wf_hit [OF buckets_wf_refilled] clock_ok_refilled
  by (simp add: clock_ok_def)

lemma budget_le_quota: "buckets_wf l \<Longrightarrow> limiter_budget l k \<le> limiter_quota l"
  by (auto simp: limiter_budget_def limiter_quota_def buckets_wf_iff word_le_nat_alt
      split: option.split)

lemma budget_connected: "limiter_budget (peer_connected k l) j = limiter_budget l j"
  by (simp add: limiter_budget_def connected_map PeerRecord_new_def split: option.split)

lemma budget_disconnected: "limiter_budget (peer_disconnected k l) j = limiter_budget l j"
  by (simp add: limiter_budget_def disconnected_map split: option.split)

lemma budget_update_buckets:
  "distinct (keys_of (peer_map l)) \<Longrightarrow> limiter_budget (update_buckets l) j = limiter_quota l"
  by (simp add: limiter_budget_def limiter_quota_def update_buckets_map split: option.split)

text \<open>An allowed hit takes exactly one call from the peer's own budget; nothing else changes it.\<close>

lemma budget_hit:
  "limiter_budget (snd (hit k l)) j + of_bool (fst (hit k l) \<and> j = k) = limiter_budget l j"
proof (cases "map_of (peer_map l) k")
  case None
  then show ?thesis by (simp add: hit_def)
next
  case (Some v)
  show ?thesis
  proof (cases "remaining_calls v = 0")
    case True
    with Some show ?thesis by (simp add: hit_def)
  next
    case False
    then have "0 < unat (remaining_calls v)" by (simp add: unat_gt_0)
    with False Some show ?thesis
      by (auto simp: hit_def limiter_budget_def unat_minus_one split: option.split)
  qed
qed

lemma peers_update_buckets:
  assumes "distinct (keys_of (peer_map l))"
  shows "set (peers (update_buckets l)) = set (peers l)"
proof -
  have "distinct (keys_of (peer_map (update_buckets l)))"
    using assms by (rule keys_distinct_ops)
  with assms show ?thesis
    by (auto simp: set_peers update_buckets_map simp del: map_of_eq_Some_iff
        split: option.splits if_splits)
qed

lemma peers_hit:
  assumes "distinct (keys_of (peer_map l))"
  shows "set (peers (snd (hit k l))) = set (peers l)"
proof -
  have "distinct (keys_of (peer_map (snd (hit k l))))"
    using assms by (rule keys_distinct_ops)
  with assms show ?thesis
    by (auto simp: set_peers hit_map simp del: map_of_eq_Some_iff
        split: option.splits if_splits)
qed

lemma readings_frame [simp]:
  "limiter_budget (l\<lparr>readings := n\<rparr>) j = limiter_budget l j" "limiter_quota (l\<lparr>readings := n\<rparr>) = limiter_quota l"
  "peers (l\<lparr>readings := n\<rparr>) = peers l"
  by (simp_all add: limiter_budget_def limiter_quota_def peers_def split: option.split)

lemma budget_refilled: "buckets_wf l \<Longrightarrow> limiter_budget l j \<le> limiter_budget (refilled l) j"
  using budget_le_quota [of l j] by (simp add: refilled_cases budget_update_buckets buckets_wf_def)

lemma peers_refilled: "buckets_wf l \<Longrightarrow> set (peers (refilled l)) = set (peers l)"
  by (simp add: refilled_cases peers_update_buckets buckets_wf_def)

lemma peers_query:
  assumes "buckets_wf l"
  shows "set (peers (snd (query_peer k l))) = set (peers l)"
  using assms buckets_wf_refilled [OF assms]
  by (simp add: query_peer_refilled peers_hit peers_refilled buckets_wf_def)

lemma peers_connected:
  assumes "buckets_wf l"
  shows "set (peers (peer_connected k l)) = insert k (set (peers l))"
  using assms buckets_wf_connected [OF assms, of k]
  by (auto simp: buckets_wf_def set_peers connected_map PeerRecord_new_def
      simp del: map_of_eq_Some_iff split: option.splits if_splits)

lemma peers_disconnected:
  assumes "buckets_wf l"
  shows "set (peers (peer_disconnected k l)) = set (peers l) - {k}"
  using assms buckets_wf_disconnected [OF assms, of k]
  by (auto simp: buckets_wf_def set_peers disconnected_map
      simp del: map_of_eq_Some_iff split: option.splits if_splits)

lemma query_spends_or_refills:
  assumes "limiter_invar l"
  shows "(last_update (snd (query_peer k l)) = last_update l \<and>
      limiter_budget (snd (query_peer k l)) j + of_bool (fst (query_peer k l) \<and> j = k) \<le> limiter_budget l j) \<or>
    (last_update l + call_frequency l \<le> last_update (snd (query_peer k l)) \<and>
      clock l (readings l) \<le> last_update (snd (query_peer k l)) \<and>
      limiter_budget (snd (query_peer k l)) j + of_bool (fst (query_peer k l) \<and> j = k) \<le> limiter_quota l)"
proof (cases "refill_due l")
  case False
  then have "limiter_budget (refilled l) j = limiter_budget l j"
    by (simp add: refilled_cases limiter_budget_def split: option.split)
  with False show ?thesis
    using budget_hit [of k "refilled l" j] by (simp add: query_peer_refilled refilled_cases)
next
  case True
  have d: "distinct (keys_of (peer_map l))" and c: "clock_ok l"
    using assms by (auto simp: limiter_invar_def buckets_wf_def)
  have "limiter_budget (refilled l) j = limiter_quota l"
    using True d by (simp add: refilled_cases budget_update_buckets)
  moreover have "clock l (readings l) \<le> clock l (Suc (readings l))"
    using c by (simp add: clock_ok_def mono_def)
  then have "last_update l + call_frequency l \<le> last_update (refilled l)"
    using True c by (auto simp: refilled_cases refill_due_def clock_ok_def)
  moreover have "clock l (readings l) \<le> last_update (refilled l)"
    using True \<open>clock l (readings l) \<le> clock l (Suc (readings l))\<close> by (simp add: refilled_cases)
  ultimately show ?thesis
    using budget_hit [of k "refilled l" j] by (simp add: query_peer_refilled)
qed

interpretation tokens: rate_limiter token_limiter_ops limiter_invar limiter_budget limiter_quota
  call_frequency last_update limiter_time
proof unfold_locales
  fix l l' k j b
  let ?R = token_limiter_ops
  note ops = token_limiter_ops_def
  show "limiter_invar (rl_peer_connected ?R k l)" if "limiter_invar l"
    using that by (simp add: ops limiter_invar_def buckets_wf_connected clock_ok_def)
  show "limiter_invar (rl_peer_disconnected ?R k l)" if "limiter_invar l"
    using that by (simp add: ops limiter_invar_def buckets_wf_disconnected clock_ok_def)
  show "limiter_invar l'" if "limiter_invar l" "rl_query_peer ?R k l = (b, l')"
    using limiter_invar_query [OF that(1), of k] that(2) by (simp add: ops)
  show "limiter_budget l k \<le> limiter_quota l" if "limiter_invar l"
    using that by (simp add: limiter_invar_def budget_le_quota)
  show "set (rl_peers ?R (rl_peer_connected ?R k l)) = insert k (set (rl_peers ?R l))"
    if "limiter_invar l"
    using that by (simp add: ops limiter_invar_def peers_connected)
  show "set (rl_peers ?R (rl_peer_disconnected ?R k l)) = set (rl_peers ?R l) - {k}"
    if "limiter_invar l"
    using that by (simp add: ops limiter_invar_def peers_disconnected)
  show "set (rl_peers ?R l') = set (rl_peers ?R l)"
    if "limiter_invar l" "rl_query_peer ?R k l = (b, l')"
    using peers_query [of l k] that by (simp add: ops limiter_invar_def)
  show "limiter_budget (rl_peer_connected ?R k l) j = limiter_budget l j \<and>
      limiter_quota (rl_peer_connected ?R k l) = limiter_quota l \<and>
      call_frequency (rl_peer_connected ?R k l) = call_frequency l \<and>
      last_update (rl_peer_connected ?R k l) = last_update l \<and>
      limiter_time (rl_peer_connected ?R k l) = limiter_time l" if "limiter_invar l"
    by (simp add: ops budget_connected limiter_quota_def limiter_time_def)
  show "limiter_budget (rl_peer_disconnected ?R k l) j = limiter_budget l j \<and>
      limiter_quota (rl_peer_disconnected ?R k l) = limiter_quota l \<and>
      call_frequency (rl_peer_disconnected ?R k l) = call_frequency l \<and>
      last_update (rl_peer_disconnected ?R k l) = last_update l \<and>
      limiter_time (rl_peer_disconnected ?R k l) = limiter_time l" if "limiter_invar l"
    by (simp add: ops budget_disconnected limiter_quota_def limiter_time_def)
  show "limiter_quota l' = limiter_quota l \<and> call_frequency l' = call_frequency l"
    if "rl_query_peer ?R k l = (b, l')"
  proof -
    have "l' = snd (query_peer k l)" using that by (simp add: ops)
    then show ?thesis by (simp add: query_peer_refilled refilled_cases limiter_quota_def)
  qed
  show "last_update l' = last_update l \<and> limiter_budget l' j + of_bool (b \<and> j = k) \<le> limiter_budget l j \<or>
      last_update l + call_frequency l \<le> last_update l' \<and> limiter_time l \<le> last_update l' \<and>
      limiter_budget l' j + of_bool (b \<and> j = k) \<le> limiter_quota l"
    if "limiter_invar l" "rl_query_peer ?R k l = (b, l')"
    using query_spends_or_refills [OF that(1), of k j] that(2) by (simp add: ops limiter_time_def)
  show "last_update l \<le> limiter_time l" if "limiter_invar l"
    using that by (simp add: limiter_invar_def clock_ok_def limiter_time_def)
  show "limiter_time l \<le> limiter_time l'" if "limiter_invar l" "rl_query_peer ?R k l = (b, l')"
  proof -
    have "l' = snd (query_peer k l)" using that(2) by (simp add: ops)
    then show ?thesis
      using that(1) by (simp add: query_peer_refilled refilled_cases limiter_time_def
          limiter_invar_def clock_ok_def mono_def)
  qed
qed

lemma hit_serves:
  assumes "buckets_wf l" and "k \<in> set (peers l)" and "0 < limiter_budget l k"
  shows "fst (hit k l)"
  using assms by (auto simp: hit_allowed set_peers buckets_wf_def limiter_budget_def unat_gt_0)

interpretation serving_tokens: serving_limiter token_limiter_ops limiter_invar limiter_budget limiter_quota
  call_frequency last_update limiter_time
proof
  fix l :: token_limiter and k j b l'
  assume inv: "limiter_invar l" and q: "rl_query_peer token_limiter_ops k l = (b, l')"
  then have hit: "hit k (refilled l) = (b, l')" and wf: "buckets_wf l"
    by (simp_all add: token_limiter_ops_def query_peer_refilled limiter_invar_def)
  have due: "last_update l + call_frequency l \<le> limiter_time l \<longleftrightarrow> refill_due l"
    using inv by (auto simp: refill_due_def limiter_time_def limiter_invar_def clock_ok_def)
  have full: "limiter_budget (refilled l) i = limiter_quota l" if "refill_due l" for i
    using that wf by (simp add: refilled_cases budget_update_buckets buckets_wf_def)
  show "limiter_budget l j \<le> limiter_budget l' j + of_bool (b \<and> j = k)"
    using budget_refilled [OF wf, of j] budget_hit [of k "refilled l" j] hit by simp
  show "last_update l' = last_update l" if "limiter_time l < last_update l + call_frequency l"
    using that due hit hit_fields [of k "refilled l"] by (auto simp: refilled_cases)
  show "limiter_quota l \<le> limiter_budget l' j + of_bool (b \<and> j = k)" if "last_update l + call_frequency l \<le> limiter_time l"
    using that due full [of j] budget_hit [of k "refilled l" j] hit by simp
  assume k: "k \<in> set (rl_peers token_limiter_ops l)"
  then have serves: "b" if "0 < limiter_budget (refilled l) k"
    using hit_serves [OF buckets_wf_refilled [OF wf], of k] peers_refilled [OF wf] hit that
    by (simp add: token_limiter_ops_def)
  show b if "0 < limiter_budget l k"
    using serves budget_refilled [OF wf, of k] that by simp
  show b if "last_update l + call_frequency l \<le> limiter_time l" "0 < limiter_quota l"
    using serves full [of k] due that by simp
qed

lemma limiter_invar_new: "mono c \<Longrightarrow> limiter_invar (TokenLimiter_new ps n freq c)"
proof -
  assume "mono c"
  have "distinct (keys_of (fold (\<lambda>p. AList.update p (PeerRecord_new True n)) ps xs)) \<and>
      list_all (\<lambda>p. remaining_calls (snd p) \<le> n)
        (fold (\<lambda>p. AList.update p (PeerRecord_new True n)) ps xs)"
    if "distinct (keys_of xs)" "list_all (\<lambda>p. remaining_calls (snd p) \<le> n) xs" for xs
    using that
  proof (induction ps arbitrary: xs)
    case (Cons p ps)
    have "set (AList.update p (PeerRecord_new True n) xs) \<subseteq> insert (p, PeerRecord_new True n) (set xs)"
      by (induction xs) auto
    then have "list_all (\<lambda>p. remaining_calls (snd p) \<le> n) (AList.update p (PeerRecord_new True n) xs)"
      using Cons.prems(2) by (fastforce simp: list_all_iff PeerRecord_new_def)
    with Cons show ?case by (simp add: distinct_update)
  qed simp
  from this [of "[]"] \<open>mono c\<close> show ?thesis
    by (simp add: limiter_invar_def buckets_wf_def clock_ok_def TokenLimiter_new_def mono_def)
qed

section \<open>Properties\<close>

text \<open>
  C24. Throughput: over any sequence of calls (connections, disconnections and queries of any
  peers, in any order), a peer is allowed at most \<open>call_count\<close> calls for each full period
  that elapses on the clock, plus two further quotas.
\<close>

theorem rate_limit_window:
  assumes "limiter_invar l" and "0 < call_frequency l"
    and "run_ops token_limiter_ops k ops l = (n, l')"
  shows "n \<le> unat (call_count l) *
    (2 + (clock l' (readings l') - clock l (readings l)) div call_frequency l)"
  using tokens.run_ops_window [OF assms] by (simp add: limiter_quota_def limiter_time_def)

theorem rate_limit_window_witness:
  "fst (run_ops token_limiter_ops (PublicKey 7) [OpQuery (PublicKey 7), OpQuery (PublicKey 7)]
     (TokenLimiter_new [PublicKey 7] 1 100 (\<lambda>i. 10 * i))) = 1 \<and>
   1 \<le> unat (1::u8) * (2 + (30 - 10) div (100::nat))"
proof -
  let ?l = "TokenLimiter_new [PublicKey 7] 1 100 (\<lambda>i. 10 * i)"
  let ?ops = "[OpQuery (PublicKey 7), OpQuery (PublicKey 7)]"
  have inv: "limiter_invar ?l"
    by (rule limiter_invar_new) (simp add: mono_def)
  have run: "run_ops token_limiter_ops (PublicKey 7) ?ops ?l =
      (1, ?l\<lparr>readings := 3, peer_map := [(PublicKey 7, PeerRecord_new True 0)]\<rparr>)"
    by (simp add: token_limiter_ops_def TokenLimiter_new_def query_peer_def needs_update_def now_def
        hit_def PeerRecord_new_def)
  have "0 < call_frequency ?l" by (simp add: TokenLimiter_new_def)
  from rate_limit_window [OF inv this run] run show ?thesis
    by (simp add: TokenLimiter_new_def)
qed

text \<open>
  No gaming by reconnecting: as long as no refill happens (\<open>last_update\<close> does not move),
  whatever a peer does, connecting and disconnecting included, the calls it is allowed and
  the calls it has left together never exceed what it had left before.
\<close>

theorem reconnect_gains_nothing:
  assumes "limiter_invar l" and "0 < call_frequency l"
    and "run_ops token_limiter_ops k ops l = (n, l')" and "last_update l' = last_update l"
  shows "n + limiter_budget l' k \<le> limiter_budget l k"
  using tokens.run_ops_same_period [OF assms] .

theorem reconnect_gains_nothing_witness:
  "let l = TokenLimiter_new [PublicKey 7] 2 100 (\<lambda>i. i);
       r = run_ops token_limiter_ops (PublicKey 7)
             [OpQuery (PublicKey 7), OpDisconnected (PublicKey 7), OpConnected (PublicKey 7)] l
   in fst r = 1 \<and> limiter_budget (snd r) (PublicKey 7) = 1 \<and>
      fst r + limiter_budget (snd r) (PublicKey 7) \<le> limiter_budget l (PublicKey 7)"
proof -
  let ?l = "TokenLimiter_new [PublicKey 7] 2 100 (\<lambda>i. i)"
  let ?ops = "[OpQuery (PublicKey 7), OpDisconnected (PublicKey 7), OpConnected (PublicKey 7)]"
  let ?l' = "?l\<lparr>readings := 2, peer_map := [(PublicKey 7, PeerRecord_new True 1)]\<rparr>"
  have inv: "limiter_invar ?l"
    by (rule limiter_invar_new) (simp add: mono_def)
  have run: "run_ops token_limiter_ops (PublicKey 7) ?ops ?l = (1, ?l')"
    by (simp add: token_limiter_ops_def TokenLimiter_new_def query_peer_def needs_update_def now_def
        hit_def PeerRecord_new_def peer_connected_def peer_disconnected_def numeral_2_eq_2)
  have "0 < call_frequency ?l" "last_update ?l' = last_update ?l"
    by (simp_all add: TokenLimiter_new_def)
  from reconnect_gains_nothing [OF inv this(1) run this(2)] run show ?thesis
    by (simp add: limiter_budget_def PeerRecord_new_def)
qed

text \<open>
  The limiter refines the set of connected peers: after any sequence of calls, \<open>peers\<close>
  lists exactly the peers whose last connection event was a connect, refills and the removal
  of offline entries notwithstanding.
\<close>

theorem peers_refine_online_set:
  assumes "limiter_invar l"
  shows "set (peers (snd (run_ops token_limiter_ops k ops l))) = fold track_online ops (set (peers l))"
  using tokens.run_ops_peers [OF assms surjective_pairing]
  by (simp add: token_limiter_ops_def)

theorem peers_refine_online_set_witness:
  "set (peers (snd (run_ops token_limiter_ops (PublicKey 0)
     [OpConnected (PublicKey 1), OpDisconnected (PublicKey 0), OpQuery (PublicKey 1)]
     (TokenLimiter_new [PublicKey 0] 2 1 (\<lambda>i. i))))) = {PublicKey 1}"
proof -
  have inv: "limiter_invar (TokenLimiter_new [PublicKey 0] 2 1 (\<lambda>i. i))"
    by (rule limiter_invar_new) (simp add: mono_def)
  show ?thesis
    by (subst peers_refine_online_set [OF inv])
      (auto simp: TokenLimiter_new_def peers_def PeerRecord_new_def)
qed

text \<open>
  What a query answers: a tracked peer is allowed a call iff it has one left, where a due
  refill first restores the full quota of a peer that is online and forgets one that is
  offline; an unknown peer is never allowed one.
\<close>

theorem query_peer_allowed:
  assumes "limiter_invar l"
  shows "fst (query_peer k l) \<longleftrightarrow>
    (\<exists>v. map_of (peer_map l) k = Some v \<and>
       (if call_frequency l \<le> clock l (readings l) - last_update l
        then online v \<and> call_count l \<noteq> 0 else remaining_calls v \<noteq> 0))"
proof -
  have d: "distinct (keys_of (peer_map l))"
    using assms by (simp add: limiter_invar_def buckets_wf_def)
  show ?thesis
  proof (cases "refill_due l")
    case True
    with d show ?thesis
      by (auto simp: query_peer_refilled hit_allowed refilled_cases update_buckets_map refill_due_def
          simp del: map_of_eq_Some_iff split: option.splits)
  next
    case False
    then show ?thesis
      by (simp add: query_peer_refilled hit_allowed refilled_cases refill_due_def)
  qed
qed

theorem query_peer_allowed_witness:
  "fst (query_peer (PublicKey 7) (TokenLimiter_new [PublicKey 7] 1 100 (\<lambda>i. i)))"
proof -
  have inv: "limiter_invar (TokenLimiter_new [PublicKey 7] 1 100 (\<lambda>i. i))"
    by (rule limiter_invar_new) (simp add: mono_def)
  show ?thesis
    by (subst query_peer_allowed [OF inv]) (simp add: TokenLimiter_new_def PeerRecord_new_def)
qed


text \<open>
  C36. The limiter stays well formed: after any sequence of operations it has one record for each
  peer, no peer has more calls left than the quota, and the last refill is not in the future.
\<close>

theorem limiter_stays_well_formed:
  assumes "mono c" and "run_ops token_limiter_ops k ops (TokenLimiter_new ps n freq c) = (m, l)"
  shows "distinct (keys_of (peer_map l)) \<and> (\<forall>p\<in>set (peer_map l). remaining_calls (snd p) \<le> n) \<and>
    last_update l \<le> limiter_time l \<and> call_count l = n"
proof -
  have i: "limiter_invar l" and "limiter_quota l = limiter_quota (TokenLimiter_new ps n freq c)"
    using tokens.run_ops_spends [OF limiter_invar_new [OF assms(1)] assms(2)] by auto
  then have n: "call_count l = n" by (simp add: limiter_quota_def TokenLimiter_new_def word_unat_eq_iff)
  with i have "distinct (keys_of (peer_map l))" "\<forall>p\<in>set (peer_map l). remaining_calls (snd p) \<le> n"
    by (auto simp: limiter_invar_def buckets_wf_iff)
  with n tokens.stamp_past [OF i] show ?thesis by simp
qed

theorem limiter_stays_well_formed_witness:
  "\<exists>m l. run_ops token_limiter_ops (PublicKey 7) [OpConnected (PublicKey 8), OpQuery (PublicKey 7)]
       (TokenLimiter_new [PublicKey 7] 3 100 (\<lambda>i. i)) = (m, l) \<and> call_count l = 3"
proof -
  obtain m l where run: "run_ops token_limiter_ops (PublicKey 7) [OpConnected (PublicKey 8), OpQuery (PublicKey 7)]
       (TokenLimiter_new [PublicKey 7] 3 100 (\<lambda>i. i)) = (m, l)" by (metis surj_pair)
  have "mono (\<lambda>i :: nat. i)" by (simp add: mono_def)
  from limiter_stays_well_formed [OF this run] run show ?thesis by blast
qed

end
