(* ===== verification/Errors.thy ===== *)
theory Errors
  imports Ldk_Types
begin

text \<open>
  The error types of LNDK and their gRPC statuses: \<open>OfferError\<close> (\<open>src/offers/mod.rs\<close>),
  \<open>LndError\<close>, \<open>NetworkParseError\<close> and \<open>ValidationError\<close> (\<open>src/lnd.rs\<close>), \<open>AuthError\<close>
  (\<open>src/server.rs\<close>), and how \<open>lndk-cli\<close> reports an error (\<open>src/cli.rs\<close>). The three types a
  gRPC handler returns share one contract, the locale \<open>status_error\<close>.

  An error value of a library is opaque to the source, which only prints it: it is the text
  of its \<open>Debug\<close> or \<open>Display\<close> form.
\<close>

section \<open>gRPC statuses\<close>

datatype grpc_code =
    CodeOk | CodeCancelled | CodeUnknown | CodeInvalidArgument | CodeDeadlineExceeded
  | CodeNotFound | CodeAlreadyExists | CodePermissionDenied | CodeResourceExhausted
  | CodeFailedPrecondition | CodeAborted | CodeOutOfRange | CodeUnimplemented | CodeInternal
  | CodeUnavailable | CodeDataLoss | CodeUnauthenticated

record error_info =
  info_reason :: string
  info_domain :: string

record status =
  st_code :: grpc_code
  st_message :: string
  st_error_info :: "error_info option"

definition Status_new :: "grpc_code \<Rightarrow> string \<Rightarrow> status" where
  "Status_new c m = \<lparr>st_code = c, st_message = m, st_error_info = None\<rparr>"

definition Status_with_error_details :: "grpc_code \<Rightarrow> string \<Rightarrow> error_info \<Rightarrow> status" where
  "Status_with_error_details c m d = \<lparr>st_code = c, st_message = m, st_error_info = Some d\<rparr>"

section \<open>Rust's \<open>Debug\<close> of a string\<close>

fun hex_digits :: "nat \<Rightarrow> string" where
  "hex_digits n =
     (let d = (if n mod 16 < 10 then char_of (48 + n mod 16) else char_of (87 + n mod 16))
      in if n < 16 then [d] else hex_digits (n div 16) @ [d])"

declare hex_digits.simps [simp del]

definition escape_char :: "char \<Rightarrow> string" where
  "escape_char c =
     (let n = of_char c :: nat in
      if n = 0 then [CHR 0x5C, CHR ''0'']
      else if n = 9 then [CHR 0x5C, CHR ''t'']
      else if n = 10 then [CHR 0x5C, CHR ''n'']
      else if n = 13 then [CHR 0x5C, CHR ''r'']
      else if n = 34 \<or> n = 92 then [CHR 0x5C, c]
      else if n < 32 \<or> n = 127 then CHR 0x5C # ''u{'' @ hex_digits n @ ''}''
      else [c])"

definition debug_string :: "string \<Rightarrow> string" where
  "debug_string s = CHR 0x22 # concat (map escape_char s) @ [CHR 0x22]"

section \<open>\<open>OfferError\<close>\<close>

text \<open>\<open>PaymentId\<close> is a library type around 32 bytes; its \<open>Display\<close> is a parameter.\<close>

datatype offer_error =
    AlreadyProcessing payment_id
  | BuildUIRFailure string
  | SignError string
  | DeriveKeyFailure string
  | InvalidAmount string
  | InvalidCurrency
  | PeerConnectError string
  | NodeAddressNotFound
  | ListPeersFailure string
  | BuildBlindedPathFailure
  | RouteFailure string
  | TrackFailure string
  | PaymentFailure
  | InvoiceTimeout u32
  | IntroductionNodeNotFound
  | GetChannelInfo string
  | CreateOfferFailure string
  | CreateOfferTimeFailure
  | AddInvoiceFailure string
  | DecodePaymentRequestFailure string
  | ParsePaymentHashFailure string
  | ParseOfferFailure string
  | ParseInvoiceFailure string
  | EncodeInvoiceFailure string
  | ListChannelsFailure string

fun offer_error_code :: "offer_error \<Rightarrow> string" where
  "offer_error_code (CreateOfferFailure _) = ''CREATE_OFFER_FAILURE''"
| "offer_error_code CreateOfferTimeFailure = ''CREATE_OFFER_TIME_FAILURE''"
| "offer_error_code (AddInvoiceFailure _) = ''ADD_INVOICE_FAILURE''"
| "offer_error_code (DecodePaymentRequestFailure _) = ''DECODE_PAYMENT_REQUEST_FAILURE''"
| "offer_error_code (ParsePaymentHashFailure _) = ''PARSE_PAYMENT_HASH_FAILURE''"
| "offer_error_code (ParseOfferFailure _) = ''PARSE_OFFER_FAILURE''"
| "offer_error_code (ParseInvoiceFailure _) = ''PARSE_INVOICE_FAILURE''"
| "offer_error_code (EncodeInvoiceFailure _) = ''ENCODE_INVOICE_FAILURE''"
| "offer_error_code (InvalidAmount _) = ''INVALID_AMOUNT''"
| "offer_error_code InvalidCurrency = ''INVALID_CURRENCY''"
| "offer_error_code (AlreadyProcessing _) = ''ALREADY_PROCESSING''"
| "offer_error_code (BuildUIRFailure _) = ''BUILD_UIR_FAILURE''"
| "offer_error_code (SignError _) = ''SIGN_ERROR''"
| "offer_error_code (DeriveKeyFailure _) = ''DERIVE_KEY_FAILURE''"
| "offer_error_code (PeerConnectError _) = ''PEER_CONNECT_ERROR''"
| "offer_error_code NodeAddressNotFound = ''NODE_ADDRESS_NOT_FOUND''"
| "offer_error_code (ListPeersFailure _) = ''LIST_PEERS_FAILURE''"
| "offer_error_code BuildBlindedPathFailure = ''BUILD_BLINDED_PATH_FAILURE''"
| "offer_error_code (RouteFailure _) = ''ROUTE_FAILURE''"
| "offer_error_code (TrackFailure _) = ''TRACK_FAILURE''"
| "offer_error_code PaymentFailure = ''PAYMENT_FAILURE''"
| "offer_error_code (InvoiceTimeout _) = ''INVOICE_TIMEOUT''"
| "offer_error_code IntroductionNodeNotFound = ''INTRODUCTION_NODE_NOT_FOUND''"
| "offer_error_code (GetChannelInfo _) = ''GET_CHANNEL_INFO''"
| "offer_error_code (ListChannelsFailure _) = ''LIST_CHANNELS_FAILURE''"

fun offer_error_grpc_code :: "offer_error \<Rightarrow> grpc_code" where
  "offer_error_grpc_code (InvalidAmount _) = CodeInvalidArgument"
| "offer_error_grpc_code InvalidCurrency = CodeInvalidArgument"
| "offer_error_grpc_code (ParseOfferFailure _) = CodeInvalidArgument"
| "offer_error_grpc_code (ParseInvoiceFailure _) = CodeInvalidArgument"
| "offer_error_grpc_code (EncodeInvoiceFailure _) = CodeInvalidArgument"
| "offer_error_grpc_code _ = CodeInternal"

fun offer_error_display :: "(payment_id \<Rightarrow> string) \<Rightarrow> offer_error \<Rightarrow> string" where
  "offer_error_display sh (AlreadyProcessing i) =
     ''Payment with id '' @ sh i @ '' already in progress''"
| "offer_error_display sh (BuildUIRFailure e) = ''Failed to build invoice request: '' @ e"
| "offer_error_display sh (SignError e) = ''Failed to sign invoice request: '' @ e"
| "offer_error_display sh (DeriveKeyFailure e) = ''Failed to derive key: '' @ e"
| "offer_error_display sh (InvalidAmount e) = ''Invalid amount: '' @ e"
| "offer_error_display sh InvalidCurrency = ''Only bitcoin currency is supported''"
| "offer_error_display sh (PeerConnectError e) = ''Failed to connect to peer: '' @ e"
| "offer_error_display sh NodeAddressNotFound = ''Node address not found''"
| "offer_error_display sh (ListPeersFailure e) = ''Failed to list peers: '' @ e"
| "offer_error_display sh BuildBlindedPathFailure = ''Failed to build blinded path''"
| "offer_error_display sh (RouteFailure e) = ''Failed to route payment: '' @ e"
| "offer_error_display sh (TrackFailure e) = ''Failed to track payment: '' @ e"
| "offer_error_display sh PaymentFailure = ''Payment failed''"
| "offer_error_display sh (InvoiceTimeout n) =
     ''Invoice request timed out after '' @ decimal (unat n) @ '' seconds''"
| "offer_error_display sh IntroductionNodeNotFound = ''Introduction node not found''"
| "offer_error_display sh (GetChannelInfo e) = ''Failed to get channel info: '' @ e"
| "offer_error_display sh (CreateOfferFailure e) = ''Failed to create offer: '' @ e"
| "offer_error_display sh CreateOfferTimeFailure = ''Invalid offer expiry time''"
| "offer_error_display sh (AddInvoiceFailure e) = ''Failed to add invoice to lnd node: '' @ e"
| "offer_error_display sh (DecodePaymentRequestFailure e) = ''Failed to decode payment request: '' @ e"
| "offer_error_display sh (ParsePaymentHashFailure e) =
     ''Failed to parse payment hash: '' @ debug_string e"
| "offer_error_display sh (ParseOfferFailure e) =
     ''Invalid offer: must start with '' @ [CHR 0x27] @ ''lno'' @ [CHR 0x27] @ ''. Error: '' @ e"
| "offer_error_display sh (ParseInvoiceFailure e) =
     ''Invalid invoice: must be hex format. Error: '' @ e"
| "offer_error_display sh (ListChannelsFailure e) = ''Error listing channels: '' @ debug_string e"
| "offer_error_display sh (EncodeInvoiceFailure e) = ''Failed to encode invoice: '' @ e"

definition offer_error_to_status :: "(payment_id \<Rightarrow> string) \<Rightarrow> offer_error \<Rightarrow> status" where
  "offer_error_to_status sh e =
     Status_with_error_details (offer_error_grpc_code e) (offer_error_display sh e)
       \<lparr>info_reason = offer_error_code e, info_domain = ''lndk''\<rparr>"

section \<open>\<open>NetworkParseError\<close>, \<open>LndError\<close> and \<open>ValidationError\<close>\<close>

datatype network_parse_error = NetworkInvalid string

fun network_parse_error_display :: "network_parse_error \<Rightarrow> string" where
  "network_parse_error_display (NetworkInvalid s) =
     ''invalid network provided: '' @ s @ ''. Should be mainnet, testnet, signet, or regtest.''"

datatype lnd_error =
    ConnectError string
  | NetworkParseError network_parse_error
  | NetworkNotConnected
  | ServiceUnavailable string

fun lnd_error_code :: "lnd_error \<Rightarrow> string" where
  "lnd_error_code (ConnectError _) = ''CONNECT_ERROR''"
| "lnd_error_code (NetworkParseError _) = ''NETWORK_PARSE_ERROR''"
| "lnd_error_code NetworkNotConnected = ''NETWORK_NOT_CONNECTED''"
| "lnd_error_code (ServiceUnavailable _) = ''SERVICE_UNAVAILABLE''"

fun lnd_error_grpc_code :: "lnd_error \<Rightarrow> grpc_code" where
  "lnd_error_grpc_code (NetworkParseError _) = CodeInvalidArgument"
| "lnd_error_grpc_code (ConnectError _) = CodeUnavailable"
| "lnd_error_grpc_code NetworkNotConnected = CodeUnavailable"
| "lnd_error_grpc_code (ServiceUnavailable _) = CodeUnavailable"

fun lnd_error_display :: "lnd_error \<Rightarrow> string" where
  "lnd_error_display (ConnectError e) = ''Failed to connect to LND: '' @ e"
| "lnd_error_display (NetworkParseError e) =
     ''Failed to parse network configuration: '' @ network_parse_error_display e"
| "lnd_error_display NetworkNotConnected = ''LND node is not connected to bitcoin network''"
| "lnd_error_display (ServiceUnavailable e) = ''LND service is unavailable: '' @ e"

definition lnd_error_to_status :: "lnd_error \<Rightarrow> status" where
  "lnd_error_to_status e =
     Status_with_error_details (lnd_error_grpc_code e) (lnd_error_display e)
       \<lparr>info_reason = lnd_error_code e, info_domain = ''lndk''\<rparr>"

datatype validation_error =
  CertOnlyOne | MacaroonOnlyOne | CertRequired | MacaroonRequired | CredMismatch

fun validation_error_display :: "validation_error \<Rightarrow> string" where
  "validation_error_display CertOnlyOne =
     ''Only one of `cert_path` or `cert_pem` should be set.''"
| "validation_error_display MacaroonOnlyOne =
     ''Only one of `macaroon_path` or `macaroon_hex` should be set.''"
| "validation_error_display CertRequired =
     ''Cert config option is required. Please set either `cert_path` or `cert_pem`.''"
| "validation_error_display MacaroonRequired =
     ''Macaroon config option is required. Please set either `macaroon_path`'' @ [CHR 0x0A] @
     ''                    or `macaroon_hex`.''"
| "validation_error_display CredMismatch =
     ''There are two options for loading credentials: either both `cert_path` and `macaroon_path`'' @
     [CHR 0x0A] @
     ''                    must be set or both `cert_pem` and `macaroon_hex` must be set. '' @
     ''It'' @ [CHR 0x27] @ ''s not possible to'' @ [CHR 0x0A] @
     ''                    mismatch them.''"

section \<open>\<open>AuthError\<close>\<close>

datatype auth_error = InvalidMacaroon string | MissingMacaroon

fun auth_error_display :: "auth_error \<Rightarrow> string" where
  "auth_error_display (InvalidMacaroon e) = ''Invalid macaroon string provided: '' @ e"
| "auth_error_display MissingMacaroon =
     ''No LND macaroon provided: Make sure to provide macaroon in request metadata''"

fun auth_error_code :: "auth_error \<Rightarrow> string" where
  "auth_error_code (InvalidMacaroon _) = ''INVALID_MACAROON''"
| "auth_error_code MissingMacaroon = ''MISSING_MACAROON''"

fun auth_error_grpc_code :: "auth_error \<Rightarrow> grpc_code" where
  "auth_error_grpc_code (InvalidMacaroon _) = CodeInvalidArgument"
| "auth_error_grpc_code MissingMacaroon = CodeUnauthenticated"

definition auth_error_to_status :: "auth_error \<Rightarrow> status" where
  "auth_error_to_status e =
     Status_with_error_details (auth_error_grpc_code e) (auth_error_display e)
       \<lparr>info_reason = auth_error_code e, info_domain = ''lndk''\<rparr>"

section \<open>Reporting by \<open>lndk-cli\<close>\<close>

text \<open>The line that \<open>exit_gracefully\<close> prints before the process exits with 1.\<close>

definition status_exit_line :: "status \<Rightarrow> string" where
  "status_exit_line st =
     (case st_error_info st of
        Some d \<Rightarrow> ''ERROR ('' @ info_reason d @ ''): '' @ st_message st
      | None \<Rightarrow> ''ERROR: '' @ st_message st)"

definition offer_error_exit_line :: "(payment_id \<Rightarrow> string) \<Rightarrow> offer_error \<Rightarrow> string" where
  "offer_error_exit_line sh e = ''ERROR ('' @ offer_error_code e @ ''): '' @ offer_error_display sh e"

section \<open>The contract of an error that becomes a status\<close>

locale status_error =
  fixes code :: "'e \<Rightarrow> string"
    and grpc_code :: "'e \<Rightarrow> grpc_code"
    and display :: "'e \<Rightarrow> string"
    and to_status :: "'e \<Rightarrow> status"
  assumes to_status_fields:
      "st_code (to_status e) = grpc_code e" "st_message (to_status e) = display e"
      "st_error_info (to_status e) = Some \<lparr>info_reason = code e, info_domain = ''lndk''\<rparr>"
    and grpc_code_fails: "grpc_code e \<noteq> CodeOk"
begin

lemma status_is_error: "st_code (to_status e) \<noteq> CodeOk"
  by (simp add: to_status_fields grpc_code_fails)

lemma exit_line_of_status:
  "status_exit_line (to_status e) = ''ERROR ('' @ code e @ ''): '' @ display e"
  by (simp add: status_exit_line_def to_status_fields)

end

interpretation offer_err: status_error offer_error_code offer_error_grpc_code
  "offer_error_display sh" "offer_error_to_status sh" for sh
proof unfold_locales
  fix e
  show "offer_error_grpc_code e \<noteq> CodeOk" by (cases e) auto
qed (simp_all add: offer_error_to_status_def Status_with_error_details_def)

interpretation lnd_err: status_error lnd_error_code lnd_error_grpc_code
  lnd_error_display lnd_error_to_status
proof unfold_locales
  fix e
  show "lnd_error_grpc_code e \<noteq> CodeOk" by (cases e) auto
qed (simp_all add: lnd_error_to_status_def Status_with_error_details_def)

interpretation auth_err: status_error auth_error_code auth_error_grpc_code
  auth_error_display auth_error_to_status
proof unfold_locales
  fix e
  show "auth_error_grpc_code e \<noteq> CodeOk" by (cases e) auto
qed (simp_all add: auth_error_to_status_def Status_with_error_details_def)

section \<open>Properties\<close>

text \<open>
  An offer error prints the same line on the command line whether \<open>lndk-cli\<close> found it
  itself (decoding locally) or received it from the server as a gRPC status; and the status
  is never the success code.
\<close>

theorem offer_error_reported_alike:
  "status_exit_line (offer_error_to_status sh e) = offer_error_exit_line sh e \<and>
   st_code (offer_error_to_status sh e) \<noteq> CodeOk"
  by (simp add: offer_err.exit_line_of_status offer_err.status_is_error offer_error_exit_line_def)

text \<open>The variant of an offer error, as a number: what a client can tell apart.\<close>

definition offer_error_variant :: "offer_error \<Rightarrow> nat" where
  "offer_error_variant e = (case e of
      AlreadyProcessing _ \<Rightarrow> 0 | BuildUIRFailure _ \<Rightarrow> 1 | SignError _ \<Rightarrow> 2 | DeriveKeyFailure _ \<Rightarrow> 3
    | InvalidAmount _ \<Rightarrow> 4 | InvalidCurrency \<Rightarrow> 5 | PeerConnectError _ \<Rightarrow> 6 | NodeAddressNotFound \<Rightarrow> 7
    | ListPeersFailure _ \<Rightarrow> 8 | BuildBlindedPathFailure \<Rightarrow> 9 | RouteFailure _ \<Rightarrow> 10 | TrackFailure _ \<Rightarrow> 11
    | PaymentFailure \<Rightarrow> 12 | InvoiceTimeout _ \<Rightarrow> 13 | IntroductionNodeNotFound \<Rightarrow> 14
    | GetChannelInfo _ \<Rightarrow> 15 | CreateOfferFailure _ \<Rightarrow> 16 | CreateOfferTimeFailure \<Rightarrow> 17
    | AddInvoiceFailure _ \<Rightarrow> 18 | DecodePaymentRequestFailure _ \<Rightarrow> 19 | ParsePaymentHashFailure _ \<Rightarrow> 20
    | ParseOfferFailure _ \<Rightarrow> 21 | ParseInvoiceFailure _ \<Rightarrow> 22 | EncodeInvoiceFailure _ \<Rightarrow> 23
    | ListChannelsFailure _ \<Rightarrow> 24)"

text \<open>
  The error code identifies the variant: two offer errors have the same code exactly when
  they are the same variant, so a client can dispatch on the code of the status details.
\<close>

theorem offer_error_code_identifies_variant:
  "offer_error_code e = offer_error_code e' \<longleftrightarrow> offer_error_variant e = offer_error_variant e'"
  by (cases e; cases e') (simp_all add: offer_error_variant_def)

end
