(* ===== verification/Grpc_Retry.thy ===== *)
theory Grpc_Retry
  imports Errors
begin

text \<open>
  The retry loops of \<open>src/grpc.rs\<close> around a gRPC call. \<open>with_max_attempts\<close> makes a bounded
  number of calls and is a total function; \<open>with_infinite_retries\<close> may never return, so its
  value is \<open>None\<close> when it does not. The delay between two calls has no effect in the model.
\<close>

definition is_retryable_error :: "status \<Rightarrow> bool" where
  "is_retryable_error st \<longleftrightarrow>
     st_code st = CodeUnavailable \<or> st_code st = CodeDeadlineExceeded \<or>
     st_code st = CodeAborted \<or> st_code st = CodeUnknown"

definition MAX_RETRY_ATTEMPTS :: u8 where
  "MAX_RETRY_ATTEMPTS = 5"

text \<open>
  The loop of \<open>with_max_attempts\<close>. The counter is a \<open>u8\<close> in the source; it never exceeds
  the \<open>u8\<close> limit \<open>max_retry_attempts\<close>, so it does not wrap.
\<close>

function max_attempts_loop ::
  "('req \<Rightarrow> ('w, status, 'r) stub) \<Rightarrow> 'req \<Rightarrow> u8 \<Rightarrow> nat \<Rightarrow> ('w, status, 'r) stub" where
  "max_attempts_loop f req m attempt w =
     (case f req w of
        (Inr response, w') \<Rightarrow> (Inr response, w')
      | (Inl e, w') \<Rightarrow>
          if is_retryable_error e
          then if unat m \<le> attempt + 1 then (Inl e, w')
               else max_attempts_loop f req m (attempt + 1) w'
          else (Inl e, w'))"
  by pat_completeness auto
termination
  by (relation "measure (\<lambda>(f, req, m, attempt, w). unat m - attempt)") auto

declare max_attempts_loop.simps [simp del]

definition with_max_attempts ::
  "('req \<Rightarrow> ('w, status, 'r) stub) \<Rightarrow> 'req \<Rightarrow> u8 option \<Rightarrow> ('w, status, 'r) stub" where
  "with_max_attempts f req max_attempts =
     (let max_retry_attempts = (case max_attempts of Some m \<Rightarrow> m | None \<Rightarrow> MAX_RETRY_ATTEMPTS)
      in max_attempts_loop f req max_retry_attempts 0)"

text \<open>\<open>with_infinite_retries\<close> also returns how often it woke the waiters of the notifier.\<close>

partial_function (option) infinite_retries_loop ::
  "('req \<Rightarrow> ('w, status, 'r) stub) \<Rightarrow> 'req \<Rightarrow> bool \<Rightarrow> nat \<Rightarrow> 'w \<Rightarrow> ((status + 'r) \<times> nat \<times> 'w) option"
where
  "infinite_retries_loop f req notify n w =
     (case f req w of
        (Inr response, w') \<Rightarrow> Some (Inr response, n, w')
      | (Inl e, w') \<Rightarrow>
          if is_retryable_error e
          then infinite_retries_loop f req notify (if notify then n + 1 else n) w'
          else Some (Inl e, n, w'))"

definition with_infinite_retries ::
  "('req \<Rightarrow> ('w, status, 'r) stub) \<Rightarrow> 'req \<Rightarrow> bool \<Rightarrow> 'w \<Rightarrow> ((status + 'r) \<times> nat \<times> 'w) option" where
  "with_infinite_retries f req notify = infinite_retries_loop f req notify 0"

section \<open>The sequence of calls\<close>

text \<open>The world after \<open>n\<close> calls, and whether call number \<open>n\<close> (from 0) asks for a retry.\<close>

fun after_calls :: "('req \<Rightarrow> ('w, status, 'r) stub) \<Rightarrow> 'req \<Rightarrow> nat \<Rightarrow> 'w \<Rightarrow> 'w" where
  "after_calls f req 0 w = w"
| "after_calls f req (Suc n) w = after_calls f req n (snd (f req w))"

definition call_retries :: "('req \<Rightarrow> ('w, status, 'r) stub) \<Rightarrow> 'req \<Rightarrow> nat \<Rightarrow> 'w \<Rightarrow> bool" where
  "call_retries f req n w =
     (case fst (f req (after_calls f req n w)) of Inl e \<Rightarrow> is_retryable_error e | Inr _ \<Rightarrow> False)"

lemma call_retries_0:
  "call_retries f req 0 w = (case fst (f req w) of Inl e \<Rightarrow> is_retryable_error e | Inr _ \<Rightarrow> False)"
  by (simp add: call_retries_def)

lemma call_retries_Suc: "call_retries f req (Suc n) w = call_retries f req n (snd (f req w))"
  by (simp add: call_retries_def)

lemma max_attempts_loop_unfold:
  "max_attempts_loop f req m a w =
     (if call_retries f req 0 w \<and> a + 1 < unat m
      then max_attempts_loop f req m (a + 1) (snd (f req w)) else f req w)"
  by (subst max_attempts_loop.simps)
    (auto simp: call_retries_0 split: prod.split sum.split)

text \<open>The loop returns the result of one of its calls: all calls before it asked for a retry,
  and it is the last one allowed or does not.\<close>

lemma max_attempts_loop_last_call:
  "\<exists>n. max_attempts_loop f req m a w = f req (after_calls f req n w) \<and>
     (\<forall>i<n. call_retries f req i w) \<and> n + a < max (a + 1) (unat m) \<and>
     (call_retries f req n w \<longrightarrow> n + a + 1 = max (a + 1) (unat m))"
proof (induction "unat m - a" arbitrary: a w)
  case 0
  then show ?case
    by (intro exI [of _ 0]) (auto simp: max_attempts_loop_unfold)
next
  case (Suc d)
  show ?case
  proof (cases "call_retries f req 0 w \<and> a + 1 < unat m")
    case False
    then show ?thesis
      by (intro exI [of _ 0]) (auto simp: max_attempts_loop_unfold)
  next
    case True
    from Suc.hyps(2) have "d = unat m - (a + 1)" by simp
    from Suc.hyps(1) [OF this, of "snd (f req w)"] obtain n where
      n: "max_attempts_loop f req m (a + 1) (snd (f req w)) =
            f req (after_calls f req n (snd (f req w)))"
         "\<forall>i<n. call_retries f req i (snd (f req w))"
         "n + (a + 1) < max (a + 1 + 1) (unat m)"
         "call_retries f req n (snd (f req w)) \<longrightarrow> n + (a + 1) + 1 = max (a + 1 + 1) (unat m)"
      by blast
    have "\<forall>i<Suc n. call_retries f req i w"
      using n(2) True by (auto simp: call_retries_Suc less_Suc_eq_0_disj)
    then show ?thesis
      using n True by (intro exI [of _ "Suc n"]) (simp add: max_attempts_loop_unfold [of f req m a w] call_retries_Suc)
  qed
qed

lemma infinite_retries_loop_returns:
  "\<lbrakk>\<forall>i<n. call_retries f req i w; \<not> call_retries f req n w\<rbrakk> \<Longrightarrow>
   infinite_retries_loop f req notify c w =
     Some (fst (f req (after_calls f req n w)), (if notify then c + n else c),
           after_calls f req (Suc n) w)"
proof (induction n arbitrary: c w)
  case 0
  then show ?case
    by (subst infinite_retries_loop.simps) (auto simp: call_retries_0 split: prod.split sum.split)
next
  case (Suc n)
  have "call_retries f req 0 w" using Suc.prems(1) by simp
  then obtain e w' where e: "f req w = (Inl e, w')" "is_retryable_error e"
    by (cases "f req w") (auto simp: call_retries_0 split: sum.splits)
  have "\<forall>i<n. call_retries f req i w'" "\<not> call_retries f req n w'"
    using Suc.prems e(1) by (auto simp: call_retries_Suc)
  from Suc.IH [OF this] e show ?case
    by (subst infinite_retries_loop.simps) (simp add: call_retries_Suc)
qed

lemma infinite_retries_loop_first_stop:
  assumes "infinite_retries_loop f req notify c w = Some r"
  shows "\<exists>n. \<not> call_retries f req n w"
proof (rule infinite_retries_loop.raw_induct
    [where P = "\<lambda>f req notify c w r. \<exists>n. \<not> call_retries f req n w", OF _ assms])
  fix loop f req notify c w r
  assume IH: "\<And>f req notify c w r. loop f req notify c w = Some r \<Longrightarrow> \<exists>n. \<not> call_retries f req n w"
    and eq: "(case f req w of
        (Inr response, w') \<Rightarrow> Some (Inr response, c, w')
      | (Inl e, w') \<Rightarrow>
          if is_retryable_error e
          then loop f req notify (if notify then c + 1 else c) w'
          else Some (Inl e, c, w')) = Some r"
  show "\<exists>n. \<not> call_retries f req n w"
  proof (cases "call_retries f req 0 w")
    case True
    then obtain e w' where e: "f req w = (Inl e, w')" "is_retryable_error e"
      by (cases "f req w") (auto simp: call_retries_0 split: sum.splits)
    with eq have "loop f req notify (if notify then c + 1 else c) w' = Some r" by simp
    from IH [OF this] obtain n where "\<not> call_retries f req n w'" by blast
    with e(1) have "\<not> call_retries f req (Suc n) w" by (simp add: call_retries_Suc)
    then show ?thesis by blast
  qed blast
qed

lemma infinite_retries_outcome:
  obtains (never) "\<forall>n. call_retries f req n w" "with_infinite_retries f req notify w = None"
  | (stops) n where "\<forall>i<n. call_retries f req i w" "\<not> call_retries f req n w"
      "with_infinite_retries f req notify w = Some (fst (f req (after_calls f req n w)), (if notify then n else 0),
         after_calls f req (Suc n) w)"
proof (cases "\<forall>n. call_retries f req n w")
  case True
  then have "with_infinite_retries f req notify w = None"
    using infinite_retries_loop_first_stop [of f req notify 0 w]
    by (cases "with_infinite_retries f req notify w") (auto simp: with_infinite_retries_def)
  with True never show ?thesis by blast
next
  case False
  define n where "n = (LEAST n. \<not> call_retries f req n w)"
  have n: "\<not> call_retries f req n w" "\<forall>i<n. call_retries f req i w"
    using False unfolding n_def by (metis LeastI_ex, metis not_less_Least)
  with infinite_retries_loop_returns [OF n(2,1), of notify 0] stops show ?thesis
    by (simp add: with_infinite_retries_def)
qed

section \<open>Properties\<close>

text \<open>
  C34. Bounded retries: \<open>with_max_attempts\<close> always returns, with the result of one of at most
  \<open>max 1 m\<close> calls. Every earlier call failed with a retryable status, and if the returned
  result is itself a retryable failure, the attempts were exhausted.
\<close>

theorem with_max_attempts_last_call:
  "\<exists>n. with_max_attempts f req (Some m) w = f req (after_calls f req n w) \<and>
     n < max 1 (unat m) \<and> (\<forall>i<n. call_retries f req i w) \<and>
     (call_retries f req n w \<longrightarrow> Suc n = max 1 (unat m))"
  using max_attempts_loop_last_call [of f req m 0 w] by (auto simp: with_max_attempts_def)

text \<open>A stub that fails with \<open>Unavailable\<close> until the world, a counter, reaches 2.\<close>

definition flaky :: "unit \<Rightarrow> (nat, status, nat) stub" where
  "flaky req w = (if w < 2 then Inl (Status_new CodeUnavailable ''down'') else Inr w, Suc w)"

theorem with_max_attempts_last_call_witness:
  "with_max_attempts flaky () (Some 3) 0 = (Inr 2, 3) \<and>
   (\<exists>n. with_max_attempts flaky () (Some 3) 0 = flaky () (after_calls flaky () n 0) \<and>
     n < max 1 (unat (3::u8)))"
proof -
  have "with_max_attempts flaky () (Some 3) 0 = (Inr 2, 3)"
    by (simp add: with_max_attempts_def max_attempts_loop.simps flaky_def Status_new_def
        is_retryable_error_def)
  then show ?thesis using with_max_attempts_last_call [of flaky "()" 3 0] by blast
qed

text \<open>
  C35. Infinite retries: \<open>with_infinite_retries\<close> returns exactly when some call does not ask
  for a retry, and then with the result of the first such call, after one notification per
  failed call before it when a notifier was given.
\<close>

theorem with_infinite_retries_first_success:
  "(case with_infinite_retries f req notify w of
      None \<Rightarrow> \<forall>n. call_retries f req n w
    | Some (r, k, w') \<Rightarrow>
        \<exists>n. (\<forall>i<n. call_retries f req i w) \<and> \<not> call_retries f req n w \<and>
          r = fst (f req (after_calls f req n w)) \<and> w' = after_calls f req (Suc n) w \<and>
          k = (if notify then n else 0))"
  by (rule infinite_retries_outcome [of f req w notify]) auto

theorem with_infinite_retries_first_success_witness:
  "with_infinite_retries flaky () True 0 = Some (Inr 2, 2, 3) \<and>
   (\<exists>n. (\<forall>i<n. call_retries flaky () i 0) \<and> \<not> call_retries flaky () n 0 \<and>
      Inr 2 = fst (flaky () (after_calls flaky () n 0)) \<and> 2 = n)"
proof -
  have "with_infinite_retries flaky () True 0 = Some (Inr 2, 2, 3)"
    by (simp add: with_infinite_retries_def infinite_retries_loop.simps flaky_def Status_new_def
        is_retryable_error_def)
  then show ?thesis
    using with_infinite_retries_first_success [of flaky "()" 0 True] by auto
qed

end
