(* ===== verification/Parse.thy ===== *)
theory Parse
  imports Errors
begin

text \<open>
  \<open>src/offers/parse.rs\<close>: decoding an offer, the destination an invoice request for it goes to,
  and the amount a payer may pay for it.
\<close>

definition decode :: "'w ldk \<Rightarrow> string \<Rightarrow> (offer_error, offer) res" where
  "decode L offer_str = map_err ParseOfferFailure (res_of_sum (offer_from_str L offer_str))"

definition get_destination :: "offer \<Rightarrow> (offer_error, destination) res" where
  "get_destination o' =
     (if offer_paths o' = [] then
        (case offer_issuer_signing_pubkey o' of
           Some signing_pubkey \<Rightarrow> Ok (DestNode signing_pubkey)
         | None \<Rightarrow> Err IntroductionNodeNotFound)
      else Ok (DestBlindedPath (offer_paths o' ! 0)))"

definition validate_amount :: "amount option \<Rightarrow> u64 option \<Rightarrow> (offer_error, u64) res" where
  "validate_amount offer_amount_msats pay_amount_msats =
     (case offer_amount_msats of
        Some (AmountBitcoin bitcoin_amt) \<Rightarrow>
          if bitcoin_amt = 0 then
            Err (InvalidAmount ''Offer has amount explicitly set to 0, which is invalid per BOLT 12 spec'')
          else (case pay_amount_msats of
              Some msats \<Rightarrow>
                if msats < bitcoin_amt then
                  Err (InvalidAmount (decimal (unat msats) @ '' is less than offer amount '' @
                    decimal (unat bitcoin_amt)))
                else Ok msats
            | None \<Rightarrow> Ok bitcoin_amt)
      | Some _ \<Rightarrow> Err InvalidCurrency
      | None \<Rightarrow> (case pay_amount_msats of
            Some msats \<Rightarrow> Ok msats
          | None \<Rightarrow> Err (InvalidAmount
              (''Offer doesn'' @ [CHR 0x27] @ ''t set an amount, so user must specify one''))))"

lemma validate_amount_not_panic [simp]: "\<not> is_panic (validate_amount oa pa)"
  by (auto simp: validate_amount_def split: option.split amount.split)

lemma get_destination_not_panic [simp]: "\<not> is_panic (get_destination o')"
  by (auto simp: get_destination_def split: option.split)

text \<open>
  The amount to pay is the payer's choice when there is one and the offer's otherwise, never below the
  amount of the offer. An offer that states zero or a currency is refused, and so is a payer without an amount
  where the offer states none; there any amount the payer names is taken, zero included.
\<close>

lemma validate_amount_Ok_iff:
  "validate_amount oa pa = Ok m \<longleftrightarrow>
     (case oa of
        None \<Rightarrow> pa = Some m
      | Some (AmountBitcoin b) \<Rightarrow> b \<noteq> 0 \<and> b \<le> m \<and> (pa = Some m \<or> pa = None \<and> m = b)
      | Some (AmountCurrency _ _) \<Rightarrow> False)"
  by (auto simp: validate_amount_def split: option.split amount.split)

end
