(* ===== verification/Lnd_Types.thy ===== *)
theory Lnd_Types
  imports Errors
begin

text \<open>
  The gRPC interface of LND as the source uses it: the messages of its services with the
  fields the source sets or reads (every other field of a request has its default), the
  stubs of a connected client as a record of calls on the world, and the five traits of
  \<open>src/lnd.rs\<close> that put an abstraction over them, each a record of operations.
\<close>

section \<open>Messages\<close>

text \<open>A feature map is keyed by feature bit; the source only looks at the keys.\<close>

record lnrpc_peer =
  peer_pub_key :: string
  peer_features :: "u32 list"

record lnrpc_channel =
  chan_remote_pubkey :: string
  chan_id :: u64

record channel_edge =
  edge_channel_id :: u64
  edge_node1_pub :: string
  edge_node2_pub :: string

record lightning_node =
  ln_pub_key :: string
  ln_addresses :: "string list"
  ln_features :: "u32 list"

record node_info =
  ni_node :: "lightning_node option"
  ni_channels :: "channel_edge list"

record lnrpc_chain =
  chain_name :: string
  chain_network :: string

record get_info_response =
  gi_identity_pubkey :: string
  gi_chains :: "lnrpc_chain list"
  gi_features :: "u32 list"

record lnd_version =
  app_major :: u32
  app_minor :: u32
  app_patch :: u32
  app_pre_release :: string
  build_tags :: "string list"

datatype peer_event_type = PeerOnline | PeerOffline

record peer_event =
  pe_type :: peer_event_type
  pe_pub_key :: string

record custom_message =
  cm_peer :: "u8 list"
  cm_type :: u32
  cm_data :: "u8 list"

record lnrpc_blinded_hop =
  lbh_blinded_node :: "u8 list"
  lbh_encrypted_data :: "u8 list"

record lnrpc_blinded_path =
  lbp_introduction_node :: "u8 list"
  lbp_blinding_point :: "u8 list"
  lbp_blinded_hops :: "lnrpc_blinded_hop list"

record lnrpc_blinded_payment_path =
  lpp_blinded_path :: "lnrpc_blinded_path option"
  lpp_base_fee_msat :: u64
  lpp_proportional_fee_rate :: u32
  lpp_total_cltv_delta :: u32
  lpp_htlc_min_msat :: u64
  lpp_htlc_max_msat :: u64
  lpp_features :: "i32 list"

datatype fee_limit = FeeFixed i64 | FeeFixedMsat i64 | FeePercent i64

datatype lnrpc_route = Route "u8 list"

record query_routes_request =
  qr_amt_msat :: i64
  qr_blinded_payment_paths :: "lnrpc_blinded_payment_path list"
  qr_fee_limit :: "fee_limit option"

datatype payment_status = StatusUnknown | StatusInFlight | StatusSucceeded | StatusFailed | StatusInitiated

record lnrpc_payment =
  pay_status :: payment_status
  pay_preimage :: string

record htlc_attempt =
  ha_attempt_id :: u64
  ha_preimage :: "u8 list"

record key_locator =
  key_family :: i32
  key_index :: i32

record sign_message_req =
  sm_msg :: "u8 list"
  sm_key_loc :: "key_locator option"
  sm_double_hash :: bool
  sm_schnorr_sig :: bool

record list_channels_request =
  lcr_active_only :: bool
  lcr_inactive_only :: bool
  lcr_public_only :: bool
  lcr_private_only :: bool

record connect_peer_request =
  cpr_addr :: "(string \<times> string) option"
  cpr_timeout :: u64

record chan_info_request =
  cir_chan_id :: u64
  cir_chan_point :: string

record lnrpc_invoice =
  li_memo :: string
  li_value_msat :: i64
  li_expiry :: i64
  li_is_blinded :: bool

record pay_req =
  pr_payment_hash :: string
  pr_blinded_paths :: "lnrpc_blinded_payment_path list"

section \<open>The stubs of a connected client\<close>

text \<open>
  A stream of payment updates is the finite sequence of what it yields until LND closes it;
  an \<open>Inl\<close> is a transport error.
\<close>

record 'w client =
  lc_list_peers :: "bool \<Rightarrow> ('w, status, lnrpc_peer list) stub"
  lc_connect_peer :: "connect_peer_request \<Rightarrow> ('w, status, unit) stub"
  lc_get_node_info :: "string \<times> bool \<Rightarrow> ('w, status, node_info) stub"
  lc_list_channels :: "list_channels_request \<Rightarrow> ('w, status, lnrpc_channel list) stub"
  lc_get_info :: "('w, status, get_info_response) stub"
  lc_get_chan_info :: "chan_info_request \<Rightarrow> ('w, status, channel_edge) stub"
  lc_get_version :: "('w, status, lnd_version) stub"
  lc_sign_message :: "sign_message_req \<Rightarrow> ('w, status, u8 list) stub"
  lc_derive_shared_key :: "u8 list \<Rightarrow> ('w, status, u8 list) stub"
  lc_query_routes :: "query_routes_request \<Rightarrow> ('w, status, lnrpc_route list) stub"
  lc_send_to_route_v2 :: "u8 list \<times> lnrpc_route \<Rightarrow> ('w, status, htlc_attempt) stub"
  lc_track_payment_v2 :: "u8 list \<times> bool \<Rightarrow> ('w, status, (status + lnrpc_payment) list) stub"
  lc_add_invoice :: "lnrpc_invoice \<Rightarrow> ('w, status, string) stub"
  lc_decode_pay_req :: "string \<Rightarrow> ('w, status, pay_req) stub"
  lc_send_custom_message :: "custom_message \<Rightarrow> ('w, status, unit) stub"

section \<open>The traits of \<open>src/lnd.rs\<close>\<close>

record 'w message_signer =
  ms_sign_message :: "u8 list \<Rightarrow> key_locator \<Rightarrow> bool \<Rightarrow> bool \<Rightarrow> ('w, unit, u8 list) io"

record 'w peer_connector =
  pc_list_peers :: "('w, status, lnrpc_peer list) io"
  pc_connect_peer :: "string \<Rightarrow> string \<Rightarrow> ('w, status, unit) io"
  pc_get_node_info :: "string \<Rightarrow> bool \<Rightarrow> ('w, status, node_info) io"
  pc_list_active_public_channels :: "('w, status, lnrpc_channel list) io"

record 'w invoice_payer =
  ip_query_routes :: "blinded_payment_path \<Rightarrow> u16 \<Rightarrow> u32 \<Rightarrow> u32 \<Rightarrow> u64 \<Rightarrow> fee_limit option \<Rightarrow>
    ('w, status, lnrpc_route list) io"
  ip_send_to_route :: "u8 list \<Rightarrow> lnrpc_route \<Rightarrow> ('w, status, htlc_attempt) io"
  ip_track_payment :: "u8 list \<Rightarrow> ('w, offer_error, lnrpc_payment) io"

record 'w offer_creator =
  oc_get_info :: "('w, status, get_info_response) io"

record 'w bolt12_invoice_creator =
  bic_add_invoice :: "invoice_request \<Rightarrow> ('w, status, string) io"
  bic_decode_payment_request :: "string \<Rightarrow> ('w, status, pay_req) io"

end
