(* ===== verification/Lnd.thy ===== *)
theory Lnd
  imports Lnd_Types "HOL-Library.Product_Lexorder"
begin

unbundle bit_operations_syntax

text \<open>
  \<open>src/lnd.rs\<close>: the credentials of the connection to LND, the checks of its version, build
  tags and feature bits, the signer that performs ECDH through LND, the network LND runs on,
  the seed LNDK derives from LND's signer, and the conversion of LND's blinded payment paths
  into those of rust-lightning.
\<close>

section \<open>Credentials and connection\<close>

datatype creds =
    CredsPath (creds_macaroon: string) (creds_cert: string)
  | CredsString (creds_macaroon: string) (creds_cert: string)

record lnd_cfg =
  cfg_address :: string
  cfg_creds :: creds

definition LndCfg_new :: "string \<Rightarrow> creds \<Rightarrow> lnd_cfg" where
  "LndCfg_new address c = \<lparr>cfg_address = address, cfg_creds = c\<rparr>"

text \<open>\<open>connect\<close> and \<open>connect_from_memory\<close> of the client library take the address, the
  certificate and the macaroon.\<close>

definition get_lnd_client ::
  "(string \<Rightarrow> string \<Rightarrow> string \<Rightarrow> ('w, string, 'c) stub) \<Rightarrow>
   (string \<Rightarrow> string \<Rightarrow> string \<Rightarrow> ('w, string, 'c) stub) \<Rightarrow> lnd_cfg \<Rightarrow> ('w, lnd_error, 'c) io" where
  "get_lnd_client connect connect_from_memory cfg =
     (case cfg_creds cfg of
        CredsPath macaroon cert \<Rightarrow>
          io_map_err ConnectError (rpc (connect (cfg_address cfg) cert macaroon))
      | CredsString macaroon cert \<Rightarrow>
          io_map_err ConnectError (rpc (connect_from_memory (cfg_address cfg) cert macaroon)))"

definition validate_lnd_creds ::
  "string option \<Rightarrow> string option \<Rightarrow> string option \<Rightarrow> string option \<Rightarrow> (validation_error, creds) res" where
  "validate_lnd_creds cert_path cert_pem macaroon_path macaroon_hex =
     (if cert_path = None \<and> cert_pem = None then Err CertRequired
      else if cert_path \<noteq> None \<and> cert_pem \<noteq> None then Err CertOnlyOne
      else if macaroon_path = None \<and> macaroon_hex = None then Err MacaroonRequired
      else if macaroon_path \<noteq> None \<and> macaroon_hex \<noteq> None then Err MacaroonOnlyOne
      else case cert_path of
        Some cp \<Rightarrow> (case macaroon_path of
            Some mp \<Rightarrow> Ok (CredsPath mp cp)
          | None \<Rightarrow> Err CredMismatch)
      | None \<Rightarrow> (case macaroon_hex of
            Some mh \<Rightarrow> res_bind (unwrap cert_pem) (\<lambda>pem. Ok (CredsString mh pem))
          | None \<Rightarrow> Err CredMismatch))"

definition get_certificate_string ::
  "(string \<Rightarrow> ('w, string, string) stub) \<Rightarrow> creds \<Rightarrow> ('w, unit, string) io" where
  "get_certificate_string read_to_string c =
     (case c of
        CredsPath _ cert \<Rightarrow> io_map_err (\<lambda>_. ()) (rpc (read_to_string cert))
      | CredsString _ cert \<Rightarrow> io_return cert)"

section \<open>Features, version and build tags\<close>

definition ONION_MESSAGES_REQUIRED :: u32 where "ONION_MESSAGES_REQUIRED = 38"

definition ONION_MESSAGES_OPTIONAL :: u32 where "ONION_MESSAGES_OPTIONAL = 39"

definition features_support_onion_messages :: "u32 list \<Rightarrow> bool" where
  "features_support_onion_messages features \<longleftrightarrow>
     ONION_MESSAGES_OPTIONAL \<in> set features \<or> ONION_MESSAGES_REQUIRED \<in> set features"

record version_requirement =
  req_major :: u32
  req_minor :: u32
  req_patch :: u32
  req_pre_release :: string

definition MIN_LND_VERSION :: version_requirement where
  "MIN_LND_VERSION = \<lparr>req_major = 0, req_minor = 18, req_patch = 0, req_pre_release = ''beta''\<rparr>"

definition has_version :: "lnd_version \<Rightarrow> version_requirement option \<Rightarrow> bool" where
  "has_version version requirement =
     (let requirement = (case requirement of Some r \<Rightarrow> r | None \<Rightarrow> MIN_LND_VERSION)
      in if app_major version \<noteq> req_major requirement
         then app_major version > req_major requirement
         else if app_minor version \<noteq> req_minor requirement
         then app_minor version > req_minor requirement
         else if app_patch version \<noteq> req_patch requirement
         then app_patch version > req_patch requirement
         else if app_pre_release version \<noteq> req_pre_release requirement
         then app_pre_release version > req_pre_release requirement
         else True)"

definition BUILD_TAGS_REQUIRED :: "string list" where
  "BUILD_TAGS_REQUIRED = [''peersrpc'', ''signrpc'', ''walletrpc'']"

fun build_tags_loop :: "lnd_version \<Rightarrow> string list \<Rightarrow> bool" where
  "build_tags_loop version [] = True"
| "build_tags_loop version (tag # tags) =
     (if tag \<notin> set (build_tags version) then False else build_tags_loop version tags)"

definition has_build_tags :: "lnd_version \<Rightarrow> string list option \<Rightarrow> bool" where
  "has_build_tags version requirement =
     build_tags_loop version (case requirement of Some tags \<Rightarrow> tags | None \<Rightarrow> BUILD_TAGS_REQUIRED)"

section \<open>The node signer\<close>

datatype recipient = RecipientNode | RecipientPhantomNode

datatype scalar = Scalar "u8 list"

datatype shared_secret = SharedSecret "u8 list"

record 'w lnd_node_signer =
  signer_pubkey :: public_key
  signer_client :: "'w client"

definition LndNodeSigner_new :: "public_key \<Rightarrow> 'w client \<Rightarrow> 'w lnd_node_signer" where
  "LndNodeSigner_new pubkey signer = \<lparr>signer_pubkey = pubkey, signer_client = signer\<rparr>"

definition signer_get_node_id :: "'w lnd_node_signer \<Rightarrow> recipient \<Rightarrow> (unit, public_key) res" where
  "signer_get_node_id self r =
     (case r of RecipientNode \<Rightarrow> Ok (signer_pubkey self) | RecipientPhantomNode \<Rightarrow> Err ())"

definition ecdh ::
  "secp \<Rightarrow> (public_key \<Rightarrow> scalar \<Rightarrow> public_key option) \<Rightarrow> (u8 list \<Rightarrow> shared_secret option) \<Rightarrow>
   'w lnd_node_signer \<Rightarrow> recipient \<Rightarrow> public_key \<Rightarrow> scalar option \<Rightarrow> ('w, unit, shared_secret) io" where
  "ecdh K mul_tweak from_slice self r other_key tweak =
     (case r of
        RecipientPhantomNode \<Rightarrow> io_err ()
      | RecipientNode \<Rightarrow>
          io_bind (io_lift (case tweak of
              Some t \<Rightarrow> ok_or () (mul_tweak other_key t)
            | None \<Rightarrow> Ok other_key)) (\<lambda>tweaked_key.
          io_bind (io_map_err (\<lambda>_. ())
              (rpc (lc_derive_shared_key (signer_client self) (pk_serialize K tweaked_key)))) (\<lambda>secret.
          io_lift (ok_or () (from_slice secret)))))"

text \<open>The four operations of the trait that onion messaging does not need abort.\<close>

definition signer_unimplemented :: "('w, 'e, 'a) io" where
  "signer_unimplemented = io_lift (Panic ''not required for onion messaging'')"

section \<open>The network and the seed\<close>

text \<open>\<open>to_lowercase\<close>, on the ASCII letters.\<close>

definition to_lowercase :: "string \<Rightarrow> string" where
  "to_lowercase s = map (\<lambda>c. let n = of_char c :: nat in
     if 65 \<le> n \<and> n \<le> 90 then char_of (n + 32) else c) s"

definition string_to_network :: "string \<Rightarrow> (network_parse_error, network) res" where
  "string_to_network s =
     (let network_str = to_lowercase s in
      if network_str = ''mainnet'' then Ok Bitcoin
      else if network_str = ''testnet'' then Ok Testnet
      else if network_str = ''signet'' then Ok Signet
      else if network_str = ''regtest'' then Ok Regtest
      else Err (NetworkInvalid network_str))"

fun last_bitcoin_network :: "lnrpc_chain list \<Rightarrow> string option \<Rightarrow> string option" where
  "last_bitcoin_network [] network_str = network_str"
| "last_bitcoin_network (chain # cs) network_str =
     last_bitcoin_network cs
       (if chain_name chain = ''bitcoin'' then Some (chain_network chain) else network_str)"

definition get_network :: "get_info_response \<Rightarrow> (lnd_error, network) res" where
  "get_network info =
     res_bind (ok_or NetworkNotConnected (last_bitcoin_network (gi_chains info) None)) (\<lambda>network_str.
     map_err NetworkParseError (string_to_network network_str))"

definition SEED_KEY_LOCATOR :: key_locator where
  "SEED_KEY_LOCATOR = \<lparr>key_family = 4, key_index = 425\<rparr>"

definition build_seed_from_lnd_node ::
  "'w ldk \<Rightarrow> 'w message_signer \<Rightarrow> ('w, unit, u8 list) io" where
  "build_seed_from_lnd_node L signer =
     io_bind (ms_sign_message signer (as_bytes ''LNDK:DO NOT SIGN THIS MANUALLY:SEED'')
        SEED_KEY_LOCATOR False True) (\<lambda>signature.
     io_return (sha256_hash L signature))"

section \<open>Blinded payment paths\<close>

fun feature_bits_loop :: "i32 list \<Rightarrow> u128 \<Rightarrow> u128" where
  "feature_bits_loop [] bits = bits"
| "feature_bits_loop (b # bs) bits =
     feature_bits_loop bs
       (if 0 \<le> sint b \<and> sint b \<le> 127 then bits OR push_bit (unat b) 1 else bits)"

definition to_le_bytes_u128 :: "u128 \<Rightarrow> u8 list" where
  "to_le_bytes_u128 x = map (\<lambda>i. ucast (drop_bit (8 * i) x)) [0..<16]"

definition feature_bits_to_le_bytes :: "i32 list \<Rightarrow> u8 list" where
  "feature_bits_to_le_bytes feature_bits = to_le_bytes_u128 (feature_bits_loop feature_bits 0)"

definition parse_blinded_hop :: "secp \<Rightarrow> lnrpc_blinded_hop \<Rightarrow> (offer_error, blinded_hop) res" where
  "parse_blinded_hop K hop =
     res_bind (expect ''Failed to parse blinding point'' (ok_or () (pk_from_slice K (lbh_blinded_node hop))))
       (\<lambda>blinded_node_id.
     Ok \<lparr>bh_node_id = blinded_node_id, bh_encrypted_payload = lbh_encrypted_data hop\<rparr>)"

definition parse_blinded_hops :: "secp \<Rightarrow> lnrpc_blinded_hop list \<Rightarrow> (offer_error, blinded_hop list) res" where
  "parse_blinded_hops K hops = map_res (parse_blinded_hop K) hops"

definition parse_blinded_path ::
  "secp \<Rightarrow> lnrpc_blinded_payment_path \<Rightarrow> (offer_error, blinded_payment_path) res" where
  "parse_blinded_path K bp =
     (let blinded_pay_info =
        \<lparr>pi_fee_base_msat = ucast (lpp_base_fee_msat bp),
         pi_fee_proportional_millionths = lpp_proportional_fee_rate bp,
         pi_cltv_expiry_delta = ucast (lpp_total_cltv_delta bp),
         pi_htlc_minimum_msat = lpp_htlc_min_msat bp,
         pi_htlc_maximum_msat = lpp_htlc_max_msat bp,
         pi_features = feature_bits_to_le_bytes (lpp_features bp)\<rparr>
      in
      res_bind (unwrap (lpp_blinded_path bp)) (\<lambda>path.
      res_bind (expect ''Failed to parse introduction node public key''
        (ok_or () (pk_from_slice K (lbp_introduction_node path)))) (\<lambda>node_id.
      res_bind (expect ''Failed to parse blinding point''
        (ok_or () (pk_from_slice K (lbp_blinding_point path)))) (\<lambda>blinding_point.
      res_bind (parse_blinded_hops K (lbp_blinded_hops path)) (\<lambda>hops.
      Ok \<lparr>bpp_introduction_node = NodeId node_id, bpp_blinding_point = blinding_point,
          bpp_hops = hops, bpp_payinfo = blinded_pay_info\<rparr>)))))"

definition parse_blinded_paths ::
  "secp \<Rightarrow> lnrpc_blinded_payment_path list \<Rightarrow> (offer_error, blinded_payment_path list) res" where
  "parse_blinded_paths K paths = map_res (parse_blinded_path K) paths"

section \<open>Properties\<close>

text \<open>
  Credentials are accepted exactly when both are given as paths or both directly, and
  then are the ones given; every other combination is an error and none aborts.
\<close>

theorem validate_lnd_creds_accepts:
  "\<not> is_panic (validate_lnd_creds cp pem mp hex) \<and>
   (validate_lnd_creds cp pem mp hex = Ok c \<longleftrightarrow>
     (\<exists>m k. c = CredsPath m k \<and> cp = Some k \<and> pem = None \<and> mp = Some m \<and> hex = None) \<or>
     (\<exists>m k. c = CredsString m k \<and> cp = None \<and> pem = Some k \<and> mp = None \<and> hex = Some m))"
  by (cases cp; cases pem; cases mp; cases hex) (auto simp: validate_lnd_creds_def)

text \<open>
  The version check is the lexicographic comparison of (major, minor, patch, pre-release).
\<close>

theorem has_version_lexicographic:
  "has_version v r \<longleftrightarrow>
     (let q = (case r of Some q \<Rightarrow> q | None \<Rightarrow> MIN_LND_VERSION) in
      (req_major q, req_minor q, req_patch q, req_pre_release q)
        \<le> (app_major v, app_minor v, app_patch v, app_pre_release v))"
  by (auto simp: has_version_def Let_def less_eq_prod_def less_prod_def)

lemma has_build_tags_subset:
  "has_build_tags v r \<longleftrightarrow>
     set (case r of Some tags \<Rightarrow> tags | None \<Rightarrow> BUILD_TAGS_REQUIRED) \<subseteq> set (build_tags v)"
proof -
  have "build_tags_loop v tags \<longleftrightarrow> set tags \<subseteq> set (build_tags v)" for tags
    by (induction tags) auto
  then show ?thesis by (simp add: has_build_tags_def)
qed

lemma small_i32_iff:
  assumes "n < 128"
  shows "0 \<le> sint b \<and> sint b \<le> 127 \<and> unat b = n \<longleftrightarrow> b = (of_nat n :: i32)"
proof
  assume b: "b = of_nat n"
  have "sint (of_nat n :: i32) = int n"
    using assms by (simp add: signed_of_nat signed_take_bit_int_eq_self)
  moreover have "unat (of_nat n :: i32) = n"
    using assms by (simp add: unat_of_nat take_bit_nat_eq_self)
  ultimately show "0 \<le> sint b \<and> sint b \<le> 127 \<and> unat b = n" using assms b by simp
next
  assume "0 \<le> sint b \<and> sint b \<le> 127 \<and> unat b = n"
  then show "b = of_nat n" by (metis of_nat_unat ucast_id)
qed

lemma bit_or_one:
  assumes "n < 128"
  shows "bit (x OR push_bit k 1 :: u128) n \<longleftrightarrow> bit x n \<or> k = n"
  using assms by (auto simp: bit_or_iff bit_exp_iff)

lemma feature_bits_loop_bit:
  assumes "n < 128"
  shows "bit (feature_bits_loop bs x) n \<longleftrightarrow> bit x n \<or> of_nat n \<in> set bs"
proof (induction bs arbitrary: x)
  case (Cons b bs)
  have "bit (if 0 \<le> sint b \<and> sint b \<le> 127 then x OR push_bit (unat b) 1 else x) n \<longleftrightarrow>
      bit x n \<or> b = of_nat n"
    using bit_or_one [OF assms] small_i32_iff [OF assms, of b] by auto
  then show ?case by (simp only: feature_bits_loop.simps Cons.IH) auto
qed simp

text \<open>
  \<open>feature_bits_to_le_bytes\<close> writes 16 bytes in which exactly the listed bits below 128
  are set: bit \<open>n\<close> is bit \<open>n mod 8\<close> of byte \<open>n div 8\<close>.
\<close>

theorem feature_bits_to_le_bytes_bit:
  assumes "n < 128"
  shows "length (feature_bits_to_le_bytes bs) = 16 \<and>
    (bit (feature_bits_to_le_bytes bs ! (n div 8)) (n mod 8) \<longleftrightarrow> of_nat n \<in> set bs)"
proof -
  have "n div 8 < 16" using assms by simp
  moreover have "8 * (n div 8) + n mod 8 = n" by simp
  ultimately show ?thesis
    using feature_bits_loop_bit [OF assms, of bs 0]
    by (simp add: feature_bits_to_le_bytes_def to_le_bytes_u128_def bit_unsigned_iff bit_drop_bit_eq)
qed

theorem feature_bits_to_le_bytes_bit_witness:
  "bit (feature_bits_to_le_bytes [39, 200, -1] ! 4) 7 \<and> \<not> bit (feature_bits_to_le_bytes [39, 200, -1] ! 4) 6"
  using feature_bits_to_le_bytes_bit [of 39 "[39, 200, -1]"]
    feature_bits_to_le_bytes_bit [of 38 "[39, 200, -1]"] by simp

lemma last_bitcoin_network_filter:
  "last_bitcoin_network cs acc =
     (case filter (\<lambda>c. chain_name c = ''bitcoin'') cs of
        [] \<Rightarrow> acc | bs \<Rightarrow> Some (chain_network (last bs)))"
  by (induction cs arbitrary: acc) (auto split: list.split)

text \<open>
  The network LNDK runs on is that of the last chain LND names \<open>bitcoin\<close>; without such a
  chain the start fails with \<open>NetworkNotConnected\<close>. A name stands for its network in any
  mixture of upper and lower case, and no other name is accepted.
\<close>

theorem get_network_last_bitcoin_chain:
  "get_network info =
     (case filter (\<lambda>c. chain_name c = ''bitcoin'') (gi_chains info) of
        [] \<Rightarrow> Err NetworkNotConnected
      | bs \<Rightarrow> (case map_of [(''mainnet'', Bitcoin), (''testnet'', Testnet), (''signet'', Signet),
                  (''regtest'', Regtest)] (to_lowercase (chain_network (last bs))) of
            Some n \<Rightarrow> Ok n
          | None \<Rightarrow> Err (NetworkParseError (NetworkInvalid (to_lowercase (chain_network (last bs)))))))"
  by (simp add: get_network_def last_bitcoin_network_filter string_to_network_def Let_def
      split: list.split)

lemma parse_blinded_hops_ok_iff:
  "is_ok (parse_blinded_hops K hops) \<longleftrightarrow>
     (\<forall>h\<in>set hops. pk_from_slice K (lbh_blinded_node h) \<noteq> None)"
proof -
  have "is_ok (parse_blinded_hop K h) \<longleftrightarrow> pk_from_slice K (lbh_blinded_node h) \<noteq> None" for h
    by (cases "pk_from_slice K (lbh_blinded_node h)") (auto simp: parse_blinded_hop_def)
  then show ?thesis by (simp add: parse_blinded_hops_def map_res_is_ok_iff)
qed

lemma map_res_panic_or_ok:
  "(\<And>x. is_ok (f x) \<or> is_panic (f x)) \<Longrightarrow> is_ok (map_res f xs) \<or> is_panic (map_res f xs)"
proof (induction xs)
  case (Cons x xs)
  from Cons.prems [of x] Cons.IH [OF Cons.prems] show ?case
    by (cases "f x"; cases "map_res f xs") auto
qed simp

lemma parse_blinded_hops_panic_or_ok:
  "is_ok (parse_blinded_hops K hops) \<or> is_panic (parse_blinded_hops K hops)"
  unfolding parse_blinded_hops_def
proof (rule map_res_panic_or_ok)
  fix h show "is_ok (parse_blinded_hop K h) \<or> is_panic (parse_blinded_hop K h)"
    by (cases "pk_from_slice K (lbh_blinded_node h)") (auto simp: parse_blinded_hop_def)
qed

definition lnd_path_wf :: "secp \<Rightarrow> lnrpc_blinded_payment_path \<Rightarrow> bool" where
  "lnd_path_wf K bp = (case lpp_blinded_path bp of
     None \<Rightarrow> False
   | Some path \<Rightarrow> pk_from_slice K (lbp_introduction_node path) \<noteq> None \<and>
       pk_from_slice K (lbp_blinding_point path) \<noteq> None \<and>
       (\<forall>h\<in>set (lbp_blinded_hops path). pk_from_slice K (lbh_blinded_node h) \<noteq> None))"

lemma parse_blinded_path_outcome:
  "(is_ok (parse_blinded_path K bp) \<longleftrightarrow> lnd_path_wf K bp) \<and>
   (is_panic (parse_blinded_path K bp) \<longleftrightarrow> \<not> lnd_path_wf K bp)"
proof (cases "lpp_blinded_path bp")
  case (Some path)
  show ?thesis
    using Some parse_blinded_hops_ok_iff [of K "lbp_blinded_hops path"]
      parse_blinded_hops_panic_or_ok [of K "lbp_blinded_hops path"]
    by (cases "pk_from_slice K (lbp_introduction_node path)";
        cases "pk_from_slice K (lbp_blinding_point path)";
        cases "parse_blinded_hops K (lbp_blinded_hops path)")
      (auto simp: parse_blinded_path_def lnd_path_wf_def)
qed (simp add: parse_blinded_path_def lnd_path_wf_def)

text \<open>
  Parsing the blinded paths LND returns has no error outcome: it succeeds when every path
  is present and all its keys are keys, and aborts the task otherwise.
\<close>

theorem parse_blinded_paths_total:
  "if \<forall>bp\<in>set bps. lnd_path_wf K bp then is_ok (parse_blinded_paths K bps)
   else is_panic (parse_blinded_paths K bps)"
proof -
  have "is_ok (parse_blinded_paths K bps) \<longleftrightarrow> (\<forall>bp\<in>set bps. lnd_path_wf K bp)"
    by (simp add: parse_blinded_paths_def map_res_is_ok_iff parse_blinded_path_outcome)
  moreover have "is_ok (parse_blinded_paths K bps) \<or> is_panic (parse_blinded_paths K bps)"
    unfolding parse_blinded_paths_def
    by (rule map_res_panic_or_ok) (use parse_blinded_path_outcome in blast)
  ultimately show ?thesis by auto
qed

theorem parse_blinded_paths_total_witness:
  "let bp = \<lparr>lpp_blinded_path = None, lpp_base_fee_msat = 0, lpp_proportional_fee_rate = 0,
       lpp_total_cltv_delta = 0, lpp_htlc_min_msat = 0, lpp_htlc_max_msat = 0, lpp_features = []\<rparr>
   in is_panic (parse_blinded_paths sample_secp [bp]) \<and> is_ok (parse_blinded_paths sample_secp [])"
  using parse_blinded_paths_total [of "[\<lparr>lpp_blinded_path = None, lpp_base_fee_msat = 0,
      lpp_proportional_fee_rate = 0, lpp_total_cltv_delta = 0, lpp_htlc_min_msat = 0,
      lpp_htlc_max_msat = 0, lpp_features = []\<rparr>]" sample_secp]
    parse_blinded_paths_total [of "[]" sample_secp]
  by (simp add: lnd_path_wf_def)

end
