(* ===== verification/Client_Impls.thy ===== *)
theory Client_Impls
  imports Lnd
begin

text \<open>
  \<open>src/offers/client_impls.rs\<close>: the traits of \<open>src/lnd.rs\<close> for the gRPC client of LND, each
  operation making its request and unwrapping the response; and the two lookups of
  \<open>src/offers/lnd_requests.rs\<close> that turn a short channel id into a node, on which they rely.
\<close>

section \<open>Channel lookups\<close>

definition get_node_id_from_scid ::
  "'w client \<Rightarrow> u64 \<Rightarrow> direction \<Rightarrow> ('w, offer_error, string) io" where
  "get_node_id_from_scid c scid dir =
     io_bind (io_map_err (\<lambda>e. GetChannelInfo (st_message e))
       (rpc (lc_get_chan_info c \<lparr>cir_chan_id = scid, cir_chan_point = ''''\<rparr>))) (\<lambda>channel_info.
     case dir of
       NodeOne \<Rightarrow> io_return (edge_node1_pub channel_info)
     | NodeTwo \<Rightarrow> io_return (edge_node2_pub channel_info))"

definition get_node_id ::
  "secp \<Rightarrow> 'w client \<Rightarrow> u64 \<Rightarrow> direction \<Rightarrow> ('w, offer_error, public_key) io" where
  "get_node_id K c scid dir =
     io_bind (get_node_id_from_scid c scid dir) (\<lambda>pubkey.
     io_lift (ok_or IntroductionNodeNotFound (pk_from_slice K (as_bytes pubkey))))"

section \<open>\<open>PeerConnector\<close> and \<open>OfferCreator\<close> for the lightning client\<close>

definition lightning_list_peers :: "'w client \<Rightarrow> ('w, status, lnrpc_peer list) io" where
  "lightning_list_peers c = rpc (lc_list_peers c False)"

definition lightning_connect_peer :: "'w client \<Rightarrow> string \<Rightarrow> string \<Rightarrow> ('w, status, unit) io" where
  "lightning_connect_peer c node_id addr =
     rpc (lc_connect_peer c \<lparr>cpr_addr = Some (node_id, addr), cpr_timeout = 20\<rparr>)"

definition lightning_get_node_info :: "'w client \<Rightarrow> string \<Rightarrow> bool \<Rightarrow> ('w, status, node_info) io" where
  "lightning_get_node_info c pub_key include_channels =
     rpc (lc_get_node_info c (pub_key, include_channels))"

definition lightning_list_active_public_channels ::
  "'w client \<Rightarrow> ('w, status, lnrpc_channel list) io" where
  "lightning_list_active_public_channels c =
     rpc (lc_list_channels c \<lparr>lcr_active_only = True, lcr_inactive_only = False,
       lcr_public_only = True, lcr_private_only = False\<rparr>)"

definition lightning_connector :: "'w client \<Rightarrow> 'w peer_connector" where
  "lightning_connector c =
     \<lparr>pc_list_peers = lightning_list_peers c,
      pc_connect_peer = lightning_connect_peer c,
      pc_get_node_info = lightning_get_node_info c,
      pc_list_active_public_channels = lightning_list_active_public_channels c\<rparr>"

definition lightning_offer_creator :: "'w client \<Rightarrow> 'w offer_creator" where
  "lightning_offer_creator c = \<lparr>oc_get_info = rpc (lc_get_info c)\<rparr>"

section \<open>\<open>MessageSigner\<close>\<close>

definition client_sign_message ::
  "'w client \<Rightarrow> u8 list \<Rightarrow> key_locator \<Rightarrow> bool \<Rightarrow> bool \<Rightarrow> ('w, unit, u8 list) io" where
  "client_sign_message c msg key_loc double_hash schnorr_sig =
     io_expect ''Failed to sign message''
       (rpc (lc_sign_message c \<lparr>sm_msg = msg, sm_key_loc = Some key_loc,
         sm_double_hash = double_hash, sm_schnorr_sig = schnorr_sig\<rparr>))"

definition client_signer :: "'w client \<Rightarrow> 'w message_signer" where
  "client_signer c = \<lparr>ms_sign_message = client_sign_message c\<rparr>"

section \<open>\<open>InvoicePayer\<close>\<close>

definition hop_to_lnrpc :: "secp \<Rightarrow> blinded_hop \<Rightarrow> lnrpc_blinded_hop" where
  "hop_to_lnrpc K hop =
     \<lparr>lbh_blinded_node = pk_serialize K (bh_node_id hop), lbh_encrypted_data = bh_encrypted_payload hop\<rparr>"

definition payment_path_to_lnrpc ::
  "secp \<Rightarrow> public_key \<Rightarrow> blinded_payment_path \<Rightarrow> u16 \<Rightarrow> u32 \<Rightarrow> u32 \<Rightarrow> lnrpc_blinded_payment_path" where
  "payment_path_to_lnrpc K intro path cltv_expiry_delta fee_base_msat fee_ppm =
     \<lparr>lpp_blinded_path = Some
        \<lparr>lbp_introduction_node = pk_serialize K intro,
         lbp_blinding_point = pk_serialize K (bpp_blinding_point path),
         lbp_blinded_hops = map (hop_to_lnrpc K) (bpp_hops path)\<rparr>,
      lpp_base_fee_msat = ucast fee_base_msat,
      lpp_proportional_fee_rate = fee_ppm,
      lpp_total_cltv_delta = ucast cltv_expiry_delta + 120,
      lpp_htlc_min_msat = 0,
      lpp_htlc_max_msat = 0,
      lpp_features = []\<rparr>"

definition client_query_routes ::
  "secp \<Rightarrow> 'w client \<Rightarrow> blinded_payment_path \<Rightarrow> u16 \<Rightarrow> u32 \<Rightarrow> u32 \<Rightarrow> u64 \<Rightarrow> fee_limit option \<Rightarrow>
   ('w, status, lnrpc_route list) io" where
  "client_query_routes K c path cltv_expiry_delta fee_base_msat fee_ppm msats fl =
     io_bind (case bpp_introduction_node path of
         NodeId pubkey \<Rightarrow> io_return pubkey
       | DirectedShortChannelId dir scid \<Rightarrow>
           io_map_err (\<lambda>e. Status_new CodeUnknown ''Could not get node id.'') (get_node_id K c scid dir))
       (\<lambda>introduction_node.
     rpc (lc_query_routes c
       \<lparr>qr_amt_msat = ucast msats,
        qr_blinded_payment_paths =
          [payment_path_to_lnrpc K introduction_node path cltv_expiry_delta fee_base_msat fee_ppm],
        qr_fee_limit = fl\<rparr>))"

definition client_send_to_route ::
  "'w client \<Rightarrow> u8 list \<Rightarrow> lnrpc_route \<Rightarrow> ('w, status, htlc_attempt) io" where
  "client_send_to_route c payment_hash route = rpc (lc_send_to_route_v2 c (payment_hash, route))"

fun track_payment_loop :: "(status + lnrpc_payment) list \<Rightarrow> (offer_error, lnrpc_payment) res" where
  "track_payment_loop [] = Err PaymentFailure"
| "track_payment_loop (Inl e # stream) = Err (TrackFailure (st_message e))"
| "track_payment_loop (Inr payment # stream) =
     (if pay_status payment = StatusSucceeded then Ok payment
      else if pay_status payment = StatusFailed then Err PaymentFailure
      else track_payment_loop stream)"

definition client_track_payment :: "'w client \<Rightarrow> u8 list \<Rightarrow> ('w, offer_error, lnrpc_payment) io" where
  "client_track_payment c payment_hash =
     io_bind (io_map_err (\<lambda>e. TrackFailure (st_message e))
       (rpc (lc_track_payment_v2 c (payment_hash, True)))) (\<lambda>stream.
     io_lift (track_payment_loop stream))"

definition client_payer :: "secp \<Rightarrow> 'w client \<Rightarrow> 'w invoice_payer" where
  "client_payer K c =
     \<lparr>ip_query_routes = client_query_routes K c,
      ip_send_to_route = client_send_to_route c,
      ip_track_payment = client_track_payment c\<rparr>"

section \<open>\<open>Bolt12InvoiceCreator\<close>\<close>

definition client_add_invoice :: "'w client \<Rightarrow> invoice_request \<Rightarrow> ('w, status, string) io" where
  "client_add_invoice c invoice_request =
     (let amount = (case ir_amount invoice_request of
            Some (AmountBitcoin amount_msats) \<Rightarrow> ucast amount_msats
          | _ \<Rightarrow> 0);
          description = (case ir_description invoice_request of
            Some description \<Rightarrow> description
          | None \<Rightarrow> '''')
      in rpc (lc_add_invoice c \<lparr>li_memo = description, li_value_msat = amount,
           li_expiry = 60 * 60 * 24, li_is_blinded = True\<rparr>))"

definition client_decode_payment_request :: "'w client \<Rightarrow> string \<Rightarrow> ('w, status, pay_req) io" where
  "client_decode_payment_request c payment_request = rpc (lc_decode_pay_req c payment_request)"

definition client_invoice_creator :: "'w client \<Rightarrow> 'w bolt12_invoice_creator" where
  "client_invoice_creator c =
     \<lparr>bic_add_invoice = client_add_invoice c,
      bic_decode_payment_request = client_decode_payment_request c\<rparr>"

section \<open>The contract of a connector\<close>

text \<open>What the callers of a \<open>PeerConnector\<close> rely on: each of its calls returns a \<open>Result\<close>.\<close>

locale total_connector =
  fixes C :: "'w peer_connector"
  assumes list_peers_total: "no_panic (pc_list_peers C)"
    and connect_peer_total: "no_panic (pc_connect_peer C node addr)"
    and get_node_info_total: "no_panic (pc_get_node_info C node chans)"
    and list_channels_total: "no_panic (pc_list_active_public_channels C)"

interpretation lightning: total_connector "lightning_connector c" for c
  by unfold_locales
    (simp_all add: lightning_connector_def lightning_list_peers_def lightning_connect_peer_def
      lightning_get_node_info_def lightning_list_active_public_channels_def)

text \<open>The same for an \<open>InvoicePayer\<close>.\<close>

locale total_payer =
  fixes P :: "'w invoice_payer"
  assumes query_routes_total: "no_panic (ip_query_routes P path cltv base ppm msats fl)"
    and send_to_route_total: "no_panic (ip_send_to_route P hash route)"
    and track_payment_total: "no_panic (ip_track_payment P hash)"

lemma get_node_id_from_scid_total [simp]: "no_panic (get_node_id_from_scid c scid dir)"
  by (cases dir) (simp_all add: get_node_id_from_scid_def no_panic_bind)


lemma get_node_id_total [simp]: "no_panic (get_node_id K c scid dir)"
  by (simp add: get_node_id_def no_panic_bind)

lemma track_payment_loop_total [simp]: "\<not> is_panic (track_payment_loop stream)"
  by (induction stream rule: track_payment_loop.induct) auto

interpretation lnd_payer: total_payer "client_payer K c" for K c
proof
  fix path cltv base ppm msats fl hash route
  show "no_panic (ip_query_routes (client_payer K c) path cltv base ppm msats fl)"
    by (auto simp: client_payer_def client_query_routes_def split: introduction_node.split
        intro!: no_panic_bind)
  show "no_panic (ip_send_to_route (client_payer K c) hash route)"
    by (simp add: client_payer_def client_send_to_route_def)
  show "no_panic (ip_track_payment (client_payer K c) hash)"
    by (auto simp: client_payer_def client_track_payment_def intro!: no_panic_bind)
qed

section \<open>Properties\<close>

lemma parse_hop_to_lnrpc:
  "secp_documented K \<Longrightarrow> parse_blinded_hops K (map (hop_to_lnrpc K) hops) = Ok hops"
  using map_res_map_Ok [of hops "parse_blinded_hop K" "hop_to_lnrpc K" "\<lambda>h. h"]
  by (simp add: parse_blinded_hops_def parse_blinded_hop_def hop_to_lnrpc_def secp_documented_def)

text \<open>
  A blinded path survives the way to LND and back: the path \<open>query_routes\<close> sends to LND
  parses to one with the same hops, blinding point and fees, and the introduction node that
  was looked up; only the delta carries the 120 blocks added for LND (modulo the 16 bits of
  the field), and the amount limits and features of the path are not sent.
\<close>

theorem payment_path_roundtrip:
  assumes "secp_documented K"
  shows "parse_blinded_path K (payment_path_to_lnrpc K intro path cltv base ppm) =
    Ok \<lparr>bpp_introduction_node = NodeId intro, bpp_blinding_point = bpp_blinding_point path,
        bpp_hops = bpp_hops path,
        bpp_payinfo = \<lparr>pi_fee_base_msat = base, pi_fee_proportional_millionths = ppm,
          pi_cltv_expiry_delta = cltv + 120, pi_htlc_minimum_msat = 0, pi_htlc_maximum_msat = 0,
          pi_features = replicate 16 0\<rparr>\<rparr>"
proof -
  have "ucast (ucast cltv + 120 :: u32) = cltv + (120 :: u16)"
    by transfer (simp add: take_bit_eq_mod mod_add_left_eq)
  moreover have "ucast (ucast base :: u64) = (base :: u32)"
    by transfer simp
  moreover have "feature_bits_to_le_bytes [] = replicate 16 0"
    by (simp add: feature_bits_to_le_bytes_def to_le_bytes_u128_def numeral_eq_Suc)
  ultimately show ?thesis
    using assms parse_hop_to_lnrpc [OF assms]
    by (simp add: parse_blinded_path_def payment_path_to_lnrpc_def secp_documented_def)
qed

theorem payment_path_roundtrip_witness:
  "is_ok (parse_blinded_path sample_secp (payment_path_to_lnrpc sample_secp (PublicKey 5)
     \<lparr>bpp_introduction_node = NodeId (PublicKey 5), bpp_blinding_point = PublicKey 6,
      bpp_hops = [\<lparr>bh_node_id = PublicKey 7, bh_encrypted_payload = [1, 2]\<rparr>],
      bpp_payinfo = \<lparr>pi_fee_base_msat = 1000, pi_fee_proportional_millionths = 1,
        pi_cltv_expiry_delta = 40, pi_htlc_minimum_msat = 1, pi_htlc_maximum_msat = 2,
        pi_features = []\<rparr>\<rparr> 40 1000 1))"
  by (simp only: payment_path_roundtrip [OF sample_secp_documented] is_ok.simps)

lemma track_payment_loop_Ok_iff:
  "track_payment_loop stream = Ok p \<longleftrightarrow>
     (\<exists>pre post. stream = map Inr pre @ Inr p # post \<and> pay_status p = StatusSucceeded \<and>
        (\<forall>q\<in>set pre. pay_status q \<noteq> StatusSucceeded \<and> pay_status q \<noteq> StatusFailed))"
  (is "?l stream \<longleftrightarrow> ?r stream")
proof
  show "?l stream \<Longrightarrow> ?r stream"
  proof (induction stream rule: track_payment_loop.induct)
    case (3 payment stream)
    show ?case
    proof (cases "pay_status payment = StatusSucceeded \<or> pay_status payment = StatusFailed")
      case True
      with 3 have "payment = p" "pay_status p = StatusSucceeded" by (auto split: if_splits)
      then show ?thesis by (intro exI [of _ "[]"] exI [of _ stream]) simp
    next
      case False
      with 3 obtain pre post where "stream = map Inr pre @ Inr p # post"
        "pay_status p = StatusSucceeded"
        "\<forall>q\<in>set pre. pay_status q \<noteq> StatusSucceeded \<and> pay_status q \<noteq> StatusFailed" by auto
      with False show ?thesis by (intro exI [of _ "payment # pre"]) auto
    qed
  qed auto
next
  assume "?r stream"
  then obtain pre post where "stream = map Inr pre @ Inr p # post"
    "pay_status p = StatusSucceeded"
    "\<forall>q\<in>set pre. pay_status q \<noteq> StatusSucceeded \<and> pay_status q \<noteq> StatusFailed" by blast
  then show "?l stream" by (induction pre arbitrary: stream) auto
qed

text \<open>
  C33. Tracking a payment: it is reported as paid exactly when LND accepts the request and its
  stream delivers a success before any failure and before it breaks or closes.
\<close>

theorem track_payment_reports_success:
  "fst (client_track_payment c h w) = Ok p \<longleftrightarrow>
     (\<exists>pre post. \<exists>w'. lc_track_payment_v2 c (h, True) w = (Inr (map Inr pre @ Inr p # post), w') \<and>
        pay_status p = StatusSucceeded \<and>
        (\<forall>q\<in>set pre. pay_status q \<noteq> StatusSucceeded \<and> pay_status q \<noteq> StatusFailed))"
proof (cases "lc_track_payment_v2 c (h, True) w")
  case (Pair r w')
  then show ?thesis
    by (cases r) (auto simp: client_track_payment_def io_simps track_payment_loop_Ok_iff)
qed

text \<open>A client for witnesses: every call fails, except those a witness overrides.\<close>

definition unavailable :: "('w, status, 'a) stub" where
  "unavailable w = (Inl (Status_new CodeUnavailable ''unavailable''), w)"

definition offline_client :: "'w client" where
  "offline_client =
     \<lparr>lc_list_peers = (\<lambda>_. unavailable), lc_connect_peer = (\<lambda>_. unavailable),
      lc_get_node_info = (\<lambda>_. unavailable), lc_list_channels = (\<lambda>_. unavailable),
      lc_get_info = unavailable, lc_get_chan_info = (\<lambda>_. unavailable),
      lc_get_version = unavailable, lc_sign_message = (\<lambda>_. unavailable),
      lc_derive_shared_key = (\<lambda>_. unavailable), lc_query_routes = (\<lambda>_. unavailable),
      lc_send_to_route_v2 = (\<lambda>_. unavailable), lc_track_payment_v2 = (\<lambda>_. unavailable),
      lc_add_invoice = (\<lambda>_. unavailable), lc_decode_pay_req = (\<lambda>_. unavailable),
      lc_send_custom_message = (\<lambda>_. unavailable)\<rparr>"

theorem track_payment_reports_success_witness:
  "\<exists>p. fst (client_track_payment (offline_client\<lparr>lc_track_payment_v2 := (\<lambda>_ w.
     (Inr [Inr \<lparr>pay_status = StatusInFlight, pay_preimage = ''''\<rparr>,
           Inr \<lparr>pay_status = StatusSucceeded, pay_preimage = ''00''\<rparr>], w))\<rparr>) [] (0 :: nat)) = Ok p"
  by (rule exI [of _ "\<lparr>pay_status = StatusSucceeded, pay_preimage = ''00''\<rparr>"],
      subst track_payment_reports_success,
      rule exI [of _ "[\<lparr>pay_status = StatusInFlight, pay_preimage = ''''\<rparr>]"],
      rule exI [of _ "[]"], rule exI [of _ 0]) simp

text \<open>
  Looking up a node by short channel id never succeeds: \<open>get_node_id\<close> hands the
  66 hexadecimal digits LND returns to \<open>from_slice\<close>, which takes 33 or 65 raw bytes, so every
  introduction node given by a channel ends in an error.
\<close>

theorem get_node_id_never_succeeds:
  assumes "secp_documented K"
    and "\<And>r w e w'. lc_get_chan_info c r w = (Inr e, w') \<Longrightarrow>
      \<exists>a b. edge_node1_pub e = pk_to_string K a \<and> edge_node2_pub e = pk_to_string K b"
  shows "\<exists>e. fst (get_node_id K c scid dir w) = Err e"
proof (cases "lc_get_chan_info c \<lparr>cir_chan_id = scid, cir_chan_point = ''''\<rparr> w")
  case (Pair r w')
  show ?thesis
  proof (cases r)
    case (Inr e)
    with Pair assms(2) obtain a b where
      "edge_node1_pub e = pk_to_string K a" "edge_node2_pub e = pk_to_string K b" by blast
    moreover have "pk_from_slice K (as_bytes (pk_to_string K k)) = None" for k
      using assms(1) by (simp add: secp_documented_def)
    ultimately show ?thesis
      using Pair Inr
      by (cases dir) (simp_all add: get_node_id_def get_node_id_from_scid_def io_simps)
  qed (use Pair in \<open>simp add: get_node_id_def get_node_id_from_scid_def io_simps\<close>)
qed

theorem get_node_id_never_succeeds_witness:
  "\<exists>e. fst (get_node_id sample_secp (offline_client\<lparr>lc_get_chan_info := (\<lambda>_ w.
     (Inr \<lparr>edge_channel_id = 1, edge_node1_pub = pk_to_string sample_secp (PublicKey 5),
        edge_node2_pub = pk_to_string sample_secp (PublicKey 6)\<rparr>, w))\<rparr>) 1 NodeOne (0 :: nat)) = Err e"
  by (rule get_node_id_never_succeeds [OF sample_secp_documented]) auto

end
