(* ===== verification/Lnd_Requests.thy ===== *)
theory Lnd_Requests
  imports Client_Impls Parse "HOL-Library.Countable"
begin

text \<open>
  \<open>src/offers/lnd_requests.rs\<close>: building invoice requests and offers, the reply paths offered
  to the other side, connecting to the node an invoice request goes to, and sending and
  tracking a payment. The operations take the trait implementations of \<open>src/lnd.rs\<close> they are
  generic in as records, and rust-lightning and secp256k1 as parameters.
\<close>

section \<open>Parameters of the operations\<close>

record send_payment_params =
  sp_path :: blinded_payment_path
  sp_cltv_expiry_delta :: u16
  sp_fee_base_msat :: u32
  sp_fee_ppm :: u32
  sp_payment_hash :: "u8 list"
  sp_msats :: u64
  sp_payment_id :: payment_id
  sp_fee_limit :: "fee_limit option"

record create_offer_args =
  co_amount_msats :: "u64 option"
  co_chain :: network
  co_description :: "string option"
  co_issuer :: "string option"
  co_quantity :: "quantity option"
  co_expiry :: "duration option"

record bolt12_invoice_info =
  bi_payment_hash :: payment_hash
  bi_payment_paths :: "blinded_payment_path list"

section \<open>Invoice requests\<close>

definition create_invoice_request ::
  "'w ldk \<Rightarrow> offer \<Rightarrow> network \<Rightarrow> expanded_key \<Rightarrow> u64 option \<Rightarrow> string option \<Rightarrow>
   ('w, offer_error, invoice_request \<times> payment_id \<times> u64 \<times> offers_context) io" where
  "create_invoice_request L o' net key msats payer_note =
     io_bind (io_lift (validate_amount (offer_amount o') msats)) (\<lambda>validated_amount.
     io_bind (run_total (get_secure_random_bytes L)) (\<lambda>bytes.
     let payment_id = PaymentId bytes in
     io_bind (run_total (nonce_from_entropy_source L)) (\<lambda>nonce.
     io_lift (
       res_bind (map_err BuildUIRFailure (res_of_sum (request_invoice L o' key nonce payment_id))) (\<lambda>b.
       res_bind (map_err BuildUIRFailure (res_of_sum (irb_chain L b net))) (\<lambda>b.
       res_bind (map_err BuildUIRFailure (res_of_sum (irb_amount_msats L b validated_amount))) (\<lambda>b.
       let b = (case payer_note of Some note \<Rightarrow> irb_payer_note L b note | None \<Rightarrow> b) in
       res_bind (map_err BuildUIRFailure (res_of_sum (irb_build_and_sign L b))) (\<lambda>invoice_request.
       let hmac = hmac_for_offer_payment L payment_id nonce key;
           offer_context = CtxOutboundPayment payment_id nonce (Some hmac)
       in Ok (invoice_request, payment_id, validated_amount, offer_context)))))))))"

section \<open>Sending and tracking a payment\<close>

definition send_payment :: "'w invoice_payer \<Rightarrow> send_payment_params \<Rightarrow> ('w, offer_error, unit) io" where
  "send_payment P params =
     io_bind (io_map_err (\<lambda>e. RouteFailure (st_message e))
       (ip_query_routes P (sp_path params) (sp_cltv_expiry_delta params) (sp_fee_base_msat params)
         (sp_fee_ppm params) (sp_msats params) (sp_fee_limit params))) (\<lambda>routes.
     io_bind (io_lift (case routes of r # _ \<Rightarrow> Ok r | [] \<Rightarrow> Panic ''index out of bounds'')) (\<lambda>route.
     io_bind (io_map_err (\<lambda>e. RouteFailure (st_message e))
       (ip_send_to_route P (sp_payment_hash params) route)) (\<lambda>resp.
     io_return ())))"

definition track_payment :: "'w invoice_payer \<Rightarrow> u8 list \<Rightarrow> ('w, offer_error, lnrpc_payment) io" where
  "track_payment P payment_hash = io_map_err (\<lambda>_. PaymentFailure) (ip_track_payment P payment_hash)"

section \<open>Reply paths\<close>

fun intro_channels_loop ::
  "secp \<Rightarrow> 'w peer_connector \<Rightarrow> lnrpc_channel list \<Rightarrow> public_key list \<Rightarrow>
   ('w, offer_error, public_key list) io" where
  "intro_channels_loop K C [] intro_channels = io_return intro_channels"
| "intro_channels_loop K C (channel # cs) intro_channels =
     (if length intro_channels > 3 then io_return intro_channels
      else io_match (pc_get_node_info C (chan_remote_pubkey channel) True)
        (\<lambda>node_info. case ni_node node_info of
           Some node \<Rightarrow>
             if ni_channels node_info = [] then intro_channels_loop K C cs intro_channels
             else
               let onion_support = features_support_onion_messages (ln_features node);
                   other_channels = filter (\<lambda>e. edge_channel_id e \<noteq> chan_id channel) (ni_channels node_info)
               in if other_channels \<noteq> [] \<and> onion_support
                  then io_bind (io_lift (unwrap (pk_from_str K (chan_remote_pubkey channel)))) (\<lambda>pubkey.
                       intro_channels_loop K C cs (List.insert pubkey intro_channels))
                  else intro_channels_loop K C cs intro_channels
         | None \<Rightarrow> intro_channels_loop K C cs intro_channels)
        (\<lambda>_. intro_channels_loop K C cs intro_channels))"

fun paths_loop ::
  "'w ldk \<Rightarrow> public_key \<Rightarrow> message_context \<Rightarrow> public_key list \<Rightarrow>
   ('w, offer_error, blinded_message_path list) io" where
  "paths_loop L node_id ctx [] = io_return []"
| "paths_loop L node_id ctx (node # nodes) =
     io_bind (run_total (path_new L [\<lparr>fwd_node_id = node, fwd_short_channel_id = None\<rparr>] node_id ctx)) (\<lambda>p.
     io_bind (io_lift (ok_or BuildBlindedPathFailure p)) (\<lambda>path.
     io_bind (paths_loop L node_id ctx nodes) (\<lambda>paths.
     io_return (path # paths))))"

definition create_reply_path_for_offer_creation ::
  "secp \<Rightarrow> 'w ldk \<Rightarrow> 'w peer_connector \<Rightarrow> public_key \<Rightarrow> message_context \<Rightarrow>
   ('w, offer_error, blinded_message_path list) io" where
  "create_reply_path_for_offer_creation K L C node_id ctx =
     io_bind (io_map_err (\<lambda>e. ListChannelsFailure (st_message e)) (pc_list_active_public_channels C))
       (\<lambda>current_channels.
     io_bind (intro_channels_loop K C current_channels []) (\<lambda>intro_channels.
     if intro_channels = [] then
       io_bind (run_total (path_one_hop L node_id ctx)) (\<lambda>p.
       io_bind (io_lift (ok_or BuildBlindedPathFailure p)) (\<lambda>path.
       io_return [path]))
     else paths_loop L node_id ctx intro_channels))"

fun intro_node_loop ::
  "secp \<Rightarrow> 'w peer_connector \<Rightarrow> lnrpc_peer list \<Rightarrow> ('w, offer_error, public_key option) io" where
  "intro_node_loop K C [] = io_return None"
| "intro_node_loop K C (peer # ps) =
     io_bind (io_lift (unwrap (pk_from_str K (peer_pub_key peer)))) (\<lambda>pubkey.
     if features_support_onion_messages (peer_features peer) then
       io_match (pc_get_node_info C (peer_pub_key peer) True)
         (\<lambda>node. if ni_channels node = [] then intro_node_loop K C ps else io_return (Some pubkey))
         (\<lambda>_. intro_node_loop K C ps)
     else intro_node_loop K C ps)"

definition create_reply_path_for_outgoing_payments ::
  "secp \<Rightarrow> 'w ldk \<Rightarrow> 'w peer_connector \<Rightarrow> public_key \<Rightarrow> message_context \<Rightarrow>
   ('w, offer_error, blinded_message_path) io" where
  "create_reply_path_for_outgoing_payments K L C node_id ctx =
     io_bind (io_map_err (\<lambda>e. ListPeersFailure (st_message e)) (pc_list_peers C)) (\<lambda>current_peers.
     io_bind (intro_node_loop K C current_peers) (\<lambda>intro_node.
     io_bind (case intro_node of
         None \<Rightarrow> run_total (path_one_hop L node_id ctx)
       | Some n \<Rightarrow> run_total (path_new L [\<lparr>fwd_node_id = n, fwd_short_channel_id = None\<rparr>] node_id ctx)) (\<lambda>p.
     io_lift (ok_or BuildBlindedPathFailure p))))"

section \<open>Offers\<close>

text \<open>The builder after all setters but the expiry.\<close>

definition offer_setters ::
  "'w ldk \<Rightarrow> create_offer_args \<Rightarrow> blinded_message_path list \<Rightarrow> offer_builder \<Rightarrow> offer_builder" where
  "offer_setters L args paths b =
     (let b = ob_chain L b (co_chain args);
          b = (case co_amount_msats args of Some a \<Rightarrow> ob_amount_msats L b a | None \<Rightarrow> b);
          b = (if 0 < length paths then ob_path L b (paths ! 0) else b);
          b = (if 1 < length paths then ob_path L b (paths ! 1) else b);
          b = (if 2 < length paths then ob_path L b (paths ! 2) else b);
          b = (case co_description args of Some d \<Rightarrow> ob_description L b d | None \<Rightarrow> b);
          b = (case co_issuer args of Some i \<Rightarrow> ob_issuer L b i | None \<Rightarrow> b)
      in (case co_quantity args of Some q \<Rightarrow> ob_supported_quantity L b q | None \<Rightarrow> b))"

definition create_offer ::
  "secp \<Rightarrow> 'w ldk \<Rightarrow> 'w offer_creator \<Rightarrow> 'w peer_connector \<Rightarrow> create_offer_args \<Rightarrow> expanded_key \<Rightarrow>
   ('w, offer_error, offer) io" where
  "create_offer K L O' C args key =
     io_bind (io_map_err (\<lambda>_. NodeAddressNotFound) (oc_get_info O')) (\<lambda>info.
     io_bind (io_lift (ok_or NodeAddressNotFound (pk_from_str K (gi_identity_pubkey info)))) (\<lambda>node_id.
     io_bind (run_total (nonce_from_entropy_source L)) (\<lambda>nonce.
     io_bind (create_reply_path_for_offer_creation K L C node_id (OffersCtx (CtxInvoiceRequest nonce)))
       (\<lambda>paths.
     let b = offer_setters L args paths (ob_deriving_signing_pubkey L node_id key nonce)
     in
     io_bind (case co_expiry args of
         Some expiry \<Rightarrow>
           io_bind (run_total (system_time_now L)) (\<lambda>now.
           let expiry = now + int expiry in
           if SYSTEM_TIME_END \<le> expiry then io_lift (Panic ''overflow when adding duration to instant'')
           else if expiry < 0 then io_err CreateOfferTimeFailure
           else io_return (ob_absolute_expiry L b (nat expiry)))
       | None \<Rightarrow> io_return b) (\<lambda>b.
     io_lift (map_err CreateOfferFailure (res_of_sum (ob_build L b))))))))"

definition create_invoice_info_from_request ::
  "secp \<Rightarrow> 'w ldk \<Rightarrow> 'w bolt12_invoice_creator \<Rightarrow> invoice_request \<Rightarrow>
   ('w, offer_error, bolt12_invoice_info) io" where
  "create_invoice_info_from_request K L B invoice_request =
     io_bind (io_map_err (\<lambda>e. AddInvoiceFailure (st_message e)) (bic_add_invoice B invoice_request))
       (\<lambda>payment_request.
     io_bind (io_map_err (\<lambda>e. DecodePaymentRequestFailure (st_message e))
       (bic_decode_payment_request B payment_request)) (\<lambda>payreq.
     io_bind (io_lift (map_err ParsePaymentHashFailure
       (res_of_sum (sha256_from_str L (pr_payment_hash payreq))))) (\<lambda>payment_hash.
     io_bind (io_lift (parse_blinded_paths K (pr_blinded_paths payreq))) (\<lambda>payment_paths.
     io_return \<lparr>bi_payment_hash = PaymentHash payment_hash, bi_payment_paths = payment_paths\<rparr>))))"

section \<open>Connecting to a peer\<close>

definition connect_to_peer :: "secp \<Rightarrow> 'w peer_connector \<Rightarrow> public_key \<Rightarrow> ('w, offer_error, unit) io" where
  "connect_to_peer K C node_id =
     io_bind (io_map_err (\<lambda>e. PeerConnectError (st_message e)) (pc_list_peers C)) (\<lambda>ps.
     let node_id_str = pk_to_string K node_id in
     if list_ex (\<lambda>peer. peer_pub_key peer = node_id_str) ps then io_return ()
     else
       io_bind (io_map_err (\<lambda>e. PeerConnectError (st_message e)) (pc_get_node_info C node_id_str False))
         (\<lambda>info.
       case ni_node info of
         None \<Rightarrow> io_err NodeAddressNotFound
       | Some node \<Rightarrow>
           if ln_addresses node = [] then io_err NodeAddressNotFound
           else io_map_err (\<lambda>e. PeerConnectError (st_message e))
             (pc_connect_peer C node_id_str (ln_addresses node ! 0))))"

definition INITIAL_DELAY_MS :: u64 where "INITIAL_DELAY_MS = 500"
definition MAX_DELAY_MS :: u64 where "MAX_DELAY_MS = 60000"
definition MAX_ATTEMPTS :: nat where "MAX_ATTEMPTS = 10"

definition retry_delay :: "nat \<Rightarrow> u64" where
  "retry_delay attempts =
     (if attempts > 0 then min (INITIAL_DELAY_MS * 2 ^ (attempts - 1)) MAX_DELAY_MS else 0)"

text \<open>
  \<open>wait d\<close> races the shutdown signal against a delay of \<open>d\<close> milliseconds, the signal first:
  \<open>True\<close> when the signal won.
\<close>

function connect_retry_loop ::
  "(u64 \<Rightarrow> 'w \<Rightarrow> bool \<times> 'w) \<Rightarrow> secp \<Rightarrow> 'w peer_connector \<Rightarrow> public_key \<Rightarrow> nat \<Rightarrow>
   ('w, offer_error, unit) io" where
  "connect_retry_loop wait K C node_id attempts w =
     (case wait (retry_delay attempts) w of
        (True, w') \<Rightarrow> (Ok (), w')
      | (False, w') \<Rightarrow>
          (case connect_to_peer K C node_id w' of
             (Ok _, w'') \<Rightarrow> (Ok (), w'')
           | (Err e, w'') \<Rightarrow>
               if attempts + 1 > MAX_ATTEMPTS then (Err e, w'')
               else connect_retry_loop wait K C node_id (attempts + 1) w''
           | (Panic s, w'') \<Rightarrow> (Panic s, w'')))"
  by pat_completeness auto
termination
  by (relation "measure (\<lambda>(wait, K, C, k, attempts, w). MAX_ATTEMPTS - attempts)") auto

declare connect_retry_loop.simps [simp del]

definition connect_to_peer_with_retry ::
  "(u64 \<Rightarrow> 'w \<Rightarrow> bool \<times> 'w) \<Rightarrow> secp \<Rightarrow> 'w peer_connector \<Rightarrow> public_key \<Rightarrow> ('w, offer_error, unit) io" where
  "connect_to_peer_with_retry wait K C node_id = connect_retry_loop wait K C node_id 0"

section \<open>Sending an invoice request\<close>

definition send_invoice_request ::
  "secp \<Rightarrow> 'w ldk \<Rightarrow> destination \<Rightarrow> 'w client \<Rightarrow> invoice_request \<Rightarrow> offers_context \<Rightarrow>
   ('w, offer_error, offers_message \<times> send_instructions) io" where
  "send_invoice_request K L destination c invoice_request offer_context =
     io_bind (case destination of
         DestNode pubkey \<Rightarrow> connect_to_peer K (lightning_connector c) pubkey
       | DestBlindedPath path \<Rightarrow> (case bmp_introduction_node path of
             NodeId pubkey \<Rightarrow> connect_to_peer K (lightning_connector c) pubkey
           | DirectedShortChannelId dir scid \<Rightarrow>
               io_bind (get_node_id K c scid dir) (\<lambda>pubkey.
               connect_to_peer K (lightning_connector c) pubkey))) (\<lambda>_.
     io_bind (io_expect ''failed to get info'' (rpc (lc_get_info c))) (\<lambda>info.
     io_bind (io_lift (unwrap (pk_from_str K (gi_identity_pubkey info)))) (\<lambda>pubkey.
     io_bind (create_reply_path_for_outgoing_payments K L (lightning_connector c) pubkey
       (OffersCtx offer_context)) (\<lambda>reply_path.
     io_bind (case bmp_introduction_node reply_path of
         NodeId pubkey \<Rightarrow> io_return (pk_to_string K pubkey)
       | DirectedShortChannelId dir scid \<Rightarrow>
           io_bind (get_node_id K c scid dir) (\<lambda>k. io_return (pk_to_string K k))) (\<lambda>reply_path_intro_node_id.
     io_return (MsgInvoiceRequest invoice_request, WithSpecifiedReplyPath destination reply_path))))))"

section \<open>Connecting: proofs\<close>

context total_connector begin

lemma connect_to_peer_total: "no_panic (connect_to_peer K C node_id)"
  unfolding connect_to_peer_def Let_def
  by (intro no_panic_bind)
    (auto simp: list_peers_total get_node_info_total connect_peer_total
      split: option.split intro!: no_panic_bind)

lemma connect_retry_total: "no_panic (connect_retry_loop wait K C node_id a)"
proof
  fix w
  show "\<not> is_panic (fst (connect_retry_loop wait K C node_id a w))"
  proof (induction "MAX_ATTEMPTS - a" arbitrary: a w rule: less_induct)
    case less
    show ?case
    proof (cases "wait (retry_delay a) w")
      case (Pair b w1)
      obtain r w2 where r: "connect_to_peer K C node_id w1 = (r, w2)" by fastforce
      then have "\<not> is_panic r" using connect_to_peer_total by (metis fst_conv no_panic_def)
      with Pair r less [of "a + 1" w2] show ?thesis
        by (subst connect_retry_loop.simps) (auto split: bool.split res.split)
    qed
  qed
qed

end

text \<open>One round of the loop: \<open>None\<close> when the shutdown signal came first.\<close>

definition retry_round ::
  "(u64 \<Rightarrow> 'w \<Rightarrow> bool \<times> 'w) \<Rightarrow> secp \<Rightarrow> 'w peer_connector \<Rightarrow> public_key \<Rightarrow> nat \<Rightarrow> 'w \<Rightarrow>
   (offer_error, unit) res option \<times> 'w" where
  "retry_round wait K C node_id n w =
     (case wait (retry_delay n) w of
        (True, w') \<Rightarrow> (None, w')
      | (False, w') \<Rightarrow> (case connect_to_peer K C node_id w' of (r, w'') \<Rightarrow> (Some r, w'')))"

fun after_rounds ::
  "(u64 \<Rightarrow> 'w \<Rightarrow> bool \<times> 'w) \<Rightarrow> secp \<Rightarrow> 'w peer_connector \<Rightarrow> public_key \<Rightarrow> nat \<Rightarrow> nat \<Rightarrow> 'w \<Rightarrow> 'w" where
  "after_rounds wait K C node_id a 0 w = w"
| "after_rounds wait K C node_id a (Suc n) w =
     after_rounds wait K C node_id (Suc a) n (snd (retry_round wait K C node_id a w))"

definition round_failed :: "(offer_error, unit) res option \<Rightarrow> bool" where
  "round_failed r \<longleftrightarrow> (\<exists>e. r = Some (Err e))"

definition retry_outcome :: "(offer_error, unit) res option \<times> 'w \<Rightarrow> (offer_error, unit) res \<times> 'w" where
  "retry_outcome r = (case r of (None, w) \<Rightarrow> (Ok (), w) | (Some x, w) \<Rightarrow> (x, w))"

lemma connect_retry_unfold:
  "connect_retry_loop wait K C k a w =
     (if round_failed (fst (retry_round wait K C k a w)) \<and> a < MAX_ATTEMPTS
      then connect_retry_loop wait K C k (Suc a) (snd (retry_round wait K C k a w))
      else retry_outcome (retry_round wait K C k a w))"
  by (subst connect_retry_loop.simps)
    (auto simp: retry_round_def round_failed_def retry_outcome_def
      split: prod.split bool.split res.split)

lemma connect_retry_rounds:
  "a \<le> MAX_ATTEMPTS \<Longrightarrow>
   \<exists>n. a + n \<le> MAX_ATTEMPTS \<and>
     connect_retry_loop wait K C k a w =
       retry_outcome (retry_round wait K C k (a + n) (after_rounds wait K C k a n w)) \<and>
     (\<forall>i<n. round_failed (fst (retry_round wait K C k (a + i) (after_rounds wait K C k a i w)))) \<and>
     (round_failed (fst (retry_round wait K C k (a + n) (after_rounds wait K C k a n w))) \<longrightarrow>
        a + n = MAX_ATTEMPTS)"
proof (induction "MAX_ATTEMPTS - a" arbitrary: a w)
  case 0
  then have "a = MAX_ATTEMPTS" by simp
  then show ?case
    using connect_retry_unfold [of wait K C k MAX_ATTEMPTS w] by (intro exI [of _ 0]) simp
next
  case (Suc d)
  let ?w' = "snd (retry_round wait K C k a w)"
  show ?case
  proof (cases "round_failed (fst (retry_round wait K C k a w))")
    case False
    then show ?thesis
      using Suc.prems by (intro exI [of _ 0]) (simp add: connect_retry_unfold [of wait K C k a w])
  next
    case True
    have "d = MAX_ATTEMPTS - Suc a" "Suc a \<le> MAX_ATTEMPTS" using Suc.hyps(2) by auto
    from Suc.hyps(1) [OF this, of ?w'] obtain n where n: "Suc a + n \<le> MAX_ATTEMPTS"
      "connect_retry_loop wait K C k (Suc a) ?w' =
         retry_outcome (retry_round wait K C k (Suc a + n) (after_rounds wait K C k (Suc a) n ?w'))"
      "\<forall>i<n. round_failed (fst (retry_round wait K C k (Suc a + i) (after_rounds wait K C k (Suc a) i ?w')))"
      "round_failed (fst (retry_round wait K C k (Suc a + n) (after_rounds wait K C k (Suc a) n ?w'))) \<longrightarrow>
         Suc a + n = MAX_ATTEMPTS" by blast
    have "\<forall>i<Suc n. round_failed (fst (retry_round wait K C k (a + i) (after_rounds wait K C k a i w)))"
      using n(3) True by (auto simp: less_Suc_eq_0_disj)
    then show ?thesis
      using n True
      by (intro exI [of _ "Suc n"]) (simp add: connect_retry_unfold [of wait K C k a w])
  qed
qed

lemma retry_delay_bounds:
  assumes "0 < n" and "n \<le> MAX_ATTEMPTS"
  shows "unat (retry_delay n) = min (500 * 2 ^ (n - 1)) 60000"
proof -
  have "list_all (\<lambda>n. unat (retry_delay n) = min (500 * 2 ^ (n - 1)) 60000) [1..<11]"
    by (simp add: upt_rec [of 1] upt_rec [of "Suc _"] retry_delay_def INITIAL_DELAY_MS_def MAX_DELAY_MS_def)
  moreover have "n \<in> set [1..<11]" using assms by (simp add: MAX_ATTEMPTS_def)
  ultimately show ?thesis unfolding list_all_iff by blast
qed

text \<open>
  Connecting with retries always returns without aborting: after at most eleven rounds,
  with the outcome of the last one. Every round before it failed, a failure is returned only
  after the eleventh, and the shutdown signal ends the loop with success in any round.
\<close>

theorem connect_with_retry_rounds:
  "\<not> is_panic (fst (connect_to_peer_with_retry wait K (lightning_connector c) k w)) \<and>
   (\<exists>n\<le>10. connect_to_peer_with_retry wait K (lightning_connector c) k w =
        retry_outcome (retry_round wait K (lightning_connector c) k n
          (after_rounds wait K (lightning_connector c) k 0 n w)) \<and>
      (\<forall>i<n. round_failed (fst (retry_round wait K (lightning_connector c) k i
          (after_rounds wait K (lightning_connector c) k 0 i w)))) \<and>
      (round_failed (fst (retry_round wait K (lightning_connector c) k n
          (after_rounds wait K (lightning_connector c) k 0 n w))) \<longrightarrow> n = 10))"
  using connect_retry_rounds [of 0 wait K "lightning_connector c" k w]
    lightning.connect_retry_total [of wait K c k 0]
  by (auto simp: connect_to_peer_with_retry_def no_panic_def MAX_ATTEMPTS_def)

theorem connect_with_retry_rounds_witness:
  "\<exists>n\<le>10. connect_to_peer_with_retry (\<lambda>_ w. (False, w)) sample_secp
      (lightning_connector offline_client) (PublicKey 5) (0 :: nat) =
     retry_outcome (retry_round (\<lambda>_ w. (False, w)) sample_secp (lightning_connector offline_client)
       (PublicKey 5) n (after_rounds (\<lambda>_ w. (False, w)) sample_secp (lightning_connector offline_client)
         (PublicKey 5) 0 n 0))"
  using connect_with_retry_rounds [of "\<lambda>_ w. (False, w)" sample_secp offline_client "PublicKey 5" 0]
  by blast

lemma listed_peer_iff: "list_ex (\<lambda>p. peer_pub_key p = s) ps \<longleftrightarrow> s \<in> peer_pub_key ` set ps"
  by (auto simp: list_ex_iff)

lemma connect_first_address_Ok_iff:
  "(case ni_node info of
      None \<Rightarrow> io_err NodeAddressNotFound
    | Some node \<Rightarrow>
        if ln_addresses node = [] then io_err NodeAddressNotFound
        else io_map_err f (g (ln_addresses node ! 0))) w = (Ok (), w') \<longleftrightarrow>
   (\<exists>node a as. ni_node info = Some node \<and> ln_addresses node = a # as \<and> g a w = (Ok (), w'))"
proof (cases "ni_node info")
  case (Some node)
  then show ?thesis by (cases "ln_addresses node") auto
qed simp

lemma connect_to_peer_Ok_iff:
  "connect_to_peer K C k w = (Ok (), w') \<longleftrightarrow>
     (\<exists>ps w1. pc_list_peers C w = (Ok ps, w1) \<and>
       (if pk_to_string K k \<in> peer_pub_key ` set ps then w' = w1
        else \<exists>info w2. pc_get_node_info C (pk_to_string K k) False w1 = (Ok info, w2) \<and>
          (\<exists>node a as. ni_node info = Some node \<and> ln_addresses node = a # as \<and>
             pc_connect_peer C (pk_to_string K k) a w2 = (Ok (), w'))))"
  by (simp add: connect_to_peer_def io_bind_Ok_iff Let_def connect_first_address_Ok_iff if_distrib
      if_distribR listed_peer_iff cong: if_cong)

text \<open>
  When a connection attempt succeeds: the node is already a peer and nothing more is done,
  or LND knows an address of it and accepted to connect to the first one.
\<close>

theorem connect_to_peer_succeeds_iff:
  "connect_to_peer K (lightning_connector c) k w = (Ok (), w') \<longleftrightarrow>
     (\<exists>ps w1. lc_list_peers c False w = (Inr ps, w1) \<and>
       (if pk_to_string K k \<in> peer_pub_key ` set ps then w' = w1
        else \<exists>info w2. lc_get_node_info c (pk_to_string K k, False) w1 = (Inr info, w2) \<and>
          (\<exists>node a as. ni_node info = Some node \<and> ln_addresses node = a # as \<and>
             lc_connect_peer c \<lparr>cpr_addr = Some (pk_to_string K k, a), cpr_timeout = 20\<rparr> w2 =
               (Inr (), w'))))"
  by (simp add: connect_to_peer_Ok_iff lightning_connector_def lightning_list_peers_def
      lightning_get_node_info_def lightning_connect_peer_def)

section \<open>Reply paths: proofs\<close>

text \<open>
  An eligible introduction node: the far end of a channel whose node, as LND knows it,
  supports onion messages and has a channel other than ours.
\<close>

definition eligible_channel :: "secp \<Rightarrow> 'w peer_connector \<Rightarrow> lnrpc_channel \<Rightarrow> public_key \<Rightarrow> bool" where
  "eligible_channel K C ch n \<longleftrightarrow> pk_from_str K (chan_remote_pubkey ch) = Some n \<and>
     (\<exists>w1 info node w2. pc_get_node_info C (chan_remote_pubkey ch) True w1 = (Ok info, w2) \<and>
        ni_node info = Some node \<and> features_support_onion_messages (ln_features node) \<and>
        (\<exists>e\<in>set (ni_channels info). edge_channel_id e \<noteq> chan_id ch))"

definition eligible_peer :: "secp \<Rightarrow> 'w peer_connector \<Rightarrow> lnrpc_peer \<Rightarrow> public_key \<Rightarrow> bool" where
  "eligible_peer K C peer n \<longleftrightarrow> pk_from_str K (peer_pub_key peer) = Some n \<and>
     features_support_onion_messages (peer_features peer) \<and>
     (\<exists>w1 info w2. pc_get_node_info C (peer_pub_key peer) True w1 = (Ok info, w2) \<and> ni_channels info \<noteq> [])"


lemma intro_channels_loop_step:
  assumes "intro_channels_loop K C (ch # cs) acc w = (Ok ns, w')"
  shows "3 < length acc \<and> ns = acc \<or>
    (\<exists>acc' w1. length acc \<le> 3 \<and> intro_channels_loop K C cs acc' w1 = (Ok ns, w') \<and>
       (acc' = acc \<or> (\<exists>n. acc' = List.insert n acc \<and> eligible_channel K C ch n)))"
proof (cases "3 < length acc")
  case False
  obtain r w1 where g: "pc_get_node_info C (chan_remote_pubkey ch) True w = (r, w1)" by fastforce
  show ?thesis
  proof (cases r)
    case (Ok info)
    show ?thesis
    proof (cases "\<exists>node. ni_node info = Some node \<and> features_support_onion_messages (ln_features node) \<and>
        (\<exists>e\<in>set (ni_channels info). edge_channel_id e \<noteq> chan_id ch)")
      case True
      then have "ni_channels info \<noteq> []" "filter (\<lambda>e. edge_channel_id e \<noteq> chan_id ch) (ni_channels info) \<noteq> []"
        by (auto simp: filter_empty_conv)
      with True g Ok False assms obtain n where n: "pk_from_str K (chan_remote_pubkey ch) = Some n"
        "intro_channels_loop K C cs (List.insert n acc) w1 = (Ok ns, w')"
        by (auto simp: io_match_def io_bind_Ok_iff Let_def)
      have "eligible_channel K C ch n"
        unfolding eligible_channel_def using n(1) g Ok True by blast
      with n(2) False show ?thesis by (metis not_less)
    next
      case none: False
      with g Ok False assms have "intro_channels_loop K C cs acc w1 = (Ok ns, w')"
        by (auto simp: io_match_def Let_def filter_empty_conv split: option.splits if_splits)
      with False show ?thesis by auto
    qed
  qed (use g False assms in \<open>auto simp: io_match_def\<close>)
qed (use assms in simp)

lemma intro_channels_loop_sound:
  "\<lbrakk>intro_channels_loop K C cs acc w = (Ok ns, w'); distinct acc; length acc \<le> 4\<rbrakk> \<Longrightarrow>
   distinct ns \<and> length ns \<le> 4 \<and> (\<forall>n\<in>set ns. n \<in> set acc \<or> (\<exists>ch\<in>set cs. eligible_channel K C ch n))"
proof (induction cs arbitrary: acc w)
  case (Cons ch cs)
  from intro_channels_loop_step [OF Cons.prems(1)] show ?case
  proof
    assume "\<exists>acc' w1. length acc \<le> 3 \<and> intro_channels_loop K C cs acc' w1 = (Ok ns, w') \<and>
       (acc' = acc \<or> (\<exists>n. acc' = List.insert n acc \<and> eligible_channel K C ch n))"
    then obtain acc' w1 where s: "length acc \<le> 3" "intro_channels_loop K C cs acc' w1 = (Ok ns, w')"
      and cases: "acc' = acc \<or> (\<exists>n. acc' = List.insert n acc \<and> eligible_channel K C ch n)" by blast
    have "length acc' \<le> 4" "distinct acc'"
      using cases s(1) Cons.prems(2) by (auto simp: List.insert_def)
    from Cons.IH [OF s(2) this(2,1)] show ?thesis using cases by auto
  qed (use Cons.prems in auto)
qed simp

lemma paths_loop_sound:
  "paths_loop L node_id ctx nodes w = (Ok ps, w') \<Longrightarrow>
   length ps = length nodes \<and>
   (\<forall>p\<in>set ps. \<exists>n\<in>set nodes. \<exists>w1 w2.
      path_new L [\<lparr>fwd_node_id = n, fwd_short_channel_id = None\<rparr>] node_id ctx w1 = (Some p, w2))"
proof (induction nodes arbitrary: ps w)
  case (Cons n nodes)
  then obtain p ps' w1 w2 where "ps = p # ps'"
    "path_new L [\<lparr>fwd_node_id = n, fwd_short_channel_id = None\<rparr>] node_id ctx w = (Some p, w1)"
    "paths_loop L node_id ctx nodes w1 = (Ok ps', w2)"
    "w2 = w'"
    by (auto simp: io_bind_Ok_iff run_total_def split: prod.splits)
  then show ?case using Cons.IH by auto
qed simp

text \<open>
  The paths made for a new offer: there is at least one and there are at most four (of which the offer takes
  three), and unless the only path goes to our own node, each enters at an eligible node, one at the far
  end of an active public channel that supports onion messages and has a channel besides ours.
\<close>

lemma offer_paths_eligible:
  assumes "create_reply_path_for_offer_creation K L C node_id ctx w = (Ok ps, w')"
  shows "1 \<le> length ps \<and> length ps \<le> 4 \<and>
    ((\<exists>p w1. ps = [p] \<and> path_one_hop L node_id ctx w1 = (Some p, w')) \<or>
     (\<exists>cs w1. pc_list_active_public_channels C w = (Ok cs, w1) \<and>
       (\<forall>p\<in>set ps. \<exists>n. \<exists>ch\<in>set cs. eligible_channel K C ch n \<and>
          (\<exists>w2 w3. path_new L [\<lparr>fwd_node_id = n, fwd_short_channel_id = None\<rparr>] node_id ctx w2 =
             (Some p, w3)))))"
proof -
  from assms obtain cs ns w1 w2 where
    cs: "pc_list_active_public_channels C w = (Ok cs, w1)"
    and ns: "intro_channels_loop K C cs [] w1 = (Ok ns, w2)"
    and r: "if ns = [] then \<exists>p. ps = [p] \<and> path_one_hop L node_id ctx w2 = (Some p, w')
        else paths_loop L node_id ctx ns w2 = (Ok ps, w')"
    by (fastforce simp: create_reply_path_for_offer_creation_def io_bind_Ok_iff run_total_def
        split: prod.splits if_splits)
  from intro_channels_loop_sound [OF ns] have
    s: "length ns \<le> 4" "\<forall>n\<in>set ns. \<exists>ch\<in>set cs. eligible_channel K C ch n" by auto
  show ?thesis
  proof (cases "ns = []")
    case True
    with r show ?thesis by auto
  next
    case False
    with r have p: "paths_loop L node_id ctx ns w2 = (Ok ps, w')" by simp
    from paths_loop_sound [OF p] False s cs show ?thesis
      by (cases ns) (fastforce simp: Suc_le_eq)+
  qed
qed

text \<open>Four channels to four nodes, each with a channel of its own: four paths are made.\<close>

definition four_channels_client :: "nat client" where
  "four_channels_client = offline_client
     \<lparr>lc_get_info := (\<lambda>w. (Inr \<lparr>gi_identity_pubkey = pk_to_string sample_secp (PublicKey 9), gi_chains = [],
        gi_features = []\<rparr>, w)),
      lc_list_channels := (\<lambda>_ w. (Inr (map (\<lambda>i. \<lparr>chan_remote_pubkey = pk_to_string sample_secp (PublicKey i),
         chan_id = 0\<rparr>) [1, 2, 3, 4, 5]), w)),
      lc_get_node_info := (\<lambda>_ w. (Inr \<lparr>ni_node = Some \<lparr>ln_pub_key = '''', ln_addresses = [], ln_features = [39]\<rparr>,
         ni_channels = [\<lparr>edge_channel_id = 1, edge_node1_pub = '''', edge_node2_pub = ''''\<rparr>]\<rparr>, w))\<rparr>"

lemma four_paths_made:
  "create_reply_path_for_offer_creation sample_secp sample_ldk (lightning_connector four_channels_client) k ctx w =
     (Ok [sample_path (PublicKey 4), sample_path (PublicKey 3), sample_path (PublicKey 2), sample_path (PublicKey 1)], w)"
proof -
  have k: "pk_from_str sample_secp (pk_to_string sample_secp k) = Some k" for k
    using sample_secp_documented by (simp add: secp_documented_def)
  show ?thesis
    by (simp add: create_reply_path_for_offer_creation_def lightning_connector_def
        lightning_list_active_public_channels_def lightning_get_node_info_def four_channels_client_def
        io_simps k sample_ldk_def features_support_onion_messages_def ONION_MESSAGES_OPTIONAL_def
        ONION_MESSAGES_REQUIRED_def List.insert_def)
qed

lemma intro_node_loop_sound:
  "intro_node_loop K C ps w = (Ok (Some n), w') \<Longrightarrow> \<exists>peer\<in>set ps. eligible_peer K C peer n"
proof (induction ps arbitrary: w)
  case (Cons peer ps)
  then obtain k where k: "pk_from_str K (peer_pub_key peer) = Some k"
    by (auto simp: io_bind_Ok_iff)
  obtain r w1 where g: "pc_get_node_info C (peer_pub_key peer) True w = (r, w1)" by fastforce
  have "eligible_peer K C peer n \<or> (\<exists>w1. intro_node_loop K C ps w1 = (Ok (Some n), w'))"
    using Cons.prems k g unfolding eligible_peer_def
    by (cases r) (auto simp: io_simps split: if_splits)
  with Cons.IH show ?case by auto
qed simp

text \<open>
  The reply path of an invoice request enters at our own node, or at a peer that supports
  onion messages and that LND knows as a node with a public channel.
\<close>

theorem reply_path_eligible:
  assumes "create_reply_path_for_outgoing_payments K L C node_id ctx w = (Ok p, w')"
  shows "(\<exists>w1. path_one_hop L node_id ctx w1 = (Some p, w')) \<or>
    (\<exists>ps w1 n w2. pc_list_peers C w = (Ok ps, w1) \<and> (\<exists>peer\<in>set ps. eligible_peer K C peer n) \<and>
       path_new L [\<lparr>fwd_node_id = n, fwd_short_channel_id = None\<rparr>] node_id ctx w2 = (Some p, w'))"
proof -
  from assms obtain ps n w1 w2 where ps: "pc_list_peers C w = (Ok ps, w1)"
    and n: "intro_node_loop K C ps w1 = (Ok n, w2)"
    and r: "(case n of None \<Rightarrow> path_one_hop L node_id ctx w2
        | Some n \<Rightarrow> path_new L [\<lparr>fwd_node_id = n, fwd_short_channel_id = None\<rparr>] node_id ctx w2) = (Some p, w')"
    by (fastforce simp: create_reply_path_for_outgoing_payments_def io_bind_Ok_iff run_total_def
        split: prod.splits option.splits)
  show ?thesis
  proof (cases n)
    case (Some k)
    with n intro_node_loop_sound [of K C ps w1 k w2] ps r show ?thesis by auto
  qed (use r in auto)
qed

definition one_peer_client :: "nat client" where
  "one_peer_client = offline_client
     \<lparr>lc_list_peers := (\<lambda>_ w. (Inr [\<lparr>peer_pub_key = pk_to_string sample_secp (PublicKey 5), peer_features = [39]\<rparr>], w)),
      lc_get_node_info := (\<lambda>_ w. (Inr \<lparr>ni_node = None,
         ni_channels = [\<lparr>edge_channel_id = 1, edge_node1_pub = '''', edge_node2_pub = ''''\<rparr>]\<rparr>, w)),
      lc_get_info := (\<lambda>w. (Inr \<lparr>gi_identity_pubkey = pk_to_string sample_secp (PublicKey 8), gi_chains = [], gi_features = []\<rparr>, w))\<rparr>"

lemma sample_secp_from_to [simp]: "pk_from_str sample_secp (pk_to_string sample_secp k) = Some k"
  using sample_secp_documented by (simp add: secp_documented_def)

lemma one_peer_reply_path:
  "create_reply_path_for_outgoing_payments sample_secp sample_ldk (lightning_connector one_peer_client)
     k ctx w = (Ok (sample_path (PublicKey 5)), w)"
  by (simp add: create_reply_path_for_outgoing_payments_def lightning_connector_def
      lightning_list_peers_def lightning_get_node_info_def one_peer_client_def io_simps sample_ldk_def
      features_support_onion_messages_def ONION_MESSAGES_OPTIONAL_def)

theorem reply_path_eligible_witness:
  "\<exists>p. create_reply_path_for_outgoing_payments sample_secp sample_ldk
      (lightning_connector one_peer_client) (PublicKey 9) OtherCtx 0 = (Ok p, 0) \<and>
    (\<exists>peer n. eligible_peer sample_secp (lightning_connector one_peer_client) peer n)"
proof -
  note run = one_peer_reply_path [of "PublicKey 9" OtherCtx 0]
  from reply_path_eligible [OF run] have
    "\<exists>peer n. eligible_peer sample_secp (lightning_connector one_peer_client) peer n"
    by (auto simp: sample_ldk_def sample_path_def)
  with run show ?thesis by blast
qed

section \<open>Invoice requests and payments: proofs\<close>

lemma create_invoice_request_Ok:
  assumes "create_invoice_request L o' net key msats note w = (Ok (ir, pid, amt, ctx), w')"
  shows "validate_amount (offer_amount o') msats = Ok amt \<and>
    (\<exists>bytes nonce w1. get_secure_random_bytes L w = (bytes, w1) \<and> nonce_from_entropy_source L w1 = (nonce, w') \<and>
      pid = PaymentId bytes \<and> ctx = CtxOutboundPayment pid nonce (Some (hmac_for_offer_payment L pid nonce key)))"
  using assms
  by (auto simp: create_invoice_request_def io_bind_Ok_iff run_total_def res_bind_Ok_iff Let_def
      split: prod.splits)

lemma create_invoice_request_total: "no_panic (create_invoice_request L o' net key msats note)"
  unfolding create_invoice_request_def Let_def
  by (intro no_panic_bind) (auto simp: is_panic_bind_iff)

text \<open>The builders that \<open>request_invoice\<close> and the setters give for a payment.\<close>

inductive request_for :: "'w ldk \<Rightarrow> expanded_key \<Rightarrow> nonce \<Rightarrow> payment_id \<Rightarrow> request_builder \<Rightarrow> bool"
  for L :: "'w ldk" and key :: expanded_key and n :: nonce and pid :: payment_id where
  new: "request_invoice L o' key n pid = Inr b \<Longrightarrow> request_for L key n pid b"
| chain: "request_for L key n pid b \<Longrightarrow> irb_chain L b net = Inr b' \<Longrightarrow> request_for L key n pid b'"
| amount: "request_for L key n pid b \<Longrightarrow> irb_amount_msats L b a = Inr b' \<Longrightarrow> request_for L key n pid b'"
| payer_note: "request_for L key n pid b \<Longrightarrow> request_for L key n pid (irb_payer_note L b note')"

text \<open>
  The builders for a request for an offer, with the chain, the amount and the note that were set
  last, and what rust-lightning promises of the request that is built: its getters
  \<open>chain()\<close>, \<open>amount_msats()\<close> and \<open>payer_note()\<close>, parameters here, read what was set.
\<close>

inductive asking ::
  "'w ldk \<Rightarrow> offer \<Rightarrow> expanded_key \<Rightarrow> nonce \<Rightarrow> payment_id \<Rightarrow> network option \<Rightarrow> u64 option \<Rightarrow> string option \<Rightarrow>
   request_builder \<Rightarrow> bool"
  for L :: "'w ldk" and o' :: offer and key :: expanded_key and n :: nonce and pid :: payment_id where
  asking_new: "request_invoice L o' key n pid = Inr b \<Longrightarrow> asking L o' key n pid None None None b"
| asking_chain: "asking L o' key n pid c a p b \<Longrightarrow> irb_chain L b net = Inr b' \<Longrightarrow> asking L o' key n pid (Some net) a p b'"
| asking_amount: "asking L o' key n pid c a p b \<Longrightarrow> irb_amount_msats L b m = Inr b' \<Longrightarrow> asking L o' key n pid c (Some m) p b'"
| asking_note: "asking L o' key n pid c a p b \<Longrightarrow> asking L o' key n pid c a (Some x) (irb_payer_note L b x)"

definition requests_documented ::
  "'w ldk \<Rightarrow> (invoice_request \<Rightarrow> network) \<Rightarrow> (invoice_request \<Rightarrow> u64 option) \<Rightarrow> (invoice_request \<Rightarrow> string option) \<Rightarrow> bool" where
  "requests_documented L chain_of amount_msats_of payer_note_of \<longleftrightarrow>
     (\<forall>o' key n pid c a p b ir. asking L o' key n pid c a p b \<and> irb_build_and_sign L b = Inr ir \<longrightarrow>
        (\<forall>net. c = Some net \<longrightarrow> chain_of ir = net) \<and> (\<forall>m. a = Some m \<longrightarrow> amount_msats_of ir = Some m) \<and>
        payer_note_of ir = p)"

lemma asking_request_for: "asking L o' key n pid c a p b \<Longrightarrow> request_for L key n pid b"
  by (induction rule: asking.induct) (auto intro: request_for.intros)

lemma create_invoice_request_asks:
  assumes "create_invoice_request L o' net key msats payer_note w = (Ok (ir, pid, amt, ctx), w')"
  obtains b n where "asking L o' key n pid (Some net) (Some amt) payer_note b" "irb_build_and_sign L b = Inr ir"
    "ctx = CtxOutboundPayment pid n (Some (hmac_for_offer_payment L pid n key))"
proof -
  from assms obtain n b1 b2 b3 where
    b: "request_invoice L o' key n pid = Inr b1" "irb_chain L b1 net = Inr b2" "irb_amount_msats L b2 amt = Inr b3"
    and ir: "irb_build_and_sign L (case payer_note of Some x \<Rightarrow> irb_payer_note L b3 x | None \<Rightarrow> b3) = Inr ir"
    and ctx: "ctx = CtxOutboundPayment pid n (Some (hmac_for_offer_payment L pid n key))"
    by (auto simp: create_invoice_request_def io_bind_Ok_iff res_bind_Ok_iff Let_def)
  from b have "asking L o' key n pid (Some net) (Some amt) None b3" by (blast intro: asking.intros)
  then have "asking L o' key n pid (Some net) (Some amt) payer_note
      (case payer_note of Some x \<Rightarrow> irb_payer_note L b3 x | None \<Rightarrow> b3)"
    by (auto split: option.split intro: asking_note)
  with that ir ctx show ?thesis by blast
qed

lemma create_invoice_request_for:
  assumes "create_invoice_request L o' net key msats payer_note w = (Ok (ir, pid, amt, ctx), w')"
  obtains b n h where "request_for L key n pid b" "irb_build_and_sign L b = Inr ir"
    "ctx = CtxOutboundPayment pid n (Some h)"
  using create_invoice_request_asks [OF assms] asking_request_for by metis

text \<open>
  C32. An invoice request asks for what is paid and is tied to its payment: it is a request for the offer that
  states the network, the payer's note and the amount that was validated, which is also the amount returned; its
  payment id is fresh randomness, and the context that travels with the reply path carries this payment
  id, the nonce the request was made with and a code that verifies for them.
\<close>

theorem invoice_request_bound_to_payment:
  assumes "ldk_documented L" and "requests_documented L chain_of amount_msats_of payer_note_of"
    and "create_invoice_request L o' net key msats note w = (Ok (ir, pid, amt, ctx), w')"
  shows "validate_amount (offer_amount o') msats = Ok amt \<and>
    chain_of ir = net \<and> amount_msats_of ir = Some amt \<and> payer_note_of ir = note \<and>
    pid = PaymentId (fst (get_secure_random_bytes L w)) \<and>
    (\<exists>nonce hmac b. asking L o' key nonce pid (Some net) (Some amt) note b \<and> irb_build_and_sign L b = Inr ir \<and>
       ctx = CtxOutboundPayment pid nonce (Some hmac) \<and> verify_for_offer_payment L pid hmac nonce key)"
proof -
  from assms(3) obtain b n where b: "asking L o' key n pid (Some net) (Some amt) note b" "irb_build_and_sign L b = Inr ir"
    "ctx = CtxOutboundPayment pid n (Some (hmac_for_offer_payment L pid n key))"
    by (rule create_invoice_request_asks)
  with assms(1) have "\<exists>nonce hmac b. asking L o' key nonce pid (Some net) (Some amt) note b \<and>
      irb_build_and_sign L b = Inr ir \<and> ctx = CtxOutboundPayment pid nonce (Some hmac) \<and>
      verify_for_offer_payment L pid hmac nonce key"
    by (auto simp: ldk_documented_def)
  moreover from assms(2) b(1,2) have "chain_of ir = net \<and> amount_msats_of ir = Some amt \<and> payer_note_of ir = note"
    unfolding requests_documented_def by blast
  ultimately show ?thesis using create_invoice_request_Ok [OF assms(3)] by auto
qed

text \<open>An instance whose requests hold a numbering of what was set.\<close>

instance network :: countable
  by countable_datatype

abbreviation numbered :: "network option \<times> u64 option \<times> string option \<Rightarrow> u8 list" where
  "numbered t \<equiv> replicate (to_nat t) 0"

definition terms_numbered :: "u8 list \<Rightarrow> network option \<times> u64 option \<times> string option" where
  "terms_numbered bs = from_nat (length bs)"

lemma terms_numbered [simp]: "terms_numbered (numbered t) = t"
  by (simp add: terms_numbered_def)

definition update_request ::
  "(network option \<times> u64 option \<times> string option \<Rightarrow> network option \<times> u64 option \<times> string option) \<Rightarrow>
   request_builder \<Rightarrow> request_builder" where
  "update_request f b = (case b of RequestBuilder bs \<Rightarrow> RequestBuilder (numbered (f (terms_numbered bs))))"

definition telling_ldk :: "nat ldk" where
  "telling_ldk = sample_ldk
     \<lparr>request_invoice := (\<lambda>_ _ _ _. Inr (RequestBuilder (numbered (None, None, None)))),
      irb_chain := (\<lambda>b net. Inr (update_request (\<lambda>(c, a, p). (Some net, a, p)) b)),
      irb_amount_msats := (\<lambda>b m. Inr (update_request (\<lambda>(c, a, p). (c, Some m, p)) b)),
      irb_payer_note := (\<lambda>b x. update_request (\<lambda>(c, a, p). (c, a, Some x)) b),
      irb_build_and_sign := (\<lambda>b. case b of RequestBuilder bs \<Rightarrow> Inr (sample_request\<lparr>ir_bytes := bs\<rparr>))\<rparr>"

lemma telling_asks:
  "asking telling_ldk o' key n pid c a p b \<Longrightarrow> b = RequestBuilder (numbered (c, a, p))"
  by (induction rule: asking.induct) (auto simp: telling_ldk_def update_request_def)

lemma telling_documented:
  "ldk_documented telling_ldk"
  "requests_documented telling_ldk (\<lambda>ir. the (fst (terms_numbered (ir_bytes ir))))
     (\<lambda>ir. fst (snd (terms_numbered (ir_bytes ir)))) (\<lambda>ir. snd (snd (terms_numbered (ir_bytes ir))))"
proof -
  show "ldk_documented telling_ldk"
    using sample_ldk_documented by (simp add: ldk_documented_def telling_ldk_def)
  have "irb_build_and_sign telling_ldk (RequestBuilder bs) = Inr (sample_request\<lparr>ir_bytes := bs\<rparr>)" for bs
    by (simp add: telling_ldk_def)
  then show "requests_documented telling_ldk (\<lambda>ir. the (fst (terms_numbered (ir_bytes ir))))
      (\<lambda>ir. fst (snd (terms_numbered (ir_bytes ir)))) (\<lambda>ir. snd (snd (terms_numbered (ir_bytes ir))))"
    by (auto simp: requests_documented_def dest!: telling_asks)
qed

theorem invoice_request_bound_to_payment_witness:
  "\<exists>ir pid amt ctx w'. create_invoice_request telling_ldk sample_offer Bitcoin (ExpandedKey []) (Some 2000)
      (Some ''thanks'') 7 = (Ok (ir, pid, amt, ctx), w') \<and> amt = 2000 \<and> pid = PaymentId [7] \<and>
     terms_numbered (ir_bytes ir) = (Some Bitcoin, Some 2000, Some ''thanks'')"
proof -
  have "\<exists>ir ctx w'. create_invoice_request telling_ldk sample_offer Bitcoin (ExpandedKey []) (Some 2000)
      (Some ''thanks'') 7 = (Ok (ir, PaymentId [7], 2000, ctx), w') \<and> fst (terms_numbered (ir_bytes ir)) \<noteq> None"
    by (simp add: create_invoice_request_def telling_ldk_def sample_ldk_def sample_offer_def io_simps validate_amount_def
        update_request_def Let_def)
  then obtain ir ctx w' where run: "create_invoice_request telling_ldk sample_offer Bitcoin (ExpandedKey []) (Some 2000)
      (Some ''thanks'') 7 = (Ok (ir, PaymentId [7], 2000, ctx), w')" and c: "fst (terms_numbered (ir_bytes ir)) \<noteq> None" by blast
  from invoice_request_bound_to_payment [OF telling_documented run] c run show ?thesis
    by (cases "terms_numbered (ir_bytes ir)") auto
qed

text \<open>
  \<open>send_payment\<close> aborts exactly when LND answers the route query with an empty list, whose
  first element it takes; every other failure is reported as \<open>RouteFailure\<close>.
\<close>

theorem send_payment_panics_iff:
  "is_panic (fst (send_payment (client_payer K c) p w)) \<longleftrightarrow>
     (\<exists>w'. client_query_routes K c (sp_path p) (sp_cltv_expiry_delta p) (sp_fee_base_msat p)
        (sp_fee_ppm p) (sp_msats p) (sp_fee_limit p) w = (Ok [], w'))"
proof -
  obtain r w1 where q: "client_query_routes K c (sp_path p) (sp_cltv_expiry_delta p) (sp_fee_base_msat p)
      (sp_fee_ppm p) (sp_msats p) (sp_fee_limit p) w = (r, w1)" by fastforce
  have "\<not> is_panic r"
    using lnd_payer.query_routes_total [of K c "sp_path p" "sp_cltv_expiry_delta p" "sp_fee_base_msat p"
        "sp_fee_ppm p" "sp_msats p" "sp_fee_limit p"] q
    by (metis client_payer_def fst_conv invoice_payer.select_convs(1) no_panic_def)
  with q show ?thesis
    by (cases r) (auto simp: send_payment_def client_payer_def client_send_to_route_def io_simps
        split: list.splits prod.splits res.splits, (metis is_panic.simps(1) is_panic_map_err res_of_sum_not_panic)+)
qed

text \<open>
  The expiry of an offer: once the paths of the offer are there, creating it aborts exactly when
  the expiry, counted from now, is past the end of the system clock; the error that exists for
  invalid expiry times is not what the caller gets.
\<close>

theorem create_offer_expiry_panics_iff:
  assumes "oc_get_info O' w = (Ok info, w1)" and "pk_from_str K (gi_identity_pubkey info) = Some node_id"
    and "nonce_from_entropy_source L w1 = (nonce, w2)"
    and "create_reply_path_for_offer_creation K L C node_id (OffersCtx (CtxInvoiceRequest nonce)) w2 = (Ok ps, w3)"
    and "system_time_now L w3 = (t, w4)" and "co_expiry args = Some e"
  shows "is_panic (fst (create_offer K L O' C args key w)) \<longleftrightarrow> SYSTEM_TIME_END \<le> t + int e"
proof -
  have "\<not> is_panic (map_err CreateOfferFailure (res_of_sum r))" for r :: "string + offer" by simp
  then show ?thesis
    using assms unfolding create_offer_def Let_def
    by (simp add: io_bind_def io_map_err_def io_lift_def io_err_def io_return_def run_total_def)
qed

definition offering_client :: "nat client" where
  "offering_client = offline_client
     \<lparr>lc_get_info := (\<lambda>w. (Inr \<lparr>gi_identity_pubkey = pk_to_string sample_secp (PublicKey 8), gi_chains = [],
        gi_features = []\<rparr>, w)),
      lc_list_channels := (\<lambda>_ w. (Inr [], w))\<rparr>"

theorem create_offer_expiry_panics_iff_witness:
  "is_panic (fst (create_offer sample_secp sample_ldk (lightning_offer_creator offering_client)
     (lightning_connector offering_client) \<lparr>co_amount_msats = None, co_chain = Bitcoin, co_description = None,
       co_issuer = None, co_quantity = None, co_expiry = Some (from_secs 18446744073709551615)\<rparr> (ExpandedKey []) 0))"
proof -
  let ?args = "\<lparr>co_amount_msats = None, co_chain = Bitcoin, co_description = None, co_issuer = None,
      co_quantity = None, co_expiry = Some (from_secs 18446744073709551615)\<rparr>"
  let ?info = "\<lparr>gi_identity_pubkey = pk_to_string sample_secp (PublicKey 8), gi_chains = [], gi_features = []\<rparr>"
  have k: "pk_from_str sample_secp (gi_identity_pubkey ?info) = Some (PublicKey 8)"
    using sample_secp_documented by (simp add: secp_documented_def)
  have i: "oc_get_info (lightning_offer_creator offering_client) 0 = (Ok ?info, 0)"
    by (simp add: lightning_offer_creator_def offering_client_def io_simps)
  have n: "nonce_from_entropy_source sample_ldk 0 = (Nonce [0], 1)"
    by (simp add: sample_ldk_def)
  obtain ps w3 where p: "create_reply_path_for_offer_creation sample_secp sample_ldk (lightning_connector offering_client)
      (PublicKey 8) (OffersCtx (CtxInvoiceRequest (Nonce [0]))) 1 = (Ok ps, w3)"
    by (simp add: create_reply_path_for_offer_creation_def lightning_connector_def offering_client_def
        lightning_list_active_public_channels_def io_simps run_total_def sample_ldk_def)
  have t: "system_time_now sample_ldk w3 = (int w3, w3)" by (simp add: sample_ldk_def)
  from create_offer_expiry_panics_iff [OF i k n p t, of ?args "from_secs 18446744073709551615" "ExpandedKey []"]
  show ?thesis by (simp add: SYSTEM_TIME_END_def from_secs_def)
qed

end
