(* ===== verification/Interference.thy ===== *)
theory Interference
  imports Lnd_Requests
begin

text \<open>
  Operations under interference. While a task of LNDK waits for LND, other tasks run and
  change the state they share. A relation \<open>R\<close> on the state (reflexive and transitive: the effect
  of any number of steps of the others) bounds what happens during one call of a stub; the
  locale \<open>rely\<close> shows that then every operation of \<open>Lnd_Requests\<close>, whatever calls it makes and
  however it ends, moves the state by \<open>R\<close>.
\<close>

definition moves :: "('s \<Rightarrow> 's \<Rightarrow> bool) \<Rightarrow> ('s \<Rightarrow> 'x \<times> 's) \<Rightarrow> bool" where
  "moves R m \<longleftrightarrow> (\<forall>s. R s (snd (m s)))"

lemma movesI: "(\<And>s. R s (snd (m s))) \<Longrightarrow> moves R m"
  by (simp add: moves_def)

lemma movesD: "moves R m \<Longrightarrow> m s = (x, s') \<Longrightarrow> R s s'"
  by (metis moves_def snd_conv)

lemma moves_rpc [simp]: "moves R (rpc f) = moves R f"
  by (simp add: moves_def rpc_def case_prod_beta)

lemma moves_run_total [simp]: "moves R (run_total f) = moves R f"
  by (simp add: moves_def run_total_def case_prod_beta)

lemma moves_map_err [simp]: "moves R (io_map_err f m) = moves R m"
  by (simp add: moves_def io_map_err_def case_prod_beta)

lemma moves_expect [simp]: "moves R (io_expect msg m) = moves R m"
  by (simp add: moves_def io_expect_def case_prod_beta)

definition client_moves :: "('s \<Rightarrow> 's \<Rightarrow> bool) \<Rightarrow> 's client \<Rightarrow> bool" where
  "client_moves R c \<longleftrightarrow>
     (\<forall>r. moves R (lc_list_peers c r)) \<and> (\<forall>r. moves R (lc_connect_peer c r)) \<and>
     (\<forall>r. moves R (lc_get_node_info c r)) \<and> (\<forall>r. moves R (lc_list_channels c r)) \<and>
     moves R (lc_get_info c) \<and> (\<forall>r. moves R (lc_get_chan_info c r)) \<and>
     (\<forall>r. moves R (lc_query_routes c r)) \<and> (\<forall>r. moves R (lc_send_to_route_v2 c r)) \<and>
     (\<forall>r. moves R (lc_track_payment_v2 c r)) \<and> (\<forall>r. moves R (lc_add_invoice c r)) \<and>
     (\<forall>r. moves R (lc_decode_pay_req c r))"

definition ldk_moves :: "('s \<Rightarrow> 's \<Rightarrow> bool) \<Rightarrow> 's ldk \<Rightarrow> bool" where
  "ldk_moves R L \<longleftrightarrow>
     moves R (get_secure_random_bytes L) \<and> moves R (nonce_from_entropy_source L) \<and>
     (\<forall>k x. moves R (path_one_hop L k x)) \<and> (\<forall>ns k x. moves R (path_new L ns k x)) \<and>
     moves R (system_time_now L)"


locale rely =
  fixes R :: "'s \<Rightarrow> 's \<Rightarrow> bool"
  assumes R_refl: "R s s"
    and R_trans: "R s s' \<Longrightarrow> R s' s'' \<Longrightarrow> R s s''"
begin

lemma moves_return: "moves R (io_return a)"
  by (simp add: moves_def io_simps R_refl)

lemma moves_err: "moves R (io_err e)"
  by (simp add: moves_def io_simps R_refl)

lemma moves_lift: "moves R (io_lift r)"
  by (simp add: moves_def io_simps R_refl)

lemma moves_bind: "moves R m \<Longrightarrow> (\<And>a. moves R (k a)) \<Longrightarrow> moves R (io_bind m k)"
  unfolding moves_def io_bind_def
  by (auto split: prod.split res.split) (metis R_trans snd_conv)+

lemma moves_match:
  "moves R m \<Longrightarrow> (\<And>a. moves R (f a)) \<Longrightarrow> (\<And>e. moves R (g e)) \<Longrightarrow> moves R (io_match m f g)"
  unfolding moves_def io_match_def
  by (auto split: prod.split res.split) (metis R_trans snd_conv)+

lemmas moves_intros = moves_return moves_err moves_lift moves_bind moves_match

lemma create_invoice_request_moves:
  "ldk_moves R L \<Longrightarrow> moves R (create_invoice_request L o' net key msats note)"
  unfolding create_invoice_request_def Let_def by (intro moves_intros) (auto simp: ldk_moves_def)

lemma get_node_id_from_scid_moves: "client_moves R c \<Longrightarrow> moves R (get_node_id_from_scid c scid dir)"
  unfolding get_node_id_from_scid_def
  by (intro moves_intros) (auto simp: client_moves_def intro: moves_intros split: direction.split)

lemma get_node_id_moves: "client_moves R c \<Longrightarrow> moves R (get_node_id K c scid dir)"
  unfolding get_node_id_def by (intro moves_intros get_node_id_from_scid_moves)

lemma connector_moves:
  assumes "client_moves R c"
  shows "moves R (pc_list_peers (lightning_connector c))"
    and "moves R (pc_connect_peer (lightning_connector c) n a)"
    and "moves R (pc_get_node_info (lightning_connector c) n b)"
    and "moves R (pc_list_active_public_channels (lightning_connector c))"
  using assms
  by (simp_all add: client_moves_def lightning_connector_def lightning_list_peers_def
      lightning_connect_peer_def lightning_get_node_info_def lightning_list_active_public_channels_def)

lemma connect_to_peer_moves:
  assumes "client_moves R c"
  shows "moves R (connect_to_peer K (lightning_connector c) k)"
  unfolding connect_to_peer_def Let_def
  using connector_moves [OF assms]
  by (intro moves_bind) (auto intro!: moves_intros split: option.split)

lemma intro_node_loop_moves:
  assumes "client_moves R c"
  shows "moves R (intro_node_loop K (lightning_connector c) ps)"
  using connector_moves [OF assms] by (induction ps) (auto intro!: moves_intros)

lemma reply_path_moves:
  assumes "client_moves R c" and "ldk_moves R L"
  shows "moves R (create_reply_path_for_outgoing_payments K L (lightning_connector c) k ctx)"
  unfolding create_reply_path_for_outgoing_payments_def
  using connector_moves [OF assms(1)] intro_node_loop_moves [OF assms(1)] assms(2)
  by (intro moves_intros) (auto simp: ldk_moves_def split: option.split)

lemma send_invoice_request_moves:
  assumes "client_moves R c" and "ldk_moves R L"
  shows "moves R (send_invoice_request K L dest c ir ctx)"
  unfolding send_invoice_request_def
  using assms connect_to_peer_moves [OF assms(1)] reply_path_moves [OF assms] get_node_id_moves [OF assms(1)]
  by (auto simp: client_moves_def intro!: moves_intros split: destination.split introduction_node.split)

lemma send_payment_moves:
  assumes "client_moves R c"
  shows "moves R (send_payment (client_payer K c) p)"
  unfolding send_payment_def client_payer_def client_query_routes_def client_send_to_route_def
  using assms get_node_id_moves [OF assms]
  by (auto simp: client_moves_def intro!: moves_intros split: introduction_node.split)

lemma track_payment_moves:
  assumes "client_moves R c"
  shows "moves R (track_payment (client_payer K c) h)"
  unfolding track_payment_def client_payer_def client_track_payment_def
  using assms by (auto simp: client_moves_def intro!: moves_intros)

lemma create_invoice_info_moves:
  assumes "client_moves R c"
  shows "moves R (create_invoice_info_from_request K L (client_invoice_creator c) ir)"
  unfolding create_invoice_info_from_request_def client_invoice_creator_def client_add_invoice_def
    client_decode_payment_request_def Let_def
  using assms by (auto simp: client_moves_def intro!: moves_intros)

lemma moves_bind_Ok:
  assumes "moves R m" and "\<And>s a s'. m s = (Ok a, s') \<Longrightarrow> moves R (k a)"
  shows "moves R (io_bind m k)"
proof (rule movesI)
  fix s
  obtain r s1 where m: "m s = (r, s1)" by fastforce
  with assms(1) have s1: "R s s1" by (rule movesD)
  show "R s (snd (io_bind m k s))"
  proof (cases r)
    case (Ok a)
    then have "R s1 (snd (k a s1))" using assms(2) m by (auto simp: moves_def)
    with s1 Ok m show ?thesis using R_trans by (simp add: io_bind_def)
  qed (use m s1 in \<open>simp_all add: io_bind_def\<close>)
qed

lemma intro_channels_loop_moves:
  assumes "\<And>n b. moves R (pc_get_node_info C n b)"
  shows "moves R (intro_channels_loop K C cs found)"
  using assms
  by (induction cs arbitrary: found) (auto simp: Let_def intro!: moves_intros split: option.split)

lemma paths_loop_moves:
  assumes "ldk_moves R L"
  shows "moves R (paths_loop L node_id ctx nodes)"
  using assms by (induction nodes) (auto simp: ldk_moves_def intro!: moves_intros)

lemma offer_paths_moves:
  assumes "moves R (pc_list_active_public_channels C)" and "\<And>n b. moves R (pc_get_node_info C n b)" and "ldk_moves R L"
  shows "moves R (create_reply_path_for_offer_creation K L C node_id ctx)"
  unfolding create_reply_path_for_offer_creation_def
  using assms(1,3) intro_channels_loop_moves [OF assms(2)] paths_loop_moves [OF assms(3)]
  by (auto simp: ldk_moves_def intro!: moves_intros)

lemma create_offer_with_moves:
  assumes "moves R (oc_get_info O')" and "moves R (pc_list_active_public_channels C)"
    and "\<And>n b. moves R (pc_get_node_info C n b)" and "ldk_moves R L"
  shows "moves R (create_offer K L O' C args key)"
  unfolding create_offer_def Let_def
  using assms(1,4) offer_paths_moves [OF assms(2-4)]
  by (auto simp: ldk_moves_def intro!: moves_intros split: option.split)

lemma create_offer_moves:
  assumes "client_moves R c" and "ldk_moves R L"
  shows "moves R (create_offer K L (lightning_offer_creator c) (lightning_connector c) args key)"
  by (rule create_offer_with_moves)
    (use assms connector_moves [OF assms(1)] in \<open>simp_all add: client_moves_def lightning_offer_creator_def\<close>)

end

end
