(* ===== verification/Offer_Handler.thy ===== *)
theory Offer_Handler
  imports Interference
begin

text \<open>
  \<open>src/offers/handler.rs\<close>: the state of payments in progress and the operations on it. The
  fields behind a mutex are the record \<open>offer_handler\<close>; every section of code that holds a lock
  is one function on it, and the operations run on the pair of the handler and the outside
  world. Other tasks run while an operation waits for LND, so a call of a stub may change the
  handler too: the relation \<open>handler_step\<close> has one step for each locked section of the code, and
  the theorems assume of a stub no more than that it moves the handler by such steps.

  The client a handler was built with does not change and is an argument of the operations
  that use it. No code panics while it holds a lock, so a lock is never poisoned.
\<close>

section \<open>State\<close>

datatype payment_state = InvoiceRequestCreated | InvoiceReceived | PaymentDispatched

record payment_info =
  pay_state :: payment_state
  pay_invoice_of :: "bolt12_invoice option"

record offer_handler =
  active_payments :: "payment_id \<rightharpoonup> payment_info"
  pending_messages :: "(offers_message \<times> send_instructions) list"
  handler_key :: expanded_key
  response_invoice_timeout :: u32

type_synonym 'w sys = "offer_handler \<times> 'w"

record 'w pay_offer_params =
  po_offer :: offer
  po_amount :: "u64 option"
  po_payer_note :: "string option"
  po_network :: network
  po_client :: "'w sys client"
  po_destination :: destination
  po_reply_path :: "blinded_message_path option"
  po_response_invoice_timeout :: "u32 option"
  po_fee_limit :: "fee_limit option"

record 'w create_offer_params =
  cop_client :: "'w sys client"
  cop_amount_msats :: "u64 option"
  cop_chain :: network
  cop_description :: "string option"
  cop_issuer :: "string option"
  cop_quantity :: "quantity option"
  cop_expiry :: "duration option"

definition DEFAULT_RESPONSE_INVOICE_TIMEOUT :: u32 where
  "DEFAULT_RESPONSE_INVOICE_TIMEOUT = 15"

text \<open>The random bytes are those drawn when no seed is given.\<close>

definition OfferHandler_new :: "u32 option \<Rightarrow> u8 list option \<Rightarrow> u8 list \<Rightarrow> offer_handler" where
  "OfferHandler_new timeout seed random =
     \<lparr>active_payments = Map.empty, pending_messages = [],
      handler_key = ExpandedKey (case seed of Some s \<Rightarrow> s | None \<Rightarrow> random),
      response_invoice_timeout =
        (case timeout of Some t \<Rightarrow> t | None \<Rightarrow> DEFAULT_RESPONSE_INVOICE_TIMEOUT)\<rparr>"

section \<open>The sections that hold a lock\<close>

definition register_payment :: "payment_id \<Rightarrow> offer_handler \<Rightarrow> (offer_error, unit) res \<times> offer_handler" where
  "register_payment pid h =
     (case active_payments h pid of
        Some _ \<Rightarrow> (Err (AlreadyProcessing pid), h)
      | None \<Rightarrow> (Ok (), h\<lparr>active_payments := (active_payments h)(pid \<mapsto>
          \<lparr>pay_state = InvoiceRequestCreated, pay_invoice_of = None\<rparr>)\<rparr>))"

definition remove_active_payment :: "payment_id \<Rightarrow> offer_handler \<Rightarrow> offer_handler" where
  "remove_active_payment pid h = h\<lparr>active_payments := (active_payments h)(pid := None)\<rparr>"

definition push_message :: "offers_message \<times> send_instructions \<Rightarrow> offer_handler \<Rightarrow> offer_handler" where
  "push_message m h = h\<lparr>pending_messages := pending_messages h @ [m]\<rparr>"

definition poll_invoice :: "payment_id \<Rightarrow> offer_handler \<Rightarrow> bolt12_invoice option" where
  "poll_invoice pid h =
     (case active_payments h pid of Some info \<Rightarrow> pay_invoice_of info | None \<Rightarrow> None)"

definition set_state :: "payment_state \<Rightarrow> payment_id \<Rightarrow> offer_handler \<Rightarrow> offer_handler" where
  "set_state st pid h =
     (case active_payments h pid of
        Some info \<Rightarrow> h\<lparr>active_payments := (active_payments h)(pid \<mapsto> info\<lparr>pay_state := st\<rparr>)\<rparr>
      | None \<Rightarrow> h)"

text \<open>The lock in the \<open>Invoice\<close> branch of \<open>handle_message\<close>, for a verified invoice.\<close>

definition accept_invoice :: "bolt12_invoice \<Rightarrow> payment_id \<Rightarrow> offer_handler \<Rightarrow> offer_handler" where
  "accept_invoice invoice pid h =
     (case active_payments h pid of
        None \<Rightarrow> h
      | Some info \<Rightarrow>
          if pay_invoice_of info \<noteq> None then h
          else h\<lparr>active_payments := (active_payments h)(pid \<mapsto>
            info\<lparr>pay_state := InvoiceReceived, pay_invoice_of := Some invoice\<rparr>)\<rparr>)"

definition handle_invoice_error ::
  "'w ldk \<Rightarrow> payment_id \<Rightarrow> nonce \<Rightarrow> hmac \<Rightarrow> offer_handler \<Rightarrow> offer_handler" where
  "handle_invoice_error L pid nonce hmac h =
     (if verify_for_offer_payment L pid hmac nonce (handler_key h) then remove_active_payment pid h else h)"

definition release_pending_messages ::
  "offer_handler \<Rightarrow> (offers_message \<times> send_instructions) list \<times> offer_handler" where
  "release_pending_messages h = (pending_messages h, h\<lparr>pending_messages := []\<rparr>)"

text \<open>Running such a section within an operation.\<close>

definition locked :: "(offer_handler \<Rightarrow> offer_handler) \<Rightarrow> ('w sys, 'e, unit) io" where
  "locked f = (\<lambda>(h, w). (Ok (), f h, w))"

definition locked_res :: "(offer_handler \<Rightarrow> ('e, 'a) res \<times> offer_handler) \<Rightarrow> ('w sys, 'e, 'a) io" where
  "locked_res f = (\<lambda>(h, w). case f h of (r, h') \<Rightarrow> (r, h', w))"

definition get_handler :: "('w sys, 'e, offer_handler) io" where
  "get_handler = (\<lambda>(h, w). (Ok h, h, w))"

declare locked_def [io_simps] locked_res_def [io_simps] get_handler_def [io_simps]

section \<open>Paying an offer\<close>

text \<open>
  \<open>sleep\<close> waits two seconds and tells whether the timeout fired first. At most \<open>t div 2\<close> full
  sleeps fit into a timeout of \<open>t\<close> seconds, and the invoice is looked for before each sleep:
  the first argument of the loop is the number of full sleeps left.
\<close>

fun wait_for_invoice ::
  "('w sys \<Rightarrow> bool \<times> 'w sys) \<Rightarrow> nat \<Rightarrow> payment_id \<Rightarrow> ('w sys, offer_error, bolt12_invoice option) io" where
  "wait_for_invoice sleep n pid (h, w) =
     (case poll_invoice pid h of
        Some invoice \<Rightarrow> (Ok (Some invoice), h, w)
      | None \<Rightarrow> (case sleep (h, w) of
            (timed_out, s) \<Rightarrow>
              (case n of
                 0 \<Rightarrow> (Ok None, s)
               | Suc m \<Rightarrow> if timed_out then (Ok None, s) else wait_for_invoice sleep m pid s)))"

definition get_invoice ::
  "secp \<Rightarrow> 'w sys ldk \<Rightarrow> ('w sys \<Rightarrow> bool \<times> 'w sys) \<Rightarrow> 'w pay_offer_params \<Rightarrow>
   ('w sys, offer_error, bolt12_invoice \<times> u64 \<times> payment_id) io" where
  "get_invoice K L sleep cfg =
     io_bind get_handler (\<lambda>self.
     io_bind (create_invoice_request L (po_offer cfg) (po_network cfg) (handler_key self)
       (po_amount cfg) (po_payer_note cfg)) (\<lambda>(invoice_request, pid, validated_amount, offer_context).
     io_bind (locked_res (register_payment pid)) (\<lambda>_.
     io_bind (io_match (send_invoice_request K L (po_destination cfg) (po_client cfg) invoice_request offer_context)
         io_return (\<lambda>e. io_bind (locked (remove_active_payment pid)) (\<lambda>_. io_err e)))
       (\<lambda>(contents, send_instructions).
     io_bind (locked (push_message (contents, send_instructions))) (\<lambda>_.
     let cfg_timeout = (case po_response_invoice_timeout cfg of
           Some t \<Rightarrow> t | None \<Rightarrow> response_invoice_timeout self)
     in
     io_bind (wait_for_invoice sleep (unat cfg_timeout div 2) pid) (\<lambda>r.
     case r of
       None \<Rightarrow> io_bind (locked (remove_active_payment pid)) (\<lambda>_. io_err (InvoiceTimeout cfg_timeout))
     | Some invoice \<Rightarrow>
         io_bind (locked (set_state InvoiceReceived pid)) (\<lambda>_.
         io_return (invoice, validated_amount, pid))))))))"

definition payment_params ::
  "blinded_payment_path \<Rightarrow> u8 list \<Rightarrow> u64 \<Rightarrow> payment_id \<Rightarrow> fee_limit option \<Rightarrow> send_payment_params" where
  "payment_params path payment_hash amount pid fl =
     \<lparr>sp_path = path, sp_cltv_expiry_delta = pi_cltv_expiry_delta (bpp_payinfo path),
      sp_fee_base_msat = pi_fee_base_msat (bpp_payinfo path),
      sp_fee_ppm = pi_fee_proportional_millionths (bpp_payinfo path),
      sp_payment_hash = payment_hash, sp_msats = amount, sp_payment_id = pid, sp_fee_limit = fl\<rparr>"

fun pay_paths_loop ::
  "secp \<Rightarrow> 'w sys client \<Rightarrow> u64 \<Rightarrow> u8 list \<Rightarrow> payment_id \<Rightarrow> fee_limit option \<Rightarrow>
   blinded_payment_path list \<Rightarrow> offer_error option \<Rightarrow> ('w sys, offer_error, lnrpc_payment) io" where
  "pay_paths_loop K c amount payment_hash pid fl [] last_error =
     io_bind (locked (remove_active_payment pid)) (\<lambda>_.
     io_err (case last_error of Some e \<Rightarrow> e | None \<Rightarrow> PaymentFailure))"
| "pay_paths_loop K c amount payment_hash pid fl (path # paths) last_error =
     io_bind (case bpp_introduction_node path of
         NodeId node_id \<Rightarrow> io_return (Some (pk_to_string K node_id))
       | DirectedShortChannelId dir scid \<Rightarrow>
           io_bind (get_node_id_from_scid c scid dir) (\<lambda>node_id_pub. io_return (Some node_id_pub)))
       (\<lambda>intro_node_id.
     io_match (send_payment (client_payer K c) (payment_params path payment_hash amount pid fl))
       (\<lambda>_.
          io_bind (locked (set_state PaymentDispatched pid)) (\<lambda>_.
          io_match (track_payment (client_payer K c) payment_hash)
            (\<lambda>payment. io_bind (locked (remove_active_payment pid)) (\<lambda>_. io_return payment))
            (\<lambda>e. pay_paths_loop K c amount payment_hash pid fl paths (Some e))))
       (\<lambda>e. pay_paths_loop K c amount payment_hash pid fl paths (Some e)))"

definition pay_invoice ::
  "secp \<Rightarrow> 'w sys client \<Rightarrow> u64 \<Rightarrow> bolt12_invoice \<Rightarrow> payment_id \<Rightarrow> fee_limit option \<Rightarrow>
   ('w sys, offer_error, lnrpc_payment) io" where
  "pay_invoice K c amount invoice pid fl =
     pay_paths_loop K c amount (case inv_payment_hash invoice of PaymentHash bytes \<Rightarrow> bytes) pid fl
       (inv_payment_paths invoice) None"

definition pay_offer ::
  "secp \<Rightarrow> 'w sys ldk \<Rightarrow> ('w sys \<Rightarrow> bool \<times> 'w sys) \<Rightarrow> 'w pay_offer_params \<Rightarrow>
   ('w sys, offer_error, lnrpc_payment) io" where
  "pay_offer K L sleep cfg =
     io_bind (get_invoice K L sleep cfg) (\<lambda>(invoice, validated_amount, pid).
     pay_invoice K (po_client cfg) validated_amount invoice pid (po_fee_limit cfg))"

section \<open>Creating offers and invoices\<close>

definition from_params :: "'w create_offer_params \<Rightarrow> create_offer_args" where
  "from_params p =
     \<lparr>co_amount_msats = cop_amount_msats p, co_chain = cop_chain p, co_description = cop_description p,
      co_issuer = cop_issuer p, co_quantity = cop_quantity p, co_expiry = cop_expiry p\<rparr>"

definition handler_create_offer ::
  "secp \<Rightarrow> 'w sys ldk \<Rightarrow> 'w create_offer_params \<Rightarrow> ('w sys, offer_error, offer) io" where
  "handler_create_offer K L params =
     io_bind get_handler (\<lambda>self.
     create_offer K L (lightning_offer_creator (cop_client params)) (lightning_connector (cop_client params))
       (from_params params) (handler_key self))"

definition create_invoice ::
  "secp \<Rightarrow> 'w sys ldk \<Rightarrow> 'w sys client \<Rightarrow> invoice_request \<Rightarrow> ('w sys, offer_error, bolt12_invoice_info) io" where
  "create_invoice K L c invoice_request =
     create_invoice_info_from_request K L (client_invoice_creator c) invoice_request"

section \<open>Incoming messages\<close>

type_synonym reply = "(offers_message \<times> response_instruction) option"

definition handle_invoice_request_message ::
  "secp \<Rightarrow> 'w sys ldk \<Rightarrow> 'w sys client option \<Rightarrow> invoice_request \<Rightarrow> offers_context option \<Rightarrow>
   responder option \<Rightarrow> ('w sys, unit, reply) io" where
  "handle_invoice_request_message K L client_opt ir ctx resp =
     io_bind get_handler (\<lambda>self.
     case resp of
       None \<Rightarrow> io_return None
     | Some r \<Rightarrow>
       (case ctx of
          Some (CtxInvoiceRequest nonce) \<Rightarrow>
            (case verify_using_recipient_data L ir nonce (handler_key self) of
               None \<Rightarrow> io_return None
             | Some verified \<Rightarrow>
               (case client_opt of
                  None \<Rightarrow> io_return None
                | Some c \<Rightarrow>
                    io_match (create_invoice K L c ir)
                      (\<lambda>info.
                         case respond_using_derived_keys L verified (bi_payment_paths info) (bi_payment_hash info) of
                           Inl e \<Rightarrow> io_return None
                         | Inr builder \<Rightarrow>
                             (case ib_build_and_sign L builder of
                                Inr invoice \<Rightarrow>
                                  io_bind (locked (push_message (MsgInvoice invoice, ForReply r))) (\<lambda>_.
                                  io_return None)
                              | Inl e \<Rightarrow>
                                  io_return (Some (MsgInvoiceError (invoice_error_from L e), Respond r))))
                      (\<lambda>e. io_return None)))
        | _ \<Rightarrow> io_return None))"

definition handle_invoice_message ::
  "'w ldk \<Rightarrow> bolt12_invoice \<Rightarrow> offers_context option \<Rightarrow> responder option \<Rightarrow> offer_handler \<Rightarrow>
   reply \<times> offer_handler" where
  "handle_invoice_message L invoice ctx resp h =
     (case ctx of
        Some (CtxOutboundPayment pid nonce _) \<Rightarrow>
          (case verify_using_payer_data L invoice pid nonce (handler_key h) of
             Some pid' \<Rightarrow> (None, accept_invoice invoice pid' h)
           | None \<Rightarrow>
               (map_option (\<lambda>r. (MsgInvoiceError (InvoiceError ''invoice verification failure''), Respond r)) resp, h))
      | _ \<Rightarrow> (None, h))"

definition handle_invoice_error_message ::
  "'w ldk \<Rightarrow> offers_context option \<Rightarrow> offer_handler \<Rightarrow> reply \<times> offer_handler" where
  "handle_invoice_error_message L ctx h =
     (case ctx of
        Some (CtxOutboundPayment pid nonce (Some hmac)) \<Rightarrow> (None, handle_invoice_error L pid nonce hmac h)
      | _ \<Rightarrow> (None, h))"

definition handle_message ::
  "secp \<Rightarrow> 'w sys ldk \<Rightarrow> 'w sys client option \<Rightarrow> offers_message \<Rightarrow> offers_context option \<Rightarrow>
   responder option \<Rightarrow> ('w sys, unit, reply) io" where
  "handle_message K L client_opt message ctx resp =
     (case message of
        MsgInvoiceRequest ir \<Rightarrow> handle_invoice_request_message K L client_opt ir ctx resp
      | MsgInvoice invoice \<Rightarrow>
          locked_res (\<lambda>h. case handle_invoice_message L invoice ctx resp h of (r, h') \<Rightarrow> (Ok r, h'))
      | MsgInvoiceError e \<Rightarrow>
          locked_res (\<lambda>h. case handle_invoice_error_message L ctx h of (r, h') \<Rightarrow> (Ok r, h')))"

section \<open>The steps of the handler\<close>

inductive handler_step :: "'w ldk \<Rightarrow> offer_handler \<Rightarrow> offer_handler \<Rightarrow> bool" for L :: "'w ldk" where
  register: "register_payment pid h = (Ok (), h') \<Longrightarrow> handler_step L h h'"
| remove: "handler_step L h (remove_active_payment pid h)"
| push: "handler_step L h (push_message m h)"
| advance: "st \<noteq> InvoiceRequestCreated \<Longrightarrow> handler_step L h (set_state st pid h)"
| accept: "verify_using_payer_data L invoice pid nonce (handler_key h) = Some pid' \<Longrightarrow>
    handler_step L h (accept_invoice invoice pid' h)"
| invoice_error: "handler_step L h (handle_invoice_error L pid nonce hmac h)"
| release: "handler_step L h (snd (release_pending_messages h))"

inductive_cases handler_stepE: "handler_step L h h'"

lemmas section_defs = register_payment_def remove_active_payment_def push_message_def set_state_def
  accept_invoice_def handle_invoice_error_def release_pending_messages_def poll_invoice_def

definition sys_steps :: "'w sys ldk \<Rightarrow> 'w sys \<Rightarrow> 'w sys \<Rightarrow> bool" where
  "sys_steps L s s' \<longleftrightarrow> (handler_step L)\<^sup>*\<^sup>* (fst s) (fst s')"

interpretation steps: rely "sys_steps L" for L
  by unfold_locales (auto simp: sys_steps_def)

text \<open>What the steps keep: the key, the invoice of a payment while it is tracked, and that an
  invoice is only stored under a payment id it was verified for.\<close>

definition invoices_verified :: "'w ldk \<Rightarrow> offer_handler \<Rightarrow> bool" where
  "invoices_verified L h \<longleftrightarrow>
     (\<forall>pid info invoice. active_payments h pid = Some info \<and> pay_invoice_of info = Some invoice \<longrightarrow>
        (\<exists>pid' nonce. verify_using_payer_data L invoice pid' nonce (handler_key h) = Some pid))"

definition invoice_kept :: "payment_id \<Rightarrow> bolt12_invoice \<Rightarrow> offer_handler \<Rightarrow> bool" where
  "invoice_kept pid invoice h \<longleftrightarrow> active_payments h pid = None \<or> poll_invoice pid h = Some invoice"

lemma step_key: "handler_step L h h' \<Longrightarrow> handler_key h' = handler_key h"
  by (erule handler_stepE) (auto simp: section_defs split: option.splits if_splits)

lemma step_verified:
  assumes "handler_step L h h'" and "invoices_verified L h"
  shows "invoices_verified L h'"
  using assms
  by (elim handler_stepE)
    (auto simp: section_defs invoices_verified_def split: option.splits if_splits)

lemma step_lookup:
  assumes "handler_step L h h'" and "active_payments h pid = Some info" and "pay_invoice_of info = Some invoice"
  shows "invoice_kept pid invoice h'"
  using assms
  by (elim handler_stepE)
    (auto simp: section_defs invoice_kept_def split: option.splits if_splits)

lemma steps_key: "sys_steps L s s' \<Longrightarrow> handler_key (fst s') = handler_key (fst s)"
  unfolding sys_steps_def by (induction rule: rtranclp_induct) (auto dest: step_key)

lemma steps_verified: "sys_steps L s s' \<Longrightarrow> invoices_verified L (fst s) \<Longrightarrow> invoices_verified L (fst s')"
  unfolding sys_steps_def by (induction rule: rtranclp_induct) (auto dest: step_verified)

section \<open>Every operation moves the handler by steps\<close>

lemma locked_moves: "(\<And>h. handler_step L h (f h)) \<Longrightarrow> moves (sys_steps L) (locked f)"
  by (auto simp: moves_def locked_def sys_steps_def)

lemma register_moves: "moves (sys_steps L) (locked_res (register_payment pid))"
proof (rule movesI)
  fix s :: "'a sys"
  obtain h w where s: "s = (h, w)" by fastforce
  show "sys_steps L s (snd (locked_res (register_payment pid) s))"
  proof (cases "active_payments h pid")
    case None
    then have "handler_step L h (snd (register_payment pid h))"
      by (intro handler_step.register [of pid]) (simp add: register_payment_def)
    then show ?thesis by (auto simp: s locked_res_def sys_steps_def split: prod.split)
  qed (simp add: s locked_res_def sys_steps_def register_payment_def)
qed

lemma get_handler_moves: "moves (sys_steps L) get_handler"
  by (auto simp: moves_def get_handler_def sys_steps_def)

lemma wait_for_invoice_moves:
  assumes "moves (sys_steps L) sleep"
  shows "moves (sys_steps L) (wait_for_invoice sleep n pid)"
proof (rule movesI)
  fix s show "sys_steps L s (snd (wait_for_invoice sleep n pid s))"
  proof (induction n arbitrary: s)
    case 0
    show ?case
      using movesD [OF assms, of s] steps.R_refl [of L s]
      by (cases s) (auto split: option.split prod.split)
  next
    case (Suc n)
    obtain h w b s' where s: "s = (h, w)" "sleep s = (b, s')" by (cases s; cases "sleep s") blast
    have "sys_steps L s s'" by (rule movesD [OF assms s(2)])
    with Suc.IH [of s'] s show ?case
      using steps.R_refl [of L s] steps.R_trans [of L s s'] by (auto split: option.split)
  qed
qed

lemmas handler_moves = steps.moves_intros locked_moves register_moves get_handler_moves
  handler_step.remove handler_step.push handler_step.advance

lemma get_invoice_moves:
  assumes "client_moves (sys_steps L) (po_client cfg)" and "ldk_moves (sys_steps L) L"
    and "moves (sys_steps L) sleep"
  shows "moves (sys_steps L) (get_invoice K L sleep cfg)"
  unfolding get_invoice_def Let_def case_prod_beta
  using steps.send_invoice_request_moves [OF assms(1,2)] steps.create_invoice_request_moves [OF assms(2)]
    wait_for_invoice_moves [OF assms(3)]
  by (auto intro!: handler_moves split: option.split)

lemma pay_invoice_moves:
  assumes "client_moves (sys_steps L) c"
  shows "moves (sys_steps L) (pay_invoice K c amount invoice pid fl)"
proof -
  have "moves (sys_steps L) (pay_paths_loop K c amount hash pid fl paths e)" for hash paths e
    using steps.send_payment_moves [OF assms] steps.track_payment_moves [OF assms]
      steps.get_node_id_from_scid_moves [OF assms]
    by (induction paths arbitrary: e)
      (auto intro!: handler_moves split: introduction_node.split)
  then show ?thesis by (simp add: pay_invoice_def)
qed

lemma pay_offer_moves:
  assumes "client_moves (sys_steps L) (po_client cfg)" and "ldk_moves (sys_steps L) L"
    and "moves (sys_steps L) sleep"
  shows "moves (sys_steps L) (pay_offer K L sleep cfg)"
  unfolding pay_offer_def case_prod_beta
  by (intro steps.moves_bind get_invoice_moves pay_invoice_moves assms)

lemma handle_message_moves:
  assumes "\<And>c. client_opt = Some c \<Longrightarrow> client_moves (sys_steps L) c"
  shows "moves (sys_steps L) (handle_message K L client_opt m ctx resp)"
proof (cases m)
  case (MsgInvoiceRequest ir)
  have "moves (sys_steps L) (create_invoice K L c ir)" if "client_opt = Some c" for c
    unfolding create_invoice_def by (rule steps.create_invoice_info_moves [OF assms [OF that]])
  with MsgInvoiceRequest show ?thesis
    unfolding handle_message_def handle_invoice_request_message_def
    by (auto intro!: handler_moves split: option.split offers_context.split sum.split)
next
  case (MsgInvoice invoice)
  have "sys_steps L (h, w) (snd (handle_invoice_message L invoice ctx resp h), w)" for h w
    unfolding sys_steps_def handle_invoice_message_def
    by (auto split: option.split offers_context.split intro: r_into_rtranclp handler_step.accept)
  with MsgInvoice show ?thesis
    by (auto simp: handle_message_def moves_def locked_res_def case_prod_beta)
next
  case (MsgInvoiceError e)
  have "sys_steps L (h, w) (snd (handle_invoice_error_message L ctx h), w)" for h w
    unfolding sys_steps_def handle_invoice_error_message_def
    by (auto split: option.split offers_context.split intro: r_into_rtranclp handler_step.invoice_error)
  with MsgInvoiceError show ?thesis
    by (auto simp: handle_message_def moves_def locked_res_def case_prod_beta)
qed

section \<open>Properties\<close>

lemma invoices_verified_new [simp]: "invoices_verified L (OfferHandler_new t seed rnd)"
  by (simp add: invoices_verified_def OfferHandler_new_def)

text \<open>
  The rule for stored invoices holds at all times: whatever the other tasks do to the
  handler while these operations wait for LND, paying an offer and handling a message leave
  only invoices in the handler that were verified for the payment id they are stored under.
\<close>

theorem operations_keep_invoices_verified:
  assumes "ldk_moves (sys_steps L) L" and "moves (sys_steps L) sleep"
    and "client_moves (sys_steps L) (po_client cfg)" and "client_moves (sys_steps L) c"
    and "invoices_verified L (fst s)"
  shows "invoices_verified L (fst (snd (pay_offer K L sleep cfg s))) \<and>
    invoices_verified L (fst (snd (handle_message K L (Some c) m ctx resp s)))"
proof -
  have "sys_steps L s (snd (pay_offer K L sleep cfg s))"
    using pay_offer_moves [OF assms(3,1,2)] unfolding moves_def by blast
  moreover have "sys_steps L s (snd (handle_message K L (Some c) m ctx resp s))"
    using handle_message_moves [of "Some c" L K m ctx resp] assms(4) unfolding moves_def by blast
  ultimately show ?thesis using steps_verified assms(5) by blast
qed

text \<open>For witnesses: a world in which nothing interferes with the handler.\<close>

definition lift_fun :: "('w \<Rightarrow> 'a \<times> 'w) \<Rightarrow> 'w sys \<Rightarrow> 'a \<times> 'w sys" where
  "lift_fun f = (\<lambda>(h, w). case f w of (a, w') \<Rightarrow> (a, h, w'))"

definition quiet_ldk :: "nat sys ldk" where
  "quiet_ldk =
     \<lparr>get_secure_random_bytes = lift_fun (get_secure_random_bytes sample_ldk),
      nonce_from_entropy_source = lift_fun (nonce_from_entropy_source sample_ldk),
      offer_from_str = offer_from_str sample_ldk, request_invoice = request_invoice sample_ldk,
      irb_chain = irb_chain sample_ldk, irb_amount_msats = irb_amount_msats sample_ldk,
      irb_payer_note = irb_payer_note sample_ldk, irb_build_and_sign = irb_build_and_sign sample_ldk,
      hmac_for_offer_payment = hmac_for_offer_payment sample_ldk,
      verify_for_offer_payment = verify_for_offer_payment sample_ldk,
      verify_using_payer_data = verify_using_payer_data sample_ldk,
      verify_using_recipient_data = verify_using_recipient_data sample_ldk,
      respond_using_derived_keys = respond_using_derived_keys sample_ldk,
      ib_build_and_sign = ib_build_and_sign sample_ldk, invoice_error_from = invoice_error_from sample_ldk,
      path_one_hop = (\<lambda>k x. lift_fun (path_one_hop sample_ldk k x)),
      path_new = (\<lambda>ns k x. lift_fun (path_new sample_ldk ns k x)),
      ob_deriving_signing_pubkey = ob_deriving_signing_pubkey sample_ldk,
      ob_chain = ob_chain sample_ldk, ob_amount_msats = ob_amount_msats sample_ldk,
      ob_path = ob_path sample_ldk, ob_description = ob_description sample_ldk,
      ob_issuer = ob_issuer sample_ldk, ob_supported_quantity = ob_supported_quantity sample_ldk,
      ob_absolute_expiry = ob_absolute_expiry sample_ldk, ob_build = ob_build sample_ldk,
      system_time_now = lift_fun (system_time_now sample_ldk),
      sha256_hash = sha256_hash sample_ldk, sha256_from_str = sha256_from_str sample_ldk\<rparr>"

lemma quiet_verify: "verify_using_payer_data quiet_ldk invoice pid nonce key = Some pid"
  by (simp add: quiet_ldk_def sample_ldk_def)

lemma lift_fun_moves: "moves (sys_steps L) (lift_fun f)"
  by (auto simp: moves_def lift_fun_def sys_steps_def split: prod.split)

lemma quiet_ldk_moves: "ldk_moves (sys_steps L) quiet_ldk"
  by (simp add: ldk_moves_def quiet_ldk_def lift_fun_moves)

lemma quiet_ldk_documented: "ldk_documented quiet_ldk"
  using sample_ldk_documented by (simp add: ldk_documented_def quiet_ldk_def)

lemma unavailable_moves: "moves (sys_steps L) unavailable"
  by (simp add: moves_def unavailable_def sys_steps_def)

text \<open>An LND with node 9 as a peer that can be paid along any route; the sleep of the payer
  delivers the invoice, as the task that handles incoming messages would.\<close>

definition paying_client :: "nat sys client" where
  "paying_client = offline_client
     \<lparr>lc_list_peers := (\<lambda>_ s. (Inr [\<lparr>peer_pub_key = pk_to_string sample_secp (PublicKey 9), peer_features = []\<rparr>], s)),
      lc_get_info := (\<lambda>s. (Inr \<lparr>gi_identity_pubkey = pk_to_string sample_secp (PublicKey 8),
        gi_chains = [\<lparr>chain_name = ''bitcoin'', chain_network = ''mainnet''\<rparr>], gi_features = []\<rparr>, s)),
      lc_query_routes := (\<lambda>_ s. (Inr [Route [1]], s)),
      lc_send_to_route_v2 := (\<lambda>_ s. (Inr \<lparr>ha_attempt_id = 1, ha_preimage = []\<rparr>, s)),
      lc_track_payment_v2 := (\<lambda>_ s. (Inr [Inr \<lparr>pay_status = StatusSucceeded, pay_preimage = ''00''\<rparr>], s))\<rparr>"

definition sample_payment_path :: blinded_payment_path where
  "sample_payment_path = \<lparr>bpp_introduction_node = NodeId (PublicKey 9), bpp_blinding_point = PublicKey 3,
     bpp_hops = [], bpp_payinfo = \<lparr>pi_fee_base_msat = 0, pi_fee_proportional_millionths = 0,
       pi_cltv_expiry_delta = 0, pi_htlc_minimum_msat = 0, pi_htlc_maximum_msat = 0, pi_features = []\<rparr>\<rparr>"

definition payable_invoice :: bolt12_invoice where
  "payable_invoice = sample_invoice\<lparr>inv_payment_paths := [sample_payment_path]\<rparr>"

definition delivering_sleep :: "nat sys \<Rightarrow> bool \<times> nat sys" where
  "delivering_sleep = (\<lambda>(h, w). (False, snd (handle_invoice_message quiet_ldk payable_invoice
     (Some (CtxOutboundPayment (PaymentId [7]) (Nonce []) None)) None h), w))"

definition sample_pay_params :: "nat pay_offer_params" where
  "sample_pay_params = \<lparr>po_offer = sample_offer, po_amount = Some 2000, po_payer_note = None,
     po_network = Bitcoin, po_client = paying_client, po_destination = DestNode (PublicKey 9),
     po_reply_path = None, po_response_invoice_timeout = None, po_fee_limit = None\<rparr>"

abbreviation sample_handler :: offer_handler where
  "sample_handler \<equiv> OfferHandler_new None (Some [1]) []"

lemma paying_client_moves: "client_moves (sys_steps L) paying_client"
  by (simp add: client_moves_def paying_client_def offline_client_def unavailable_moves)
    (simp add: moves_def sys_steps_def)

lemma delivering_sleep_moves: "moves (sys_steps quiet_ldk) delivering_sleep"
  by (auto simp: moves_def delivering_sleep_def sys_steps_def handle_invoice_message_def
      split: option.split intro: r_into_rtranclp handler_step.accept)

theorem operations_keep_invoices_verified_witness:
  "invoices_verified quiet_ldk (fst (snd (pay_offer sample_secp quiet_ldk delivering_sleep sample_pay_params
     (sample_handler, 7))))"
  using operations_keep_invoices_verified [of quiet_ldk delivering_sleep sample_pay_params paying_client
      "(sample_handler, 7)" sample_secp "MsgInvoiceError (InvoiceError '''')" None None]
  by (simp add: quiet_ldk_moves delivering_sleep_moves sample_pay_params_def paying_client_moves)

lemma wait_for_invoice_outcome:
  "wait_for_invoice sleep n pid s = (r, s') \<Longrightarrow>
   (\<exists>invoice. r = Ok (Some invoice) \<and> poll_invoice pid (fst s') = Some invoice) \<or> r = Ok None"
  by (induction sleep n pid s rule: wait_for_invoice.induct)
    (auto split: option.splits prod.splits nat.splits if_splits)

text \<open>The stages of \<open>get_invoice\<close>, and its runs by stage.\<close>

abbreviation (input) request_stage where
  "request_stage L cfg key \<equiv> create_invoice_request L (po_offer cfg) (po_network cfg) key
     (po_amount cfg) (po_payer_note cfg)"

definition send_stage ::
  "secp \<Rightarrow> 'w sys ldk \<Rightarrow> 'w pay_offer_params \<Rightarrow> payment_id \<Rightarrow> invoice_request \<Rightarrow> offers_context \<Rightarrow>
   ('w sys, offer_error, offers_message \<times> send_instructions) io" where
  "send_stage K L cfg pid ir ctx =
     io_match (send_invoice_request K L (po_destination cfg) (po_client cfg) ir ctx)
       io_return (\<lambda>e. io_bind (locked (remove_active_payment pid)) (\<lambda>_. io_err e))"

definition wait_stage ::
  "('w sys \<Rightarrow> bool \<times> 'w sys) \<Rightarrow> u32 \<Rightarrow> payment_id \<Rightarrow> ('w sys, offer_error, bolt12_invoice) io" where
  "wait_stage sleep t pid =
     io_bind (wait_for_invoice sleep (unat t div 2) pid) (\<lambda>r.
     case r of
       None \<Rightarrow> io_bind (locked (remove_active_payment pid)) (\<lambda>_. io_err (InvoiceTimeout t))
     | Some invoice \<Rightarrow> io_bind (locked (set_state InvoiceReceived pid)) (\<lambda>_. io_return invoice))"

definition timeout_of :: "'w pay_offer_params \<Rightarrow> offer_handler \<Rightarrow> u32" where
  "timeout_of cfg h = (case po_response_invoice_timeout cfg of Some t \<Rightarrow> t | None \<Rightarrow> response_invoice_timeout h)"

definition registered_stage ::
  "secp \<Rightarrow> 'w sys ldk \<Rightarrow> ('w sys \<Rightarrow> bool \<times> 'w sys) \<Rightarrow> 'w pay_offer_params \<Rightarrow> u32 \<Rightarrow> payment_id \<Rightarrow>
   invoice_request \<Rightarrow> offers_context \<Rightarrow> ('w sys, offer_error, bolt12_invoice) io" where
  "registered_stage K L sleep cfg t pid ir ctx =
     io_bind (send_stage K L cfg pid ir ctx) (\<lambda>m.
     io_bind (locked (push_message m)) (\<lambda>_. wait_stage sleep t pid))"

lemma io_bind_assoc: "io_bind (io_bind m f) g = io_bind m (\<lambda>a. io_bind (f a) g)"
  by (auto simp: io_bind_def fun_eq_iff split: prod.split res.split)

lemma io_bind_err [simp]: "io_bind (io_err e) f = io_err e"
  by (simp add: io_bind_def io_err_def)

lemma io_bind_return [simp]: "io_bind (io_return a) f = f a"
  by (simp add: io_bind_def io_return_def)

lemma io_bind_get_handler: "io_bind get_handler k s = k (fst s) s"
  by (cases s) (simp add: io_bind_def get_handler_def)

lemma wait_stage_bind:
  "io_bind (wait_stage sleep t pid) k =
     io_bind (wait_for_invoice sleep (unat t div 2) pid) (\<lambda>r.
     case r of
       None \<Rightarrow> io_bind (locked (remove_active_payment pid)) (\<lambda>_. io_err (InvoiceTimeout t))
     | Some invoice \<Rightarrow> io_bind (locked (set_state InvoiceReceived pid)) (\<lambda>_. k invoice))"
  unfolding wait_stage_def io_bind_assoc
  by (rule arg_cong [where f = "io_bind _"]) (auto simp: io_bind_assoc split: option.split)

lemma get_invoice_stages:
  "get_invoice K L sleep cfg s =
     io_bind (request_stage L cfg (handler_key (fst s))) (\<lambda>(ir, pid, amt, ctx).
     io_bind (locked_res (register_payment pid)) (\<lambda>_.
     io_bind (registered_stage K L sleep cfg (timeout_of cfg (fst s)) pid ir ctx) (\<lambda>invoice.
     io_return (invoice, amt, pid)))) s"
  by (simp add: get_invoice_def send_stage_def registered_stage_def timeout_of_def
      io_bind_assoc case_prod_unfold Let_def io_bind_get_handler wait_stage_bind)

lemma send_stage_error:
  "send_stage K L cfg pid ir ctx s = (Err e, s') \<Longrightarrow> active_payments (fst s') pid = None"
  by (auto simp: send_stage_def io_simps remove_active_payment_def split: prod.splits res.splits)

lemma wait_stage_outcome:
  "wait_stage sleep t pid s = (r, s') \<Longrightarrow>
     (case r of
        Ok invoice \<Rightarrow> \<exists>s1. wait_for_invoice sleep (unat t div 2) pid s =
          (Ok (Some invoice), s1) \<and>
          poll_invoice pid (fst s1) = Some invoice
      | Err e \<Rightarrow> e = InvoiceTimeout t \<and> active_payments (fst s') pid = None
      | Panic msg \<Rightarrow> False)"
proof -
  assume run: "wait_stage sleep t pid s = (r, s')"
  obtain x s1 where w: "wait_for_invoice sleep (unat t div 2) pid s =
      (x, s1)" by (metis surj_pair)
  from wait_for_invoice_outcome [OF w] run w show ?thesis
    by (auto simp: wait_stage_def io_simps remove_active_payment_def split: prod.splits)
qed

lemma wait_stage_error: "wait_stage sleep t pid s = (Err e, s') \<Longrightarrow> active_payments (fst s') pid = None"
  by (drule wait_stage_outcome) simp

lemma registered_stage_error:
  "registered_stage K L sleep cfg t pid ir ctx s = (Err e, s') \<Longrightarrow> active_payments (fst s') pid = None"
  by (auto simp: registered_stage_def io_bind_Err_iff locked_def
      dest: send_stage_error wait_stage_error split: prod.splits)

text \<open>
  C7. Cleaning up: once a payment id has been drawn, an error of \<open>get_invoice\<close> either says that
  this id is already being processed or leaves the id untracked, whatever the other tasks do.
\<close>

theorem get_invoice_error_untracks:
  assumes "create_invoice_request L (po_offer cfg) (po_network cfg) (handler_key (fst s))
      (po_amount cfg) (po_payer_note cfg) s = (Ok (ir, pid, amt, ctx), s1)"
    and "get_invoice K L sleep cfg s = (Err e, s')"
  shows "e = AlreadyProcessing pid \<or> active_payments (fst s') pid = None"
proof -
  from assms have "io_bind (locked_res (register_payment pid)) (\<lambda>_.
     io_bind (registered_stage K L sleep cfg (timeout_of cfg (fst s)) pid ir ctx) (\<lambda>invoice.
     io_return (invoice, amt, pid))) s1 = (Err e, s')"
    unfolding get_invoice_stages by (simp add: io_bind_def)
  then show ?thesis
    by (auto simp: io_bind_Err_iff locked_res_def register_payment_def dest: registered_stage_error
        split: prod.splits option.splits)
qed

lemma sample_request_stage:
  "create_invoice_request quiet_ldk sample_offer Bitcoin key (Some 2000) None (h, 7) =
     (Ok (sample_request, PaymentId [7], 2000,
        CtxOutboundPayment (PaymentId [7]) (Nonce [8]) (Some (Hmac [7]))), h, 9)"
  by (simp add: create_invoice_request_def quiet_ldk_def lift_fun_def sample_ldk_def sample_offer_def
      io_simps validate_amount_def Let_def)

lemma sample_send_stage:
  "send_invoice_request sample_secp quiet_ldk (DestNode (PublicKey 9)) paying_client ir ctx s =
     (Ok (MsgInvoiceRequest ir, WithSpecifiedReplyPath (DestNode (PublicKey 9)) (sample_path (PublicKey 8))), s)"
  by (cases s) (simp add: send_invoice_request_def connect_to_peer_def lightning_connector_def
      lightning_list_peers_def paying_client_def io_simps create_reply_path_for_outgoing_payments_def
      features_support_onion_messages_def quiet_ldk_def lift_fun_def sample_ldk_def sample_path_def)

lemma sample_get_invoice:
  "get_invoice sample_secp quiet_ldk sleep sample_pay_params (sample_handler, 7) =
     io_bind (locked_res (register_payment (PaymentId [7]))) (\<lambda>_.
     io_bind (locked (push_message (MsgInvoiceRequest sample_request,
       WithSpecifiedReplyPath (DestNode (PublicKey 9)) (sample_path (PublicKey 8))))) (\<lambda>_.
     io_bind (wait_stage sleep 15 (PaymentId [7])) (\<lambda>invoice.
     io_return (invoice, 2000, PaymentId [7])))) (sample_handler, 9)"
proof -
  have "send_stage sample_secp quiet_ldk sample_pay_params (PaymentId [7]) ir ctx =
      io_return (MsgInvoiceRequest ir, WithSpecifiedReplyPath (DestNode (PublicKey 9)) (sample_path (PublicKey 8)))"
    for ir ctx
    by (auto simp: send_stage_def sample_pay_params_def sample_send_stage io_match_def fun_eq_iff)
  moreover have "timeout_of sample_pay_params sample_handler = 15"
    by (simp add: timeout_of_def sample_pay_params_def OfferHandler_new_def
        DEFAULT_RESPONSE_INVOICE_TIMEOUT_def)
  ultimately show ?thesis
    unfolding get_invoice_stages
    by (simp add: sample_pay_params_def sample_request_stage io_bind_def [of "create_invoice_request _ _ _ _ _ _"]
        registered_stage_def io_bind_assoc)
qed

lemmas run_simps = io_simps wait_stage_def section_defs OfferHandler_new_def

theorem get_invoice_error_untracks_witness:
  "\<exists>e s'. get_invoice sample_secp quiet_ldk (\<lambda>s. (True, s)) sample_pay_params (sample_handler, 7) = (Err e, s') \<and>
     active_payments (fst s') (PaymentId [7]) = None"
proof -
  obtain s' where run: "get_invoice sample_secp quiet_ldk (\<lambda>s. (True, s)) sample_pay_params (sample_handler, 7) =
      (Err (InvoiceTimeout 15), s')"
    unfolding sample_get_invoice by (simp add: run_simps)
  have req: "create_invoice_request quiet_ldk (po_offer sample_pay_params) (po_network sample_pay_params)
      (handler_key (fst (sample_handler, 7 :: nat))) (po_amount sample_pay_params)
      (po_payer_note sample_pay_params) (sample_handler, 7) =
      (Ok (sample_request, PaymentId [7], 2000,
        CtxOutboundPayment (PaymentId [7]) (Nonce [8]) (Some (Hmac [7]))), sample_handler, 9)"
    by (simp add: sample_pay_params_def sample_request_stage)
  from get_invoice_error_untracks [OF req run] run show ?thesis by auto
qed

lemma get_invoice_outcome:
  assumes "ldk_moves (sys_steps L) L" and "moves (sys_steps L) sleep"
    and "client_moves (sys_steps L) (po_client cfg)" and "invoices_verified L (fst s)"
    and run: "get_invoice K L sleep cfg s = (Ok (invoice, amt, pid), s')"
  shows "validate_amount (offer_amount (po_offer cfg)) (po_amount cfg) = Ok amt \<and>
    (\<exists>pid' nonce. verify_using_payer_data L invoice pid' nonce (handler_key (fst s)) = Some pid)"
proof -
  from run obtain ir ctx s1 s2 m s3 s4 s5 where
    req: "create_invoice_request L (po_offer cfg) (po_network cfg) (handler_key (fst s)) (po_amount cfg)
       (po_payer_note cfg) s = (Ok (ir, pid, amt, ctx), s1)"
    and reg: "locked_res (register_payment pid) s1 = (Ok (), s2)"
    and snd: "send_stage K L cfg pid ir ctx s2 = (Ok m, s3)"
    and psh: "locked (push_message m) s3 = (Ok () :: (offer_error, unit) res, s4)"
    and wait: "wait_stage sleep (timeout_of cfg (fst s)) pid s4 = (Ok invoice, s5)"
    unfolding get_invoice_stages registered_stage_def
    by (auto simp: io_bind_Ok_iff)
  from wait_stage_outcome [OF wait] obtain s6 where
    w: "wait_for_invoice sleep (unat (timeout_of cfg (fst s)) div 2) pid s4 =
      (Ok (Some invoice), s6)"
    and poll: "poll_invoice pid (fst s6) = Some invoice" by auto
  have "moves (sys_steps L) (send_stage K L cfg pid ir ctx)"
    unfolding send_stage_def using steps.send_invoice_request_moves [OF assms(3,1)]
    by (auto intro!: handler_moves)
  from movesD [OF steps.create_invoice_request_moves [OF assms(1)] req] movesD [OF register_moves reg]
    movesD [OF this snd] movesD [OF locked_moves [OF handler_step.push] psh]
    movesD [OF wait_for_invoice_moves [OF assms(2)] w]
  have "sys_steps L s s6" by (meson steps.R_trans)
  then have "invoices_verified L (fst s6)" "handler_key (fst s6) = handler_key (fst s)"
    using steps_verified steps_key assms(4) by blast+
  with poll have "\<exists>pid' nonce. verify_using_payer_data L invoice pid' nonce (handler_key (fst s)) = Some pid"
    by (auto simp: poll_invoice_def invoices_verified_def split: option.splits)
  with create_invoice_request_Ok [OF req] show ?thesis by blast
qed

text \<open>
  C3. The invoice LNDK pays: what \<open>get_invoice\<close> returns was verified, with the key of the
  handler, for the payment id it is returned with, and comes with an amount that covers the
  offer, whatever the other tasks do while it waits.
\<close>

theorem get_invoice_verified:
  assumes "ldk_moves (sys_steps L) L" and "moves (sys_steps L) sleep"
    and "client_moves (sys_steps L) (po_client cfg)" and "invoices_verified L (fst s)"
    and "get_invoice K L sleep cfg s = (Ok (invoice, amt, pid), s')"
  shows "validate_amount (offer_amount (po_offer cfg)) (po_amount cfg) = Ok amt \<and>
    (\<exists>pid' nonce. verify_using_payer_data L invoice pid' nonce (handler_key (fst s)) = Some pid)"
  using get_invoice_outcome [OF assms] .

lemma sample_get_invoice_delivered:
  "\<exists>s'. get_invoice sample_secp quiet_ldk delivering_sleep sample_pay_params (sample_handler, 7) =
     (Ok (payable_invoice, 2000, PaymentId [7]), s')"
  unfolding sample_get_invoice
  by (simp add: run_simps delivering_sleep_def handle_invoice_message_def quiet_verify)

theorem get_invoice_verified_witness:
  "\<exists>invoice pid s'. get_invoice sample_secp quiet_ldk delivering_sleep sample_pay_params (sample_handler, 7) =
     (Ok (invoice, 2000, pid), s') \<and>
     (\<exists>pid' nonce. verify_using_payer_data quiet_ldk invoice pid' nonce (ExpandedKey [1]) = Some pid)"
proof -
  obtain s' where run: "get_invoice sample_secp quiet_ldk delivering_sleep sample_pay_params (sample_handler, 7) =
     (Ok (payable_invoice, 2000, PaymentId [7]), s')" using sample_get_invoice_delivered by blast
  have "client_moves (sys_steps quiet_ldk) (po_client sample_pay_params)"
    by (simp add: sample_pay_params_def paying_client_moves)
  from get_invoice_verified [OF quiet_ldk_moves delivering_sleep_moves this _ run] run show ?thesis
    by (auto simp: OfferHandler_new_def invoices_verified_def)
qed
lemma client_track_payment_Ok:
  "track_payment (client_payer K c) hash s = (Ok p, s') \<Longrightarrow> pay_status p = StatusSucceeded"
  by (auto simp: track_payment_def client_payer_def client_track_payment_def io_bind_Ok_iff
      track_payment_loop_Ok_iff)

lemma get_node_id_from_scid_Err:
  "get_node_id_from_scid c scid dir s = (Err e, s') \<Longrightarrow> \<exists>m. e = GetChannelInfo m"
  by (cases dir) (auto simp: get_node_id_from_scid_def io_bind_Err_iff io_map_err_Err_iff)

lemma pay_paths_loop_outcome:
  "pay_paths_loop K c amount hash pid fl paths e0 s = (r, s') \<Longrightarrow>
   (case r of
      Ok p \<Rightarrow> pay_status p = StatusSucceeded \<and> active_payments (fst s') pid = None
    | Err e \<Rightarrow> active_payments (fst s') pid = None \<or> (\<exists>m. e = GetChannelInfo m)
    | Panic msg \<Rightarrow> True)"
proof (induction paths arbitrary: e0 s)
  case Nil
  then show ?case by (cases s) (auto simp: io_simps remove_active_payment_def)
next
  case (Cons path paths)
  let ?intro = "case bpp_introduction_node path of
      NodeId node_id \<Rightarrow> io_return (Some (pk_to_string K node_id))
    | DirectedShortChannelId dir scid \<Rightarrow>
        io_bind (get_node_id_from_scid c scid dir) (\<lambda>node_id_pub. io_return (Some node_id_pub))"
  have lookup: "\<exists>m. e = GetChannelInfo m" if "?intro s = (Err e, s1)" for e s1
    using that by (auto simp: io_bind_Err_iff dest: get_node_id_from_scid_Err
        split: introduction_node.splits)
  obtain r1 s1 where i: "?intro s = (r1, s1)" by (metis surj_pair)
  obtain r2 s2 where p: "send_payment (client_payer K c) (payment_params path hash amount pid fl) s1 = (r2, s2)"
    by (metis surj_pair)
  obtain r3 s3 where t: "track_payment (client_payer K c) hash (set_state PaymentDispatched pid (fst s2), snd s2) =
      (r3, s3)" by (metis surj_pair)
  have run: "(case r1 of Err e \<Rightarrow> (Err e, s1) | Panic m \<Rightarrow> (Panic m, s1) | Ok _ \<Rightarrow>
      (case r2 of Panic m \<Rightarrow> (Panic m, s2) | Err e \<Rightarrow> pay_paths_loop K c amount hash pid fl paths (Some e) s2
       | Ok _ \<Rightarrow> (case r3 of Panic m \<Rightarrow> (Panic m, s3) | Err e \<Rightarrow> pay_paths_loop K c amount hash pid fl paths (Some e) s3
           | Ok pay \<Rightarrow> (Ok pay, remove_active_payment pid (fst s3), snd s3)))) = (r, s')"
    using Cons.prems i p t
    by (simp add: io_bind_def [of ?intro] io_match_def)
      (cases r1; cases r2; cases r3; auto simp: io_simps case_prod_beta)
  show ?case
  proof (cases "\<exists>e. r1 = Err e")
    case True
    with run lookup i show ?thesis by auto
  next
    case False
    have "pay_status pay = StatusSucceeded" if "r3 = Ok pay" for pay
      using t that by (auto dest: client_track_payment_Ok)
    with False run Cons.IH show ?thesis
      by (cases r1; cases r2; cases r3) (auto simp: remove_active_payment_def)
  qed
qed

lemma pay_invoice_Ok:
  "pay_invoice K c amount invoice pid fl s = (Ok p, s') \<Longrightarrow>
   pay_status p = StatusSucceeded \<and> active_payments (fst s') pid = None"
  using pay_paths_loop_outcome [of K c amount _ pid fl _ None s "Ok p" s'] by (simp add: pay_invoice_def)

text \<open>
  C4. A payment is reported as made only when LND reported it settled, and its id is then no
  longer tracked.
\<close>

theorem pay_invoice_success_settled:
  assumes "pay_invoice K c amount invoice pid fl s = (Ok p, s')"
  shows "pay_status p = StatusSucceeded \<and> active_payments (fst s') pid = None"
  using pay_invoice_Ok [OF assms] .

lemma sample_pay_invoice:
  "pay_invoice sample_secp paying_client 2000 payable_invoice pid None (h, w) =
     (Ok \<lparr>pay_status = StatusSucceeded, pay_preimage = ''00''\<rparr>,
      remove_active_payment pid (set_state PaymentDispatched pid h), w)"
  by (simp add: pay_invoice_def payable_invoice_def sample_invoice_def sample_payment_path_def
      payment_params_def send_payment_def track_payment_def client_payer_def client_query_routes_def
      client_send_to_route_def client_track_payment_def paying_client_def io_simps)

theorem pay_invoice_success_settled_witness:
  "\<exists>p s'. pay_invoice sample_secp paying_client 2000 payable_invoice (PaymentId [7]) None (sample_handler, 0 :: nat) =
     (Ok p, s') \<and> pay_status p = StatusSucceeded"
  using pay_invoice_success_settled [OF sample_pay_invoice] sample_pay_invoice by blast

text \<open>
  C8. When paying an invoice fails, its payment id is no longer tracked, unless the failure is
  that of looking up a channel.
\<close>

theorem pay_invoice_error_untracks:
  assumes "pay_invoice K c amount invoice pid fl s = (Err e, s')"
  shows "active_payments (fst s') pid = None \<or> (\<exists>m. e = GetChannelInfo m)"
  using pay_paths_loop_outcome [of K c amount _ pid fl _ None s "Err e" s'] assms
  by (simp add: pay_invoice_def)

theorem pay_invoice_error_untracks_witness:
  "\<exists>e s'. pay_invoice sample_secp offline_client 2000 payable_invoice (PaymentId [7]) None (sample_handler, 0 :: nat) =
     (Err e, s') \<and> (active_payments (fst s') (PaymentId [7]) = None \<or> (\<exists>m. e = GetChannelInfo m))"
proof -
  have run: "pay_invoice sample_secp offline_client 2000 payable_invoice (PaymentId [7]) None (sample_handler, 0 :: nat) =
      (Err (RouteFailure ''unavailable''), remove_active_payment (PaymentId [7]) sample_handler, 0)"
    by (simp add: pay_invoice_def payable_invoice_def sample_invoice_def sample_payment_path_def
        payment_params_def send_payment_def client_payer_def client_query_routes_def
        offline_client_def unavailable_def Status_new_def io_simps)
  from pay_invoice_error_untracks [OF run] run show ?thesis by blast
qed

text \<open>
  The exception is real: when the first path of the invoice enters through a channel and
  LND does not know it, \<open>pay_invoice\<close> returns at once, and the handler is the one the failed
  lookup left behind, with the payment id still tracked.
\<close>

theorem pay_invoice_lookup_failure_keeps_id:
  assumes "inv_payment_paths invoice = path # paths"
    and "bpp_introduction_node path = DirectedShortChannelId dir scid"
    and "lc_get_chan_info c \<lparr>cir_chan_id = scid, cir_chan_point = ''''\<rparr> s = (Inl st, s')"
  shows "pay_invoice K c amount invoice pid fl s = (Err (GetChannelInfo (st_message st)), s')"
  using assms
  by (simp add: pay_invoice_def get_node_id_from_scid_def io_simps)

theorem pay_invoice_lookup_failure_keeps_id_witness:
  "\<exists>s'. pay_invoice sample_secp offline_client 2000 (payable_invoice\<lparr>inv_payment_paths :=
        [sample_payment_path\<lparr>bpp_introduction_node := DirectedShortChannelId NodeOne 1\<rparr>]\<rparr>)
        (PaymentId [7]) None (snd (register_payment (PaymentId [7]) sample_handler), 0 :: nat) =
      (Err (GetChannelInfo ''unavailable''), s') \<and> active_payments (fst s') (PaymentId [7]) \<noteq> None"
  by (subst pay_invoice_lookup_failure_keeps_id [where path =
        "sample_payment_path\<lparr>bpp_introduction_node := DirectedShortChannelId NodeOne 1\<rparr>" and paths = "[]"
        and dir = NodeOne and scid = 1 and st = "Status_new CodeUnavailable ''unavailable''"
        and s' = "(snd (register_payment (PaymentId [7]) sample_handler), 0)"])
    (simp_all add: offline_client_def unavailable_def Status_new_def register_payment_def OfferHandler_new_def)

text \<open>
  C6. An accepted invoice is never replaced: along any sequence of steps of the handler, as
  long as the payment is tracked, the invoice first stored for it stays the one stored.
\<close>

theorem accepted_invoice_never_replaced:
  assumes "\<forall>i. Suc i < length hs \<longrightarrow> handler_step L (hs ! i) (hs ! Suc i)"
    and "\<forall>h\<in>set hs. active_payments h pid \<noteq> None"
    and "hs \<noteq> []" and "poll_invoice pid (hd hs) = Some invoice"
  shows "poll_invoice pid (last hs) = Some invoice"
  using assms
proof (induction hs)
  case (Cons h hs)
  show ?case
  proof (cases hs)
    case (Cons h' hs')
    have "handler_step L h h'" using Cons.prems(1) Cons by force
    moreover obtain info where "active_payments h pid = Some info" "pay_invoice_of info = Some invoice"
      using Cons.prems(4) by (auto simp: poll_invoice_def split: option.splits)
    ultimately have "poll_invoice pid h' = Some invoice"
      using step_lookup Cons.prems(2) Cons by (fastforce simp: invoice_kept_def)
    moreover have "\<forall>i. Suc i < length hs \<longrightarrow> handler_step L (hs ! i) (hs ! Suc i)"
      using Cons.prems(1) by auto
    ultimately show ?thesis using Cons.IH Cons.prems(2) Cons by simp
  qed (use Cons.prems in simp)
qed simp

definition accepted_handler :: offer_handler where
  "accepted_handler = accept_invoice payable_invoice (PaymentId [7]) (snd (register_payment (PaymentId [7]) sample_handler))"

theorem accepted_invoice_never_replaced_witness:
  "poll_invoice (PaymentId [7]) (last [accepted_handler, accept_invoice sample_invoice (PaymentId [7]) accepted_handler]) =
     Some payable_invoice"
proof (rule accepted_invoice_never_replaced [where L = quiet_ldk])
  show "\<forall>i. Suc i < length [accepted_handler, accept_invoice sample_invoice (PaymentId [7]) accepted_handler] \<longrightarrow>
      handler_step quiet_ldk ([accepted_handler, accept_invoice sample_invoice (PaymentId [7]) accepted_handler] ! i)
        ([accepted_handler, accept_invoice sample_invoice (PaymentId [7]) accepted_handler] ! Suc i)"
    by (auto intro: handler_step.accept [OF quiet_verify])
qed (simp_all add: accepted_handler_def section_defs OfferHandler_new_def)

text \<open>
  C9. An invoice error cancels a payment only with the code made for it: the error a payee
  sends along the reply path of our own request stops tracking the payment, and an error whose
  code does not verify, or that carries none, changes nothing.
\<close>

theorem invoice_error_needs_code:
  assumes "ldk_documented L"
    and "create_invoice_request L o' net (handler_key h) msats note s = (Ok (ir, pid, amt, ctx), s1)"
  shows "handle_message K L c (MsgInvoiceError e) (Some ctx) resp (h, w) =
      (Ok None, remove_active_payment pid h, w) \<and>
    (snd (handle_message K L c (MsgInvoiceError e) ctx' resp (h, w)) = (h, w) \<or>
     (\<exists>pid' nonce hmac. ctx' = Some (CtxOutboundPayment pid' nonce (Some hmac)) \<and>
        verify_for_offer_payment L pid' hmac nonce (handler_key h)))"
proof -
  from create_invoice_request_Ok [OF assms(2)] obtain nonce where
    "ctx = CtxOutboundPayment pid nonce (Some (hmac_for_offer_payment L pid nonce (handler_key h)))" by blast
  with assms(1) show ?thesis
    by (auto simp: handle_message_def handle_invoice_error_message_def handle_invoice_error_def
        locked_res_def ldk_documented_def split: option.split offers_context.split)
qed

theorem invoice_error_needs_code_witness:
  "handle_message sample_secp quiet_ldk None (MsgInvoiceError (InvoiceError ''no''))
     (Some (CtxOutboundPayment (PaymentId [7]) (Nonce [8]) (Some (Hmac [7])))) None (sample_handler, 0) =
   (Ok None, remove_active_payment (PaymentId [7]) sample_handler, 0)"
  using invoice_error_needs_code [OF quiet_ldk_documented sample_request_stage] by blast

text \<open>The state after a number of sleeps.\<close>

fun after_sleeps :: "('w sys \<Rightarrow> bool \<times> 'w sys) \<Rightarrow> nat \<Rightarrow> 'w sys \<Rightarrow> 'w sys" where
  "after_sleeps sleep 0 s = s"
| "after_sleeps sleep (Suc n) s = after_sleeps sleep n (snd (sleep s))"

text \<open>
  An invoice that arrives in time is not missed: if it is stored when one of the sleeps
  that fit into the timeout ends, the wait returns an invoice, the one it finds stored.
\<close>

theorem wait_finds_invoice_in_time:
  assumes "k \<le> n" and "\<forall>i<k. \<not> fst (sleep (after_sleeps sleep i s))"
    and "poll_invoice pid (fst (after_sleeps sleep k s)) \<noteq> None"
  shows "\<exists>i\<le>k. \<exists>invoice. poll_invoice pid (fst (after_sleeps sleep i s)) = Some invoice \<and>
    wait_for_invoice sleep n pid s = (Ok (Some invoice), after_sleeps sleep i s)"
  using assms
proof (induction n arbitrary: k s)
  case 0
  then show ?case by (cases s) auto
next
  case (Suc n)
  obtain h w b s' where s: "s = (h, w)" "sleep s = (b, s')" by (cases s; cases "sleep s") blast
  show ?case
  proof (cases "poll_invoice pid h")
    case (Some invoice)
    with s show ?thesis by (intro exI [of _ 0]) auto
  next
    case None
    with Suc.prems(3) s obtain j where k: "k = Suc j" by (cases k) auto
    have b: "\<not> b" using Suc.prems(2) k s by force
    have "\<forall>i<j. \<not> fst (sleep (after_sleeps sleep i s'))" using Suc.prems(2) k s by force
    with Suc.IH [of j s'] Suc.prems k s obtain i invoice where "i \<le> j"
      "poll_invoice pid (fst (after_sleeps sleep i s')) = Some invoice"
      "wait_for_invoice sleep n pid s' = (Ok (Some invoice), after_sleeps sleep i s')" by auto
    with None b s k show ?thesis by (intro exI [of _ "Suc i"]) auto
  qed
qed

theorem wait_finds_invoice_in_time_witness:
  "\<exists>invoice s'. wait_for_invoice delivering_sleep 7 (PaymentId [7])
     (snd (register_payment (PaymentId [7]) sample_handler), 0) =
     (Ok (Some invoice), s')"
proof -
  have "poll_invoice (PaymentId [7]) (fst (after_sleeps delivering_sleep 1
      (snd (register_payment (PaymentId [7]) sample_handler), 0))) \<noteq> None"
    by (simp add: delivering_sleep_def handle_invoice_message_def quiet_verify section_defs
        OfferHandler_new_def)
  from wait_finds_invoice_in_time [OF _ _ this, of 7] show ?thesis
    by (fastforce simp: delivering_sleep_def)
qed

text \<open>Pushing messages and releasing them, as a sequence of calls.\<close>

datatype queue_call = CallPush "offers_message \<times> send_instructions" | CallRelease

fun run_queue :: "queue_call list \<Rightarrow> offer_handler \<Rightarrow> (offers_message \<times> send_instructions) list \<times> offer_handler" where
  "run_queue [] h = ([], h)"
| "run_queue (CallPush m # cs) h = run_queue cs (push_message m h)"
| "run_queue (CallRelease # cs) h =
     (case release_pending_messages h of (out, h') \<Rightarrow>
        (case run_queue cs h' of (outs, h'') \<Rightarrow> (out @ outs, h'')))"

fun pushed :: "queue_call list \<Rightarrow> (offers_message \<times> send_instructions) list" where
  "pushed [] = []"
| "pushed (CallPush m # cs) = m # pushed cs"
| "pushed (CallRelease # cs) = pushed cs"

text \<open>
  Outgoing messages are neither lost, duplicated nor reordered: what the calls of
  \<open>release_pending_messages\<close> returned, followed by what is still pending, is what was pending
  at first followed by what was pushed.
\<close>

theorem pending_messages_fifo:
  "fst (run_queue cs h) @ pending_messages (snd (run_queue cs h)) = pending_messages h @ pushed cs"
  by (induction cs h rule: run_queue.induct)
    (auto simp: push_message_def release_pending_messages_def case_prod_beta)

end
