(* ===== verification/Payments.thy ===== *)
theory Payments
  imports Offer_Handler
begin

text \<open>
  What the handler of \<open>src/offers/handler.rs\<close> does with payments, seen from outside: an abstract
  ledger of payments that its locked sections implement, the order in which the paths of an
  invoice are tried, when a payment succeeds, and where the code leaves a payment id behind.
\<close>

section \<open>The ledger of payments\<close>

text \<open>
  A ledger knows the open payments and, for each, the invoice it has received if any. The
  state a payment is in, the outgoing messages and everything else is left out.
\<close>

type_synonym ledger = "payment_id \<rightharpoonup> bolt12_invoice option"

inductive ledger_step :: "(bolt12_invoice \<Rightarrow> payment_id \<Rightarrow> bool) \<Rightarrow> ledger \<Rightarrow> ledger \<Rightarrow> bool"
  for valid :: "bolt12_invoice \<Rightarrow> payment_id \<Rightarrow> bool" where
  opened: "l pid = None \<Longrightarrow> ledger_step valid l (l(pid \<mapsto> None))"
| filled: "l pid = Some None \<Longrightarrow> valid invoice pid \<Longrightarrow> ledger_step valid l (l(pid \<mapsto> Some invoice))"
| closed: "l pid \<noteq> None \<Longrightarrow> ledger_step valid l (l(pid := None))"

inductive_cases ledger_stepE: "ledger_step valid l l'"

text \<open>What every ledger guarantees: filled entries are valid, and one is never refilled.\<close>

definition entries_valid :: "(bolt12_invoice \<Rightarrow> payment_id \<Rightarrow> bool) \<Rightarrow> ledger \<Rightarrow> bool" where
  "entries_valid valid l \<longleftrightarrow> (\<forall>pid invoice. l pid = Some (Some invoice) \<longrightarrow> valid invoice pid)"

lemma ledger_step_valid: "ledger_step valid l l' \<Longrightarrow> entries_valid valid l \<Longrightarrow> entries_valid valid l'"
  by (erule ledger_stepE) (auto simp: entries_valid_def)

lemma ledger_step_refill:
  "ledger_step valid l l' \<Longrightarrow> l pid = Some (Some invoice) \<Longrightarrow> l' pid \<in> {None, Some (Some invoice)}"
  by (erule ledger_stepE) auto

text \<open>A system whose steps can be seen as changes of a ledger.\<close>

locale payment_ledger =
  fixes step :: "'s \<Rightarrow> 's \<Rightarrow> bool"
    and view :: "'s \<Rightarrow> ledger"
    and valid :: "bolt12_invoice \<Rightarrow> payment_id \<Rightarrow> bool"
  assumes simulated: "step s s' \<Longrightarrow> (ledger_step valid)\<^sup>*\<^sup>* (view s) (view s')"
begin

lemma run_simulated: "step\<^sup>*\<^sup>* s s' \<Longrightarrow> (ledger_step valid)\<^sup>*\<^sup>* (view s) (view s')"
proof (induction rule: rtranclp_induct)
  case (step s1 s2)
  from step.IH simulated [OF step.hyps(2)] show ?case by (rule rtranclp_trans)
qed simp

lemma run_valid:
  assumes "step\<^sup>*\<^sup>* s s'" and "entries_valid valid (view s)"
  shows "entries_valid valid (view s')"
  using run_simulated [OF assms(1)] assms(2)
  by (induction rule: rtranclp_induct) (auto dest: ledger_step_valid)

end

section \<open>The handler implements a ledger\<close>

definition ledger_of :: "offer_handler \<Rightarrow> ledger" where
  "ledger_of h = (\<lambda>pid. map_option pay_invoice_of (active_payments h pid))"

definition verified_for :: "'w ldk \<Rightarrow> expanded_key \<Rightarrow> bolt12_invoice \<Rightarrow> payment_id \<Rightarrow> bool" where
  "verified_for L key invoice pid \<longleftrightarrow>
     (\<exists>pid' nonce. verify_using_payer_data L invoice pid' nonce key = Some pid)"

lemma ledger_register:
  "register_payment pid h = (Ok (), h') \<Longrightarrow> ledger_of h pid = None \<and> ledger_of h' = (ledger_of h)(pid \<mapsto> None)"
  by (auto simp: ledger_of_def register_payment_def fun_eq_iff split: option.splits)

lemma ledger_sections [simp]:
  "ledger_of (remove_active_payment pid h) = (ledger_of h)(pid := None)"
  "ledger_of (push_message m h) = ledger_of h"
  "ledger_of (set_state st pid h) = ledger_of h"
  "ledger_of (snd (release_pending_messages h)) = ledger_of h"
  "ledger_of (accept_invoice invoice pid h) =
     (if ledger_of h pid = Some None then (ledger_of h)(pid \<mapsto> Some invoice) else ledger_of h)"
  by (auto simp: ledger_of_def section_defs fun_eq_iff split: option.split)

lemma ledger_close: "(ledger_step valid)\<^sup>=\<^sup>= l (l(pid := None))"
  by (cases "l pid") (auto intro: ledger_step.closed)

lemma handler_step_ledger:
  assumes "handler_step L h h'"
  shows "(ledger_step (verified_for L (handler_key h)))\<^sup>=\<^sup>= (ledger_of h) (ledger_of h')"
  using assms
proof cases
  case (register pid)
  from ledger_register [OF this] show ?thesis by (auto intro: ledger_step.opened)
next
  case (accept invoice pid nonce pid')
  have "verified_for L (handler_key h) invoice pid'" using accept(2) by (auto simp: verified_for_def)
  then show ?thesis using accept(1) by (auto intro: ledger_step.filled)
next
  case (remove pid)
  then show ?thesis using ledger_close by simp
next
  case (invoice_error pid nonce hmac)
  then show ?thesis using ledger_close by (simp add: handle_invoice_error_def)
qed auto

lemma ledger_step_handler:
  assumes "ledger_step (verified_for L (handler_key h)) (ledger_of h) l"
  shows "\<exists>h'. handler_step L h h' \<and> ledger_of h' = l"
  using assms
proof cases
  case (opened pid)
  then have "register_payment pid h = (Ok (), snd (register_payment pid h))"
    by (auto simp: ledger_of_def register_payment_def)
  with ledger_register [OF this] opened(1) show ?thesis by (blast intro: handler_step.register)
next
  case (filled pid invoice)
  then obtain pid' nonce where "verify_using_payer_data L invoice pid' nonce (handler_key h) = Some pid"
    by (auto simp: verified_for_def)
  with filled show ?thesis by (intro exI [of _ "accept_invoice invoice pid h"]) (auto intro: handler_step.accept)
next
  case (closed pid)
  then show ?thesis by (intro exI [of _ "remove_active_payment pid h"]) (simp add: handler_step.remove)
qed

interpretation handler_ledger: payment_ledger "\<lambda>h h'. handler_step L h h' \<and> handler_key h = key"
  ledger_of "verified_for L key" for L key
  by unfold_locales (auto dest: handler_step_ledger)

lemma invoices_verified_ledger:
  "invoices_verified L h \<longleftrightarrow> entries_valid (verified_for L (handler_key h)) (ledger_of h)"
  by (auto simp: invoices_verified_def entries_valid_def ledger_of_def verified_for_def)

lemma steps_ledger:
  assumes "sys_steps L s s'"
  shows "(ledger_step (verified_for L (handler_key (fst s))))\<^sup>*\<^sup>* (ledger_of (fst s)) (ledger_of (fst s'))"
proof -
  have "(\<lambda>h h'. handler_step L h h' \<and> handler_key h = handler_key (fst s))\<^sup>*\<^sup>* (fst s) (fst s')"
    using assms unfolding sys_steps_def
  proof (induction rule: rtranclp_induct)
    case (step h1 h2)
    have "handler_key h1 = handler_key (fst s)"
      using steps_key [of L s "(h1, snd s)"] step.hyps(1) by (simp add: sys_steps_def)
    with step.hyps(2) step.IH show ?case by (auto intro: rtranclp.rtrancl_into_rtrancl)
  qed simp
  then show ?thesis by (rule handler_ledger.run_simulated)
qed

text \<open>
  The handler implements a ledger of payments: each of its locked sections opens an entry
  that was not there, fills an empty entry with an invoice verified for it, closes an entry, or
  leaves the ledger alone, and every such change of the ledger can be made by a section.
\<close>

theorem handler_implements_ledger:
  "(handler_step L h h' \<longrightarrow>
      (ledger_step (verified_for L (handler_key h)))\<^sup>=\<^sup>= (ledger_of h) (ledger_of h')) \<and>
   (ledger_step (verified_for L (handler_key h)) (ledger_of h) l \<longrightarrow>
      (\<exists>h'. handler_step L h h' \<and> ledger_of h' = l))"
  using handler_step_ledger ledger_step_handler by blast

theorem handler_implements_ledger_witness:
  "(ledger_step (verified_for quiet_ldk (handler_key accepted_handler)))\<^sup>=\<^sup>= (ledger_of accepted_handler)
     (ledger_of (remove_active_payment (PaymentId [7]) accepted_handler)) \<and>
   (\<exists>h'. handler_step quiet_ldk accepted_handler h' \<and> ledger_of h' = (ledger_of accepted_handler)(PaymentId [7] := None))"
proof
  show "(ledger_step (verified_for quiet_ldk (handler_key accepted_handler)))\<^sup>=\<^sup>= (ledger_of accepted_handler)
     (ledger_of (remove_active_payment (PaymentId [7]) accepted_handler))"
    using handler_implements_ledger handler_step.remove by blast
  have "ledger_of accepted_handler (PaymentId [7]) \<noteq> None"
    by (simp add: accepted_handler_def ledger_of_def section_defs OfferHandler_new_def)
  then show "\<exists>h'. handler_step quiet_ldk accepted_handler h' \<and>
      ledger_of h' = (ledger_of accepted_handler)(PaymentId [7] := None)"
    using handler_implements_ledger ledger_step.closed by blast
qed

section \<open>The paths of an invoice\<close>

text \<open>
  One attempt to pay along a path: \<open>Inr\<close> is the settled payment, \<open>Inl\<close> the error of a path that
  did not work, and an error of the attempt itself ends the payment.
\<close>

definition pay_attempt ::
  "secp \<Rightarrow> 'w sys client \<Rightarrow> u64 \<Rightarrow> u8 list \<Rightarrow> payment_id \<Rightarrow> fee_limit option \<Rightarrow> blinded_payment_path \<Rightarrow>
   ('w sys, offer_error, offer_error + lnrpc_payment) io" where
  "pay_attempt K c amount payment_hash pid fl path =
     io_bind (case bpp_introduction_node path of
         NodeId node_id \<Rightarrow> io_return (Some (pk_to_string K node_id))
       | DirectedShortChannelId dir scid \<Rightarrow>
           io_bind (get_node_id_from_scid c scid dir) (\<lambda>node_id_pub. io_return (Some node_id_pub))) (\<lambda>_.
     io_match (send_payment (client_payer K c) (payment_params path payment_hash amount pid fl))
       (\<lambda>_.
          io_bind (locked (set_state PaymentDispatched pid)) (\<lambda>_.
          io_match (track_payment (client_payer K c) payment_hash) (\<lambda>p. io_return (Inr p)) (\<lambda>e. io_return (Inl e))))
       (\<lambda>e. io_return (Inl e)))"

lemma io_bind_match:
  "io_bind (io_match m f g) k = io_match m (\<lambda>a. io_bind (f a) k) (\<lambda>e. io_bind (g e) k)"
  by (auto simp: io_bind_def io_match_def fun_eq_iff split: prod.split res.split)

lemma pay_paths_loop_attempt:
  "pay_paths_loop K c amount hash pid fl (path # paths) e =
     io_bind (pay_attempt K c amount hash pid fl path) (\<lambda>r.
     case r of
       Inr p \<Rightarrow> io_bind (locked (remove_active_payment pid)) (\<lambda>_. io_return p)
     | Inl e \<Rightarrow> pay_paths_loop K c amount hash pid fl paths (Some e))"
  by (simp add: pay_attempt_def io_bind_assoc io_bind_match)

text \<open>The attempts along a list of paths, one after the other, all fail.\<close>

fun attempts_fail ::
  "(blinded_payment_path \<Rightarrow> ('s, offer_error, offer_error + lnrpc_payment) io) \<Rightarrow> blinded_payment_path list \<Rightarrow>
   offer_error option \<Rightarrow> 's \<Rightarrow> offer_error option \<times> 's \<Rightarrow> bool" where
  "attempts_fail attempt [] e s r \<longleftrightarrow> r = (e, s)"
| "attempts_fail attempt (path # paths) e s r \<longleftrightarrow>
     (\<exists>e' s'. attempt path s = (Ok (Inl e'), s') \<and> attempts_fail attempt paths (Some e') s' r)"

lemma ex_split_Cons:
  "(\<exists>pre x post. a # as = pre @ x # post \<and> Q pre x post) \<longleftrightarrow>
     Q [] a as \<or> (\<exists>pre x post. as = pre @ x # post \<and> Q (a # pre) x post)"
  by (auto simp: Cons_eq_append_conv)

lemma pay_paths_loop_Ok_iff:
  "pay_paths_loop K c amount hash pid fl paths e s = (Ok p, s') \<longleftrightarrow>
     (\<exists>pre path post. paths = pre @ path # post \<and>
        (\<exists>e1 s1 s2. attempts_fail (pay_attempt K c amount hash pid fl) pre e s (e1, s1) \<and>
           pay_attempt K c amount hash pid fl path s1 = (Ok (Inr p), s2) \<and>
           s' = (remove_active_payment pid (fst s2), snd s2)))"
proof (induction paths arbitrary: e s)
  case Nil
  then show ?case by (cases s) (simp add: io_simps)
next
  case (Cons path paths)
  let ?attempt = "pay_attempt K c amount hash pid fl"
  have "pay_paths_loop K c amount hash pid fl (path # paths) e s = (Ok p, s') \<longleftrightarrow>
      (\<exists>s2. ?attempt path s = (Ok (Inr p), s2) \<and> s' = (remove_active_payment pid (fst s2), snd s2)) \<or>
      (\<exists>e' s1. ?attempt path s = (Ok (Inl e'), s1) \<and> pay_paths_loop K c amount hash pid fl paths (Some e') s1 = (Ok p, s'))"
    unfolding pay_paths_loop_attempt io_bind_Ok_iff [of "?attempt path"]
    by (auto simp: io_bind_Ok_iff locked_def split: sum.split_asm prod.splits)
  then show ?case
    unfolding ex_split_Cons Cons.IH attempts_fail.simps by blast
qed

text \<open>
  C20. The first path that works pays: \<open>pay_invoice\<close> returns a payment exactly when the attempt
  along some path of the invoice settles it and the attempts along all earlier paths, made
  before it and in the order of the invoice, failed; the id is then untracked.
\<close>

theorem pay_invoice_first_working_path:
  "pay_invoice K c amount invoice pid fl s = (Ok p, s') \<longleftrightarrow>
     (\<exists>hash pre path post. inv_payment_hash invoice = PaymentHash hash \<and>
        inv_payment_paths invoice = pre @ path # post \<and>
        (\<exists>e1 s1 s2. attempts_fail (pay_attempt K c amount hash pid fl) pre None s (e1, s1) \<and>
           pay_attempt K c amount hash pid fl path s1 = (Ok (Inr p), s2) \<and>
           s' = (remove_active_payment pid (fst s2), snd s2)))"
  by (cases "inv_payment_hash invoice") (simp add: pay_invoice_def pay_paths_loop_Ok_iff)

text \<open>
  What a settled payment did on LND: a route along a path of the invoice was asked for with the
  amount and the fee limit, the first route of the answer was used for the hash of the invoice,
  and the payment is one LND reported for that hash.
\<close>

definition paid_through ::
  "secp \<Rightarrow> 'w client \<Rightarrow> u64 \<Rightarrow> fee_limit option \<Rightarrow> bolt12_invoice \<Rightarrow> lnrpc_payment \<Rightarrow> bool" where
  "paid_through K c amount fl invoice p \<longleftrightarrow>
     (\<exists>hash path intro s0 route routes s1 att s2 s3 stream s4.
        inv_payment_hash invoice = PaymentHash hash \<and> path \<in> set (inv_payment_paths invoice) \<and>
        lc_query_routes c
          \<lparr>qr_amt_msat = ucast amount,
           qr_blinded_payment_paths = [payment_path_to_lnrpc K intro path
             (pi_cltv_expiry_delta (bpp_payinfo path)) (pi_fee_base_msat (bpp_payinfo path))
             (pi_fee_proportional_millionths (bpp_payinfo path))],
           qr_fee_limit = fl\<rparr> s0 = (Inr (route # routes), s1) \<and>
        lc_send_to_route_v2 c (hash, route) s1 = (Inr att, s2) \<and>
        lc_track_payment_v2 c (hash, True) s3 = (Inr stream, s4) \<and>
        Inr p \<in> set stream \<and> pay_status p = StatusSucceeded)"

lemma track_payment_loop_member: "track_payment_loop stream = Ok p \<Longrightarrow> Inr p \<in> set stream \<and> pay_status p = StatusSucceeded"
  by (induction stream rule: track_payment_loop.induct) (auto split: if_splits)

lemma client_query_routes_Ok:
  "client_query_routes K c path cltv base ppm msats fl s = (Ok routes, s') \<Longrightarrow>
   \<exists>intro s0. lc_query_routes c \<lparr>qr_amt_msat = ucast msats,
     qr_blinded_payment_paths = [payment_path_to_lnrpc K intro path cltv base ppm], qr_fee_limit = fl\<rparr> s0 =
     (Inr routes, s')"
  by (auto simp: client_query_routes_def io_bind_Ok_iff)

lemma first_route_Ok: "(case routes of [] \<Rightarrow> Panic m | r # _ \<Rightarrow> Ok r) = Ok route \<longleftrightarrow> (\<exists>rs. routes = route # rs)"
  by (cases routes) auto

lemma pay_attempt_settles:
  assumes "pay_attempt K c amount hash pid fl path s = (Ok (Inr p), s')"
    and "path \<in> set (inv_payment_paths invoice)" and "inv_payment_hash invoice = PaymentHash hash"
  shows "paid_through K c amount fl invoice p"
proof -
  from assms(1) obtain s1 s2 s3 where
    send: "send_payment (client_payer K c) (payment_params path hash amount pid fl) s1 = (Ok (), s2)"
    and track: "track_payment (client_payer K c) hash s3 = (Ok p, s')"
    by (auto simp: pay_attempt_def io_bind_Ok_iff io_match_Ok_iff)
  from send obtain intro s0 route routes s4 att where
    "lc_query_routes c \<lparr>qr_amt_msat = ucast amount,
       qr_blinded_payment_paths = [payment_path_to_lnrpc K intro path
         (pi_cltv_expiry_delta (bpp_payinfo path)) (pi_fee_base_msat (bpp_payinfo path))
         (pi_fee_proportional_millionths (bpp_payinfo path))], qr_fee_limit = fl\<rparr> s0 = (Inr (route # routes), s4)"
    "lc_send_to_route_v2 c (hash, route) s4 = (Inr att, s2)"
    by (auto simp: send_payment_def client_payer_def payment_params_def client_send_to_route_def io_bind_Ok_iff
        first_route_Ok dest!: client_query_routes_Ok)
  moreover from track obtain stream s5 where "lc_track_payment_v2 c (hash, True) s3 = (Inr stream, s5)"
    "Inr p \<in> set stream" "pay_status p = StatusSucceeded"
    by (auto simp: track_payment_def client_payer_def client_track_payment_def io_bind_Ok_iff
        dest!: track_payment_loop_member)
  ultimately show ?thesis unfolding paid_through_def using assms(2,3) by blast
qed

lemma pay_invoice_paid_through:
  "pay_invoice K c amount invoice pid fl s = (Ok p, s') \<Longrightarrow> paid_through K c amount fl invoice p"
  by (cases "inv_payment_hash invoice")
    (auto simp: pay_invoice_def pay_paths_loop_Ok_iff intro: pay_attempt_settles)

section \<open>When a payment succeeds\<close>

text \<open>The first of the polls within the timeout that finds an invoice.\<close>

definition first_stored ::
  "('w sys \<Rightarrow> bool \<times> 'w sys) \<Rightarrow> nat \<Rightarrow> payment_id \<Rightarrow> 'w sys \<Rightarrow> nat \<Rightarrow> bolt12_invoice \<Rightarrow> bool" where
  "first_stored sleep n pid s k invoice \<longleftrightarrow>
     k \<le> n \<and> poll_invoice pid (fst (after_sleeps sleep k s)) = Some invoice \<and>
     (\<forall>i<k. poll_invoice pid (fst (after_sleeps sleep i s)) = None \<and> \<not> fst (sleep (after_sleeps sleep i s)))"

lemma first_stored_now:
  "poll_invoice pid (fst s) = Some invoice' \<Longrightarrow> first_stored sleep n pid s k invoice \<longleftrightarrow> k = 0 \<and> invoice = invoice'"
  by (cases k) (auto simp: first_stored_def intro: exI [of _ 0])

lemma first_stored_later:
  assumes "poll_invoice pid (fst s) = None"
  shows "first_stored sleep n pid s k invoice \<longleftrightarrow>
    (\<exists>n' k'. n = Suc n' \<and> k = Suc k' \<and> \<not> fst (sleep s) \<and> first_stored sleep n' pid (snd (sleep s)) k' invoice)"
proof (cases k)
  case (Suc k')
  have "(\<forall>i<Suc k'. P i) \<longleftrightarrow> P 0 \<and> (\<forall>i<k'. P (Suc i))" for P :: "nat \<Rightarrow> bool"
    using All_less_Suc2 by simp
  then show ?thesis using assms Suc by (cases n) (auto simp: first_stored_def)
qed (use assms in \<open>simp add: first_stored_def\<close>)

lemma wait_for_invoice_Some_iff:
  "wait_for_invoice sleep n pid s = (Ok (Some invoice), s') \<longleftrightarrow>
     (\<exists>k. first_stored sleep n pid s k invoice \<and> s' = after_sleeps sleep k s)"
proof (induction n arbitrary: s)
  case 0
  show ?case
    by (cases s; cases "poll_invoice pid (fst s)")
      (auto simp: first_stored_now first_stored_later split: prod.split)
next
  case (Suc n)
  obtain h w b s1 where s: "s = (h, w)" "sleep s = (b, s1)" by (cases s; cases "sleep s") blast
  show ?case
  proof (cases "poll_invoice pid h")
    case None
    with s Suc.IH [of s1] show ?thesis by (auto simp: first_stored_later)
  qed (use s in \<open>auto simp: first_stored_now\<close>)
qed

lemma register_Ok_iff:
  "locked_res (register_payment pid) s = (Ok (), s') \<longleftrightarrow>
     active_payments (fst s) pid = None \<and> s' = (snd (register_payment pid (fst s)), snd s)"
  by (cases s) (auto simp: locked_res_def register_payment_def split: option.splits)

lemma send_stage_Ok_iff:
  "send_stage K L cfg pid ir ctx s = (Ok m, s') \<longleftrightarrow>
     send_invoice_request K L (po_destination cfg) (po_client cfg) ir ctx s = (Ok m, s')"
  by (auto simp: send_stage_def io_match_Ok_iff io_bind_Ok_iff)

lemma locked_Ok_iff [simp]: "locked f s = (Ok u, s') \<longleftrightarrow> s' = (f (fst s), snd s)"
  by (cases s) (auto simp: locked_def)

lemma wait_stage_Ok_iff:
  "wait_stage sleep t pid s = (Ok invoice, s') \<longleftrightarrow>
     (\<exists>k. first_stored sleep (unat t div 2) pid s k invoice \<and>
        s' = (set_state InvoiceReceived pid (fst (after_sleeps sleep k s)), snd (after_sleeps sleep k s)))"
proof -
  have "wait_stage sleep t pid s = (Ok invoice, s') \<longleftrightarrow>
      (\<exists>s1. wait_for_invoice sleep (unat t div 2) pid s = (Ok (Some invoice), s1) \<and>
         s' = (set_state InvoiceReceived pid (fst s1), snd s1))"
    unfolding wait_stage_def io_bind_Ok_iff [of "wait_for_invoice sleep (unat t div 2) pid"]
    by (force simp: io_bind_Ok_iff split: option.splits)
  then show ?thesis unfolding wait_for_invoice_Some_iff by blast
qed

lemma pay_offer_Ok_iff:
  "pay_offer K L sleep cfg s = (Ok p, s') \<longleftrightarrow>
     (\<exists>ir pid amt ctx s1 m s2 k invoice.
        create_invoice_request L (po_offer cfg) (po_network cfg) (handler_key (fst s)) (po_amount cfg)
          (po_payer_note cfg) s = (Ok (ir, pid, amt, ctx), s1) \<and>
        active_payments (fst s1) pid = None \<and>
        send_invoice_request K L (po_destination cfg) (po_client cfg) ir ctx
          (snd (register_payment pid (fst s1)), snd s1) = (Ok m, s2) \<and>
        (let s3 = (push_message m (fst s2), snd s2); s4 = after_sleeps sleep k s3 in
           first_stored sleep (unat (timeout_of cfg (fst s)) div 2) pid s3 k invoice \<and>
           pay_invoice K (po_client cfg) amt invoice pid (po_fee_limit cfg)
             (set_state InvoiceReceived pid (fst s4), snd s4) = (Ok p, s')))"
proof -
  have "pay_offer K L sleep cfg s = (Ok p, s') \<longleftrightarrow>
      (\<exists>invoice amt pid s5. get_invoice K L sleep cfg s = (Ok (invoice, amt, pid), s5) \<and>
         pay_invoice K (po_client cfg) amt invoice pid (po_fee_limit cfg) s5 = (Ok p, s'))"
    by (simp add: pay_offer_def io_bind_Ok_iff [of "get_invoice K L sleep cfg"] case_prod_beta)
  also have "\<dots> \<longleftrightarrow> (\<exists>ir pid amt ctx s1 m s2 invoice s5.
      request_stage L cfg (handler_key (fst s)) s = (Ok (ir, pid, amt, ctx), s1) \<and>
      active_payments (fst s1) pid = None \<and>
      send_invoice_request K L (po_destination cfg) (po_client cfg) ir ctx
        (snd (register_payment pid (fst s1)), snd s1) = (Ok m, s2) \<and>
      wait_stage sleep (timeout_of cfg (fst s)) pid (push_message m (fst s2), snd s2) = (Ok invoice, s5) \<and>
      pay_invoice K (po_client cfg) amt invoice pid (po_fee_limit cfg) s5 = (Ok p, s'))"
    unfolding get_invoice_stages registered_stage_def
    by (simp add: io_bind_Ok_iff register_Ok_iff send_stage_Ok_iff case_prod_beta) blast
  finally show ?thesis unfolding wait_stage_Ok_iff Let_def by blast
qed

text \<open>
  C19. Exactly when paying an offer succeeds: the invoice request can be built, its payment id is
  not in use, the request can be sent, an invoice is stored for the id at one of the polls that
  fit into the timeout, and the invoice found by the first such poll is paid.
\<close>

theorem pay_offer_succeeds_iff:
  "pay_offer K L sleep cfg s = (Ok p, s') \<longleftrightarrow>
     (\<exists>ir pid amt ctx s1 m s2 k invoice.
        create_invoice_request L (po_offer cfg) (po_network cfg) (handler_key (fst s)) (po_amount cfg)
          (po_payer_note cfg) s = (Ok (ir, pid, amt, ctx), s1) \<and>
        active_payments (fst s1) pid = None \<and>
        send_invoice_request K L (po_destination cfg) (po_client cfg) ir ctx
          (snd (register_payment pid (fst s1)), snd s1) = (Ok m, s2) \<and>
        (let s3 = (push_message m (fst s2), snd s2); s4 = after_sleeps sleep k s3 in
           first_stored sleep (unat (timeout_of cfg (fst s)) div 2) pid s3 k invoice \<and>
           pay_invoice K (po_client cfg) amt invoice pid (po_fee_limit cfg)
             (set_state InvoiceReceived pid (fst s4), snd s4) = (Ok p, s')))"
  by (rule pay_offer_Ok_iff)

section \<open>What is left behind\<close>

text \<open>
  A panic leaves the payment id tracked: the task asks LND for its key after the id was
  registered, and when this call fails \<open>get_invoice\<close> panics, so that the section that untracks the
  id does not run and the handler is the one the failed call left.
\<close>

theorem get_invoice_panic_keeps_id:
  assumes "create_invoice_request L (po_offer cfg) (po_network cfg) (handler_key (fst s)) (po_amount cfg)
      (po_payer_note cfg) s = (Ok (ir, pid, amt, ctx), s1)"
    and "active_payments (fst s1) pid = None" and "po_destination cfg = DestNode k"
    and "connect_to_peer K (lightning_connector (po_client cfg)) k
      (snd (register_payment pid (fst s1)), snd s1) = (Ok (), s2)"
    and "lc_get_info (po_client cfg) s2 = (Inl st, s3)"
  shows "get_invoice K L sleep cfg s = (Panic ''failed to get info'', s3)"
proof -
  let ?s = "(snd (register_payment pid (fst s1)), snd s1)"
  have reg: "locked_res (register_payment pid) s1 = (Ok (), ?s)"
    using assms(2) by (simp add: register_Ok_iff)
  have send: "send_invoice_request K L (po_destination cfg) (po_client cfg) ir ctx ?s =
      (Panic ''failed to get info'', s3)"
    using assms(3-5) by (simp add: send_invoice_request_def io_bind_def io_expect_def rpc_def)
  show ?thesis
    unfolding get_invoice_stages registered_stage_def send_stage_def
    by (simp add: io_bind_def io_match_def assms(1) reg send)
qed

theorem get_invoice_panic_keeps_id_witness:
  "\<exists>s'. get_invoice sample_secp quiet_ldk delivering_sleep
       (sample_pay_params\<lparr>po_client := paying_client\<lparr>lc_get_info := unavailable\<rparr>\<rparr>) (sample_handler, 7) =
      (Panic ''failed to get info'', s') \<and> active_payments (fst s') (PaymentId [7]) \<noteq> None"
proof -
  let ?cfg = "sample_pay_params\<lparr>po_client := paying_client\<lparr>lc_get_info := unavailable\<rparr>\<rparr>"
  let ?s = "(snd (register_payment (PaymentId [7]) sample_handler), 9 :: nat)"
  have "get_invoice sample_secp quiet_ldk delivering_sleep ?cfg (sample_handler, 7) = (Panic ''failed to get info'', ?s)"
  proof (rule get_invoice_panic_keeps_id)
    show "create_invoice_request quiet_ldk (po_offer ?cfg) (po_network ?cfg) (handler_key (fst (sample_handler, 7 :: nat)))
        (po_amount ?cfg) (po_payer_note ?cfg) (sample_handler, 7) =
        (Ok (sample_request, PaymentId [7], 2000,
          CtxOutboundPayment (PaymentId [7]) (Nonce [8]) (Some (Hmac [7]))), sample_handler, 9)"
      by (simp add: sample_pay_params_def sample_request_stage)
    show "connect_to_peer sample_secp (lightning_connector (po_client ?cfg)) (PublicKey 9)
        (snd (register_payment (PaymentId [7]) (fst (sample_handler, 9 :: nat))), snd (sample_handler, 9 :: nat)) = (Ok (), ?s)"
      by (simp add: connect_to_peer_def lightning_connector_def lightning_list_peers_def paying_client_def io_simps)
    show "lc_get_info (po_client ?cfg) ?s = (Inl (Status_new CodeUnavailable ''unavailable''), ?s)"
      by (simp add: unavailable_def)
  qed (simp_all add: OfferHandler_new_def sample_pay_params_def)
  then show ?thesis by (simp add: section_defs OfferHandler_new_def)
qed

text \<open>
  A payment that was dispatched and could not be tracked to its end is dispatched again along
  the next path: with a stream of updates that breaks, an invoice with two paths makes two
  payments for the same hash.
\<close>

definition counting_client :: "nat sys client" where
  "counting_client = paying_client
     \<lparr>lc_send_to_route_v2 := (\<lambda>_ (h, w). (Inr \<lparr>ha_attempt_id = 1, ha_preimage = []\<rparr>, h, Suc w)),
      lc_track_payment_v2 := (\<lambda>_ s. (Inr [Inl (Status_new CodeUnavailable ''unavailable'')], s))\<rparr>"

lemma payment_dispatched_twice:
  "\<exists>h'. pay_invoice sample_secp counting_client 2000
      (payable_invoice\<lparr>inv_payment_paths := [sample_payment_path, sample_payment_path]\<rparr>) pid None (h, 0) =
    (Err PaymentFailure, h', 2)"
  by (simp add: pay_invoice_def payable_invoice_def sample_invoice_def sample_payment_path_def
      payment_params_def send_payment_def track_payment_def client_payer_def client_query_routes_def
      client_send_to_route_def client_track_payment_def counting_client_def paying_client_def io_simps)

end
