(* ===== verification/Payee.thy ===== *)
theory Payee
  imports Payments
begin

text \<open>
  The side of the payee: what an offer that \<open>create_offer\<close> of \<open>src/offers/lnd_requests.rs\<close> makes says
  and which paths it has, and how \<open>handle_message\<close> of \<open>src/offers/handler.rs\<close> answers an invoice request.
\<close>

section \<open>The terms of an offer\<close>

definition requested_terms ::
  "create_offer_args \<Rightarrow> blinded_message_path list \<Rightarrow> duration option \<Rightarrow> offer_terms" where
  "requested_terms args paths expiry = described
     \<lparr>offer_chains = [co_chain args],
      offer_amount = (case co_amount_msats args of Some a \<Rightarrow> amount_term a | None \<Rightarrow> None),
      offer_paths = take 3 paths,
      offer_description = co_description args, offer_issuer = co_issuer args,
      offer_supported_quantity = (case co_quantity args of Some q \<Rightarrow> q | None \<Rightarrow> QuantityOne),
      offer_absolute_expiry = expiry\<rparr>"

lemma take_3:
  "take 3 xs = (if 0 < length xs then [xs ! 0] else []) @ (if 1 < length xs then [xs ! 1] else []) @
     (if 2 < length xs then [xs ! 2] else [])"
proof (cases xs)
  case (Cons a ys)
  then show ?thesis by (cases ys; cases "tl ys") (auto simp: numeral_3_eq_3)
qed simp

lemma offer_setters_terms:
  assumes "builder_documented L" and "built b = no_terms"
  shows "built (offer_setters L args paths b) =
    \<lparr>offer_chains = [co_chain args],
     offer_amount = (case co_amount_msats args of Some a \<Rightarrow> amount_term a | None \<Rightarrow> None),
     offer_paths = take 3 paths,
     offer_description = co_description args, offer_issuer = co_issuer args,
     offer_supported_quantity = (case co_quantity args of Some q \<Rightarrow> q | None \<Rightarrow> QuantityOne),
     offer_absolute_expiry = None\<rparr>"
  using assms unfolding offer_setters_def Let_def take_3 builder_documented_def
  by (simp add: no_terms_def split: option.split)

text \<open>The expiry of a request, counted from the time the clock shows.\<close>

definition expires :: "'w ldk \<Rightarrow> 'w \<Rightarrow> duration option \<Rightarrow> duration option \<Rightarrow> bool" where
  "expires L w e expiry \<longleftrightarrow>
     (case e of
        None \<Rightarrow> expiry = None
      | Some d \<Rightarrow> \<exists>t w'. system_time_now L w = (t, w') \<and> 0 \<le> t + int d \<and> t + int d < SYSTEM_TIME_END \<and>
          expiry = Some (nat (t + int d)))"

lemma run_total_Ok_iff: "run_total f w = (Ok a, w') \<longleftrightarrow> f w = (a, w')"
  by (simp add: run_total_def split: prod.split)

lemma create_offer_Ok:
  assumes "create_offer K L O' C args key w = (Ok o', w')"
  obtains info w0 node_id nonce w1 paths w2 expiry where
    "oc_get_info O' w = (Ok info, w0)" "pk_from_str K (gi_identity_pubkey info) = Some node_id"
    "nonce_from_entropy_source L w0 = (nonce, w1)"
    "create_reply_path_for_offer_creation K L C node_id (OffersCtx (CtxInvoiceRequest nonce)) w1 = (Ok paths, w2)"
    "expires L w2 (co_expiry args) expiry"
    "ob_build L (let b = offer_setters L args paths (ob_deriving_signing_pubkey L node_id key nonce) in
       case expiry of None \<Rightarrow> b | Some e \<Rightarrow> ob_absolute_expiry L b e) = Inr o'"
    "w' = w2 \<or> w' = snd (system_time_now L w2)"
proof -
  from assms obtain info w0 node_id nonce w1 paths w2 b where
    n: "oc_get_info O' w = (Ok info, w0)" "pk_from_str K (gi_identity_pubkey info) = Some node_id" "nonce_from_entropy_source L w0 = (nonce, w1)"
    and p: "create_reply_path_for_offer_creation K L C node_id (OffersCtx (CtxInvoiceRequest nonce)) w1 = (Ok paths, w2)"
    and b: "(case co_expiry args of
         Some e \<Rightarrow> io_bind (run_total (system_time_now L)) (\<lambda>now. let e = now + int e in
           if SYSTEM_TIME_END \<le> e then io_lift (Panic ''overflow when adding duration to instant'')
           else if e < 0 then io_err CreateOfferTimeFailure
           else io_return (ob_absolute_expiry L
             (offer_setters L args paths (ob_deriving_signing_pubkey L node_id key nonce)) (nat e)))
       | None \<Rightarrow> io_return (offer_setters L args paths (ob_deriving_signing_pubkey L node_id key nonce))) w2 =
       (Ok b, w')"
    and o: "ob_build L b = Inr o'"
    unfolding create_offer_def Let_def by (auto simp: io_bind_Ok_iff run_total_Ok_iff)
  from b obtain expiry where "expires L w2 (co_expiry args) expiry"
    "b = (let b = offer_setters L args paths (ob_deriving_signing_pubkey L node_id key nonce) in
       case expiry of None \<Rightarrow> b | Some e \<Rightarrow> ob_absolute_expiry L b e)"
    "w' = w2 \<or> w' = snd (system_time_now L w2)"
    by (auto simp: expires_def io_bind_Ok_iff run_total_def Let_def split: option.splits prod.splits if_splits)
  with that n p o show thesis by blast
qed

text \<open>The builders of offers whose issuer is derived from a key and a nonce.\<close>

inductive offer_with :: "'w ldk \<Rightarrow> expanded_key \<Rightarrow> nonce \<Rightarrow> offer_builder \<Rightarrow> bool"
  for L :: "'w ldk" and key :: expanded_key and n :: nonce where
  new: "offer_with L key n (ob_deriving_signing_pubkey L k key n)"
| chain: "offer_with L key n b \<Longrightarrow> offer_with L key n (ob_chain L b net)"
| amount: "offer_with L key n b \<Longrightarrow> offer_with L key n (ob_amount_msats L b a)"
| path: "offer_with L key n b \<Longrightarrow> offer_with L key n (ob_path L b p)"
| description: "offer_with L key n b \<Longrightarrow> offer_with L key n (ob_description L b d)"
| issuer: "offer_with L key n b \<Longrightarrow> offer_with L key n (ob_issuer L b i)"
| quantity: "offer_with L key n b \<Longrightarrow> offer_with L key n (ob_supported_quantity L b q)"
| expiry: "offer_with L key n b \<Longrightarrow> offer_with L key n (ob_absolute_expiry L b e)"

lemma offer_setters_with: "offer_with L key n b \<Longrightarrow> offer_with L key n (offer_setters L args paths b)"
  unfolding offer_setters_def Let_def by (auto intro!: offer_with.intros(2-) split: option.split)

text \<open>
  Where an offer comes from: a nonce is drawn, the paths to the node of LND are made with the context of a request for an
  offer of this nonce, and the offer is built from this nonce.
\<close>

definition offer_origin ::
  "secp \<Rightarrow> 'w ldk \<Rightarrow> 'w offer_creator \<Rightarrow> 'w peer_connector \<Rightarrow> expanded_key \<Rightarrow> 'w \<Rightarrow>
   public_key \<Rightarrow> nonce \<Rightarrow> 'w \<Rightarrow> blinded_message_path list \<Rightarrow> 'w \<Rightarrow> offer \<Rightarrow> bool" where
  "offer_origin K L O' C key w node_id nonce w1 paths w2 o' \<longleftrightarrow>
     (\<exists>info w0 b. oc_get_info O' w = (Ok info, w0) \<and> pk_from_str K (gi_identity_pubkey info) = Some node_id \<and>
        nonce_from_entropy_source L w0 = (nonce, w1) \<and>
        create_reply_path_for_offer_creation K L C node_id (OffersCtx (CtxInvoiceRequest nonce)) w1 = (Ok paths, w2) \<and>
        offer_with L key nonce b \<and> ob_build L b = Inr o')"

lemma create_offer_terms:
  assumes "builder_documented L" and "create_offer K L O' C args key w = (Ok o', w')"
  obtains node_id nonce w1 paths w2 expiry where
    "offer_origin K L O' C key w node_id nonce w1 paths w2 o'" "expires L w2 (co_expiry args) expiry"
    "offer_terms.truncate o' = requested_terms args paths expiry"
proof -
  from assms(2) obtain info w0 node_id nonce w1 paths w2 expiry where
    p: "oc_get_info O' w = (Ok info, w0)" "pk_from_str K (gi_identity_pubkey info) = Some node_id"
      "nonce_from_entropy_source L w0 = (nonce, w1)"
      "create_reply_path_for_offer_creation K L C node_id (OffersCtx (CtxInvoiceRequest nonce)) w1 = (Ok paths, w2)"
    and e: "expires L w2 (co_expiry args) expiry"
    and o: "ob_build L (let b = offer_setters L args paths (ob_deriving_signing_pubkey L node_id key nonce) in
       case expiry of None \<Rightarrow> b | Some e \<Rightarrow> ob_absolute_expiry L b e) = Inr o'" (is "ob_build L ?b = _")
    by (rule create_offer_Ok)
  have "offer_with L key nonce ?b"
    by (auto simp: Let_def split: option.split intro!: offer_with.expiry offer_setters_with offer_with.new)
  with p o have "offer_origin K L O' C key w node_id nonce w1 paths w2 o'" unfolding offer_origin_def by blast
  moreover have "built (ob_deriving_signing_pubkey L node_id key nonce) = no_terms"
    using assms(1) by (simp add: builder_documented_def)
  note t = offer_setters_terms [OF assms(1) this, of args paths]
  have "offer_terms.truncate o' = requested_terms args paths expiry"
    using assms(1) o by (cases expiry) (auto simp: builder_documented_def requested_terms_def t)
  ultimately show ?thesis using e that by blast
qed

lemma created_paths:
  assumes "builder_documented L" and "create_offer K L O' C args key w = (Ok o', w')"
  shows "\<exists>node_id nonce w1 paths w2. offer_origin K L O' C key w node_id nonce w1 paths w2 o' \<and>
    create_reply_path_for_offer_creation K L C node_id (OffersCtx (CtxInvoiceRequest nonce)) w1 = (Ok paths, w2) \<and>
    offer_paths o' = take 3 paths"
  by (rule create_offer_terms [OF assms])
    (force simp: offer_origin_def requested_terms_def described_def offer_terms.defs split: if_splits)



text \<open>
  Paths to a node of which either the only one is direct or each enters at an eligible node, one at the far end of
  an active public channel that supports onion messages and has a channel besides ours.
\<close>

definition eligible_paths ::
  "secp \<Rightarrow> 'w ldk \<Rightarrow> 'w peer_connector \<Rightarrow> public_key \<Rightarrow> message_context \<Rightarrow> 'w \<Rightarrow> blinded_message_path list \<Rightarrow> bool" where
  "eligible_paths K L C node_id ctx w ps \<longleftrightarrow>
     (\<exists>p w1 w2. ps = [p] \<and> path_one_hop L node_id ctx w1 = (Some p, w2)) \<or>
     (\<exists>cs w1. pc_list_active_public_channels C w = (Ok cs, w1) \<and>
        (\<forall>p\<in>set ps. \<exists>n. \<exists>ch\<in>set cs. eligible_channel K C ch n \<and>
           (\<exists>w2 w3. path_new L [\<lparr>fwd_node_id = n, fwd_short_channel_id = None\<rparr>] node_id ctx w2 = (Some p, w3))))"

lemma eligible_paths_take:
  assumes "eligible_paths K L C node_id ctx w ps"
  shows "eligible_paths K L C node_id ctx w (take 3 ps)"
  using assms unfolding eligible_paths_def
proof (elim disjE exE conjE)
  fix cs w1
  assume "pc_list_active_public_channels C w = (Ok cs, w1)" "\<forall>p\<in>set ps. \<exists>n. \<exists>ch\<in>set cs. eligible_channel K C ch n \<and>
      (\<exists>w2 w3. path_new L [\<lparr>fwd_node_id = n, fwd_short_channel_id = None\<rparr>] node_id ctx w2 = (Some p, w3))"
  then show "(\<exists>p w1 w2. take 3 ps = [p] \<and> path_one_hop L node_id ctx w1 = (Some p, w2)) \<or>
      (\<exists>cs w1. pc_list_active_public_channels C w = (Ok cs, w1) \<and>
        (\<forall>p\<in>set (take 3 ps). \<exists>n. \<exists>ch\<in>set cs. eligible_channel K C ch n \<and>
           (\<exists>w2 w3. path_new L [\<lparr>fwd_node_id = n, fwd_short_channel_id = None\<rparr>] node_id ctx w2 = (Some p, w3))))"
    by (intro disjI2 exI [of _ cs] exI [of _ w1]) (auto dest: in_set_takeD)
qed auto

text \<open>
  C38. The paths of a new offer: it has at least one and at most three, they lead to the node LND names as its own, and
  unless the only one is direct, each enters at an eligible node, one at the far end of an active public channel
  that supports onion messages and has a channel besides ours.
\<close>

theorem offer_has_eligible_paths:
  assumes "builder_documented L" and "create_offer K L O' C args key w = (Ok o', w')"
  shows "1 \<le> length (offer_paths o') \<and> length (offer_paths o') \<le> 3 \<and>
    (\<exists>info w0 node_id nonce w1.
       oc_get_info O' w = (Ok info, w0) \<and> pk_from_str K (gi_identity_pubkey info) = Some node_id \<and>
       nonce_from_entropy_source L w0 = (nonce, w1) \<and>
       eligible_paths K L C node_id (OffersCtx (CtxInvoiceRequest nonce)) w1 (offer_paths o'))"
proof -
  from created_paths [OF assms] obtain node_id nonce w1 paths w2 where
    o: "offer_origin K L O' C key w node_id nonce w1 paths w2 o'" and t: "offer_paths o' = take 3 paths"
    and c: "create_reply_path_for_offer_creation K L C node_id (OffersCtx (CtxInvoiceRequest nonce)) w1 = (Ok paths, w2)"
    by (elim exE conjE)
  from offer_paths_eligible [OF c] have "1 \<le> length paths"
    and "eligible_paths K L C node_id (OffersCtx (CtxInvoiceRequest nonce)) w1 paths"
    unfolding eligible_paths_def by blast+
  then have "1 \<le> length (offer_paths o')" "length (offer_paths o') \<le> 3"
    "eligible_paths K L C node_id (OffersCtx (CtxInvoiceRequest nonce)) w1 (offer_paths o')"
    by (simp_all add: t Suc_le_eq eligible_paths_take)
  with o show ?thesis unfolding offer_origin_def by blast
qed

theorem offer_has_eligible_paths_witness:
  "\<exists>o' w'. create_offer sample_secp sample_ldk (lightning_offer_creator four_channels_client)
      (lightning_connector four_channels_client) \<lparr>co_amount_msats = None, co_chain = Bitcoin, co_description = None,
        co_issuer = None, co_quantity = None, co_expiry = None\<rparr> (ExpandedKey []) 0 = (Ok o', w') \<and>
    length (offer_paths o') = 3"
proof -
  let ?args = "\<lparr>co_amount_msats = None, co_chain = Bitcoin, co_description = None, co_issuer = None,
      co_quantity = None, co_expiry = None\<rparr>"
  have k: "pk_from_str sample_secp (pk_to_string sample_secp k) = Some k" for k
    using sample_secp_documented by (simp add: secp_documented_def)
  obtain o' w' where run: "create_offer sample_secp sample_ldk (lightning_offer_creator four_channels_client)
      (lightning_connector four_channels_client) ?args (ExpandedKey []) 0 = (Ok o', w')" "3 \<le> length (offer_paths o')"
    by (simp add: create_offer_def four_paths_made io_simps lightning_offer_creator_def k offer_setters_def Let_def)
      (simp add: four_channels_client_def io_simps k sample_ldk_def offer_terms.defs described_def no_terms_def)
  with offer_has_eligible_paths [OF sample_builder_documented run(1)] show ?thesis by (intro exI [of _ o'] exI [of _ w']) simp
qed

text \<open>An offer without an amount and a description has no description, not even an empty one.\<close>

lemma no_description_added:
  assumes "builder_documented L" and "create_offer K L O' C args key w = (Ok o', w')"
    and "co_amount_msats args = None" and "co_description args = None"
  shows "offer_description o' = None"
  by (rule create_offer_terms [OF assms(1,2)])
    (use assms(3,4) in \<open>simp add: requested_terms_def described_def offer_terms.defs\<close>)

section \<open>The answer to an invoice request\<close>

text \<open>
  What LND is asked to receive: an invoice for the amount the request states (\<open>amount()\<close>,
  zero when it states none) and with its description, whose payment request gives the payment hash and the paths.
\<close>

definition received_by_lnd ::
  "secp \<Rightarrow> 'w ldk \<Rightarrow> 'w client \<Rightarrow> invoice_request \<Rightarrow> 'w \<Rightarrow> payment_hash \<Rightarrow> blinded_payment_path list \<Rightarrow> 'w \<Rightarrow> bool" where
  "received_by_lnd K L c ir s hash paths s' \<longleftrightarrow>
     (\<exists>payment_request s1 payreq bytes.
        lc_add_invoice c
          \<lparr>li_memo = (case ir_description ir of Some d \<Rightarrow> d | None \<Rightarrow> ''''),
           li_value_msat = (case ir_amount ir of Some (AmountBitcoin a) \<Rightarrow> ucast a | _ \<Rightarrow> 0),
           li_expiry = 60 * 60 * 24, li_is_blinded = True\<rparr> s = (Inr payment_request, s1) \<and>
        lc_decode_pay_req c payment_request s1 = (Inr payreq, s') \<and>
        sha256_from_str L (pr_payment_hash payreq) = Inr bytes \<and> hash = PaymentHash bytes \<and>
        parse_blinded_paths K (pr_blinded_paths payreq) = Ok paths)"

lemma create_invoice_Ok_iff:
  "create_invoice K L c ir s = (Ok info, s') \<longleftrightarrow>
     received_by_lnd K L c ir s (bi_payment_hash info) (bi_payment_paths info) s'"
  by (cases info) (auto simp: create_invoice_def create_invoice_info_from_request_def client_invoice_creator_def
      client_add_invoice_def client_decode_payment_request_def received_by_lnd_def io_bind_Ok_iff Let_def)

text \<open>
  A request that can be answered: it came with a way to respond, over a path of an offer, it is verified with the nonce
  of that path and the key of the handler, and there is a client.
\<close>

definition answerable ::
  "'w ldk \<Rightarrow> offer_handler \<Rightarrow> 'c option \<Rightarrow> invoice_request \<Rightarrow> offers_context option \<Rightarrow> responder option \<Rightarrow>
   responder \<Rightarrow> verified_request \<Rightarrow> 'c \<Rightarrow> bool" where
  "answerable L h client_opt ir ctx resp responder verified c \<longleftrightarrow>
     resp = Some responder \<and> client_opt = Some c \<and>
     (\<exists>nonce. ctx = Some (CtxInvoiceRequest nonce) \<and> verify_using_recipient_data L ir nonce (handler_key h) = Some verified)"

text \<open>What becomes of a request that can be answered and of one that cannot.\<close>

lemma unanswerable_request:
  assumes "\<nexists>responder verified c. answerable L (fst s) client_opt ir ctx resp responder verified c"
  shows "handle_message K L client_opt (MsgInvoiceRequest ir) ctx resp s = (Ok None, s)"
  using assms
  by (auto simp: answerable_def handle_message_def handle_invoice_request_message_def io_bind_get_handler
      split: option.splits offers_context.splits)

lemma answerable_request:
  assumes "answerable L (fst s) client_opt ir ctx resp responder verified c"
    and "handle_message K L client_opt (MsgInvoiceRequest ir) ctx resp s = (Ok reply, s')"
    and "create_invoice K L c ir s = (r, s1)"
  obtains (refused) e where "r = Err e" "reply = None" "s' = s1"
  | (unsigned) info e where "r = Ok info" "reply = None" "s' = s1"
      "respond_using_derived_keys L verified (bi_payment_paths info) (bi_payment_hash info) = Inl e"
  | (unbuilt) info b e where "r = Ok info" "s' = s1"
      "respond_using_derived_keys L verified (bi_payment_paths info) (bi_payment_hash info) = Inr b"
      "ib_build_and_sign L b = Inl e" "reply = Some (MsgInvoiceError (invoice_error_from L e), Respond responder)"
  | (queued) info b invoice where "r = Ok info" "reply = None"
      "respond_using_derived_keys L verified (bi_payment_paths info) (bi_payment_hash info) = Inr b"
      "ib_build_and_sign L b = Inr invoice"
      "s' = (push_message (MsgInvoice invoice, ForReply responder) (fst s1), snd s1)"
proof -
  have run: "io_match (create_invoice K L c ir)
      (\<lambda>info. case respond_using_derived_keys L verified (bi_payment_paths info) (bi_payment_hash info) of
         Inl e \<Rightarrow> io_return None
       | Inr b \<Rightarrow> (case ib_build_and_sign L b of
           Inr invoice \<Rightarrow> io_bind (locked (push_message (MsgInvoice invoice, ForReply responder))) (\<lambda>_. io_return None)
         | Inl e \<Rightarrow> io_return (Some (MsgInvoiceError (invoice_error_from L e), Respond responder))))
      (\<lambda>e. io_return None) s = (Ok reply :: (unit, reply) res, s')"
    using assms(1,2) by (auto simp: answerable_def handle_message_def handle_invoice_request_message_def io_bind_get_handler)
  show thesis
  proof (cases r)
    case (Ok info)
    show thesis
    proof (cases "respond_using_derived_keys L verified (bi_payment_paths info) (bi_payment_hash info)")
      case (Inl e)
      with Ok run assms(3) unsigned show thesis by (simp add: io_match_def io_return_def)
    next
      case (Inr b)
      with Ok run assms(3) unbuilt queued show thesis
        by (cases "ib_build_and_sign L b"; cases s1) (auto simp: io_match_def io_bind_def locked_def io_return_def)
    qed
  qed (use run assms(3) refused in \<open>auto simp: io_match_def io_return_def\<close>)
qed

lemma answer_contents:
  assumes "answer_documented L" and "create_invoice K L c ir s = (Ok info, s1)"
    and "respond_using_derived_keys L verified (bi_payment_paths info) (bi_payment_hash info) = Inr b"
    and "ib_build_and_sign L b = Inr invoice"
  shows "received_by_lnd K L c ir s (inv_payment_hash invoice) (inv_payment_paths invoice) s1"
proof -
  from assms(1, 3, 4) have "inv_payment_hash invoice = bi_payment_hash info" "inv_payment_paths invoice = bi_payment_paths info"
    unfolding answer_documented_def by blast+
  with assms(2) show ?thesis by (simp add: create_invoice_Ok_iff)
qed

text \<open>
  C21. How a request is answered. Nothing is sent to the sender of an invoice request that is not verified with the key of
  the handler, or that cannot be responded to: the handler and LND are not even touched. For a verified
  request LND is asked once for an invoice, and then: when LND refuses or the library does not start an
  answer, nothing is sent; when the library does not sign the invoice, the reply is its error, to the
  sender; otherwise exactly one message is queued, for the sender: an invoice with the payment hash and the
  paths of the invoice LND made for the amount the request states (\<open>amount()\<close>).
\<close>

theorem invoice_request_answered:
  assumes "answer_documented L"
    and "handle_message K L client_opt (MsgInvoiceRequest ir) ctx resp s = (Ok reply, s')"
  shows "(\<nexists>responder verified c. answerable L (fst s) client_opt ir ctx resp responder verified c) \<and> reply = None \<and> s' = s \<or>
    (\<exists>responder verified c r s1. answerable L (fst s) client_opt ir ctx resp responder verified c \<and>
       create_invoice K L c ir s = (r, s1) \<and>
       ((\<exists>e. r = Err e) \<and> reply = None \<and> s' = s1 \<or>
        (\<exists>info e. r = Ok info \<and>
           respond_using_derived_keys L verified (bi_payment_paths info) (bi_payment_hash info) = Inl e) \<and>
          reply = None \<and> s' = s1 \<or>
        (\<exists>info b e. r = Ok info \<and>
           respond_using_derived_keys L verified (bi_payment_paths info) (bi_payment_hash info) = Inr b \<and>
           ib_build_and_sign L b = Inl e \<and>
           reply = Some (MsgInvoiceError (invoice_error_from L e), Respond responder)) \<and> s' = s1 \<or>
        (\<exists>invoice. received_by_lnd K L c ir s (inv_payment_hash invoice) (inv_payment_paths invoice) s1 \<and>
           s' = (push_message (MsgInvoice invoice, ForReply responder) (fst s1), snd s1)) \<and> reply = None))"
proof (cases "\<exists>responder verified c. answerable L (fst s) client_opt ir ctx resp responder verified c")
  case True
  then obtain responder verified c where a: "answerable L (fst s) client_opt ir ctx resp responder verified c" by blast
  obtain r s1 where run: "create_invoice K L c ir s = (r, s1)" by (metis surj_pair)
  from a assms(2) run show ?thesis
  proof (cases rule: answerable_request)
    case (queued info b invoice)
    from answer_contents [OF assms(1) run [unfolded queued(1)] queued(3,4)] queued(2,5) a run show ?thesis by blast
  qed (use a run in blast)+
next
  case False
  with unanswerable_request [OF False] assms(2) show ?thesis by simp
qed

definition receiving_client :: "nat sys client" where
  "receiving_client = offline_client
     \<lparr>lc_add_invoice := (\<lambda>_ s. (Inr ''lnbc'', s)),
      lc_decode_pay_req := (\<lambda>_ s. (Inr \<lparr>pr_payment_hash = ''ab'', pr_blinded_paths = []\<rparr>, s))\<rparr>"

lemma quiet_answer_documented: "answer_documented quiet_ldk"
  using sample_answer_documented by (simp add: answer_documented_def quiet_ldk_def)

lemma receiving_create_invoice:
  "create_invoice sample_secp quiet_ldk receiving_client ir s =
     (Ok \<lparr>bi_payment_hash = PaymentHash (as_bytes ''ab''), bi_payment_paths = []\<rparr>, s)"
  unfolding create_invoice_Ok_iff
  by (auto simp: received_by_lnd_def receiving_client_def quiet_ldk_def sample_ldk_def parse_blinded_paths_def)

lemma quiet_answers:
  "verify_using_recipient_data quiet_ldk ir n key = Some (VerifiedRequest (ir_bytes ir))"
  "respond_using_derived_keys quiet_ldk v paths hash = Inr (InvoiceBuilder hash paths [])"
  "ib_build_and_sign quiet_ldk (InvoiceBuilder hash paths bs) =
     Inr (sample_invoice\<lparr>inv_payment_hash := hash, inv_payment_paths := paths\<rparr>)"
  by (simp_all add: quiet_ldk_def sample_ldk_def)

theorem invoice_request_answered_witness:
  "\<exists>invoice s' s1. handle_message sample_secp quiet_ldk (Some receiving_client) (MsgInvoiceRequest sample_request)
      (Some (CtxInvoiceRequest (Nonce []))) (Some (Responder (sample_path (PublicKey 9)))) (sample_handler, 0) = (Ok None, s') \<and>
    pending_messages (fst s') = [(MsgInvoice invoice, ForReply (Responder (sample_path (PublicKey 9))))] \<and>
    received_by_lnd sample_secp quiet_ldk receiving_client sample_request (sample_handler, 0)
      (inv_payment_hash invoice) (inv_payment_paths invoice) s1"
proof -
  obtain s' where run: "handle_message sample_secp quiet_ldk (Some receiving_client) (MsgInvoiceRequest sample_request)
      (Some (CtxInvoiceRequest (Nonce []))) (Some (Responder (sample_path (PublicKey 9)))) (sample_handler, 0) = (Ok None, s')"
    and pending: "pending_messages (fst s') \<noteq> []"
    by (simp add: handle_message_def handle_invoice_request_message_def get_handler_def io_match_def
        receiving_create_invoice quiet_answers io_bind_def locked_def io_return_def push_message_def)
  have e: "pending_messages (fst (sample_handler, 0 :: nat)) = []" by (simp add: OfferHandler_new_def)
  with invoice_request_answered [OF quiet_answer_documented run] pending obtain invoice s1 where
    "received_by_lnd sample_secp quiet_ldk receiving_client sample_request (sample_handler, 0)
      (inv_payment_hash invoice) (inv_payment_paths invoice) s1"
    "s' = (push_message (MsgInvoice invoice, ForReply (Responder (sample_path (PublicKey 9)))) (fst s1), snd s1)"
    "s1 = (sample_handler, 0)"
    by (auto simp: receiving_create_invoice answerable_def)
  with run e show ?thesis
    by (intro exI [of _ invoice] exI [of _ s'] exI [of _ s1]) (simp add: push_message_def)
qed

end
