(* ===== verification/Exchange.thy ===== *)
theory Exchange
  imports Payee
begin

text \<open>
  Two daemons that run this code, one that pays and one that is paid: the invoice the payee makes of the payer's
  request is the one the payer accepts for its payment, and when it arrives while the payer waits and the payer's LND
  can pay it, the offer is paid. What passes between them is what \<open>handle_message\<close> of \<open>src/offers/handler.rs\<close> queues and
  gets; the transport of onion messages is rust-lightning's.
\<close>

section \<open>What rust-lightning promises the two sides\<close>

text \<open>
  An invoice that is built in answer to a request carries the metadata of the request, so it is verified
  for the payment id the request was made for, with the key and the nonce it was made with.
\<close>

definition exchange_documented :: "'w ldk \<Rightarrow> bool" where
  "exchange_documented L \<longleftrightarrow> answer_documented L \<and>
     (\<forall>key n pid b ir n' key' verified paths hash ib invoice.
        request_for L key n pid b \<and> irb_build_and_sign L b = Inr ir \<and>
        verify_using_recipient_data L ir n' key' = Some verified \<and>
        respond_using_derived_keys L verified paths hash = Inr ib \<and> ib_build_and_sign L ib = Inr invoice \<longrightarrow>
        verify_using_payer_data L invoice pid n key = Some pid)"

section \<open>The answer is accepted\<close>

text \<open>
  The payee answers: the calls to its LND leave its handler alone, and handling the request queues the invoice for
  the sender.
\<close>

definition answers_with ::
  "secp \<Rightarrow> 'w sys ldk \<Rightarrow> 'w sys client \<Rightarrow> invoice_request \<Rightarrow> offers_context option \<Rightarrow> responder \<Rightarrow> 'w sys \<Rightarrow>
   bolt12_invoice \<Rightarrow> bool" where
  "answers_with K L c ir ctx r t invoice \<longleftrightarrow>
     fst (snd (create_invoice K L c ir t)) = fst t \<and>
     (\<exists>reply t'. handle_message K L (Some c) (MsgInvoiceRequest ir) ctx (Some r) t = (Ok reply, t') \<and>
        pending_messages (fst t') = pending_messages (fst t) @ [(MsgInvoice invoice, ForReply r)])"

lemma answers_with_verified:
  assumes "exchange_documented L"
    and "create_invoice_request L o' net key msats payer_note s = (Ok (ir, pid, amt, ctx), s1)"
    and "answers_with K L c ir ctx' r t invoice"
  obtains n h t1 where "ctx = CtxOutboundPayment pid n (Some h)"
    "verify_using_payer_data L invoice pid n key = Some pid"
    "received_by_lnd K L c ir t (inv_payment_hash invoice) (inv_payment_paths invoice) t1"
proof -
  from assms(2) obtain b n h where
    req: "request_for L key n pid b" "irb_build_and_sign L b = Inr ir" "ctx = CtxOutboundPayment pid n (Some h)"
    by (rule create_invoice_request_for)
  from assms(3) obtain reply t' where kept: "fst (snd (create_invoice K L c ir t)) = fst t"
    and run: "handle_message K L (Some c) (MsgInvoiceRequest ir) ctx' (Some r) t = (Ok reply, t')"
    and new: "pending_messages (fst t') = pending_messages (fst t) @ [(MsgInvoice invoice, ForReply r)]"
    by (auto simp: answers_with_def)
  from new have "t' \<noteq> t" by auto
  then obtain responder verified c' where a: "answerable L (fst t) (Some c) ir ctx' (Some r) responder verified c'"
    using run unanswerable_request [of L t "Some c" ir ctx' "Some r" K] by fastforce
  then obtain nonce where v: "responder = r" "c' = c"
    "verify_using_recipient_data L ir nonce (handler_key (fst t)) = Some verified"
    by (auto simp: answerable_def)
  obtain x t1 where x: "create_invoice K L c ir t = (x, t1)" by (metis surj_pair)
  from a run x obtain info ib invoice' where
    i: "create_invoice K L c ir t = (Ok info, t1)"
    and ib: "respond_using_derived_keys L verified (bi_payment_paths info) (bi_payment_hash info) = Inr ib"
      "ib_build_and_sign L ib = Inr invoice'"
    and t': "t' = (push_message (MsgInvoice invoice', ForReply r) (fst t1), snd t1)"
    unfolding v by (cases rule: answerable_request) (use kept new x v in auto)
  from t' i kept new have "invoice' = invoice" by (simp add: push_message_def)
  with that [OF req(3)] req(1, 2) v(3) i ib assms(1) answer_contents [of L K c ir t info t1 verified ib invoice]
  show ?thesis unfolding exchange_documented_def by metis
qed

text \<open>The payer takes the invoice: it is stored for the payment the request was made for.\<close>

lemma answer_accepted:
  assumes "exchange_documented L"
    and "create_invoice_request L o' net key msats payer_note s = (Ok (ir, pid, amt, ctx), s1)"
    and "answers_with K L c ir ctx' r t invoice"
    and "handler_key (fst u) = key" and "active_payments (fst u) pid = Some info" and "pay_invoice_of info = None"
  shows "handle_message K' L client_opt (MsgInvoice invoice) (Some ctx) resp u =
      (Ok None, (accept_invoice invoice pid (fst u), snd u))"
    and "poll_invoice pid (accept_invoice invoice pid (fst u)) = Some invoice"
proof -
  from assms(1-3) obtain n h where "ctx = CtxOutboundPayment pid n (Some h)"
    "verify_using_payer_data L invoice pid n key = Some pid"
    by (rule answers_with_verified) blast
  with assms(4) show "handle_message K' L client_opt (MsgInvoice invoice) (Some ctx) resp u =
      (Ok None, (accept_invoice invoice pid (fst u), snd u))"
    by (cases u) (simp add: handle_message_def locked_res_def handle_invoice_message_def)
  from assms(5, 6) show "poll_invoice pid (accept_invoice invoice pid (fst u)) = Some invoice"
    by (simp add: accept_invoice_def poll_invoice_def)
qed

section \<open>The offer is paid\<close>

text \<open>
  While the payer waits, poll number \<open>k + 1\<close> is the first one that finds an invoice, because the sleep
  before it delivered the answer to a handler that still waits for it.
\<close>

definition delivered_in_time ::
  "secp \<Rightarrow> 'w sys ldk \<Rightarrow> ('w sys \<Rightarrow> bool \<times> 'w sys) \<Rightarrow> nat \<Rightarrow> payment_id \<Rightarrow> expanded_key \<Rightarrow> offers_context \<Rightarrow>
   bolt12_invoice \<Rightarrow> 'w sys \<Rightarrow> nat \<Rightarrow> bool" where
  "delivered_in_time K L sleep polls pid key ctx invoice s k \<longleftrightarrow>
     k < polls \<and>
     (\<forall>i\<le>k. poll_invoice pid (fst (after_sleeps sleep i s)) = None \<and> \<not> fst (sleep (after_sleeps sleep i s))) \<and>
     (\<exists>u client_opt resp info.
        after_sleeps sleep (Suc k) s = snd (handle_message K L client_opt (MsgInvoice invoice) (Some ctx) resp u) \<and>
        handler_key (fst u) = key \<and> active_payments (fst u) pid = Some info \<and> pay_invoice_of info = None)"

lemma delivered_first_stored:
  assumes "exchange_documented L"
    and "create_invoice_request L o' net key msats payer_note s = (Ok (ir, pid, amt, ctx), s1)"
    and "answers_with K' L c ir ctx' r t invoice"
    and "delivered_in_time K L sleep polls pid key ctx invoice s3 k"
  shows "first_stored sleep polls pid s3 (Suc k) invoice"
proof -
  from assms(4) obtain u client_opt resp info where
    u: "after_sleeps sleep (Suc k) s3 = snd (handle_message K L client_opt (MsgInvoice invoice) (Some ctx) resp u)"
      "handler_key (fst u) = key" "active_payments (fst u) pid = Some info" "pay_invoice_of info = None"
    by (auto simp: delivered_in_time_def)
  have "poll_invoice pid (fst (after_sleeps sleep (Suc k) s3)) = Some invoice"
    unfolding u(1) answer_accepted(1) [OF assms(1-3) u(2-4)] by (simp add: answer_accepted(2) [OF assms(1-3) u(2-4)])
  with assms(4) show ?thesis
    by (auto simp: first_stored_def delivered_in_time_def less_Suc_eq_le simp del: after_sleeps.simps)
qed

text \<open>
  What LND answers when the attempt along a path settles: the introduction node is known (a channel is looked up
  by the loop and again for the request of a route), LND finds a route for the amount within the fee limit, takes the payment
  for the hash along the first one, and its updates on the payment, made when the payment counts as dispatched, report
  no failure before the success.
\<close>

definition introduced :: "secp \<Rightarrow> 'w client \<Rightarrow> blinded_payment_path \<Rightarrow> 'w \<Rightarrow> public_key \<Rightarrow> 'w \<Rightarrow> bool" where
  "introduced K c path s intro s' \<longleftrightarrow>
     (case bpp_introduction_node path of
        NodeId k \<Rightarrow> intro = k \<and> s' = s
      | DirectedShortChannelId dir scid \<Rightarrow>
          (\<exists>str s1. get_node_id_from_scid c scid dir s = (Ok str, s1) \<and> get_node_id K c scid dir s1 = (Ok intro, s')))"

definition lnd_settles ::
  "secp \<Rightarrow> 'w sys client \<Rightarrow> u64 \<Rightarrow> u8 list \<Rightarrow> payment_id \<Rightarrow> fee_limit option \<Rightarrow> blinded_payment_path \<Rightarrow> 'w sys \<Rightarrow>
   lnrpc_payment \<Rightarrow> 'w sys \<Rightarrow> bool" where
  "lnd_settles K c amount hash pid fl path s p s' \<longleftrightarrow>
     (\<exists>intro s1 route routes s2 att s3 updates rest.
        introduced K c path s intro s1 \<and>
        lc_query_routes c
          \<lparr>qr_amt_msat = ucast amount,
           qr_blinded_payment_paths = [payment_path_to_lnrpc K intro path
             (pi_cltv_expiry_delta (bpp_payinfo path)) (pi_fee_base_msat (bpp_payinfo path))
             (pi_fee_proportional_millionths (bpp_payinfo path))],
           qr_fee_limit = fl\<rparr> s1 = (Inr (route # routes), s2) \<and>
        lc_send_to_route_v2 c (hash, route) s2 = (Inr att, s3) \<and>
        lc_track_payment_v2 c (hash, True) (set_state PaymentDispatched pid (fst s3), snd s3) =
          (Inr (map Inr updates @ Inr p # rest), s') \<and>
        (\<forall>u\<in>set updates. pay_status u \<noteq> StatusFailed \<and> pay_status u \<noteq> StatusSucceeded) \<and>
        pay_status p = StatusSucceeded)"

lemma track_payment_loop_reaches:
  "(\<forall>u\<in>set updates. pay_status u \<noteq> StatusFailed \<and> pay_status u \<noteq> StatusSucceeded) \<Longrightarrow>
   pay_status p = StatusSucceeded \<Longrightarrow> track_payment_loop (map Inr updates @ Inr p # rest) = Ok p"
  by (induction updates) auto

lemma lnd_settles_attempt:
  assumes "lnd_settles K c amount hash pid fl path s p s'"
  shows "pay_attempt K c amount hash pid fl path s = (Ok (Inr p), s')"
proof -
  from assms obtain intro s1 route routes s2 att s3 updates rest where
    i: "introduced K c path s intro s1"
    and q: "lc_query_routes c
        \<lparr>qr_amt_msat = ucast amount,
         qr_blinded_payment_paths = [payment_path_to_lnrpc K intro path
           (pi_cltv_expiry_delta (bpp_payinfo path)) (pi_fee_base_msat (bpp_payinfo path))
           (pi_fee_proportional_millionths (bpp_payinfo path))],
         qr_fee_limit = fl\<rparr> s1 = (Inr (route # routes), s2)"
      "lc_send_to_route_v2 c (hash, route) s2 = (Inr att, s3)"
      "lc_track_payment_v2 c (hash, True) (set_state PaymentDispatched pid (fst s3), snd s3) =
         (Inr (map Inr updates @ Inr p # rest), s')"
    and u: "track_payment_loop (map Inr updates @ Inr p # rest) = Ok p"
    unfolding lnd_settles_def by (blast intro: track_payment_loop_reaches)
  show ?thesis
    using i q u
    by (cases s3; cases "bpp_introduction_node path")
      (auto simp: introduced_def pay_attempt_def payment_params_def send_payment_def track_payment_def client_payer_def
        client_query_routes_def client_send_to_route_def client_track_payment_def io_simps)
qed

text \<open>
  C14. An offer is paid when its payee answers in time: if the payer can build and send its request, the payee (a daemon
  with this code) answers it, the answer is delivered within the timeout, and the payer's LND settles a payment
  along one of the paths of the invoice after the attempts along the earlier ones, if any, failed
  in LND (an earlier path whose introduction channel cannot be looked up would end the payment instead),
  then \<open>pay_offer\<close> succeeds with LND's payment, untracks the id, and what it paid is the invoice the payee's
  LND made.
\<close>

theorem answered_offer_is_paid:
  assumes "exchange_documented L"
    and request: "create_invoice_request L (po_offer cfg) (po_network cfg) (handler_key (fst s)) (po_amount cfg)
      (po_payer_note cfg) s = (Ok (ir, pid, amt, ctx), s1)"
    and unused: "active_payments (fst s1) pid = None"
    and sent: "send_invoice_request K L (po_destination cfg) (po_client cfg) ir ctx
      (snd (register_payment pid (fst s1)), snd s1) = (Ok m, s2)"
    and answer: "answers_with K' L c ir ctx' r t invoice"
    and delivery: "delivered_in_time K L sleep (unat (timeout_of cfg (fst s)) div 2) pid (handler_key (fst s)) ctx
      invoice (push_message m (fst s2), snd s2) k"
    and arrived: "s4 = after_sleeps sleep (Suc k) (push_message m (fst s2), snd s2)"
    and paths: "inv_payment_hash invoice = PaymentHash hash" "inv_payment_paths invoice = before @ path # later"
    and failed: "attempts_fail (pay_attempt K (po_client cfg) amt hash pid (po_fee_limit cfg)) before None
      (set_state InvoiceReceived pid (fst s4), snd s4) (e, s5)"
    and settled: "lnd_settles K (po_client cfg) amt hash pid (po_fee_limit cfg) path s5 p s6"
  shows "pay_offer K L sleep cfg s = (Ok p, (remove_active_payment pid (fst s6), snd s6)) \<and>
    pay_status p = StatusSucceeded \<and>
    (\<exists>t1. received_by_lnd K' L c ir t (inv_payment_hash invoice) (inv_payment_paths invoice) t1)"
proof -
  note stored = delivered_first_stored [OF assms(1) request answer delivery]
  have "pay_invoice K (po_client cfg) amt invoice pid (po_fee_limit cfg) (set_state InvoiceReceived pid (fst s4), snd s4) =
      (Ok p, (remove_active_payment pid (fst s6), snd s6))"
    using paths failed lnd_settles_attempt [OF settled]
    unfolding pay_invoice_def pay_paths_loop_Ok_iff paths(1) payment_hash.case by blast
  then have "pay_offer K L sleep cfg s = (Ok p, (remove_active_payment pid (fst s6), snd s6))"
    unfolding pay_offer_Ok_iff arrived
    using request unused sent stored unfolding Let_def by blast
  moreover have "pay_status p = StatusSucceeded"
    using settled by (auto simp: lnd_settles_def)
  moreover from assms(1) request answer obtain t1 where
    "received_by_lnd K' L c ir t (inv_payment_hash invoice) (inv_payment_paths invoice) t1"
    by (rule answers_with_verified)
  ultimately show ?thesis by blast
qed

text \<open>An exchange: the payee's LND makes an invoice with one path, and the first sleep of the payer delivers it.\<close>

definition payee_client :: "nat sys client" where
  "payee_client = offline_client
     \<lparr>lc_add_invoice := (\<lambda>_ s. (Inr ''lnbc'', s)),
      lc_decode_pay_req := (\<lambda>_ s. (Inr \<lparr>pr_payment_hash = ''ab'', pr_blinded_paths =
        [\<lparr>lpp_blinded_path = Some \<lparr>lbp_introduction_node = pk_serialize sample_secp (PublicKey 9),
            lbp_blinding_point = pk_serialize sample_secp (PublicKey 3), lbp_blinded_hops = []\<rparr>,
          lpp_base_fee_msat = 0, lpp_proportional_fee_rate = 0, lpp_total_cltv_delta = 0, lpp_htlc_min_msat = 0,
          lpp_htlc_max_msat = 0, lpp_features = []\<rparr>]\<rparr>, s))\<rparr>"

definition exchanged_path :: blinded_payment_path where
  "exchanged_path = sample_payment_path
     \<lparr>bpp_payinfo := (bpp_payinfo sample_payment_path)\<lparr>pi_features := feature_bits_to_le_bytes []\<rparr>\<rparr>"

definition exchanged_invoice :: bolt12_invoice where
  "exchanged_invoice = sample_invoice
     \<lparr>inv_payment_hash := PaymentHash (as_bytes ''ab''), inv_payment_paths := [exchanged_path]\<rparr>"

abbreviation exchange_context :: offers_context where
  "exchange_context \<equiv> CtxOutboundPayment (PaymentId [7]) (Nonce [8]) (Some (Hmac [7]))"

definition exchange_sleep :: "nat sys \<Rightarrow> bool \<times> nat sys" where
  "exchange_sleep s = (False, snd (handle_message sample_secp quiet_ldk None (MsgInvoice exchanged_invoice)
     (Some exchange_context) None s))"

lemma quiet_exchange_documented: "exchange_documented quiet_ldk"
  by (simp add: exchange_documented_def quiet_answer_documented quiet_verify)

lemma exchange_create_invoice:
  "create_invoice sample_secp quiet_ldk payee_client ir s =
     (Ok \<lparr>bi_payment_hash = PaymentHash (as_bytes ''ab''), bi_payment_paths = [exchanged_path]\<rparr>, s)"
proof -
  have "pk_from_slice sample_secp (pk_serialize sample_secp k) = Some k" for k
    using sample_secp_documented by (simp add: secp_documented_def)
  then show ?thesis
    unfolding create_invoice_Ok_iff
    by (auto simp: received_by_lnd_def payee_client_def quiet_ldk_def sample_ldk_def parse_blinded_paths_def
        parse_blinded_path_def parse_blinded_hops_def exchanged_path_def sample_payment_path_def unwrap_def Let_def)
qed

lemma exchange_answers:
  "answers_with sample_secp quiet_ldk payee_client sample_request (Some (CtxInvoiceRequest (Nonce [])))
     (Responder (sample_path (PublicKey 8))) (sample_handler, 0) exchanged_invoice"
  by (simp add: answers_with_def exchange_create_invoice handle_message_def handle_invoice_request_message_def
      get_handler_def io_match_def quiet_answers io_bind_def locked_def io_return_def push_message_def
      exchanged_invoice_def)

lemma exchange_settles:
  "lnd_settles sample_secp paying_client 2000 hash pid None exchanged_path s
     \<lparr>pay_status = StatusSucceeded, pay_preimage = ''00''\<rparr> (set_state PaymentDispatched pid (fst s), snd s)"
  by (auto simp: lnd_settles_def introduced_def exchanged_path_def sample_payment_path_def paying_client_def
      intro: exI [of _ "[]"])

theorem answered_offer_is_paid_witness:
  "\<exists>p s'. pay_offer sample_secp quiet_ldk exchange_sleep sample_pay_params (sample_handler, 7) = (Ok p, s') \<and>
     pay_status p = StatusSucceeded \<and> pay_preimage p = ''00''"
proof -
  let ?m = "(MsgInvoiceRequest sample_request, WithSpecifiedReplyPath (DestNode (PublicKey 9)) (sample_path (PublicKey 8)))"
  let ?h = "snd (register_payment (PaymentId [7]) sample_handler)"
  let ?s3 = "(push_message ?m (fst (?h, 9 :: nat)), snd (?h, 9 :: nat))"
  let ?s4 = "after_sleeps exchange_sleep (Suc 0) ?s3"
  have r: "create_invoice_request quiet_ldk (po_offer sample_pay_params) (po_network sample_pay_params)
      (handler_key (fst (sample_handler, 7 :: nat))) (po_amount sample_pay_params) (po_payer_note sample_pay_params)
      (sample_handler, 7) = (Ok (sample_request, PaymentId [7], 2000, exchange_context), (sample_handler, 9))"
    by (simp add: sample_pay_params_def sample_request_stage)
  have u: "active_payments (fst (sample_handler, 9 :: nat)) (PaymentId [7]) = None"
    by (simp add: OfferHandler_new_def)
  have m: "send_invoice_request sample_secp quiet_ldk (po_destination sample_pay_params) (po_client sample_pay_params)
      sample_request exchange_context (snd (register_payment (PaymentId [7]) (fst (sample_handler, 9 :: nat))),
        snd (sample_handler, 9 :: nat)) = (Ok ?m, (?h, 9))"
    by (simp add: sample_pay_params_def sample_send_stage)
  have "timeout_of sample_pay_params sample_handler = 15"
    by (simp add: timeout_of_def sample_pay_params_def OfferHandler_new_def DEFAULT_RESPONSE_INVOICE_TIMEOUT_def)
  then have d: "delivered_in_time sample_secp quiet_ldk exchange_sleep
      (unat (timeout_of sample_pay_params (fst (sample_handler, 7 :: nat))) div 2) (PaymentId [7])
      (handler_key (fst (sample_handler, 7 :: nat))) exchange_context exchanged_invoice ?s3 0"
    unfolding delivered_in_time_def exchange_sleep_def
    by (auto simp: register_payment_def push_message_def poll_invoice_def OfferHandler_new_def
        intro!: exI [of _ ?s3] exI [of _ "None :: nat sys client option"] exI [of _ "None :: responder option"])
  let ?s5 = "(set_state InvoiceReceived (PaymentId [7]) (fst ?s4), snd ?s4)"
  have i: "inv_payment_hash exchanged_invoice = PaymentHash (as_bytes ''ab'')"
    "inv_payment_paths exchanged_invoice = [] @ exchanged_path # []"
    by (simp_all add: exchanged_invoice_def)
  have f: "attempts_fail (pay_attempt sample_secp (po_client sample_pay_params) 2000 (as_bytes ''ab'') (PaymentId [7])
      (po_fee_limit sample_pay_params)) [] None ?s5 (None, ?s5)"
    by simp
  have cfg: "po_client sample_pay_params = paying_client" "po_fee_limit sample_pay_params = None"
    by (simp_all add: sample_pay_params_def)
  have l: "lnd_settles sample_secp (po_client sample_pay_params) 2000 (as_bytes ''ab'') (PaymentId [7])
      (po_fee_limit sample_pay_params) exchanged_path ?s5 \<lparr>pay_status = StatusSucceeded, pay_preimage = ''00''\<rparr>
      (set_state PaymentDispatched (PaymentId [7]) (fst ?s5), snd ?s5)"
    unfolding cfg by (rule exchange_settles)
  from answered_offer_is_paid [OF quiet_exchange_documented r u m exchange_answers d refl i f l] show ?thesis
    by (intro exI [of _ "\<lparr>pay_status = StatusSucceeded, pay_preimage = ''00''\<rparr>"]) (metis lnrpc_payment.select_convs(2))
qed

end
