(* ===== verification/Message_Router.thy ===== *)
theory Message_Router
  imports Client_Impls
begin

text \<open>
  \<open>src/message_router.rs\<close>: the router LNDK gives to rust-lightning's onion messenger. It looks
  up the first node of a destination through LND; blinded paths are left to the router of
  rust-lightning it wraps, a parameter. The parser of socket addresses is a parameter too, its
  result opaque.
\<close>

record onion_message_path =
  omp_intermediate_nodes :: "public_key list"
  omp_destination :: destination
  omp_first_node_addresses :: "string list option"

record ('w, 'r) message_router =
  mr_inner :: 'r
  mr_client :: "'w peer_connector"

definition MessageRouter_new :: "'r \<Rightarrow> 'w peer_connector \<Rightarrow> ('w, 'r) message_router" where
  "MessageRouter_new inner c = \<lparr>mr_inner = inner, mr_client = c\<rparr>"

definition get_first_node :: "destination \<Rightarrow> public_key option" where
  "get_first_node d =
     (case d of
        DestNode node_id \<Rightarrow> Some node_id
      | DestBlindedPath path \<Rightarrow> (case bmp_introduction_node path of
            NodeId pubkey \<Rightarrow> Some pubkey
          | DirectedShortChannelId _ _ \<Rightarrow> None))"

definition find_path ::
  "secp \<Rightarrow> (string \<Rightarrow> string option) \<Rightarrow> ('w, 'r) message_router \<Rightarrow> public_key \<Rightarrow> public_key list \<Rightarrow>
   destination \<Rightarrow> ('w, unit, onion_message_path) io" where
  "find_path K addr_from_str self sender ps destination =
     io_bind (io_lift (ok_or () (get_first_node destination))) (\<lambda>first_node.
     if first_node \<in> set ps \<or> sender = first_node then
       io_return \<lparr>omp_intermediate_nodes = [], omp_destination = destination, omp_first_node_addresses = None\<rparr>
     else
       io_bind (io_map_err (\<lambda>_. ()) (pc_get_node_info (mr_client self) (pk_to_string K first_node) False))
         (\<lambda>node_info.
       case ni_node node_info of
         Some node \<Rightarrow>
           if ln_addresses node \<noteq> [] \<and> features_support_onion_messages (ln_features node) then
             let addresses = List.map_filter addr_from_str (ln_addresses node) in
             if addresses = [] then io_err ()
             else io_return \<lparr>omp_intermediate_nodes = [], omp_destination = destination,
                    omp_first_node_addresses = Some addresses\<rparr>
           else io_err ()
       | None \<Rightarrow> io_err ()))"

text \<open>The operations on blinded paths, with that of the wrapped router as a parameter.\<close>

definition create_blinded_paths ::
  "('r \<Rightarrow> public_key \<Rightarrow> message_context \<Rightarrow> public_key list \<Rightarrow> ('w, unit, blinded_message_path list) io) \<Rightarrow>
   ('w, 'r) message_router \<Rightarrow> public_key \<Rightarrow> message_context \<Rightarrow> public_key list \<Rightarrow>
   ('w, unit, blinded_message_path list) io" where
  "create_blinded_paths inner_create self r ctx ps = inner_create (mr_inner self) r ctx ps"

definition create_compact_blinded_paths ::
  "('r \<Rightarrow> public_key \<Rightarrow> message_context \<Rightarrow> public_key list \<Rightarrow> ('w, unit, blinded_message_path list) io) \<Rightarrow>
   ('w, 'r) message_router \<Rightarrow> public_key \<Rightarrow> message_context \<Rightarrow> message_forward_node list \<Rightarrow>
   ('w, unit, blinded_message_path list) io" where
  "create_compact_blinded_paths inner_create self r ctx ps =
     create_blinded_paths inner_create self r ctx (map fwd_node_id ps)"

lemma lookup_path_Ok_iff:
  "(case ni_node info of
      Some node \<Rightarrow>
        if ln_addresses node \<noteq> [] \<and> features_support_onion_messages (ln_features node) then
          let addresses = List.map_filter f (ln_addresses node) in
          if addresses = [] then io_err ()
          else io_return \<lparr>omp_intermediate_nodes = [], omp_destination = d,
                 omp_first_node_addresses = Some addresses\<rparr>
        else io_err ()
    | None \<Rightarrow> io_err ()) w = (Ok p, w') \<longleftrightarrow>
   w' = w \<and> (\<exists>node. ni_node info = Some node \<and> features_support_onion_messages (ln_features node) \<and>
      List.map_filter f (ln_addresses node) \<noteq> [] \<and>
      p = \<lparr>omp_intermediate_nodes = [], omp_destination = d,
        omp_first_node_addresses = Some (List.map_filter f (ln_addresses node))\<rparr>)"
proof (cases "ni_node info")
  case (Some node)
  then show ?thesis
    by (cases "ln_addresses node") (auto simp: Let_def List.map_filter_simps)
qed simp

text \<open>
  The paths the router finds are direct, and only destinations whose first node is named by its key have one: when
  that node is a peer or ourselves, no address is needed and LND is not asked; otherwise LND has to know it as a
  node that supports onion messages with an address that parses, and all addresses that parse are handed on.
\<close>

lemma find_path_Ok_iff:
  "find_path K f self sender ps d w = (Ok p, w') \<longleftrightarrow>
     (\<exists>k. get_first_node d = Some k \<and>
       (if k \<in> set ps \<or> sender = k
        then w' = w \<and> p = \<lparr>omp_intermediate_nodes = [], omp_destination = d, omp_first_node_addresses = None\<rparr>
        else \<exists>info. pc_get_node_info (mr_client self) (pk_to_string K k) False w = (Ok info, w') \<and>
          (\<exists>node. ni_node info = Some node \<and> features_support_onion_messages (ln_features node) \<and>
             List.map_filter f (ln_addresses node) \<noteq> [] \<and>
             p = \<lparr>omp_intermediate_nodes = [], omp_destination = d,
               omp_first_node_addresses = Some (List.map_filter f (ln_addresses node))\<rparr>)))"
proof (cases "get_first_node d")
  case (Some k)
  then show ?thesis
    by (auto simp: find_path_def io_bind_Ok_iff lookup_path_Ok_iff)
qed (simp add: find_path_def io_simps)

end
