(* ===== verification/Request_Tests.thy ===== *)
theory Request_Tests
  imports Message_Router Payee
begin

text \<open>
  The unit tests of \<open>offers/lnd_requests.rs\<close> and \<open>message_router.rs\<close>, run on the definitions of this
  development, with the mock objects of \<open>offers/client_impls.rs\<close>. The keys, the blinded path to pay and
  the libraries are arguments. The tests that compare keys derived from fresh randomness
  (\<open>test_transient_keys\<close>, \<open>test_create_offer_different_signing_pubkeys_and_ids\<close>) are in \<open>Fresh_Keys\<close>.
\<close>

section \<open>Mock objects\<close>

text \<open>A mock panics when an operation is called that no expectation was set for.\<close>

definition unexpected :: "('w, 'e, 'a) io" where
  "unexpected = io_lift (Panic ''No matching expectation found'')"

definition MockTestPeerConnector :: "'w peer_connector" where
  "MockTestPeerConnector =
     \<lparr>pc_list_peers = unexpected, pc_connect_peer = (\<lambda>_ _. unexpected), pc_get_node_info = (\<lambda>_ _. unexpected),
      pc_list_active_public_channels = unexpected\<rparr>"

definition MockTestInvoicePayer :: "'w invoice_payer" where
  "MockTestInvoicePayer =
     \<lparr>ip_query_routes = (\<lambda>_ _ _ _ _ _. unexpected), ip_send_to_route = (\<lambda>_ _. unexpected),
      ip_track_payment = (\<lambda>_. unexpected)\<rparr>"

text \<open>The mock of an offer creator implements two traits, so it is a pair.\<close>

definition MockTestOfferCreator :: "'w offer_creator \<times> 'w peer_connector" where
  "MockTestOfferCreator = (\<lparr>oc_get_info = unexpected\<rparr>, MockTestPeerConnector)"

definition MockTestBolt12InvoiceCreator :: "'w bolt12_invoice_creator" where
  "MockTestBolt12InvoiceCreator =
     \<lparr>bic_add_invoice = (\<lambda>_. unexpected), bic_decode_payment_request = (\<lambda>_. unexpected)\<rparr>"

lemmas mock_defs = unexpected_def MockTestPeerConnector_def MockTestInvoicePayer_def MockTestOfferCreator_def
  MockTestBolt12InvoiceCreator_def

text \<open>Messages with the defaults of their fields.\<close>

abbreviation default_node :: lightning_node where
  "default_node \<equiv> \<lparr>ln_pub_key = '''', ln_addresses = [], ln_features = []\<rparr>"

abbreviation default_edge :: channel_edge where
  "default_edge \<equiv> \<lparr>edge_channel_id = 0, edge_node1_pub = '''', edge_node2_pub = ''''\<rparr>"

text \<open>The node information most tests use: a node with one address.\<close>

abbreviation node_at_localhost :: node_info where
  "node_at_localhost \<equiv> \<lparr>ni_node = Some (default_node\<lparr>ln_addresses := [''127.0.0.1'']\<rparr>), ni_channels = []\<rparr>"

section \<open>Connecting to a peer\<close>

definition test_connect_peer :: "secp \<Rightarrow> public_key \<Rightarrow> 'w \<Rightarrow> bool" where
  "test_connect_peer K pubkey w \<longleftrightarrow>
     (let connector_mock = MockTestPeerConnector
        \<lparr>pc_list_peers := io_return [],
         pc_get_node_info := (\<lambda>_ _. io_return node_at_localhost),
         pc_connect_peer := (\<lambda>_ _. io_return ())\<rparr>
      in is_ok (fst (connect_to_peer K connector_mock pubkey w)))"

definition test_connect_peer_already_connected :: "secp \<Rightarrow> public_key \<Rightarrow> 'w \<Rightarrow> bool" where
  "test_connect_peer_already_connected K pubkey w \<longleftrightarrow>
     (let connector_mock = MockTestPeerConnector
        \<lparr>pc_list_peers := io_return [\<lparr>peer_pub_key = pk_to_string K pubkey, peer_features = []\<rparr>],
         pc_get_node_info := (\<lambda>_ _. io_return node_at_localhost)\<rparr>
      in is_ok (fst (connect_to_peer K connector_mock pubkey w)))"

definition test_connect_peer_connect_error :: "secp \<Rightarrow> public_key \<Rightarrow> 'w \<Rightarrow> bool" where
  "test_connect_peer_connect_error K pubkey w \<longleftrightarrow>
     (let connector_mock = MockTestPeerConnector
        \<lparr>pc_list_peers := io_return [],
         pc_get_node_info := (\<lambda>_ _. io_return node_at_localhost),
         pc_connect_peer := (\<lambda>_ _. io_err (Status_new CodeUnknown ''''))\<rparr>
      in case fst (connect_to_peer K connector_mock pubkey w) of Err _ \<Rightarrow> True | _ \<Rightarrow> False)"

lemma connect_peer_tests_pass:
  "test_connect_peer K pubkey w" "test_connect_peer_already_connected K pubkey w"
  "test_connect_peer_connect_error K pubkey w"
  by (simp_all add: test_connect_peer_def test_connect_peer_already_connected_def
      test_connect_peer_connect_error_def connect_to_peer_def io_simps)

section \<open>Reply paths\<close>

text \<open>
  What the tests need of the path constructors of rust-lightning: they succeed, and a path has one
  hop for each forwarding node and one for the recipient.
\<close>

definition paths_documented :: "'w ldk \<Rightarrow> bool" where
  "paths_documented L \<longleftrightarrow>
     (\<forall>k ctx w. \<exists>p w'. path_one_hop L k ctx w = (Some p, w') \<and> length (bmp_hops p) = 1) \<and>
     (\<forall>ns k ctx w. \<exists>p w'. path_new L ns k ctx w = (Some p, w') \<and> length (bmp_hops p) = Suc (length ns))"

definition get_message_context :: message_context where
  "get_message_context =
     OffersCtx (CtxOutboundPayment (PaymentId (replicate 32 42)) (Nonce (replicate 16 42)) None)"

abbreviation outgoing_path ::
  "secp \<Rightarrow> 'w ldk \<Rightarrow> 'w peer_connector \<Rightarrow> public_key \<Rightarrow> 'w \<Rightarrow> (offer_error, blinded_message_path) res" where
  "outgoing_path K L connector_mock receiver_node_id w \<equiv>
     fst (create_reply_path_for_outgoing_payments K L connector_mock receiver_node_id get_message_context w)"

abbreviation offer_path ::
  "secp \<Rightarrow> 'w ldk \<Rightarrow> 'w peer_connector \<Rightarrow> public_key \<Rightarrow> 'w \<Rightarrow> (offer_error, blinded_message_path list) res" where
  "offer_path K L connector_mock receiver_node_id w \<equiv>
     fst (create_reply_path_for_offer_creation K L connector_mock receiver_node_id get_message_context w)"

definition test_create_reply_path_no_intro_node :: "secp \<Rightarrow> 'w ldk \<Rightarrow> public_key \<Rightarrow> 'w \<Rightarrow> bool" where
  "test_create_reply_path_no_intro_node K L receiver_node_id w \<longleftrightarrow>
     is_ok (outgoing_path K L (MockTestPeerConnector\<lparr>pc_list_peers := io_return []\<rparr>) receiver_node_id w) \<and>
     is_ok (offer_path K L (MockTestPeerConnector\<lparr>pc_list_active_public_channels := io_return []\<rparr>)
       receiver_node_id w)"

definition test_reply_path_for_outgoing_payments :: "secp \<Rightarrow> 'w ldk \<Rightarrow> public_key \<Rightarrow> 'w \<Rightarrow> bool" where
  "test_reply_path_for_outgoing_payments K L receiver_node_id w \<longleftrightarrow>
     (let connector_mock = MockTestPeerConnector
        \<lparr>pc_list_peers := io_return [\<lparr>peer_pub_key = pk_to_string K receiver_node_id, peer_features = [38]\<rparr>],
         pc_get_node_info := (\<lambda>_ _. io_return \<lparr>ni_node = Some default_node, ni_channels = []\<rparr>)\<rparr>
      in is_ok (outgoing_path K L connector_mock receiver_node_id w))"

definition test_create_reply_path_for_offer_creation :: "secp \<Rightarrow> 'w ldk \<Rightarrow> public_key \<Rightarrow> 'w \<Rightarrow> bool" where
  "test_create_reply_path_for_offer_creation K L receiver_node_id w \<longleftrightarrow>
     (let connector_mock = MockTestPeerConnector
        \<lparr>pc_list_active_public_channels :=
           io_return [\<lparr>chan_remote_pubkey = pk_to_string K receiver_node_id, chan_id = 0\<rparr>],
         pc_get_node_info := (\<lambda>_ _. io_return node_at_localhost)\<rparr>
      in is_ok (offer_path K L connector_mock receiver_node_id w))"

definition test_create_reply_path_list_peers_error :: "secp \<Rightarrow> 'w ldk \<Rightarrow> public_key \<Rightarrow> 'w \<Rightarrow> bool" where
  "test_create_reply_path_list_peers_error K L receiver_node_id w \<longleftrightarrow>
     (case outgoing_path K L (MockTestPeerConnector
        \<lparr>pc_list_peers := io_err (Status_new CodeUnknown ''unknown error'')\<rparr>) receiver_node_id w of
        Err _ \<Rightarrow> True | _ \<Rightarrow> False) \<and>
     (case offer_path K L (MockTestPeerConnector
        \<lparr>pc_list_active_public_channels := io_err (Status_new CodeUnknown ''unknown error'')\<rparr>) receiver_node_id w of
        Err _ \<Rightarrow> True | _ \<Rightarrow> False)"

text \<open>
  The peers that support onion messages but have no public channels are passed over: with only
  such a peer the path has one hop, and with a second peer that is advertised it has two.
\<close>

definition test_create_reply_path_for_outgoing_payments_not_advertised ::
  "secp \<Rightarrow> 'w ldk \<Rightarrow> public_key \<Rightarrow> public_key \<Rightarrow> 'w \<Rightarrow> bool" where
  "test_create_reply_path_for_outgoing_payments_not_advertised K L k0 k1 w \<longleftrightarrow>
     (let connector_mock = MockTestPeerConnector
        \<lparr>pc_list_peers := io_return [\<lparr>peer_pub_key = pk_to_string K k0, peer_features = [38]\<rparr>],
         pc_get_node_info := (\<lambda>_ _. io_err (Status_new CodeNotFound ''node was not found''))\<rparr>
      in case outgoing_path K L connector_mock k0 w of
          Ok reply_path \<Rightarrow> length (bmp_hops reply_path) = 1
        | _ \<Rightarrow> False) \<and>
     (let connector_mock = MockTestPeerConnector
        \<lparr>pc_list_peers := io_return [\<lparr>peer_pub_key = pk_to_string K k0, peer_features = [38]\<rparr>,
           \<lparr>peer_pub_key = pk_to_string K k1, peer_features = [38]\<rparr>],
         pc_get_node_info := (\<lambda>key include_channels.
           if key = pk_to_string K k0 \<and> include_channels
           then io_err (Status_new CodeNotFound ''node was not found'')
           else if key = pk_to_string K k1 \<and> include_channels
           then io_return \<lparr>ni_node = Some default_node, ni_channels = [default_edge]\<rparr>
           else unexpected)\<rparr>
      in case outgoing_path K L connector_mock k0 w of
          Ok reply_path \<Rightarrow> length (bmp_hops reply_path) = 2
        | _ \<Rightarrow> False)"

definition test_create_reply_path_for_offer_creation_not_advertised ::
  "secp \<Rightarrow> 'w ldk \<Rightarrow> public_key \<Rightarrow> public_key \<Rightarrow> 'w \<Rightarrow> bool" where
  "test_create_reply_path_for_offer_creation_not_advertised K L k0 k1 w \<longleftrightarrow>
     (let connector_mock = MockTestPeerConnector
        \<lparr>pc_list_active_public_channels := io_return [],
         pc_get_node_info := (\<lambda>_ _. io_return node_at_localhost)\<rparr>
      in case offer_path K L connector_mock k0 w of
          Ok (path # _) \<Rightarrow> length (bmp_hops path) = 1
        | _ \<Rightarrow> False) \<and>
     (let connector_mock = MockTestPeerConnector
        \<lparr>pc_list_active_public_channels := io_return [\<lparr>chan_remote_pubkey = pk_to_string K k1, chan_id = 10\<rparr>],
         pc_get_node_info := (\<lambda>_ _. io_return
           \<lparr>ni_node = Some (default_node\<lparr>ln_addresses := [''127.0.0.1''], ln_features := [38]\<rparr>),
            ni_channels = [default_edge\<lparr>edge_channel_id := 10\<rparr>, default_edge\<lparr>edge_channel_id := 20\<rparr>]\<rparr>)\<rparr>
      in case offer_path K L connector_mock k0 w of
          Ok (path # _) \<Rightarrow> length (bmp_hops path) = 2
        | _ \<Rightarrow> False)"

lemma path_functions:
  assumes "paths_documented L"
  obtains p1 w1 p2 w2 where "\<And>k ctx w. path_one_hop L k ctx w = (Some (p1 k ctx w), w1 k ctx w)"
    and "\<And>k ctx w. length (bmp_hops (p1 k ctx w)) = 1"
    and "\<And>ns k ctx w. path_new L ns k ctx w = (Some (p2 ns k ctx w), w2 ns k ctx w)"
    and "\<And>ns k ctx w. length (bmp_hops (p2 ns k ctx w)) = Suc (length ns)"
  using assms unfolding paths_documented_def by metis

lemmas reply_path_defs = create_reply_path_for_outgoing_payments_def create_reply_path_for_offer_creation_def
  unwrap_def features_support_onion_messages_def ONION_MESSAGES_REQUIRED_def ONION_MESSAGES_OPTIONAL_def
  io_simps run_total_def Let_def

lemma reply_path_tests_pass:
  assumes "secp_documented K" and "paths_documented L" and "k0 \<noteq> k1"
  shows "test_create_reply_path_no_intro_node K L k0 w" "test_reply_path_for_outgoing_payments K L k0 w"
    "test_create_reply_path_for_offer_creation K L k0 w" "test_create_reply_path_list_peers_error K L k0 w"
    "test_create_reply_path_for_outgoing_payments_not_advertised K L k0 k1 w"
    "test_create_reply_path_for_offer_creation_not_advertised K L k0 k1 w"
proof -
  have K: "pk_from_str K (pk_to_string K k) = Some k" for k
    using assms(1) by (simp add: secp_documented_def)
  then have ne: "pk_to_string K k1 \<noteq> pk_to_string K k0"
    using assms(3) by (metis option.inject)
  from assms(2) obtain p1 w1 p2 w2 where P: "\<And>k ctx w. path_one_hop L k ctx w = (Some (p1 k ctx w), w1 k ctx w)"
      "\<And>k ctx w. length (bmp_hops (p1 k ctx w)) = 1"
      "\<And>ns k ctx w. path_new L ns k ctx w = (Some (p2 ns k ctx w), w2 ns k ctx w)"
      "\<And>ns k ctx w. length (bmp_hops (p2 ns k ctx w)) = Suc (length ns)"
    by (rule path_functions) blast
  show "test_create_reply_path_no_intro_node K L k0 w" "test_reply_path_for_outgoing_payments K L k0 w"
    "test_create_reply_path_for_offer_creation K L k0 w" "test_create_reply_path_list_peers_error K L k0 w"
    by (simp_all add: test_create_reply_path_no_intro_node_def test_reply_path_for_outgoing_payments_def
        test_create_reply_path_for_offer_creation_def test_create_reply_path_list_peers_error_def
        reply_path_defs K P)
  show "test_create_reply_path_for_outgoing_payments_not_advertised K L k0 k1 w"
    using ne by (simp add: test_create_reply_path_for_outgoing_payments_not_advertised_def reply_path_defs K P)
  show "test_create_reply_path_for_offer_creation_not_advertised K L k0 k1 w"
    by (simp add: test_create_reply_path_for_offer_creation_not_advertised_def reply_path_defs K P)
qed

section \<open>Sending a payment\<close>

text \<open>The blinded path, the payment hash and the payment id are arguments.\<close>

definition test_params :: "blinded_payment_path \<Rightarrow> u8 list \<Rightarrow> payment_id \<Rightarrow> send_payment_params" where
  "test_params blinded_path payment_hash payment_id =
     \<lparr>sp_path = blinded_path, sp_cltv_expiry_delta = 200, sp_fee_base_msat = 1, sp_fee_ppm = 0,
      sp_payment_hash = payment_hash, sp_msats = 2000, sp_payment_id = payment_id, sp_fee_limit = None\<rparr>"

definition test_send_payment :: "blinded_payment_path \<Rightarrow> u8 list \<Rightarrow> payment_id \<Rightarrow> 'w \<Rightarrow> bool" where
  "test_send_payment blinded_path payment_hash payment_id w \<longleftrightarrow>
     (let payer_mock = MockTestInvoicePayer
        \<lparr>ip_query_routes := (\<lambda>_ _ _ _ _ _. io_return [Route []]),
         ip_send_to_route := (\<lambda>_ _. io_return \<lparr>ha_attempt_id = 0, ha_preimage = []\<rparr>),
         ip_track_payment := (\<lambda>_. io_return \<lparr>pay_status = StatusUnknown, pay_preimage = ''''\<rparr>)\<rparr>
      in is_ok (fst (send_payment payer_mock (test_params blinded_path payment_hash payment_id) w)))"

definition test_send_payment_query_error :: "blinded_payment_path \<Rightarrow> u8 list \<Rightarrow> payment_id \<Rightarrow> 'w \<Rightarrow> bool" where
  "test_send_payment_query_error blinded_path payment_hash payment_id w \<longleftrightarrow>
     (let payer_mock = MockTestInvoicePayer
        \<lparr>ip_query_routes := (\<lambda>_ _ _ _ _ _. io_err (Status_new CodeUnknown ''unknown error''))\<rparr>
      in case fst (send_payment payer_mock (test_params blinded_path payment_hash payment_id) w) of
          Err _ \<Rightarrow> True | _ \<Rightarrow> False)"

definition test_send_payment_send_error :: "blinded_payment_path \<Rightarrow> u8 list \<Rightarrow> payment_id \<Rightarrow> 'w \<Rightarrow> bool" where
  "test_send_payment_send_error blinded_path payment_hash payment_id w \<longleftrightarrow>
     (let payer_mock = MockTestInvoicePayer
        \<lparr>ip_query_routes := (\<lambda>_ _ _ _ _ _. io_return [Route []]),
         ip_send_to_route := (\<lambda>_ _. io_err (Status_new CodeUnknown ''unknown error''))\<rparr>
      in case fst (send_payment payer_mock (test_params blinded_path payment_hash payment_id) w) of
          Err _ \<Rightarrow> True | _ \<Rightarrow> False)"

lemma send_payment_tests_pass:
  "test_send_payment blinded_path payment_hash payment_id w"
  "test_send_payment_query_error blinded_path payment_hash payment_id w"
  "test_send_payment_send_error blinded_path payment_hash payment_id w"
  by (simp_all add: test_send_payment_def test_send_payment_query_error_def test_send_payment_send_error_def
      send_payment_def io_simps)

section \<open>Creating an offer\<close>

text \<open>Without features the one peer with a channel is not used as an introduction node.\<close>

definition setup_create_offer_success_mock ::
  "secp \<Rightarrow> public_key \<Rightarrow> public_key \<Rightarrow> 'w offer_creator \<times> 'w peer_connector" where
  "setup_create_offer_success_mock K k0 k1 =
     (\<lparr>oc_get_info = io_return \<lparr>gi_identity_pubkey = pk_to_string K k1, gi_chains = [], gi_features = []\<rparr>\<rparr>,
      (snd MockTestOfferCreator)
       \<lparr>pc_list_peers := io_return [\<lparr>peer_pub_key = pk_to_string K k0, peer_features = []\<rparr>],
        pc_list_active_public_channels := io_return [\<lparr>chan_remote_pubkey = pk_to_string K k0, chan_id = 0\<rparr>],
        pc_get_node_info := (\<lambda>_ _. io_return node_at_localhost)\<rparr>)"

abbreviation test_args :: create_offer_args where
  "test_args \<equiv> \<lparr>co_amount_msats = Some 1000, co_chain = Regtest, co_description = None, co_issuer = None,
     co_quantity = None, co_expiry = None\<rparr>"

definition offer_created ::
  "secp \<Rightarrow> 'w ldk \<Rightarrow> 'w offer_creator \<times> 'w peer_connector \<Rightarrow> create_offer_args \<Rightarrow> u8 list \<Rightarrow> 'w \<Rightarrow>
   (offer_error, offer) res" where
  "offer_created K L mock args key w = fst (create_offer K L (fst mock) (snd mock) args (ExpandedKey key) w)"

definition test_create_offer_success :: "secp \<Rightarrow> 'w ldk \<Rightarrow> public_key \<Rightarrow> public_key \<Rightarrow> 'w \<Rightarrow> bool" where
  "test_create_offer_success K L k0 k1 w \<longleftrightarrow>
     (case offer_created K L (setup_create_offer_success_mock K k0 k1)
        (test_args\<lparr>co_description := Some ''Test offer'', co_issuer := Some ''Test issuer'',
          co_quantity := Some QuantityOne\<rparr>) (replicate 32 42) w of
        Ok offer \<Rightarrow> offer_amount offer = Some (AmountBitcoin 1000) \<and>
          offer_description offer = Some ''Test offer'' \<and> offer_issuer offer = Some ''Test issuer'' \<and>
          offer_supported_quantity offer = QuantityOne
      | _ \<Rightarrow> False)"

definition test_create_offer_minimal :: "secp \<Rightarrow> 'w ldk \<Rightarrow> public_key \<Rightarrow> public_key \<Rightarrow> 'w \<Rightarrow> bool" where
  "test_create_offer_minimal K L k0 k1 w \<longleftrightarrow>
     (case offer_created K L (setup_create_offer_success_mock K k0 k1) test_args (replicate 32 42) w of
        Ok offer \<Rightarrow> offer_amount offer = Some (AmountBitcoin 1000) \<and>
          offer_description offer = Some '''' \<and> offer_issuer offer = None \<and>
          offer_supported_quantity offer = QuantityOne
      | _ \<Rightarrow> False)"

definition test_create_offer_no_amount :: "secp \<Rightarrow> 'w ldk \<Rightarrow> public_key \<Rightarrow> public_key \<Rightarrow> 'w \<Rightarrow> bool" where
  "test_create_offer_no_amount K L k0 k1 w \<longleftrightarrow>
     (case offer_created K L (setup_create_offer_success_mock K k0 k1)
        (test_args\<lparr>co_amount_msats := None, co_description := Some ''donations welcome''\<rparr>) (replicate 32 42) w of
        Ok offer \<Rightarrow> offer_amount offer = None
      | _ \<Rightarrow> False)"

definition test_create_offer_with_expiry :: "secp \<Rightarrow> 'w ldk \<Rightarrow> public_key \<Rightarrow> public_key \<Rightarrow> 'w \<Rightarrow> bool" where
  "test_create_offer_with_expiry K L k0 k1 w \<longleftrightarrow>
     (case offer_created K L (setup_create_offer_success_mock K k0 k1)
        (test_args\<lparr>co_expiry := Some (from_secs 3600)\<rparr>) (replicate 32 42) w of
        Ok offer \<Rightarrow> offer_absolute_expiry offer \<noteq> None
      | _ \<Rightarrow> False)"

definition test_create_offer_with_quantity :: "secp \<Rightarrow> 'w ldk \<Rightarrow> public_key \<Rightarrow> public_key \<Rightarrow> 'w \<Rightarrow> bool" where
  "test_create_offer_with_quantity K L k0 k1 w \<longleftrightarrow>
     (case offer_created K L (setup_create_offer_success_mock K k0 k1)
        (test_args\<lparr>co_quantity := Some QuantityUnbounded\<rparr>) (replicate 32 42) w of
        Ok offer \<Rightarrow> offer_supported_quantity offer = QuantityUnbounded
      | _ \<Rightarrow> False)"

definition test_create_offer_get_info_error :: "secp \<Rightarrow> 'w ldk \<Rightarrow> 'w \<Rightarrow> bool" where
  "test_create_offer_get_info_error K L w \<longleftrightarrow>
     (let creator_mock = (\<lparr>oc_get_info = io_err (Status_new CodeInternal ''Failed to get node info'')\<rparr>,
        snd MockTestOfferCreator)
      in offer_created K L creator_mock test_args (replicate 32 42) w = Err NodeAddressNotFound)"

definition test_create_offer_invalid_pubkey :: "secp \<Rightarrow> 'w ldk \<Rightarrow> 'w \<Rightarrow> bool" where
  "test_create_offer_invalid_pubkey K L w \<longleftrightarrow>
     (let creator_mock = (\<lparr>oc_get_info = io_return
          \<lparr>gi_identity_pubkey = ''invalid_pubkey'', gi_chains = [], gi_features = []\<rparr>\<rparr>, snd MockTestOfferCreator)
      in offer_created K L creator_mock test_args (replicate 32 42) w = Err NodeAddressNotFound)"

text \<open>
  What the tests need besides: every offer can be built, and the system clock shows a time that is an hour away
  from the ends of its range.
\<close>

definition offers_buildable :: "'w ldk \<Rightarrow> bool" where
  "offers_buildable L \<longleftrightarrow>
     (\<forall>b. \<exists>o'. ob_build L b = Inr o') \<and>
     (\<forall>w. 0 \<le> fst (system_time_now L w) \<and> fst (system_time_now L w) + int (from_secs 3600) < SYSTEM_TIME_END)"

lemma offer_created_terms:
  assumes K: "secp_documented K" and P: "paths_documented L" and B: "builder_documented L" "offers_buildable L"
    and e: "co_expiry args \<in> {None, Some (from_secs 3600)}"
  obtains o' paths expiry where
    "offer_created K L (setup_create_offer_success_mock K k0 k1) args key w = Ok o'"
    "offer_terms.truncate o' = requested_terms args paths expiry" "expiry = None \<longleftrightarrow> co_expiry args = None"
proof -
  let ?m = "setup_create_offer_success_mock K k0 k1"
  have K: "pk_from_str K (pk_to_string K k) = Some k" for k
    using K by (simp add: secp_documented_def)
  from P obtain p1 w1 p2 w2 where P: "\<And>k ctx w. path_one_hop L k ctx w = (Some (p1 k ctx w), w1 k ctx w)"
      "\<And>k ctx w. length (bmp_hops (p1 k ctx w)) = 1"
      "\<And>ns k ctx w. path_new L ns k ctx w = (Some (p2 ns k ctx w), w2 ns k ctx w)"
      "\<And>ns k ctx w. length (bmp_hops (p2 ns k ctx w)) = Suc (length ns)"
    by (rule path_functions) blast
  from B(2) obtain ob where ob: "\<And>b. ob_build L b = Inr (ob b)"
    unfolding offers_buildable_def by metis
  obtain n w' where n: "nonce_from_entropy_source L w = (n, w')" by fastforce
  have p: "create_reply_path_for_offer_creation K L (snd ?m) k1 ctx w = (Ok [p1 k1 ctx w], w1 k1 ctx w)" for ctx w
    by (simp add: setup_create_offer_success_mock_def reply_path_defs P)
  define v where "v = w1 k1 (OffersCtx (CtxInvoiceRequest n)) w'"
  obtain t v' where t: "system_time_now L v = (t, v')" by fastforce
  with B(2) [unfolded offers_buildable_def, THEN conjunct2, rule_format, of v]
  have t': "\<not> SYSTEM_TIME_END \<le> t + int (from_secs 3600)" "\<not> t + int (from_secs 3600) < 0" by simp_all
  have i: "oc_get_info (fst ?m) = io_return \<lparr>gi_identity_pubkey = pk_to_string K k1, gi_chains = [], gi_features = []\<rparr>"
    by (simp add: setup_create_offer_success_mock_def)
  have "\<exists>o' w''. create_offer K L (fst ?m) (snd ?m) args (ExpandedKey key) w = (Ok o', w'')"
    using e unfolding create_offer_def i
    by (auto simp: io_simps K n p ob t t' v_def [symmetric] Let_def)
  then obtain o' w'' where run: "create_offer K L (fst ?m) (snd ?m) args (ExpandedKey key) w = (Ok o', w'')"
    by blast
  from create_offer_terms [OF B(1) run] obtain paths expiry w3 where
    "offer_terms.truncate o' = requested_terms args paths expiry" "expires L w3 (co_expiry args) expiry"
    by blast
  moreover from this(2) have "expiry = None \<longleftrightarrow> co_expiry args = None"
    by (auto simp: expires_def split: option.splits)
  ultimately show ?thesis using that run by (simp add: offer_created_def)
qed

lemma offer_created_satisfies:
  assumes "secp_documented K" and "paths_documented L" and "builder_documented L" and "offers_buildable L"
    and "co_expiry args \<in> {None, Some (from_secs 3600)}"
    and "\<And>o' paths expiry. offer_terms.truncate o' = requested_terms args paths expiry \<Longrightarrow>
      expiry = None \<longleftrightarrow> co_expiry args = None \<Longrightarrow> Q o'"
  shows "case offer_created K L (setup_create_offer_success_mock K k0 k1) args key w of Ok offer \<Rightarrow> Q offer | _ \<Rightarrow> False"
  by (rule offer_created_terms [OF assms(1-5), of k0 k1 key w]) (simp add: assms(6))

lemma create_offer_tests_pass:
  assumes "secp_documented K" and "paths_documented L" and "builder_documented L" and "offers_buildable L"
  shows "test_create_offer_success K L k0 k1 w" "test_create_offer_minimal K L k0 k1 w"
    "test_create_offer_no_amount K L k0 k1 w" "test_create_offer_with_expiry K L k0 k1 w"
    "test_create_offer_with_quantity K L k0 k1 w"
proof -
  note created = offer_created_satisfies [OF assms]
  note defs = requested_terms_def described_def amount_term_def offer_terms.defs
  show "test_create_offer_success K L k0 k1 w"
    unfolding test_create_offer_success_def by (rule created) (auto simp: defs split: if_splits)
  show "test_create_offer_minimal K L k0 k1 w"
    unfolding test_create_offer_minimal_def by (rule created) (auto simp: defs split: if_splits)
  show "test_create_offer_no_amount K L k0 k1 w"
    unfolding test_create_offer_no_amount_def by (rule created) (auto simp: defs split: if_splits)
  show "test_create_offer_with_expiry K L k0 k1 w"
    unfolding test_create_offer_with_expiry_def by (rule created) (auto simp: defs split: if_splits)
  show "test_create_offer_with_quantity K L k0 k1 w"
    unfolding test_create_offer_with_quantity_def by (rule created) (auto simp: defs split: if_splits)
qed

lemma create_offer_error_tests_pass:
  "test_create_offer_get_info_error K L w"
  "pk_from_str K ''invalid_pubkey'' = None \<Longrightarrow> test_create_offer_invalid_pubkey K L w"
  by (simp_all add: test_create_offer_get_info_error_def test_create_offer_invalid_pubkey_def offer_created_def
      create_offer_def io_simps)

section \<open>Invoice requests and what LND is asked for one\<close>

text \<open>
  The offer of the tests decodes to one with an amount in bitcoin, and the library lets an invoice request be
  built for it.
\<close>

definition requests_buildable :: "'w ldk \<Rightarrow> string \<Rightarrow> bool" where
  "requests_buildable L get_offer \<longleftrightarrow>
     (\<exists>o' a. offer_from_str L get_offer = Inr o' \<and> offer_amount o' = Some (AmountBitcoin a) \<and> a \<noteq> 0) \<and>
     (\<forall>o' key n pid. \<exists>b. request_invoice L o' key n pid = Inr b) \<and>
     (\<forall>b net. \<exists>b'. irb_chain L b net = Inr b') \<and> (\<forall>b a. \<exists>b'. irb_amount_msats L b a = Inr b') \<and>
     (\<forall>b. \<exists>ir. irb_build_and_sign L b = Inr ir)"

definition test_request_invoice :: "'w ldk \<Rightarrow> string \<Rightarrow> 'w \<Rightarrow> bool" where
  "test_request_invoice L get_offer w \<longleftrightarrow>
     (case decode L get_offer of
        Ok offer \<Rightarrow> (case offer_amount offer of
            Some (AmountBitcoin amount) \<Rightarrow>
              is_ok (fst (create_invoice_request L offer Regtest (ExpandedKey (replicate 32 42)) (Some amount)
                (Some '''') w))
          | _ \<Rightarrow> False)
      | _ \<Rightarrow> False)"

definition create_dummy_invoice_request :: "'w ldk \<Rightarrow> string \<Rightarrow> 'w \<Rightarrow> invoice_request option" where
  "create_dummy_invoice_request L get_offer w =
     (case decode L get_offer of
        Ok offer \<Rightarrow> (case offer_amount offer of
            Some (AmountBitcoin amount) \<Rightarrow>
              (case create_invoice_request L offer Regtest (ExpandedKey (replicate 32 42)) (Some amount) None w of
                 (Ok (invoice_request, _), _) \<Rightarrow> Some invoice_request
               | _ \<Rightarrow> None)
          | _ \<Rightarrow> None)
      | _ \<Rightarrow> None)"

lemma create_invoice_request_buildable:
  assumes "requests_buildable L get_offer"
  obtains o' a where "decode L get_offer = Ok o'" "offer_amount o' = Some (AmountBitcoin a)"
    "\<And>net key pn w. \<exists>ir rest w'. create_invoice_request L o' net key (Some a) pn w = (Ok (ir, rest), w')"
proof -
  from assms obtain ri ch am bs where B: "\<And>o' key n pid. request_invoice L o' key n pid = Inr (ri o' key n pid)"
      "\<And>b net. irb_chain L b net = Inr (ch b net)" "\<And>b a. irb_amount_msats L b a = Inr (am b a)"
      "\<And>b. irb_build_and_sign L b = Inr (bs b)"
    unfolding requests_buildable_def by metis
  from assms obtain o' a where o: "offer_from_str L get_offer = Inr o'" "offer_amount o' = Some (AmountBitcoin a)" "a \<noteq> 0"
    unfolding requests_buildable_def by blast
  then have v: "validate_amount (offer_amount o') (Some a) = Ok a"
    by (simp add: validate_amount_def)
  have "\<exists>ir rest w'. create_invoice_request L o' net key (Some a) pn w = (Ok (ir, rest), w')" for net key pn w
    by (simp add: create_invoice_request_def v B io_simps Let_def split: prod.split)
  with that o show ?thesis by (auto simp: decode_def)
qed

lemma request_invoice_test_passes:
  assumes "requests_buildable L get_offer"
  shows "test_request_invoice L get_offer w"
proof -
  from assms obtain o' a where o: "decode L get_offer = Ok o'" "offer_amount o' = Some (AmountBitcoin a)"
    and c: "\<And>net key pn w. \<exists>ir rest w'. create_invoice_request L o' net key (Some a) pn w = (Ok (ir, rest), w')"
    by (rule create_invoice_request_buildable) blast
  from c [of Regtest "ExpandedKey (replicate 32 42)" "Some ''''" w] o show ?thesis
    by (auto simp: test_request_invoice_def)
qed

text \<open>\<open>dummy\<close> is the dummy invoice request; the text of the payment hash has 64 hexadecimal digits.\<close>

definition info_from_request ::
  "secp \<Rightarrow> 'w ldk \<Rightarrow> 'w bolt12_invoice_creator \<Rightarrow> string \<Rightarrow> 'w \<Rightarrow> (offer_error, bolt12_invoice_info) res" where
  "info_from_request K L creator_mock get_offer w =
     (case create_dummy_invoice_request L get_offer w of
        Some dummy \<Rightarrow> fst (create_invoice_info_from_request K L creator_mock dummy w)
      | None \<Rightarrow> Panic ''unwrap'')"

abbreviation invoice_added :: "'w bolt12_invoice_creator" where
  "invoice_added \<equiv> MockTestBolt12InvoiceCreator\<lparr>bic_add_invoice := (\<lambda>_. io_return ''dummy_payment_request'')\<rparr>"

definition dummy_hash :: string where
  "dummy_hash = ''abcdef1234567890abcdef1234567890abcdef1234567890abcdef1234567890''"

definition test_create_invoice_info_from_request_success :: "secp \<Rightarrow> 'w ldk \<Rightarrow> string \<Rightarrow> 'w \<Rightarrow> bool" where
  "test_create_invoice_info_from_request_success K L get_offer w \<longleftrightarrow>
     (case info_from_request K L (invoice_added
        \<lparr>bic_decode_payment_request := (\<lambda>_. io_return \<lparr>pr_payment_hash = dummy_hash, pr_blinded_paths = []\<rparr>)\<rparr>)
        get_offer w of
        Ok info \<Rightarrow> (case bi_payment_hash info of PaymentHash h \<Rightarrow> length h = 32) \<and> length (bi_payment_paths info) = 0
      | _ \<Rightarrow> False)"

definition test_create_invoice_info_from_request_add_invoice_failure :: "secp \<Rightarrow> 'w ldk \<Rightarrow> string \<Rightarrow> 'w \<Rightarrow> bool" where
  "test_create_invoice_info_from_request_add_invoice_failure K L get_offer w \<longleftrightarrow>
     (case info_from_request K L (MockTestBolt12InvoiceCreator
        \<lparr>bic_add_invoice := (\<lambda>_. io_err (Status_new CodeInternal ''Failed to add invoice''))\<rparr>) get_offer w of
        Err (AddInvoiceFailure _) \<Rightarrow> True
      | _ \<Rightarrow> False)"

definition test_create_invoice_info_from_request_decode_payment_request_failure ::
  "secp \<Rightarrow> 'w ldk \<Rightarrow> string \<Rightarrow> 'w \<Rightarrow> bool" where
  "test_create_invoice_info_from_request_decode_payment_request_failure K L get_offer w \<longleftrightarrow>
     (case info_from_request K L (invoice_added
        \<lparr>bic_decode_payment_request :=
           (\<lambda>_. io_err (Status_new CodeInvalidArgument ''Failed to decode payment request''))\<rparr>) get_offer w of
        Err (DecodePaymentRequestFailure _) \<Rightarrow> True
      | _ \<Rightarrow> False)"

definition test_create_invoice_info_from_request_invalid_hex_payment_hash ::
  "secp \<Rightarrow> 'w ldk \<Rightarrow> string \<Rightarrow> 'w \<Rightarrow> bool" where
  "test_create_invoice_info_from_request_invalid_hex_payment_hash K L get_offer w \<longleftrightarrow>
     (case info_from_request K L (invoice_added
        \<lparr>bic_decode_payment_request :=
           (\<lambda>_. io_return \<lparr>pr_payment_hash = ''invalid_hex_string_gggg'', pr_blinded_paths = []\<rparr>)\<rparr>) get_offer w of
        Err (ParsePaymentHashFailure _) \<Rightarrow> True
      | _ \<Rightarrow> False)"

lemma invoice_info_tests_pass:
  assumes "requests_buildable L get_offer"
    and "sha256_from_str L dummy_hash = Inr h" "length h = 32"
    and "sha256_from_str L ''invalid_hex_string_gggg'' = Inl e"
  shows "test_create_invoice_info_from_request_success K L get_offer w"
    "test_create_invoice_info_from_request_add_invoice_failure K L get_offer w"
    "test_create_invoice_info_from_request_decode_payment_request_failure K L get_offer w"
    "test_create_invoice_info_from_request_invalid_hex_payment_hash K L get_offer w"
proof -
  from assms(1) obtain o' a where o: "decode L get_offer = Ok o'" "offer_amount o' = Some (AmountBitcoin a)"
    and c: "\<And>net key pn w. \<exists>ir rest w'. create_invoice_request L o' net key (Some a) pn w = (Ok (ir, rest), w')"
    by (rule create_invoice_request_buildable) blast
  from c [of Regtest "ExpandedKey (replicate 32 42)" None w] o obtain ir where
    d: "create_dummy_invoice_request L get_offer w = Some ir"
    by (auto simp: create_dummy_invoice_request_def)
  note defs = info_from_request_def d create_invoice_info_from_request_def io_simps parse_blinded_paths_def assms(2-4)
  show "test_create_invoice_info_from_request_success K L get_offer w"
    by (simp add: test_create_invoice_info_from_request_success_def defs)
  show "test_create_invoice_info_from_request_add_invoice_failure K L get_offer w"
    by (simp add: test_create_invoice_info_from_request_add_invoice_failure_def defs)
  show "test_create_invoice_info_from_request_decode_payment_request_failure K L get_offer w"
    by (simp add: test_create_invoice_info_from_request_decode_payment_request_failure_def defs)
  show "test_create_invoice_info_from_request_invalid_hex_payment_hash K L get_offer w"
    by (simp add: test_create_invoice_info_from_request_invalid_hex_payment_hash_def defs)
qed

section \<open>\<open>message_router.rs\<close>\<close>

text \<open>
  The mock of the wrapped router counts its calls and always gives the same answer; the mock of the client
  counts the lookups. Both counters are the world of these tests.
\<close>

definition mock_create_blinded_paths ::
  "(unit, blinded_message_path list) res \<Rightarrow> public_key \<Rightarrow> message_context \<Rightarrow> public_key list \<Rightarrow>
   (u32 \<times> nat, unit, blinded_message_path list) io" where
  "mock_create_blinded_paths result _ _ _ = (\<lambda>(calls, lookups). (result, (calls + 1, lookups)))"

definition mock_lookup :: "(status, node_info) res \<Rightarrow> (u32 \<times> nat) peer_connector" where
  "mock_lookup answer =
     MockTestPeerConnector\<lparr>pc_get_node_info := (\<lambda>_ _ (calls, lookups). (answer, (calls, Suc lookups)))\<rparr>"

definition test_create_blinded_paths_calls_inner_router :: "public_key \<Rightarrow> public_key \<Rightarrow> bool" where
  "test_create_blinded_paths_calls_inner_router r peer_node_id \<longleftrightarrow>
     (let message_router = MessageRouter_new (Ok []) MockTestPeerConnector
      in case create_blinded_paths mock_create_blinded_paths message_router r OtherCtx [peer_node_id] (0, 0) of
          (result, (calls, _)) \<Rightarrow> calls = 1 \<and> is_ok result)"

definition test_create_blinded_paths_forwards_error :: "public_key \<Rightarrow> bool" where
  "test_create_blinded_paths_forwards_error r \<longleftrightarrow>
     (let message_router = MessageRouter_new (Err ()) MockTestPeerConnector
      in case create_blinded_paths mock_create_blinded_paths message_router r OtherCtx [] (0, 0) of
          (result, (calls, _)) \<Rightarrow> calls = 1 \<and> result = Err ())"

definition test_get_first_node_with_node_destination :: "public_key \<Rightarrow> bool" where
  "test_get_first_node_with_node_destination node_pubkey \<longleftrightarrow>
     get_first_node (DestNode node_pubkey) = Some node_pubkey"

text \<open>The router of the remaining tests, with what its client was asked.\<close>

definition path_found ::
  "secp \<Rightarrow> (string \<Rightarrow> string option) \<Rightarrow> (u32 \<times> nat) peer_connector \<Rightarrow> public_key \<Rightarrow> public_key list \<Rightarrow>
   public_key \<Rightarrow> (unit, onion_message_path) res \<times> nat" where
  "path_found K addr_from_str mock_client sender ps destination =
     (case find_path K addr_from_str
        (MessageRouter_new (Ok [] :: (unit, blinded_message_path list) res) mock_client) sender ps
        (DestNode destination) (0, 0) of
        (result, (_, lookups)) \<Rightarrow> (result, lookups))"

abbreviation direct :: "(unit, onion_message_path) res \<Rightarrow> bool" where
  "direct result \<equiv> (case result of
     Ok path \<Rightarrow> omp_intermediate_nodes path = [] \<and> omp_first_node_addresses path = None | _ \<Rightarrow> False)"

definition test_find_path_sender_equals_first_node :: "secp \<Rightarrow> (string \<Rightarrow> string option) \<Rightarrow> public_key \<Rightarrow> bool" where
  "test_find_path_sender_equals_first_node K addr_from_str sender \<longleftrightarrow>
     direct (fst (path_found K addr_from_str MockTestPeerConnector sender [] sender))"

definition test_find_path_peers_contains_first_node ::
  "secp \<Rightarrow> (string \<Rightarrow> string option) \<Rightarrow> public_key \<Rightarrow> public_key \<Rightarrow> bool" where
  "test_find_path_peers_contains_first_node K addr_from_str sender destination_node \<longleftrightarrow>
     direct (fst (path_found K addr_from_str MockTestPeerConnector sender [destination_node] destination_node))"

definition test_find_path_get_node_info_returns_error ::
  "secp \<Rightarrow> (string \<Rightarrow> string option) \<Rightarrow> public_key \<Rightarrow> public_key \<Rightarrow> bool" where
  "test_find_path_get_node_info_returns_error K addr_from_str sender destination_node \<longleftrightarrow>
     path_found K addr_from_str (mock_lookup (Err (Status_new CodeNotFound ''Node not found''))) sender []
       destination_node = (Err (), 1)"

definition test_find_path_node_info_returns_none_for_node ::
  "secp \<Rightarrow> (string \<Rightarrow> string option) \<Rightarrow> public_key \<Rightarrow> public_key \<Rightarrow> bool" where
  "test_find_path_node_info_returns_none_for_node K addr_from_str sender destination_node \<longleftrightarrow>
     path_found K addr_from_str (mock_lookup (Ok \<lparr>ni_node = None, ni_channels = []\<rparr>)) sender []
       destination_node = (Err (), 1)"

definition test_find_path_node_without_addresses ::
  "secp \<Rightarrow> (string \<Rightarrow> string option) \<Rightarrow> public_key \<Rightarrow> public_key \<Rightarrow> bool" where
  "test_find_path_node_without_addresses K addr_from_str sender destination_node \<longleftrightarrow>
     path_found K addr_from_str (mock_lookup (Ok \<lparr>ni_node = Some default_node, ni_channels = []\<rparr>)) sender []
       destination_node = (Err (), 1)"

definition test_find_path_node_without_onion_message_features ::
  "secp \<Rightarrow> (string \<Rightarrow> string option) \<Rightarrow> public_key \<Rightarrow> public_key \<Rightarrow> bool" where
  "test_find_path_node_without_onion_message_features K addr_from_str sender destination_node \<longleftrightarrow>
     path_found K addr_from_str (mock_lookup (Ok
       \<lparr>ni_node = Some (default_node\<lparr>ln_addresses := [''127.0.0.1:9735'']\<rparr>), ni_channels = []\<rparr>)) sender []
       destination_node = (Err (), 1)"

definition test_find_path_node_with_unparseable_addresses ::
  "secp \<Rightarrow> (string \<Rightarrow> string option) \<Rightarrow> public_key \<Rightarrow> public_key \<Rightarrow> bool" where
  "test_find_path_node_with_unparseable_addresses K addr_from_str sender destination_node \<longleftrightarrow>
     path_found K addr_from_str (mock_lookup (Ok
       \<lparr>ni_node = Some (default_node\<lparr>ln_addresses := [''invalid-address''], ln_features := [38]\<rparr>), ni_channels = []\<rparr>))
       sender [] destination_node = (Err (), 1)"

definition test_find_path_happy_path ::
  "secp \<Rightarrow> (string \<Rightarrow> string option) \<Rightarrow> public_key \<Rightarrow> public_key \<Rightarrow> bool" where
  "test_find_path_happy_path K addr_from_str sender destination_node \<longleftrightarrow>
     (case path_found K addr_from_str (mock_lookup (Ok
       \<lparr>ni_node = Some (default_node\<lparr>ln_addresses := [''127.0.0.1:9735'', ''[::1]:9735''], ln_features := [38]\<rparr>),
        ni_channels = []\<rparr>)) sender [] destination_node of
        (Ok path, lookups) \<Rightarrow> lookups = 1 \<and> omp_intermediate_nodes path = [] \<and>
          (case omp_first_node_addresses path of
             Some addresses \<Rightarrow> length addresses = 2 \<and> ''127.0.0.1:9735'' \<in> set addresses \<and>
               ''[0000:0000:0000:0000:0000:0000:0000:0001]:9735'' \<in> set addresses
           | None \<Rightarrow> False)
      | _ \<Rightarrow> False)"

lemmas router_test_defs = path_found_def mock_lookup_def find_path_def MessageRouter_new_def get_first_node_def
  features_support_onion_messages_def ONION_MESSAGES_REQUIRED_def ONION_MESSAGES_OPTIONAL_def io_simps
  List.map_filter_simps Let_def

lemma router_tests_pass:
  "test_create_blinded_paths_calls_inner_router r peer_node_id" "test_create_blinded_paths_forwards_error r"
  "test_get_first_node_with_node_destination destination"
  "test_find_path_sender_equals_first_node K addr_from_str sender"
  "test_find_path_peers_contains_first_node K addr_from_str sender destination"
  by (simp_all add: test_create_blinded_paths_calls_inner_router_def test_create_blinded_paths_forwards_error_def
      test_get_first_node_with_node_destination_def test_find_path_sender_equals_first_node_def
      test_find_path_peers_contains_first_node_def create_blinded_paths_def mock_create_blinded_paths_def
      router_test_defs)

lemma router_lookup_tests_pass:
  assumes "sender \<noteq> destination"
  shows "test_find_path_get_node_info_returns_error K addr_from_str sender destination"
    "test_find_path_node_info_returns_none_for_node K addr_from_str sender destination"
    "test_find_path_node_without_addresses K addr_from_str sender destination"
    "test_find_path_node_without_onion_message_features K addr_from_str sender destination"
    "addr_from_str ''invalid-address'' = None \<Longrightarrow>
      test_find_path_node_with_unparseable_addresses K addr_from_str sender destination"
    "addr_from_str ''127.0.0.1:9735'' = Some ''127.0.0.1:9735'' \<Longrightarrow>
      addr_from_str ''[::1]:9735'' = Some ''[0000:0000:0000:0000:0000:0000:0000:0001]:9735'' \<Longrightarrow>
      test_find_path_happy_path K addr_from_str sender destination"
  using assms
  by (simp_all add: test_find_path_get_node_info_returns_error_def test_find_path_node_info_returns_none_for_node_def
      test_find_path_node_without_addresses_def test_find_path_node_without_onion_message_features_def
      test_find_path_node_with_unparseable_addresses_def test_find_path_happy_path_def router_test_defs)

section \<open>The assumptions hold together\<close>

text \<open>An instance of the library with everything the tests assume of it.\<close>

definition tested_ldk :: "nat ldk" where
  "tested_ldk = sample_ldk
     \<lparr>path_one_hop := (\<lambda>k _ w. (Some ((sample_path k)\<lparr>bmp_hops := [\<lparr>bh_node_id = k, bh_encrypted_payload = []\<rparr>]\<rparr>), w)),
      path_new := (\<lambda>ns k _ w. (Some ((sample_path k)\<lparr>bmp_hops :=
        map (\<lambda>n. \<lparr>bh_node_id = n, bh_encrypted_payload = []\<rparr>) (map fwd_node_id ns @ [k])\<rparr>), w)),
      system_time_now := (\<lambda>w. (0, w)),
      sha256_from_str := (\<lambda>s. if s = dummy_hash then Inr (replicate 32 0) else Inl ''bad character'')\<rparr>"

lemma tested_ldk_as_assumed:
  "paths_documented tested_ldk" "builder_documented tested_ldk" "offers_buildable tested_ldk"
  "requests_buildable tested_ldk ''lno1''" "sha256_from_str tested_ldk dummy_hash = Inr (replicate 32 0)"
  "sha256_from_str tested_ldk ''invalid_hex_string_gggg'' = Inl ''bad character''"
  by (simp_all add: tested_ldk_def paths_documented_def offers_buildable_def requests_buildable_def dummy_hash_def
      from_secs_def SYSTEM_TIME_END_def sample_ldk_def sample_offer_def)
    (use sample_builder_documented in \<open>simp_all add: builder_documented_def sample_ldk_def\<close>)

end
