(* ===== verification/Fresh_Keys.thy ===== *)
theory Fresh_Keys
  imports Exchange Request_Tests
begin

text \<open>
  The randomness of a daemon and the keys made from it: every invoice request and every offer is made
  with a nonce of its own, so that no two of them show the same key. Last the two unit tests of
  \<open>offers/lnd_requests.rs\<close> that compare such keys.
\<close>

section \<open>Fresh nonces\<close>

text \<open>
  \<open>drawn w\<close> are the nonces that the entropy source has given out. It gives out none twice, and no
  operation makes it forget any.
\<close>

interpretation draws: rely "\<lambda>w w'. drawn w \<subseteq> drawn w'" for drawn :: "'w \<Rightarrow> nonce set"
  by unfold_locales auto

definition entropy_fresh :: "'w ldk \<Rightarrow> ('w \<Rightarrow> nonce set) \<Rightarrow> bool" where
  "entropy_fresh L drawn \<longleftrightarrow> ldk_moves (\<lambda>w w'. drawn w \<subseteq> drawn w') L \<and>
     (\<forall>w n w'. nonce_from_entropy_source L w = (n, w') \<longrightarrow> n \<notin> drawn w \<and> n \<in> drawn w')"

text \<open>
  What rust-lightning documents of the keys derived from a nonce: the payer's key of a request and,
  where there are paths to the issuer, the issuer's key of an offer are different for different nonces
  (of those in \<open>N\<close>: keys are hashes, and do not collide for the nonces that are drawn).
\<close>

definition payer_keys_documented :: "'w ldk \<Rightarrow> nonce set \<Rightarrow> (invoice_request \<Rightarrow> public_key) \<Rightarrow> bool" where
  "payer_keys_documented L N payer_signing_pubkey \<longleftrightarrow>
     (\<forall>key n pid b ir n' pid' b' ir'. n \<in> N \<and> n' \<in> N \<and> request_for L key n pid b \<and> irb_build_and_sign L b = Inr ir \<and>
        request_for L key n' pid' b' \<and> irb_build_and_sign L b' = Inr ir' \<and> n \<noteq> n' \<longrightarrow>
        payer_signing_pubkey ir \<noteq> payer_signing_pubkey ir')"

definition issuer_keys_documented :: "'w ldk \<Rightarrow> nonce set \<Rightarrow> bool" where
  "issuer_keys_documented L N \<longleftrightarrow>
     (\<forall>key n b o'. offer_with L key n b \<and> ob_build L b = Inr o' \<longrightarrow> offer_issuer_signing_pubkey o' \<noteq> None) \<and>
     (\<forall>key n b o' n' b' o''. n \<in> N \<and> n' \<in> N \<and> offer_with L key n b \<and> ob_build L b = Inr o' \<and> offer_paths o' \<noteq> [] \<and>
        offer_with L key n' b' \<and> ob_build L b' = Inr o'' \<and> offer_paths o'' \<noteq> [] \<and> n \<noteq> n' \<longrightarrow>
        offer_issuer_signing_pubkey o' \<noteq> offer_issuer_signing_pubkey o'')"

section \<open>Invoice requests\<close>

lemma create_invoice_request_nonce:
  assumes "entropy_fresh L drawn" and "create_invoice_request L o' net key msats note' w = (Ok (ir, pid, amt, ctx), w')"
  obtains n b where "n \<notin> drawn w" "n \<in> drawn w'" "drawn w \<subseteq> drawn w'" "request_for L key n pid b" "irb_build_and_sign L b = Inr ir"
proof -
  from create_invoice_request_for [OF assms(2)] obtain b n h where
    b: "request_for L key n pid b" "irb_build_and_sign L b = Inr ir" "ctx = CtxOutboundPayment pid n (Some h)" .
  from create_invoice_request_Ok [OF assms(2)] b(3) obtain bytes w1 where
    "get_secure_random_bytes L w = (bytes, w1)" "nonce_from_entropy_source L w1 = (n, w')" by auto
  with assms(1) have "drawn w \<subseteq> drawn w1" "drawn w1 \<subseteq> drawn w'" "n \<notin> drawn w1" "n \<in> drawn w'"
    unfolding entropy_fresh_def ldk_moves_def by (auto dest: movesD)
  with b(1,2) that show thesis by blast
qed

text \<open>
  C18. Transient keys: two invoice requests of a daemon never carry the same payer key, whatever offers
  they are for and however much happens between them, so that payees cannot tell that they come from
  one payer.
\<close>

theorem transient_keys:
  assumes "entropy_fresh L drawn" and "payer_keys_documented L (drawn w2') payer_signing_pubkey"
    and "create_invoice_request L o1 net1 key msats1 note1 w1 = (Ok (ir1, pid1, amt1, ctx1), w1')"
    and "drawn w1' \<subseteq> drawn w2"
    and "create_invoice_request L o2 net2 key msats2 note2 w2 = (Ok (ir2, pid2, amt2, ctx2), w2')"
  shows "payer_signing_pubkey ir1 \<noteq> payer_signing_pubkey ir2"
proof -
  obtain n1 b1 where 1: "n1 \<in> drawn w1'" "request_for L key n1 pid1 b1" "irb_build_and_sign L b1 = Inr ir1"
    using create_invoice_request_nonce [OF assms(1,3)] by metis
  obtain n2 b2 where 2: "n2 \<notin> drawn w2" "n2 \<in> drawn w2'" "drawn w2 \<subseteq> drawn w2'"
    "request_for L key n2 pid2 b2" "irb_build_and_sign L b2 = Inr ir2"
    using create_invoice_request_nonce [OF assms(1,5)] by metis
  from 1(1) 2(1-3) assms(4) have "n1 \<noteq> n2" "n1 \<in> drawn w2'" by blast+
  with assms(2) 1(2,3) 2(2,4,5) show ?thesis unfolding payer_keys_documented_def by blast
qed

section \<open>Offers\<close>

lemma paths_loop_length: "paths_loop L node_id ctx nodes w = (Ok paths, w') \<Longrightarrow> length paths = length nodes"
  by (induction nodes arbitrary: w paths w') (auto simp: io_bind_Ok_iff)

lemma offer_creation_paths:
  assumes "create_reply_path_for_offer_creation K L C node_id ctx w = (Ok paths, w')"
  shows "paths \<noteq> []"
  using assms
  by (auto simp: create_reply_path_for_offer_creation_def io_bind_Ok_iff split: if_splits dest: paths_loop_length)

lemma create_offer_has_paths:
  assumes "builder_documented L" and "create_offer K L O' C args key w = (Ok o', w')"
  shows "offer_paths o' \<noteq> []"
  using created_paths [OF assms] by (elim exE conjE) (auto dest: offer_creation_paths)

text \<open>What the operations an offer is made with keep.\<close>

definition creator_moves :: "('w \<Rightarrow> 'w \<Rightarrow> bool) \<Rightarrow> 'w offer_creator \<Rightarrow> 'w peer_connector \<Rightarrow> bool" where
  "creator_moves R O' C \<longleftrightarrow> moves R (oc_get_info O') \<and> moves R (pc_list_active_public_channels C) \<and>
     (\<forall>n b. moves R (pc_get_node_info C n b))"

lemma create_offer_nonce:
  assumes "entropy_fresh L drawn" and "builder_documented L"
    and "creator_moves (\<lambda>w w'. drawn w \<subseteq> drawn w') O' C" and "create_offer K L O' C args key w = (Ok o', w')"
  obtains n b where "n \<notin> drawn w" "n \<in> drawn w'" "drawn w \<subseteq> drawn w'" "offer_with L key n b" "ob_build L b = Inr o'" "offer_paths o' \<noteq> []"
proof -
  from assms(4) obtain info w0 node_id n w1 paths w2 expiry where
    w: "oc_get_info O' w = (Ok info, w0)" "nonce_from_entropy_source L w0 = (n, w1)"
      "create_reply_path_for_offer_creation K L C node_id (OffersCtx (CtxInvoiceRequest n)) w1 = (Ok paths, w2)"
      "w' = w2 \<or> w' = snd (system_time_now L w2)"
    and o: "ob_build L (let b = offer_setters L args paths (ob_deriving_signing_pubkey L node_id key n) in
       case expiry of None \<Rightarrow> b | Some e \<Rightarrow> ob_absolute_expiry L b e) = Inr o'" (is "ob_build L ?b = _")
    by (rule create_offer_Ok)
  let ?R = "\<lambda>w w'. drawn w \<subseteq> drawn w'"
  have L: "ldk_moves ?R L" and C: "moves ?R (oc_get_info O')" "moves ?R (pc_list_active_public_channels C)"
    "\<And>n b. moves ?R (pc_get_node_info C n b)" using assms(1,3) by (simp_all add: entropy_fresh_def creator_moves_def)
  have "drawn w \<subseteq> drawn w0" by (rule movesD [OF C(1) w(1)])
  moreover have "drawn w1 \<subseteq> drawn w2" by (rule movesD [OF draws.offer_paths_moves [OF C(2,3) L] w(3)])
  moreover have "drawn w2 \<subseteq> drawn w'" using w(4) L by (auto simp: ldk_moves_def moves_def)
  moreover have "drawn w0 \<subseteq> drawn w1" using L w(2) by (auto simp: ldk_moves_def dest: movesD)
  moreover have "n \<notin> drawn w0" "n \<in> drawn w1" using assms(1) w(2) by (auto simp: entropy_fresh_def)
  moreover have "offer_with L key n ?b"
    by (auto simp: Let_def split: option.split intro!: offer_with.expiry offer_setters_with offer_with.new)
  moreover have "offer_paths o' \<noteq> []" by (rule create_offer_has_paths [OF assms(2,4)])
  ultimately show thesis using o that by blast
qed

lemma issuer_keys_differ:
  assumes "issuer_keys_documented L N" and "offer_with L key n b" "ob_build L b = Inr o'" "offer_paths o' \<noteq> []"
    and "offer_with L key n' b'" "ob_build L b' = Inr o''" "offer_paths o'' \<noteq> []"
  shows "n \<noteq> n' \<Longrightarrow> n \<in> N \<Longrightarrow> n' \<in> N \<Longrightarrow> offer_issuer_signing_pubkey o' \<noteq> offer_issuer_signing_pubkey o''"
    and "offer_issuer_signing_pubkey o' \<noteq> None" and "offer_issuer_signing_pubkey o'' \<noteq> None"
  using assms unfolding issuer_keys_documented_def by blast+

text \<open>
  C23. Unlinkable offers: two offers a daemon creates never carry the same issuer key, whatever
  happens between them.
\<close>

theorem offers_unlinkable:
  assumes "entropy_fresh L drawn" and "builder_documented L" and "issuer_keys_documented L (drawn w2')"
    and "creator_moves (\<lambda>w w'. drawn w \<subseteq> drawn w') O1 C1" and "creator_moves (\<lambda>w w'. drawn w \<subseteq> drawn w') O2 C2"
    and "create_offer K L O1 C1 args1 key w1 = (Ok offer1, w1')" and "drawn w1' \<subseteq> drawn w2"
    and "create_offer K L O2 C2 args2 key w2 = (Ok offer2, w2')"
  shows "\<exists>k1 k2. offer_issuer_signing_pubkey offer1 = Some k1 \<and> offer_issuer_signing_pubkey offer2 = Some k2 \<and> k1 \<noteq> k2"
proof -
  obtain n1 b1 where 1: "n1 \<in> drawn w1'" "offer_with L key n1 b1" "ob_build L b1 = Inr offer1" "offer_paths offer1 \<noteq> []"
    using create_offer_nonce [OF assms(1,2,4,6)] by metis
  obtain n2 b2 where 2: "n2 \<notin> drawn w2" "n2 \<in> drawn w2'" "drawn w2 \<subseteq> drawn w2'"
    "offer_with L key n2 b2" "ob_build L b2 = Inr offer2" "offer_paths offer2 \<noteq> []"
    using create_offer_nonce [OF assms(1,2,5,8)] by metis
  from 1(1) 2(1-3) assms(7) have "n1 \<noteq> n2" "n1 \<in> drawn w2'" "n2 \<in> drawn w2'" by blast+
  from issuer_keys_differ [OF assms(3) 1(2-) 2(4-)] this show ?thesis by (metis option.collapse)
qed

section \<open>The unit tests\<close>

text \<open>The getters \<open>payer_signing_pubkey\<close> and \<open>id\<close> are rust-lightning's.\<close>

definition test_transient_keys :: "'w ldk \<Rightarrow> (invoice_request \<Rightarrow> public_key) \<Rightarrow> string \<Rightarrow> 'w \<Rightarrow> bool" where
  "test_transient_keys L payer_signing_pubkey get_offer w \<longleftrightarrow>
     (case decode L get_offer of
        Ok offer \<Rightarrow> (case offer_amount offer of
            Some (AmountBitcoin amount) \<Rightarrow>
              (case create_invoice_request L offer Regtest (ExpandedKey (replicate 32 42)) (Some amount) (Some '''') w of
                 (Ok (request_1, _), w1) \<Rightarrow>
                   (case create_invoice_request L offer Regtest (ExpandedKey (replicate 32 42)) (Some amount)
                      (Some '''') w1 of
                      (Ok (request_2, _), _) \<Rightarrow> payer_signing_pubkey request_1 \<noteq> payer_signing_pubkey request_2
                    | _ \<Rightarrow> False)
               | _ \<Rightarrow> False)
          | _ \<Rightarrow> False)
      | _ \<Rightarrow> False)"

text \<open>The world after the two requests of the test.\<close>

definition transient_keys_world :: "'w ldk \<Rightarrow> string \<Rightarrow> 'w \<Rightarrow> 'w" where
  "transient_keys_world L get_offer w =
     (case decode L get_offer of
        Ok offer \<Rightarrow> (case offer_amount offer of
            Some (AmountBitcoin amount) \<Rightarrow>
              (let make = create_invoice_request L offer Regtest (ExpandedKey (replicate 32 42)) (Some amount) (Some '''')
               in snd (make (snd (make w))))
          | _ \<Rightarrow> w)
      | _ \<Rightarrow> w)"

lemma transient_keys_test_passes:
  assumes "requests_buildable L get_offer" and "entropy_fresh L drawn"
    and "payer_keys_documented L (drawn (transient_keys_world L get_offer w)) payer_signing_pubkey"
  shows "test_transient_keys L payer_signing_pubkey get_offer w"
proof -
  from assms(1) obtain o' a where o: "decode L get_offer = Ok o'" "offer_amount o' = Some (AmountBitcoin a)"
    and c: "\<And>net key pn w. \<exists>ir rest w'. create_invoice_request L o' net key (Some a) pn w = (Ok (ir, rest), w')"
    by (rule create_invoice_request_buildable) blast
  let ?key = "ExpandedKey (replicate 32 42)"
  let ?make = "create_invoice_request L o' Regtest ?key (Some a) (Some '''')"
  obtain ir1 pid1 amt1 ctx1 w1 where 1: "?make w = (Ok (ir1, pid1, amt1, ctx1), w1)" using c by (metis prod.collapse)
  obtain ir2 pid2 amt2 ctx2 w2 where 2: "?make w1 = (Ok (ir2, pid2, amt2, ctx2), w2)" using c by (metis prod.collapse)
  have w: "transient_keys_world L get_offer w = w2" using o 1 2 by (simp add: transient_keys_world_def)
  obtain n1 b1 where n1: "n1 \<in> drawn w1" "request_for L ?key n1 pid1 b1" "irb_build_and_sign L b1 = Inr ir1"
    using create_invoice_request_nonce [OF assms(2) 1] by metis
  obtain n2 b2 where n2: "n2 \<notin> drawn w1" "n2 \<in> drawn w2" "drawn w1 \<subseteq> drawn w2"
    "request_for L ?key n2 pid2 b2" "irb_build_and_sign L b2 = Inr ir2"
    using create_invoice_request_nonce [OF assms(2) 2] by metis
  from n1(1) n2(1-3) have "n1 \<noteq> n2" "n1 \<in> drawn w2" by blast+
  with assms(3) [unfolded w] n1(2,3) n2(2,4,5) have "payer_signing_pubkey ir1 \<noteq> payer_signing_pubkey ir2"
    unfolding payer_keys_documented_def by blast
  with o 1 2 show ?thesis by (simp add: test_transient_keys_def)
qed

definition test_create_offer_different_signing_pubkeys_and_ids ::
  "secp \<Rightarrow> 'w ldk \<Rightarrow> (offer \<Rightarrow> 'i) \<Rightarrow> public_key \<Rightarrow> public_key \<Rightarrow> 'w \<Rightarrow> bool" where
  "test_create_offer_different_signing_pubkeys_and_ids K L offer_id k0 k1 w \<longleftrightarrow>
     (let creator_mock1 = setup_create_offer_success_mock K k0 k1;
          creator_mock2 = setup_create_offer_success_mock K k0 k1;
          key = ExpandedKey (replicate 32 42)
      in case create_offer K L (fst creator_mock1) (snd creator_mock1) test_args key w of
           (Ok offer1, w1) \<Rightarrow>
             (case create_offer K L (fst creator_mock2) (snd creator_mock2) test_args key w1 of
                (Ok offer2, _) \<Rightarrow>
                  (case (offer_issuer_signing_pubkey offer1, offer_issuer_signing_pubkey offer2) of
                     (Some key1, Some key2) \<Rightarrow> key1 \<noteq> key2 \<and> offer_id offer1 \<noteq> offer_id offer2
                   | _ \<Rightarrow> False)
              | _ \<Rightarrow> False)
         | _ \<Rightarrow> False)"

text \<open>The world after the two offers of the test.\<close>

definition two_offers_world :: "secp \<Rightarrow> 'w ldk \<Rightarrow> public_key \<Rightarrow> public_key \<Rightarrow> 'w \<Rightarrow> 'w" where
  "two_offers_world K L k0 k1 w =
     (let mock = setup_create_offer_success_mock K k0 k1;
          make = create_offer K L (fst mock) (snd mock) test_args (ExpandedKey (replicate 32 42))
      in snd (make (snd (make w))))"

lemma different_offers_test_passes:
  assumes "secp_documented K" and "paths_documented L" and "builder_documented L" and "offers_buildable L"
    and "entropy_fresh L drawn" and "issuer_keys_documented L (drawn (two_offers_world K L k0 k1 w))"
    and "\<And>o1 o2. offer_id o1 = offer_id o2 \<Longrightarrow> offer_issuer_signing_pubkey o1 = offer_issuer_signing_pubkey o2"
  shows "test_create_offer_different_signing_pubkeys_and_ids K L offer_id k0 k1 w"
proof -
  let ?m = "setup_create_offer_success_mock K k0 k1" and ?key = "ExpandedKey (replicate 32 42)"
  have made: "\<exists>o' w'. create_offer K L (fst ?m) (snd ?m) test_args ?key w = (Ok o', w')" for w
    by (rule offer_created_terms [OF assms(1-4), of test_args k0 k1 "replicate 32 42" w])
      (auto simp: offer_created_def, metis prod.collapse)
  have m: "creator_moves (\<lambda>w w'. drawn w \<subseteq> drawn w') (fst ?m) (snd ?m)"
    by (simp add: creator_moves_def setup_create_offer_success_mock_def draws.moves_return)
  obtain offer1 w1 where 1: "create_offer K L (fst ?m) (snd ?m) test_args ?key w = (Ok offer1, w1)" using made by blast
  obtain offer2 w2 where 2: "create_offer K L (fst ?m) (snd ?m) test_args ?key w1 = (Ok offer2, w2)" using made by blast
  obtain n1 b1 where n1: "n1 \<in> drawn w1" "offer_with L ?key n1 b1" "ob_build L b1 = Inr offer1" "offer_paths offer1 \<noteq> []"
    using create_offer_nonce [OF assms(5,3) m 1] by metis
  have w: "two_offers_world K L k0 k1 w = w2" using 1 2 by (simp add: two_offers_world_def)
  obtain n2 b2 where n2: "n2 \<notin> drawn w1" "n2 \<in> drawn w2" "drawn w1 \<subseteq> drawn w2" "offer_with L ?key n2 b2" "ob_build L b2 = Inr offer2" "offer_paths offer2 \<noteq> []"
    using create_offer_nonce [OF assms(5,3) m 2] by metis
  from n1(1) n2(1-3) have "n1 \<noteq> n2" "n1 \<in> drawn w2" "n2 \<in> drawn w2" by blast+
  from issuer_keys_differ [OF assms(6) [unfolded w] n1(2-) n2(4-)] this obtain key1 key2 where
    keys: "offer_issuer_signing_pubkey offer1 = Some key1" "offer_issuer_signing_pubkey offer2 = Some key2" "key1 \<noteq> key2"
    by (metis option.collapse)
  then have "offer_id offer1 \<noteq> offer_id offer2" using assms(7) [of offer1 offer2] by auto
  with 1 2 keys show ?thesis
    by (simp add: test_create_offer_different_signing_pubkeys_and_ids_def)
qed

section \<open>The assumptions hold together\<close>

text \<open>An instance whose nonces count up in unary and whose keys are the lengths of the nonces.\<close>

definition fresh_ldk :: "nat ldk" where
  "fresh_ldk = tested_ldk
     \<lparr>nonce_from_entropy_source := (\<lambda>w. (Nonce (replicate w 0), Suc w)),
      request_invoice := (\<lambda>_ _ n _. case n of Nonce bs \<Rightarrow> Inr (RequestBuilder bs)),
      irb_build_and_sign := (\<lambda>b. case b of RequestBuilder bs \<Rightarrow> Inr (sample_request\<lparr>ir_bytes := bs\<rparr>)),
      ob_deriving_signing_pubkey := (\<lambda>_ _ n. case n of Nonce bs \<Rightarrow> OfferBuilder no_terms bs),
      ob_build := (\<lambda>b. case b of OfferBuilder t bs \<Rightarrow> Inr (offer_terms.extend (described t)
        (offer.fields [1] (Some (PublicKey (of_nat (length bs)))))))\<rparr>"

definition counted :: "nat \<Rightarrow> nonce set" where
  "counted w = (\<lambda>i. Nonce (replicate i 0)) ` {..<w}"

definition sample_payer_key :: "invoice_request \<Rightarrow> public_key" where
  "sample_payer_key ir = PublicKey (of_nat (length (ir_bytes ir)))"

lemma fresh_ldk_moves: "entropy_fresh fresh_ldk counted"
  by (auto simp: entropy_fresh_def ldk_moves_def moves_def fresh_ldk_def tested_ldk_def sample_ldk_def counted_def)

lemma key_of_length: "m < 100 \<Longrightarrow> n < 100 \<Longrightarrow> (of_nat m :: 264 word) = of_nat n \<longleftrightarrow> m = n"
  by (simp add: of_nat_inverse word_unat_eq_iff unat_of_nat)

lemma fresh_request: "request_for fresh_ldk key n pid b \<Longrightarrow> b = RequestBuilder (case n of Nonce bs \<Rightarrow> bs)"
  by (induction rule: request_for.induct)
    (auto simp: fresh_ldk_def tested_ldk_def sample_ldk_def split: nonce.splits)

lemma fresh_payer_keys: "w \<le> 100 \<Longrightarrow> payer_keys_documented fresh_ldk (counted w) sample_payer_key"
  by (auto simp: payer_keys_documented_def counted_def sample_payer_key_def key_of_length dest!: fresh_request)
    (auto simp: fresh_ldk_def key_of_length)

lemma fresh_offer: "offer_with fresh_ldk key n b \<Longrightarrow> \<exists>t. b = OfferBuilder t (case n of Nonce bs \<Rightarrow> bs)"
  by (induction rule: offer_with.induct)
    (auto simp: fresh_ldk_def tested_ldk_def sample_ldk_def with_terms_def split: nonce.splits)

lemma fresh_builder_documented: "builder_documented fresh_ldk"
  using sample_builder_documented
  by (auto simp: builder_documented_def fresh_ldk_def tested_ldk_def sample_ldk_def offer_terms.defs offer.defs
      split: nonce.split offer_builder.split)

lemma fresh_issuer_keys: "w \<le> 100 \<Longrightarrow> issuer_keys_documented fresh_ldk (counted w)"
  by (auto simp: issuer_keys_documented_def counted_def dest!: fresh_offer)
    (auto simp: fresh_ldk_def key_of_length offer.defs offer_terms.defs)

text \<open>Two requests and two offers of a daemon that starts with no nonce drawn.\<close>

theorem transient_keys_witness:
  "\<exists>ir1 ir2. create_invoice_request fresh_ldk sample_offer Regtest (ExpandedKey []) (Some 2000) None 0 =
       (Ok (ir1, PaymentId [0], 2000, CtxOutboundPayment (PaymentId [0]) (Nonce [0]) (Some (Hmac [0]))), 2) \<and>
     create_invoice_request fresh_ldk sample_offer Regtest (ExpandedKey []) (Some 2000) None 2 =
       (Ok (ir2, PaymentId [2], 2000, CtxOutboundPayment (PaymentId [2]) (Nonce [0, 0, 0]) (Some (Hmac [2]))), 4) \<and>
     sample_payer_key ir1 \<noteq> sample_payer_key ir2"
proof -
  have run: "create_invoice_request fresh_ldk sample_offer Regtest (ExpandedKey []) (Some 2000) None w =
      (Ok (sample_request\<lparr>ir_bytes := replicate (Suc w) 0\<rparr>, PaymentId [of_nat w], 2000,
        CtxOutboundPayment (PaymentId [of_nat w]) (Nonce (replicate (Suc w) 0)) (Some (Hmac [of_nat w]))), Suc (Suc w))" for w
    by (simp add: create_invoice_request_def fresh_ldk_def tested_ldk_def sample_ldk_def sample_offer_def
        validate_amount_def io_simps Let_def)
  from run [of 0] run [of 2] have
    1: "create_invoice_request fresh_ldk sample_offer Regtest (ExpandedKey []) (Some 2000) None 0 =
      (Ok (sample_request\<lparr>ir_bytes := [0]\<rparr>, PaymentId [0], 2000,
        CtxOutboundPayment (PaymentId [0]) (Nonce [0]) (Some (Hmac [0]))), 2)"
    and 2: "create_invoice_request fresh_ldk sample_offer Regtest (ExpandedKey []) (Some 2000) None 2 =
      (Ok (sample_request\<lparr>ir_bytes := [0, 0, 0]\<rparr>, PaymentId [2], 2000,
        CtxOutboundPayment (PaymentId [2]) (Nonce [0, 0, 0]) (Some (Hmac [2]))), 4)"
    by (simp_all add: numeral_eq_Suc)
  from transient_keys [OF fresh_ldk_moves fresh_payer_keys 1 _ 2] 1 2 show ?thesis by auto
qed

theorem offers_unlinkable_witness:
  "\<exists>offer1 offer2 k1 k2 w1 w2. (let mock = setup_create_offer_success_mock sample_secp (PublicKey 7) (PublicKey 8) in
       create_offer sample_secp fresh_ldk (fst mock) (snd mock) test_args (ExpandedKey []) 0 = (Ok offer1, w1) \<and>
       create_offer sample_secp fresh_ldk (fst mock) (snd mock) test_args (ExpandedKey []) w1 = (Ok offer2, w2)) \<and>
     offer_issuer_signing_pubkey offer1 = Some k1 \<and> offer_issuer_signing_pubkey offer2 = Some k2 \<and> k1 \<noteq> k2"
proof -
  let ?m = "setup_create_offer_success_mock sample_secp (PublicKey 7) (PublicKey 8)"
  let ?make = "create_offer sample_secp fresh_ldk (fst ?m) (snd ?m) test_args (ExpandedKey [])"
  have run: "\<exists>o'. ?make w = (Ok o', Suc w)" for w
    using sample_secp_documented
    by (simp add: create_offer_def setup_create_offer_success_mock_def reply_path_defs secp_documented_def
        fresh_ldk_def tested_ldk_def sample_ldk_def split: offer_builder.split)
  from run [of 0] run [of 1] obtain offer1 offer2 where
    1: "?make 0 = (Ok offer1, 1)" and 2: "?make 1 = (Ok offer2, 2)" by (auto simp: numeral_2_eq_2)
  have m: "creator_moves (\<lambda>w w'. counted w \<subseteq> counted w') (fst ?m) (snd ?m)"
    by (simp add: creator_moves_def setup_create_offer_success_mock_def draws.moves_return)
  from offers_unlinkable [OF fresh_ldk_moves fresh_builder_documented fresh_issuer_keys m m 1 _ 2] 1 2
  show ?thesis by (auto simp: Let_def) 
qed

lemma fresh_ldk_as_assumed:
  "paths_documented fresh_ldk" "offers_buildable fresh_ldk" "requests_buildable fresh_ldk ''lno1''"
  using tested_ldk_as_assumed
  by (simp_all add: fresh_ldk_def tested_ldk_def paths_documented_def offers_buildable_def requests_buildable_def
      sample_ldk_def split: offer_builder.split nonce.split request_builder.split)

lemma key_tests_pass_on_sample:
  "test_transient_keys fresh_ldk sample_payer_key ''lno1'' 0"
  "test_create_offer_different_signing_pubkeys_and_ids sample_secp fresh_ldk offer_issuer_signing_pubkey
     (PublicKey 7) (PublicKey 8) 0"
proof -
  have "transient_keys_world fresh_ldk ''lno1'' 0 = 4"
    by (simp add: transient_keys_world_def create_invoice_request_def fresh_ldk_def tested_ldk_def sample_ldk_def
        sample_offer_def decode_def validate_amount_def io_simps Let_def)
  then show "test_transient_keys fresh_ldk sample_payer_key ''lno1'' 0"
    using transient_keys_test_passes [OF fresh_ldk_as_assumed(3) fresh_ldk_moves] fresh_payer_keys by simp
  have "two_offers_world sample_secp fresh_ldk (PublicKey 7) (PublicKey 8) 0 = 2"
    using sample_secp_documented
    by (simp add: two_offers_world_def create_offer_def setup_create_offer_success_mock_def reply_path_defs
        secp_documented_def fresh_ldk_def tested_ldk_def sample_ldk_def split: offer_builder.split)
  then show "test_create_offer_different_signing_pubkeys_and_ids sample_secp fresh_ldk offer_issuer_signing_pubkey
      (PublicKey 7) (PublicKey 8) 0"
    by (intro different_offers_test_passes [OF sample_secp_documented fresh_ldk_as_assumed(1) fresh_builder_documented
          fresh_ldk_as_assumed(2) fresh_ldk_moves]) (simp_all add: fresh_issuer_keys)
qed

end
