(* ===== verification/Onion_Messenger.thy ===== *)
theory Onion_Messenger
  imports Rate_Limit Grpc_Retry Lnd_Requests
begin

unbundle bit_operations_syntax

text \<open>
  \<open>src/onion_messenger.rs\<close>: the event loop between LND and rust-lightning's onion messenger.
  Producers turn LND's subscriptions and a timer into events, one consumer hands them to the
  messenger under a rate limit. The messenger is a record of operations on a state of its own,
  the channel between them a list of events.
\<close>

section \<open>Looking up nodes and features\<close>

definition ONION_MESSAGE_TYPE :: u32 where "ONION_MESSAGE_TYPE = 513"

definition next_node_id :: "secp \<Rightarrow> 'w client \<Rightarrow> public_key \<Rightarrow> u64 \<Rightarrow> 'w \<Rightarrow> public_key option \<times> 'w" where
  "next_node_id K c our_node_id short_channel_id w =
     (case lc_get_chan_info c \<lparr>cir_chan_id = short_channel_id, cir_chan_point = ''''\<rparr> w of
        (Inr channel_info, w') \<Rightarrow>
          (let pubkey = (if edge_node1_pub channel_info = pk_to_string K our_node_id
             then edge_node2_pub channel_info else edge_node1_pub channel_info)
           in (pk_from_slice K (as_bytes pubkey), w'))
      | (Inl e, w') \<Rightarrow> (None, w'))"

text \<open>A \<open>HashMap\<close> from peers to whether they support onion messages; \<open>insert\<close> overwrites.\<close>

fun build_peer_support_from_response ::
  "secp \<Rightarrow> lnrpc_peer list \<Rightarrow> (public_key \<times> bool) list \<Rightarrow> (unit, (public_key \<times> bool) list) res" where
  "build_peer_support_from_response K [] peer_support = Ok peer_support"
| "build_peer_support_from_response K (peer # ps) peer_support =
     res_bind (expect ''Public Key not valid'' (ok_or () (pk_from_str K (peer_pub_key peer)))) (\<lambda>pubkey.
     build_peer_support_from_response K ps
       (AList.update pubkey (features_support_onion_messages (peer_features peer)) peer_support))"

definition get_current_peers ::
  "secp \<Rightarrow> 'w client \<Rightarrow> ('w, unit, (public_key \<times> bool) list) io" where
  "get_current_peers K c =
     io_bind (io_map_err (\<lambda>_. ()) (rpc (lc_list_peers c False))) (\<lambda>ps.
     io_lift (build_peer_support_from_response K ps []))"

text \<open>
  \<open>check_empty_features\<close> polls until the features of the peer are known; \<open>n\<close> is the number of
  polls that complete before the timeout around it fires, and \<open>None\<close> that it fired.
\<close>

fun check_empty_features :: "secp \<Rightarrow> nat \<Rightarrow> 'w client \<Rightarrow> public_key \<Rightarrow> 'w \<Rightarrow> u32 list option \<times> 'w" where
  "check_empty_features K 0 c pubkey w = (None, w)"
| "check_empty_features K (Suc n) c pubkey w =
     (case lc_list_peers c False w of
        (Inr ps, w') \<Rightarrow>
          (case find (\<lambda>peer. peer_pub_key peer = pk_to_string K pubkey \<and> peer_features peer \<noteq> []) ps of
             Some peer \<Rightarrow> (Some (peer_features peer), w')
           | None \<Rightarrow> check_empty_features K n c pubkey w')
      | (Inl e, w') \<Rightarrow> check_empty_features K n c pubkey w')"

definition lookup_onion_support :: "secp \<Rightarrow> nat \<Rightarrow> 'w client \<Rightarrow> public_key \<Rightarrow> 'w \<Rightarrow> bool \<times> 'w" where
  "lookup_onion_support K n c pubkey w =
     (case lc_list_peers c False w of
        (Inr ps, w') \<Rightarrow>
          (case find (\<lambda>peer. peer_pub_key peer = pk_to_string K pubkey) ps of
             Some peer \<Rightarrow>
               (case check_empty_features K n c pubkey w' of
                  (Some features, w'') \<Rightarrow> (features_support_onion_messages features, w'')
                | (None, w'') \<Rightarrow> (features_support_onion_messages (peer_features peer), w''))
           | None \<Rightarrow> (False, w'))
      | (Inl e, w') \<Rightarrow> (False, w'))"

section \<open>Events and errors\<close>

datatype onion_message = OnionMessage "u8 list"

datatype producer_error = SendError string | StreamError string

fun producer_error_display :: "producer_error \<Rightarrow> string" where
  "producer_error_display (SendError s) = ''error sending messenger event: '' @ s"
| "producer_error_display (StreamError s) = ''LND stream '' @ s @ '' exited''"

datatype consumer_error = OnionMessengerFailure | PeerProducerExit | IncomingMessageProducerExit

fun consumer_error_display :: "consumer_error \<Rightarrow> string" where
  "consumer_error_display OnionMessengerFailure = ''consumer err: onion messenger failure''"
| "consumer_error_display PeerProducerExit = ''consumer err: peer producer exit''"
| "consumer_error_display IncomingMessageProducerExit = ''consumer err: incoming message producer exit''"

datatype messenger_event =
    PeerConnected public_key bool
  | PeerDisconnected public_key
  | IncomingMessage public_key onion_message
  | SendOutgoing
  | ProducerExit consumer_error

fun messenger_event_display :: "secp \<Rightarrow> messenger_event \<Rightarrow> string" where
  "messenger_event_display K (PeerConnected p on) =
     ''messenger event: '' @ pk_to_string K p @ '' connected, onion message support: '' @
     (if on then ''true'' else ''false'')"
| "messenger_event_display K (PeerDisconnected p) =
     ''messenger event: '' @ pk_to_string K p @ '' disconnected''"
| "messenger_event_display K (IncomingMessage p _) =
     ''messenger event: '' @ pk_to_string K p @ '' incoming onion message''"
| "messenger_event_display K SendOutgoing = ''messenger event: poll for new outgoing onion messages''"
| "messenger_event_display K (ProducerExit s) =
     ''messenger event: '' @ consumer_error_display s @ '' exited''"

section \<open>Producers\<close>

text \<open>
  A producer selects between the quit signal, which it checks first, and its source. Its input
  is the sequence of what the selections yield; when it is exhausted the producer still waits,
  which is the value \<open>None\<close>. \<open>alive n\<close> tells whether the receiving end of the channel still
  exists at the \<open>n\<close>-th send; the events sent are collected in order.
\<close>

datatype 'a select = Quit | Received 'a

type_synonym producer_state = "messenger_event list"

definition send_event ::
  "(nat \<Rightarrow> bool) \<Rightarrow> messenger_event \<Rightarrow> messenger_event list \<Rightarrow> bool \<times> messenger_event list" where
  "send_event alive e sent = (if alive (length sent) then (True, sent @ [e]) else (False, sent))"

definition CLOSED :: string where "CLOSED = ''channel closed''"

text \<open>\<open>receive\<close> of the two streams: a stream that ends is an error.\<close>

definition peer_stream_receive :: "status + peer_event option \<Rightarrow> status + peer_event" where
  "peer_stream_receive m =
     (case m of Inl s \<Rightarrow> Inl s | Inr (Some e) \<Rightarrow> Inr e
      | Inr None \<Rightarrow> Inl (Status_new CodeUnknown ''no event provided''))"

definition message_stream_receive :: "status + custom_message option \<Rightarrow> status + custom_message" where
  "message_stream_receive m =
     (case m of Inl s \<Rightarrow> Inl s | Inr (Some e) \<Rightarrow> Inr e
      | Inr None \<Rightarrow> Inl (Status_new CodeUnknown ''no message provided''))"

text \<open>\<open>support\<close> is the trait's \<open>onion_support\<close>; \<open>sh\<close> prints a status.\<close>

fun produce_peer_events ::
  "secp \<Rightarrow> (status \<Rightarrow> string) \<Rightarrow> (public_key \<Rightarrow> 'w \<Rightarrow> bool \<times> 'w) \<Rightarrow> (nat \<Rightarrow> bool) \<Rightarrow>
   (status + peer_event) select list \<Rightarrow> messenger_event list \<Rightarrow> 'w \<Rightarrow>
   (producer_error, unit) res option \<times> messenger_event list \<times> 'w" where
  "produce_peer_events K sh support alive [] sent w = (None, sent, w)"
| "produce_peer_events K sh support alive (Quit # ins) sent w = (Some (Ok ()), sent, w)"
| "produce_peer_events K sh support alive (Received (Inl s) # ins) sent w =
     (Some (Err (StreamError (sh s))), snd (send_event alive (ProducerExit PeerProducerExit) sent), w)"
| "produce_peer_events K sh support alive (Received (Inr e) # ins) sent w =
     (case pk_from_str K (pe_pub_key e) of
        None \<Rightarrow> (Some (Panic ''unwrap''), sent, w)
      | Some pubkey \<Rightarrow>
          (case pe_type e of
             PeerOnline \<Rightarrow>
               (case support pubkey w of (onion_support, w') \<Rightarrow>
                 (case send_event alive (PeerConnected pubkey onion_support) sent of
                    (True, sent') \<Rightarrow> produce_peer_events K sh support alive ins sent' w'
                  | (False, sent') \<Rightarrow> (Some (Err (SendError CLOSED)), sent', w')))
           | PeerOffline \<Rightarrow>
               (case send_event alive (PeerDisconnected pubkey) sent of
                  (True, sent') \<Rightarrow> produce_peer_events K sh support alive ins sent' w
                | (False, sent') \<Rightarrow> (Some (Err (SendError CLOSED)), sent', w))))"

text \<open>\<open>read\<close> is rust-lightning's parser of onion messages.\<close>

fun produce_incoming_message_events ::
  "secp \<Rightarrow> (status \<Rightarrow> string) \<Rightarrow> (u8 list \<Rightarrow> onion_message option) \<Rightarrow> (nat \<Rightarrow> bool) \<Rightarrow>
   (status + custom_message) select list \<Rightarrow> messenger_event list \<Rightarrow>
   (producer_error, unit) res option \<times> messenger_event list" where
  "produce_incoming_message_events K sh read alive [] sent = (None, sent)"
| "produce_incoming_message_events K sh read alive (Quit # ins) sent = (Some (Ok ()), sent)"
| "produce_incoming_message_events K sh read alive (Received (Inl s) # ins) sent =
     (Some (Err (StreamError (sh s))), snd (send_event alive (ProducerExit IncomingMessageProducerExit) sent))"
| "produce_incoming_message_events K sh read alive (Received (Inr msg) # ins) sent =
     (if cm_type msg \<noteq> ONION_MESSAGE_TYPE then produce_incoming_message_events K sh read alive ins sent
      else case pk_from_slice K (cm_peer msg) of
        None \<Rightarrow> (Some (Panic ''unwrap''), sent)
      | Some pubkey \<Rightarrow>
          (case read (cm_data msg) of
             Some onion_message \<Rightarrow>
               (case send_event alive (IncomingMessage pubkey onion_message) sent of
                  (True, sent') \<Rightarrow> produce_incoming_message_events K sh read alive ins sent'
                | (False, sent') \<Rightarrow> (Some (Err (SendError CLOSED)), sent'))
           | None \<Rightarrow> produce_incoming_message_events K sh read alive ins sent))"

fun produce_outgoing_message_events ::
  "(nat \<Rightarrow> bool) \<Rightarrow> unit select list \<Rightarrow> messenger_event list \<Rightarrow>
   (producer_error, unit) res option \<times> messenger_event list" where
  "produce_outgoing_message_events alive [] sent = (None, sent)"
| "produce_outgoing_message_events alive (Quit # ins) sent = (Some (Ok ()), sent)"
| "produce_outgoing_message_events alive (Received _ # ins) sent =
     (case send_event alive SendOutgoing sent of
        (True, sent') \<Rightarrow> produce_outgoing_message_events alive ins sent'
      | (False, sent') \<Rightarrow> (Some (Err (SendError CLOSED)), sent'))"

fun send_all ::
  "(nat \<Rightarrow> bool) \<Rightarrow> messenger_event list \<Rightarrow> messenger_event list \<Rightarrow> bool \<times> messenger_event list" where
  "send_all alive [] sent = (True, sent)"
| "send_all alive (e # es) sent =
     (case send_event alive e sent of
        (True, sent') \<Rightarrow> send_all alive es sent'
      | (False, sent') \<Rightarrow> (False, sent'))"

definition connected_events :: "(public_key \<times> bool) list \<Rightarrow> messenger_event list" where
  "connected_events ps = map (\<lambda>(peer, onion_support). PeerConnected peer onion_support) ps"

datatype reconnection_error = RequestFailed status | ChannelClosed

text \<open>\<open>list_peers_with_retries\<close> retries for ever, so the outcome is an \<open>option\<close>.\<close>

definition list_peers_with_retries ::
  "'w client \<Rightarrow> 'w \<Rightarrow> ((status + lnrpc_peer list) \<times> 'w) option" where
  "list_peers_with_retries c w =
     (case with_infinite_retries (lc_list_peers c) False False w of
        Some (r, _, w') \<Rightarrow> Some (r, w')
      | None \<Rightarrow> None)"

fun receive_reconnection_event ::
  "secp \<Rightarrow> 'w client \<Rightarrow> (nat \<Rightarrow> bool) \<Rightarrow> unit select list \<Rightarrow> messenger_event list \<Rightarrow> 'w \<Rightarrow>
   (reconnection_error, unit) res option \<times> messenger_event list \<times> 'w" where
  "receive_reconnection_event K c alive [] sent w = (None, sent, w)"
| "receive_reconnection_event K c alive (Quit # ins) sent w = (Some (Ok ()), sent, w)"
| "receive_reconnection_event K c alive (Received _ # ins) sent w =
     (case list_peers_with_retries c w of
        None \<Rightarrow> (None, sent, w)
      | Some (Inl e, w') \<Rightarrow> (Some (Err (RequestFailed e)), sent, w')
      | Some (Inr ps, w') \<Rightarrow>
          (case build_peer_support_from_response K ps [] of
             Ok current_peers \<Rightarrow>
               (case send_all alive (connected_events current_peers) sent of
                  (True, sent') \<Rightarrow> receive_reconnection_event K c alive ins sent' w'
                | (False, sent') \<Rightarrow> (Some (Err ChannelClosed), sent', w'))
           | Err _ \<Rightarrow> (None, sent, w')
           | Panic m \<Rightarrow> (Some (Panic m), sent, w')))"

text \<open>
  One round of the message producer: the signal to shut down, or a subscription (\<open>None\<close> when it
  is retried for ever, otherwise its failure or what its stream yields).
\<close>

datatype subscription_round =
    ShutdownRound
  | SubscribeRound "(status + (status + custom_message) select list) option"

fun subscribe_custom_messages_with_retry ::
  "secp \<Rightarrow> (status \<Rightarrow> string) \<Rightarrow> (u8 list \<Rightarrow> onion_message option) \<Rightarrow> (nat \<Rightarrow> bool) \<Rightarrow>
   subscription_round list \<Rightarrow> messenger_event list \<Rightarrow> (producer_error, unit) res option \<times> messenger_event list" where
  "subscribe_custom_messages_with_retry K sh read alive [] sent = (None, sent)"
| "subscribe_custom_messages_with_retry K sh read alive (ShutdownRound # rounds) sent = (Some (Ok ()), sent)"
| "subscribe_custom_messages_with_retry K sh read alive (SubscribeRound None # rounds) sent = (None, sent)"
| "subscribe_custom_messages_with_retry K sh read alive (SubscribeRound (Some (Inl e)) # rounds) sent =
     (Some (Ok ()), sent)"
| "subscribe_custom_messages_with_retry K sh read alive (SubscribeRound (Some (Inr ins)) # rounds) sent =
     (case produce_incoming_message_events K sh read alive ins sent of
        (Some (Ok ()), sent') \<Rightarrow> (Some (Ok ()), sent')
      | (Some (Err e), sent') \<Rightarrow> subscribe_custom_messages_with_retry K sh read alive rounds sent'
      | (Some (Panic m), sent') \<Rightarrow> (Some (Panic m), sent')
      | (None, sent') \<Rightarrow> (None, sent'))"

section \<open>The consumer\<close>

text \<open>Features are kept as the bytes they are made from, a chain hash as its bytes.\<close>

record init_message =
  init_features :: "u8 list"
  init_networks :: "u8 list list option"

datatype ldk_event = ConnectionNeeded public_key | OnionMessageIntercepted | OnionMessagePeerConnected | OtherEvent

record 'm onion_messenger =
  om_peer_connected :: "public_key \<Rightarrow> init_message \<Rightarrow> bool \<Rightarrow> 'm \<Rightarrow> bool \<times> 'm"
  om_peer_disconnected :: "public_key \<Rightarrow> 'm \<Rightarrow> 'm"
  om_handle_onion_message :: "public_key \<Rightarrow> onion_message \<Rightarrow> 'm \<Rightarrow> 'm"
  om_process_pending_events :: "'m \<Rightarrow> ldk_event list \<times> 'm"
  om_next_onion_message_for_peer :: "public_key \<Rightarrow> 'm \<Rightarrow> onion_message option \<times> 'm"
  om_write :: "onion_message \<Rightarrow> u8 list option"

text \<open>
  The state the consumer works on: the messenger, the limiter, the outside world and the nodes
  for which a task that connects to them was spawned; \<open>cs_delivered\<close> records, for the
  specification, the messages handed to the messenger.
\<close>

record ('m, 's, 'w) consumer =
  cs_messenger :: 'm
  cs_limiter :: 's
  cs_world :: 'w
  cs_spawned :: "public_key list"
  cs_delivered :: "(public_key \<times> onion_message) list"

definition to_le_bytes_u64 :: "u64 \<Rightarrow> u8 list" where
  "to_le_bytes_u64 x = map (\<lambda>i. ucast (drop_bit (8 * i) x)) [0..<8]"

definition init_features_for :: "bool \<Rightarrow> u8 list" where
  "init_features_for onion_support =
     (if onion_support then to_le_bytes_u64 (push_bit (unat ONION_MESSAGES_OPTIONAL) 1) else [])"

definition handle_event :: "ldk_event \<Rightarrow> public_key list \<Rightarrow> public_key list" where
  "handle_event e spawned =
     (case e of
        ConnectionNeeded node_id \<Rightarrow> spawned @ [node_id]
      | OnionMessageIntercepted \<Rightarrow> spawned
      | OnionMessagePeerConnected \<Rightarrow> spawned
      | OtherEvent \<Rightarrow> spawned)"

definition CustomMessenger_send :: "'w client \<Rightarrow> custom_message \<Rightarrow> ('w, status, unit) stub" where
  "CustomMessenger_send c request = with_max_attempts (lc_send_custom_message c) request (Some 3)"

definition relay_outgoing_msg_event ::
  "secp \<Rightarrow> (onion_message \<Rightarrow> u8 list option) \<Rightarrow> (custom_message \<Rightarrow> ('w, status, unit) stub) \<Rightarrow>
   public_key \<Rightarrow> onion_message \<Rightarrow> 'w \<Rightarrow> 'w" where
  "relay_outgoing_msg_event K msg_write send peer msg w =
     (case msg_write msg of
        None \<Rightarrow> w
      | Some buf \<Rightarrow> snd (send \<lparr>cm_peer = pk_serialize K peer, cm_type = ONION_MESSAGE_TYPE, cm_data = buf\<rparr> w))"

fun relay_loop ::
  "secp \<Rightarrow> 'm onion_messenger \<Rightarrow> (custom_message \<Rightarrow> ('w, status, unit) stub) \<Rightarrow> public_key list \<Rightarrow>
   ('m, 's, 'w) consumer \<Rightarrow> ('m, 's, 'w) consumer" where
  "relay_loop K M send [] st = st"
| "relay_loop K M send (peer # ps) st =
     (case om_next_onion_message_for_peer M peer (cs_messenger st) of
        (Some msg, m) \<Rightarrow>
          relay_loop K M send ps (st\<lparr>cs_messenger := m,
            cs_world := relay_outgoing_msg_event K (om_write M) send peer msg (cs_world st)\<rparr>)
      | (None, m) \<Rightarrow> relay_loop K M send ps (st\<lparr>cs_messenger := m\<rparr>))"

definition consume_event ::
  "secp \<Rightarrow> 'm onion_messenger \<Rightarrow> 's rate_limiter_ops \<Rightarrow> (custom_message \<Rightarrow> ('w, status, unit) stub) \<Rightarrow>
   u8 list list \<Rightarrow> messenger_event \<Rightarrow> ('m, 's, 'w) consumer \<Rightarrow>
   (consumer_error, unit) res \<times> ('m, 's, 'w) consumer" where
  "consume_event K M R send networks e st =
     (case e of
        PeerConnected pubkey onion_support \<Rightarrow>
          (case om_peer_connected M pubkey
              \<lparr>init_features = init_features_for onion_support, init_networks = Some networks\<rparr> False
              (cs_messenger st) of
             (True, m) \<Rightarrow> (Ok (), st\<lparr>cs_messenger := m, cs_limiter := rl_peer_connected R pubkey (cs_limiter st)\<rparr>)
           | (False, m) \<Rightarrow> (Err OnionMessengerFailure, st\<lparr>cs_messenger := m\<rparr>))
      | PeerDisconnected pubkey \<Rightarrow>
          (Ok (), st\<lparr>cs_messenger := om_peer_disconnected M pubkey (cs_messenger st),
             cs_limiter := rl_peer_disconnected R pubkey (cs_limiter st)\<rparr>)
      | IncomingMessage pubkey onion_message \<Rightarrow>
          (case rl_query_peer R pubkey (cs_limiter st) of
             (False, l) \<Rightarrow> (Ok (), st\<lparr>cs_limiter := l\<rparr>)
           | (True, l) \<Rightarrow>
               (Ok (), st\<lparr>cs_limiter := l,
                  cs_messenger := om_handle_onion_message M pubkey onion_message (cs_messenger st),
                  cs_delivered := cs_delivered st @ [(pubkey, onion_message)]\<rparr>))
      | SendOutgoing \<Rightarrow>
          (case om_process_pending_events M (cs_messenger st) of
             (evs, m) \<Rightarrow>
               (Ok (), relay_loop K M send (rl_peers R (cs_limiter st))
                  (st\<lparr>cs_messenger := m, cs_spawned := fold handle_event evs (cs_spawned st)\<rparr>)))
      | ProducerExit _ \<Rightarrow> (Ok (), st))"

fun consume_loop ::
  "secp \<Rightarrow> 'm onion_messenger \<Rightarrow> 's rate_limiter_ops \<Rightarrow> (custom_message \<Rightarrow> ('w, status, unit) stub) \<Rightarrow>
   u8 list list \<Rightarrow> messenger_event list \<Rightarrow> ('m, 's, 'w) consumer \<Rightarrow>
   (consumer_error, unit) res \<times> ('m, 's, 'w) consumer" where
  "consume_loop K M R send networks [] st = (Ok (), st)"
| "consume_loop K M R send networks (e # es) st =
     (case consume_event K M R send networks e st of
        (Ok _, st') \<Rightarrow> consume_loop K M R send networks es st'
      | (r, st') \<Rightarrow> (r, st'))"

text \<open>The events are those received until all senders are gone.\<close>

definition consume_messenger_events ::
  "secp \<Rightarrow> (network \<Rightarrow> u8 list) \<Rightarrow> 'm onion_messenger \<Rightarrow> 's rate_limiter_ops \<Rightarrow>
   (custom_message \<Rightarrow> ('w, status, unit) stub) \<Rightarrow> network \<Rightarrow> messenger_event list \<Rightarrow>
   ('m, 's, 'w) consumer \<Rightarrow> (consumer_error, unit) res \<times> ('m, 's, 'w) consumer" where
  "consume_messenger_events K chain_hash M R send net events st =
     consume_loop K M R send [chain_hash net] events st"

section \<open>Running the messenger\<close>

text \<open>
  The channel has room for one event more than there are peers, and the events for the current
  peers are queued before the consumer starts; then it consumes them and the events of the
  producers, in the order \<open>events\<close> in which the channel delivers them. \<open>tasks\<close> tells which
  producer tasks ended without a panic.
\<close>

definition channel_capacity :: "(public_key \<times> bool) list \<Rightarrow> nat" where
  "channel_capacity current_peers = length current_peers + 1"

definition run_onion_messenger ::
  "secp \<Rightarrow> (network \<Rightarrow> u8 list) \<Rightarrow> 'm onion_messenger \<Rightarrow> (nat \<Rightarrow> instant) \<Rightarrow> 'w client \<Rightarrow> 'm \<Rightarrow> network \<Rightarrow>
   rate_limiter_cfg \<Rightarrow> messenger_event list \<Rightarrow> bool list \<Rightarrow> 'w \<Rightarrow>
   (unit, unit) res \<times> ('m, token_limiter, 'w) consumer option" where
  "run_onion_messenger K chain_hash M clk c m net cfg events tasks w =
     (case get_current_peers K c w of
        (Ok current_peers, w') \<Rightarrow>
          (let limiter = TokenLimiter_new (keys_of current_peers) (cfg_call_count cfg)
                 (cfg_call_period_secs cfg) clk;
               st = \<lparr>cs_messenger = m, cs_limiter = limiter, cs_world = w', cs_spawned = [], cs_delivered = []\<rparr>
           in case consume_messenger_events K chain_hash M token_limiter_ops (CustomMessenger_send c) net
                (connected_events current_peers @ events) st of
             (Ok _, st') \<Rightarrow> (if list_all id tasks then Ok () else Err (), Some st')
           | (Err e, st') \<Rightarrow> (Err (), Some st')
           | (Panic msg, st') \<Rightarrow> (Panic msg, Some st'))
      | (Err e, w') \<Rightarrow> (Err (), None)
      | (Panic msg, w') \<Rightarrow> (Panic msg, None))"

section \<open>The contract of a producer\<close>

text \<open>
  What the three producers share: they wait for input, stop on the quit signal, and otherwise
  take what they receive and either stop with an error (or a panic) or go on, having sent some
  events.
\<close>

locale event_producer =
  fixes produce :: "'i select list \<Rightarrow> messenger_event list \<Rightarrow> 'w \<Rightarrow>
    (producer_error, unit) res option \<times> messenger_event list \<times> 'w"
  assumes waits: "produce [] sent w = (None, sent, w)"
    and quits: "produce (Quit # ins) sent w = (Some (Ok ()), sent, w)"
    and receives: "(\<exists>r es w'. produce (Received x # ins) sent w = (Some r, sent @ es, w') \<and> r \<noteq> Ok ()) \<or>
      (\<exists>es w'. produce (Received x # ins) sent w = produce ins (sent @ es) w')"
begin

text \<open>The signal to quit is always obeyed, and success is returned for no other reason.\<close>

lemma quit_stops:
  "(Quit \<in> set ins \<longrightarrow> fst (produce ins sent w) \<noteq> None) \<and>
   (fst (produce ins sent w) = Some (Ok ()) \<longrightarrow> Quit \<in> set ins)"
proof (induction ins arbitrary: sent w)
  case (Cons x ins)
  show ?case
  proof (cases x)
    case (Received a)
    from receives [of a ins sent w] show ?thesis
    proof
      assume "\<exists>es w'. produce (Received a # ins) sent w = produce ins (sent @ es) w'"
      then obtain es w' where "produce (Received a # ins) sent w = produce ins (sent @ es) w'" by blast
      with Cons.IH [of "sent @ es" w'] Received show ?thesis by simp
    qed (use Received in auto)
  qed (simp add: quits)
qed (simp add: waits)

text \<open>Events already sent are never taken back.\<close>

lemma sends_append: "\<exists>es. fst (snd (produce ins sent w)) = sent @ es"
proof (induction ins arbitrary: sent w)
  case (Cons x ins)
  show ?case
  proof (cases x)
    case (Received a)
    from receives [of a ins sent w] show ?thesis
    proof
      assume "\<exists>es w'. produce (Received a # ins) sent w = produce ins (sent @ es) w'"
      then obtain es w' where p: "produce (Received a # ins) sent w = produce ins (sent @ es) w'" by blast
      from Cons.IH [of "sent @ es" w'] obtain es' where "fst (snd (produce ins (sent @ es) w')) = (sent @ es) @ es'" ..
      with p Received show ?thesis by auto
    qed (use Received in auto)
  qed (simp add: quits)
qed (simp add: waits)

end

lemma send_event_cases:
  "send_event alive e sent = (True, sent @ [e]) \<or> send_event alive e sent = (False, sent @ [])"
  by (simp add: send_event_def)

text \<open>The two ways to meet the third law.\<close>

lemma receives_goes_on:
  "produce (Received x # ins) sent w = produce ins (sent @ es) w' \<Longrightarrow>
   (\<exists>r es w'. produce (Received x # ins) sent w = (Some r, sent @ es, w') \<and> r \<noteq> Ok ()) \<or>
   (\<exists>es w'. produce (Received x # ins) sent w = produce ins (sent @ es) w')"
  by blast

lemma receives_stops:
  "produce (Received x # ins) sent w = (Some r, sent @ es, w') \<Longrightarrow> r \<noteq> Ok () \<Longrightarrow>
   (\<exists>r es w'. produce (Received x # ins) sent w = (Some r, sent @ es, w') \<and> r \<noteq> Ok ()) \<or>
   (\<exists>es w'. produce (Received x # ins) sent w = produce ins (sent @ es) w')"
  by blast

interpretation peers_producer: event_producer "produce_peer_events K sh support alive" for K sh support alive
proof
  fix x :: "status + peer_event" and ins sent w
  let ?p = "produce_peer_events K sh support alive"
  show "(\<exists>r es w'. ?p (Received x # ins) sent w = (Some r, sent @ es, w') \<and> r \<noteq> Ok ()) \<or>
      (\<exists>es w'. ?p (Received x # ins) sent w = ?p ins (sent @ es) w')"
  proof (cases x)
    case (Inl s)
    then show ?thesis using send_event_cases [of alive "ProducerExit PeerProducerExit" sent] by auto
  next
    case (Inr e)
    show ?thesis
    proof (cases "pk_from_str K (pe_pub_key e)")
      case None
      with Inr show ?thesis by (intro receives_stops [where es = "[]" and w' = w and r = "Panic ''unwrap''"]) simp_all
    next
      case (Some k)
      obtain b w' where b: "support k w = (b, w')" by fastforce
      let ?ev = "case pe_type e of PeerOnline \<Rightarrow> PeerConnected k b | PeerOffline \<Rightarrow> PeerDisconnected k"
      let ?w = "case pe_type e of PeerOnline \<Rightarrow> w' | PeerOffline \<Rightarrow> w"
      from send_event_cases [of alive ?ev sent] show ?thesis
      proof
        assume "send_event alive ?ev sent = (True, sent @ [?ev])"
        with Inr Some b show ?thesis
          by (intro receives_goes_on [where es = "[?ev]" and w' = ?w]) (cases "pe_type e"; simp)
      next
        assume "send_event alive ?ev sent = (False, sent @ [])"
        with Inr Some b show ?thesis
          by (intro receives_stops [where es = "[]" and w' = ?w and r = "Err (SendError CLOSED)"])
            (cases "pe_type e"; simp)+
      qed
    qed
  qed
qed simp_all

interpretation messages_producer: event_producer
  "\<lambda>ins sent w. case produce_incoming_message_events K sh read alive ins sent of (r, sent') \<Rightarrow> (r, sent', w)"
  for K sh read alive
proof
  fix x :: "status + custom_message" and ins sent and w :: 'a
  let ?p = "\<lambda>ins sent w. case produce_incoming_message_events K sh read alive ins sent of (r, sent') \<Rightarrow> (r, sent', w :: 'a)"
  show "(\<exists>r es w'. ?p (Received x # ins) sent w = (Some r, sent @ es, w') \<and> r \<noteq> Ok ()) \<or>
      (\<exists>es w'. ?p (Received x # ins) sent w = ?p ins (sent @ es) w')"
  proof (cases x)
    case (Inl s)
    then show ?thesis using send_event_cases [of alive "ProducerExit IncomingMessageProducerExit" sent] by auto
  next
    case (Inr m)
    consider (skip) "cm_type m \<noteq> ONION_MESSAGE_TYPE \<or>
          (\<exists>k. pk_from_slice K (cm_peer m) = Some k \<and> read (cm_data m) = None)"
      | (bad) "cm_type m = ONION_MESSAGE_TYPE" "pk_from_slice K (cm_peer m) = None"
      | (ok) k om where "cm_type m = ONION_MESSAGE_TYPE" "pk_from_slice K (cm_peer m) = Some k"
          "read (cm_data m) = Some om"
      by fastforce
    then show ?thesis
    proof cases
      case skip
      with Inr show ?thesis by (intro receives_goes_on [where es = "[]" and w' = w]) auto
    next
      case bad
      with Inr show ?thesis by (intro receives_stops [where es = "[]" and w' = w and r = "Panic ''unwrap''"]) auto
    next
      case ok
      from send_event_cases [of alive "IncomingMessage k om" sent] show ?thesis
      proof
        assume "send_event alive (IncomingMessage k om) sent = (True, sent @ [IncomingMessage k om])"
        with Inr ok show ?thesis
          by (intro receives_goes_on [where es = "[IncomingMessage k om]" and w' = w]) simp
      next
        assume "send_event alive (IncomingMessage k om) sent = (False, sent @ [])"
        with Inr ok show ?thesis
          by (intro receives_stops [where es = "[]" and w' = w and r = "Err (SendError CLOSED)"]) simp_all
      qed
    qed
  qed
qed simp_all

interpretation outgoing_producer: event_producer
  "\<lambda>ins sent w. case produce_outgoing_message_events alive ins sent of (r, sent') \<Rightarrow> (r, sent', w)" for alive
proof
  fix x :: unit and ins sent and w :: 'a
  let ?p = "\<lambda>ins sent w. case produce_outgoing_message_events alive ins sent of (r, sent') \<Rightarrow> (r, sent', w :: 'a)"
  from send_event_cases [of alive SendOutgoing sent]
  show "(\<exists>r es w'. ?p (Received x # ins) sent w = (Some r, sent @ es, w') \<and> r \<noteq> Ok ()) \<or>
      (\<exists>es w'. ?p (Received x # ins) sent w = ?p ins (sent @ es) w')"
  proof
    assume "send_event alive SendOutgoing sent = (True, sent @ [SendOutgoing])"
    then show ?thesis by (intro receives_goes_on [where es = "[SendOutgoing]" and w' = w]) simp
  next
    assume "send_event alive SendOutgoing sent = (False, sent @ [])"
    then show ?thesis
      by (intro receives_stops [where es = "[]" and w' = w and r = "Err (SendError CLOSED)"]) simp_all
  qed
qed simp_all

section \<open>The consumer and the limiter\<close>

text \<open>The calls of the limiter an event leads to.\<close>

fun limiter_ops_of :: "messenger_event \<Rightarrow> limiter_op list" where
  "limiter_ops_of (PeerConnected k on) = [OpConnected k]"
| "limiter_ops_of (PeerDisconnected k) = [OpDisconnected k]"
| "limiter_ops_of (IncomingMessage k m) = [OpQuery k]"
| "limiter_ops_of SendOutgoing = []"
| "limiter_ops_of (ProducerExit e) = []"

lemma relay_loop_frame [simp]:
  "cs_limiter (relay_loop K M send ps st) = cs_limiter st"
  "cs_delivered (relay_loop K M send ps st) = cs_delivered st"
  by (induction ps arbitrary: st) (auto split: prod.split option.split)

text \<open>Messages of peer \<open>k\<close> handed to the messenger since a state in which \<open>ds\<close> had been.\<close>

definition delivered_from :: "public_key \<Rightarrow> (public_key \<times> onion_message) list \<Rightarrow> nat" where
  "delivered_from k ds = length (filter (\<lambda>d. fst d = k) ds)"

lemma consume_event_runs:
  assumes "consume_event K M R send nets e st = (r, st')"
  shows "\<exists>ops n ds. run_ops R k ops (cs_limiter st) = (n, cs_limiter st') \<and>
    cs_delivered st' = cs_delivered st @ ds \<and> n = delivered_from k ds \<and> (r = Ok () \<longrightarrow> ops = limiter_ops_of e)"
proof (cases e)
  case (PeerConnected p on)
  obtain b m where m: "om_peer_connected M p \<lparr>init_features = init_features_for on, init_networks = Some nets\<rparr>
      False (cs_messenger st) = (b, m)" by fastforce
  show ?thesis
    by (rule exI [of _ "if b then [OpConnected p] else []"])
      (use assms m PeerConnected in \<open>auto simp: consume_event_def delivered_from_def split: bool.splits\<close>)
next
  case (IncomingMessage p msg)
  obtain b l where l: "rl_query_peer R p (cs_limiter st) = (b, l)" by fastforce
  show ?thesis
    by (rule exI [of _ "[OpQuery p]"])
      (use assms l IncomingMessage in \<open>auto simp: consume_event_def delivered_from_def split: bool.splits\<close>)
qed (use assms in \<open>auto simp: consume_event_def delivered_from_def split: prod.splits
      intro!: exI [of _ "limiter_ops_of e"]\<close>)

lemma run_ops_append:
  "run_ops R k (ops1 @ ops2) s =
     (case run_ops R k ops1 s of (n, s') \<Rightarrow> case run_ops R k ops2 s' of (m, s'') \<Rightarrow> (n + m, s''))"
proof (induction ops1 arbitrary: s)
  case (Cons op ops1)
  then show ?case by (cases op) (auto split: prod.split)
qed (simp split: prod.split)

lemma consume_loop_runs:
  "consume_loop K M R send nets es st = (r, st') \<Longrightarrow>
   \<exists>ops n ds. run_ops R k ops (cs_limiter st) = (n, cs_limiter st') \<and>
     cs_delivered st' = cs_delivered st @ ds \<and> n = delivered_from k ds \<and>
     (r = Ok () \<longrightarrow> ops = concat (map limiter_ops_of es))"
proof (induction es arbitrary: st)
  case Nil
  then show ?case by (intro exI [of _ "[]"]) (auto simp: delivered_from_def)
next
  case (Cons e es)
  obtain r1 st1 where e: "consume_event K M R send nets e st = (r1, st1)" by fastforce
  obtain ops1 n1 ds1 where 1: "run_ops R k ops1 (cs_limiter st) = (n1, cs_limiter st1)"
    "cs_delivered st1 = cs_delivered st @ ds1" "n1 = delivered_from k ds1" "r1 = Ok () \<longrightarrow> ops1 = limiter_ops_of e"
    using consume_event_runs [OF e] by blast
  show ?case
  proof (cases "r1 = Ok ()")
    case True
    with Cons.prems e have "consume_loop K M R send nets es st1 = (r, st')" by simp
    from Cons.IH [OF this] obtain ops2 n2 ds2 where "run_ops R k ops2 (cs_limiter st1) = (n2, cs_limiter st')"
      "cs_delivered st' = cs_delivered st1 @ ds2" "n2 = delivered_from k ds2"
      "r = Ok () \<longrightarrow> ops2 = concat (map limiter_ops_of es)" by blast
    with 1 True show ?thesis
      by (intro exI [of _ "ops1 @ ops2"] exI [of _ "n1 + n2"] exI [of _ "ds1 @ ds2"])
        (auto simp: run_ops_append delivered_from_def)
  next
    case False
    with Cons.prems e have "r = r1" "st' = st1" by (cases r1; simp)+
    with 1 False show ?thesis by (intro exI [of _ ops1] exI [of _ n1] exI [of _ ds1]) auto
  qed
qed

context rate_limiter begin

lemma consumed_within_limit:
  assumes "consume_loop K M R send nets es st = (r, st')" and "invar (cs_limiter st)"
    and "0 < period (cs_limiter st)" and "cs_delivered st = []"
  shows "delivered_from k (cs_delivered st') \<le>
    quota (cs_limiter st) * (2 + (time (cs_limiter st') - time (cs_limiter st)) div period (cs_limiter st))"
  using consume_loop_runs [OF assms(1), of k] run_ops_window [OF assms(2,3)] assms(4) by auto

lemma consumed_peers:
  assumes "consume_loop K M R send nets es st = (Ok (), st')" and "invar (cs_limiter st)"
  shows "set (rl_peers R (cs_limiter st')) =
    fold track_online (concat (map limiter_ops_of es)) (set (rl_peers R (cs_limiter st)))"
  using consume_loop_runs [OF assms(1)] run_ops_peers [OF assms(2)] by metis

end

section \<open>Properties\<close>

text \<open>A messenger for witnesses: it accepts everything and has nothing to send.\<close>

definition sample_messenger :: "unit onion_messenger" where
  "sample_messenger =
     \<lparr>om_peer_connected = (\<lambda>_ _ _ m. (True, m)), om_peer_disconnected = (\<lambda>_ m. m),
      om_handle_onion_message = (\<lambda>_ _ m. m), om_process_pending_events = (\<lambda>m. ([], m)),
      om_next_onion_message_for_peer = (\<lambda>_ m. (None, m)), om_write = (\<lambda>m. case m of OnionMessage bs \<Rightarrow> Some bs)\<rparr>"

definition sample_consumer :: "(unit, token_limiter, nat) consumer" where
  "sample_consumer = \<lparr>cs_messenger = (), cs_limiter = TokenLimiter_new [PublicKey 7] 1 100 (\<lambda>i. i),
     cs_world = 0, cs_spawned = [], cs_delivered = []\<rparr>"

text \<open>
  The consumer hands at most \<open>call_count\<close> messages of a peer to the messenger for each
  call period that passes, plus two further quotas, whatever events arrive in whatever order:
  connecting and disconnecting, or the traffic of other peers, does not help.
\<close>

theorem consumer_rate_limited:
  assumes "consume_messenger_events K chain_hash M token_limiter_ops send net es st = (r, st')"
    and "limiter_invar (cs_limiter st)" and "0 < call_frequency (cs_limiter st)" and "cs_delivered st = []"
  shows "delivered_from k (cs_delivered st') \<le> unat (call_count (cs_limiter st)) *
    (2 + (limiter_time (cs_limiter st') - limiter_time (cs_limiter st)) div call_frequency (cs_limiter st))"
  using tokens.consumed_within_limit [OF _ assms(2-4)] assms(1)
  by (simp add: consume_messenger_events_def limiter_quota_def)

lemma sample_consumer_wf:
  "limiter_invar (cs_limiter sample_consumer)" "0 < call_frequency (cs_limiter sample_consumer)"
  "cs_delivered sample_consumer = []"
proof -
  show "limiter_invar (cs_limiter sample_consumer)"
    unfolding sample_consumer_def by (simp add: limiter_invar_new mono_def)
qed (simp_all add: sample_consumer_def TokenLimiter_new_def)

theorem consumer_rate_limited_witness:
  "\<exists>r st'. consume_messenger_events sample_secp (\<lambda>_. []) sample_messenger token_limiter_ops (\<lambda>_. unavailable) Bitcoin
       (replicate 5 (IncomingMessage (PublicKey 7) (OnionMessage []))) sample_consumer = (r, st') \<and>
     delivered_from (PublicKey 7) (cs_delivered st') \<le> 1 * (2 + (limiter_time (cs_limiter st') - 1) div 100)"
proof -
  obtain r st' where run: "consume_messenger_events sample_secp (\<lambda>_. []) sample_messenger token_limiter_ops
      (\<lambda>_. unavailable) Bitcoin (replicate 5 (IncomingMessage (PublicKey 7) (OnionMessage []))) sample_consumer =
      (r, st')" by (metis surj_pair)
  from consumer_rate_limited [OF run sample_consumer_wf, of "PublicKey 7"] run show ?thesis
    by (simp add: sample_consumer_def TokenLimiter_new_def limiter_time_def)
qed

text \<open>
  To observe the consumer: a messenger that also notes which peers it was asked for messages for and what it
  answered, and a connection that also notes the messages it was given to send.
\<close>

definition observed ::
  "'m onion_messenger \<Rightarrow> ('m \<times> (public_key \<times> onion_message option) list) onion_messenger" where
  "observed M =
     \<lparr>om_peer_connected = (\<lambda>k init inbound (m, log). case om_peer_connected M k init inbound m of (b, m') \<Rightarrow> (b, m', log)),
      om_peer_disconnected = (\<lambda>k (m, log). (om_peer_disconnected M k m, log)),
      om_handle_onion_message = (\<lambda>k msg (m, log). (om_handle_onion_message M k msg m, log)),
      om_process_pending_events = (\<lambda>(m, log). case om_process_pending_events M m of (evs, m') \<Rightarrow> (evs, m', log)),
      om_next_onion_message_for_peer = (\<lambda>k (m, log).
        case om_next_onion_message_for_peer M k m of (a, m') \<Rightarrow> (a, m', log @ [(k, a)])),
      om_write = om_write M\<rparr>"

definition observed_send ::
  "(custom_message \<Rightarrow> ('w, status, unit) stub) \<Rightarrow> custom_message \<Rightarrow> ('w \<times> custom_message list, status, unit) stub" where
  "observed_send send cm = (\<lambda>(w, log). case send cm w of (r, w') \<Rightarrow> (r, w', log @ [cm]))"

definition outgoing :: "secp \<Rightarrow> 'm onion_messenger \<Rightarrow> public_key \<times> onion_message option \<Rightarrow> custom_message list" where
  "outgoing K M a = (case a of
       (k, Some msg) \<Rightarrow> (case om_write M msg of
           Some buf \<Rightarrow> [\<lparr>cm_peer = pk_serialize K k, cm_type = ONION_MESSAGE_TYPE, cm_data = buf\<rparr>]
         | None \<Rightarrow> [])
     | (k, None) \<Rightarrow> [])"

lemma relay_loop_observed:
  "\<exists>answers. snd (cs_messenger (relay_loop K (observed M) (observed_send send) ps st)) = snd (cs_messenger st) @ answers \<and>
     map fst answers = ps \<and>
     snd (cs_world (relay_loop K (observed M) (observed_send send) ps st)) =
       snd (cs_world st) @ concat (map (outgoing K M) answers)"
proof (induction ps arbitrary: st)
  case (Cons k ps)
  obtain m log where m: "cs_messenger st = (m, log)" by fastforce
  obtain a m' where a: "om_next_onion_message_for_peer M k m = (a, m')" by fastforce
  define st1 where "st1 = (case a of
      Some msg \<Rightarrow> st\<lparr>cs_messenger := (m', log @ [(k, a)]),
        cs_world := relay_outgoing_msg_event K (om_write M) (observed_send send) k msg (cs_world st)\<rparr>
    | None \<Rightarrow> st\<lparr>cs_messenger := (m', log @ [(k, a)])\<rparr>)"
  have "relay_loop K (observed M) (observed_send send) (k # ps) st = relay_loop K (observed M) (observed_send send) ps st1"
    using m a by (simp add: observed_def st1_def split: option.split)
  moreover have "snd (cs_messenger st1) = snd (cs_messenger st) @ [(k, a)]"
    "snd (cs_world st1) = snd (cs_world st) @ outgoing K M (k, a)"
    using m by (auto simp: st1_def outgoing_def relay_outgoing_msg_event_def observed_send_def
        split: option.split prod.split)
  moreover from Cons.IH [of st1] obtain answers where
    "snd (cs_messenger (relay_loop K (observed M) (observed_send send) ps st1)) = snd (cs_messenger st1) @ answers"
    "map fst answers = ps"
    "snd (cs_world (relay_loop K (observed M) (observed_send send) ps st1)) =
       snd (cs_world st1) @ concat (map (outgoing K M) answers)" by blast
  ultimately show ?case by (intro exI [of _ "(k, a) # answers"]) simp
qed simp

lemma send_outgoing_observed:
  obtains st' answers where
    "consume_event K (observed M) R (observed_send send) nets SendOutgoing st = (Ok (), st')"
    "snd (cs_messenger st') = snd (cs_messenger st) @ answers" "map fst answers = rl_peers R (cs_limiter st)"
    "snd (cs_world st') = snd (cs_world st) @ concat (map (outgoing K M) answers)"
proof -
  obtain m log where m: "cs_messenger st = (m, log)" by fastforce
  obtain evs m' where e: "om_process_pending_events M m = (evs, m')" by fastforce
  let ?st = "st\<lparr>cs_messenger := (m', log), cs_spawned := fold handle_event evs (cs_spawned st)\<rparr>"
  have "consume_event K (observed M) R (observed_send send) nets SendOutgoing st =
      (Ok (), relay_loop K (observed M) (observed_send send) (rl_peers R (cs_limiter st)) ?st)"
    using m e by (simp add: consume_event_def observed_def)
  with relay_loop_observed [of K M send "rl_peers R (cs_limiter st)" ?st] m that show thesis by auto
qed

lemma consume_loop_append:
  "consume_loop K M R send nets es st = (Ok (), st1) \<Longrightarrow>
   consume_loop K M R send nets (es @ fs) st = consume_loop K M R send nets fs st1"
  by (induction es arbitrary: st) (auto split: prod.splits res.splits)

lemma peers_distinct: "limiter_invar l \<Longrightarrow> distinct (peers l)"
  by (auto simp: limiter_invar_def buckets_wf_def peers_def distinct_map_filter)

text \<open>
  C25. The consumer relays for the peers that are online: when it is told to send, after any events it
  consumed, it asks the messenger for a message for each peer whose last connection event was
  a connect (starting from the peers of the limiter), for each of them once and for no other, and the
  messages it gives to LND are those the messenger answered with, each for the peer it was asked for.
\<close>

theorem consumer_polls_online_peers:
  assumes "consume_messenger_events K chain_hash (observed M) token_limiter_ops (observed_send send) net es st = (Ok (), st1)"
    and "limiter_invar (cs_limiter st)"
  shows "\<exists>st2 answers.
    consume_messenger_events K chain_hash (observed M) token_limiter_ops (observed_send send) net (es @ [SendOutgoing]) st =
      (Ok (), st2) \<and>
    snd (cs_messenger st2) = snd (cs_messenger st1) @ answers \<and> distinct (map fst answers) \<and>
    set (map fst answers) = fold track_online (concat (map limiter_ops_of es)) (set (peers (cs_limiter st))) \<and>
    snd (cs_world st2) = snd (cs_world st1) @ concat (map (outgoing K M) answers)"
proof -
  have run: "consume_loop K (observed M) token_limiter_ops (observed_send send) [chain_hash net] es st = (Ok (), st1)"
    using assms(1) by (simp add: consume_messenger_events_def)
  obtain st2 answers where
    s: "consume_event K (observed M) token_limiter_ops (observed_send send) [chain_hash net] SendOutgoing st1 = (Ok (), st2)"
      "snd (cs_messenger st2) = snd (cs_messenger st1) @ answers" "map fst answers = rl_peers token_limiter_ops (cs_limiter st1)"
      "snd (cs_world st2) = snd (cs_world st1) @ concat (map (outgoing K M) answers)"
    by (rule send_outgoing_observed)
  have "limiter_invar (cs_limiter st1)"
    using consume_loop_runs [OF run] tokens.run_ops_spends [OF assms(2)] by metis
  then have "distinct (map fst answers)" by (simp add: s(3) token_limiter_ops_def peers_distinct)
  moreover have "set (map fst answers) = fold track_online (concat (map limiter_ops_of es)) (set (peers (cs_limiter st)))"
    using tokens.consumed_peers [OF run assms(2)] by (simp add: s(3) token_limiter_ops_def)
  moreover have "consume_messenger_events K chain_hash (observed M) token_limiter_ops (observed_send send) net
      (es @ [SendOutgoing]) st = (Ok (), st2)"
    using consume_loop_append [OF run, of "[SendOutgoing]"] s(1) by (simp add: consume_messenger_events_def)
  ultimately show ?thesis using s(2,4) by blast
qed

lemma distinct_singleton_list: "distinct xs \<Longrightarrow> set xs = {x} \<Longrightarrow> xs = [x]"
  by (metis distinct_card card_1_singleton_iff One_nat_def length_0_conv length_Suc_conv list.set_intros(1) singletonD)

definition talking_messenger :: "unit onion_messenger" where
  "talking_messenger = sample_messenger\<lparr>om_next_onion_message_for_peer := (\<lambda>_ m. (Some (OnionMessage [5]), m))\<rparr>"

definition observed_consumer ::
  "(unit \<times> (public_key \<times> onion_message option) list, token_limiter, nat \<times> custom_message list) consumer" where
  "observed_consumer = \<lparr>cs_messenger = ((), []), cs_limiter = TokenLimiter_new [PublicKey 7] 1 100 (\<lambda>i. i),
     cs_world = (0, []), cs_spawned = [], cs_delivered = []\<rparr>"

theorem consumer_polls_online_peers_witness:
  "\<exists>st' a. consume_messenger_events sample_secp (\<lambda>_. []) (observed talking_messenger) token_limiter_ops
       (observed_send (\<lambda>_. unavailable)) Bitcoin
       [PeerConnected (PublicKey 8) True, PeerDisconnected (PublicKey 7), SendOutgoing] observed_consumer = (Ok (), st') \<and>
     snd (cs_messenger st') = [(PublicKey 8, a)] \<and>
     snd (cs_world st') = outgoing sample_secp talking_messenger (PublicKey 8, a)"
proof -
  let ?consume = "consume_messenger_events sample_secp (\<lambda>_. []) (observed talking_messenger) token_limiter_ops
      (observed_send (\<lambda>_. unavailable)) Bitcoin"
  let ?es = "[PeerConnected (PublicKey 8) True, PeerDisconnected (PublicKey 7)]"
  obtain st1 where run: "?consume ?es observed_consumer = (Ok (), st1)"
    and log: "snd (cs_messenger st1) = []" "snd (cs_world st1) = []"
    by (simp add: consume_messenger_events_def consume_event_def observed_def talking_messenger_def sample_messenger_def
        observed_consumer_def)
  have l: "limiter_invar (cs_limiter observed_consumer)" "set (peers (cs_limiter observed_consumer)) = {PublicKey 7}"
    by (auto simp: observed_consumer_def mono_def peers_def TokenLimiter_new_def PeerRecord_new_def limiter_invar_def
        buckets_wf_def clock_ok_def)
  have o: "fold track_online (concat (map limiter_ops_of ?es)) (set (peers (cs_limiter observed_consumer))) = {PublicKey 8}"
    unfolding l(2) by auto
  from consumer_polls_online_peers [OF run l(1), unfolded o] obtain st2 answers where
    st2: "?consume (?es @ [SendOutgoing]) observed_consumer = (Ok (), st2)"
      "snd (cs_messenger st2) = snd (cs_messenger st1) @ answers"
      "snd (cs_world st2) = snd (cs_world st1) @ concat (map (outgoing sample_secp talking_messenger) answers)"
    and a: "distinct (map fst answers)" "set (map fst answers) = {PublicKey 8}" by (elim exE conjE)
  from a have "map fst answers = [PublicKey 8]"
    by (rule distinct_singleton_list)
  then obtain x where "answers = [(PublicKey 8, x)]" by (auto simp: map_eq_Cons_conv)
  with st2 log show ?thesis by (intro exI [of _ st2] exI [of _ x]) simp
qed

text \<open>
  The exit of a producer does not stop the consumer: an exit event has no effect, and the
  consumer ends with an error only when the messenger refuses a connection.
\<close>

theorem producer_exit_ignored:
  "consume_messenger_events K chain_hash M R send net es st =
     consume_messenger_events K chain_hash M R send net
       (filter (\<lambda>e. case e of ProducerExit _ \<Rightarrow> False | _ \<Rightarrow> True) es) st \<and>
   fst (consume_messenger_events K chain_hash M R send net es st) \<in> {Ok (), Err OnionMessengerFailure}"
proof -
  have step: "consume_event K M R send nets (ProducerExit x) st = (Ok (), st)" for nets x st
    by (simp add: consume_event_def)
  have out: "fst (consume_event K M R send nets e st) \<in> {Ok (), Err OnionMessengerFailure}" for nets e st
    by (auto simp: consume_event_def split: messenger_event.split prod.split bool.split)
  have "consume_loop K M R send nets es st =
      consume_loop K M R send nets (filter (\<lambda>e. case e of ProducerExit _ \<Rightarrow> False | _ \<Rightarrow> True) es) st \<and>
      fst (consume_loop K M R send nets es st) \<in> {Ok (), Err OnionMessengerFailure}" for nets
  proof (induction es arbitrary: st)
    case (Cons e es)
    obtain r st1 where e: "consume_event K M R send nets e st = (r, st1)" by fastforce
    then have "r \<in> {Ok (), Err OnionMessengerFailure}" using out [of nets e st] by simp
    then show ?case using Cons.IH [of st1] Cons.IH [of st] e step
      by (cases "\<exists>x. e = ProducerExit x") (auto split: messenger_event.split)
  qed simp
  then show ?thesis unfolding consume_messenger_events_def by blast
qed

text \<open>
  C28. Every producer obeys the signal to quit: once it is in the input the producer has
  returned, and it reports success for no other reason.
\<close>

theorem producers_obey_quit:
  "(Quit \<in> set ins \<longrightarrow> fst (produce_peer_events K sh support alive ins sent w) \<noteq> None) \<and>
   (fst (produce_peer_events K sh support alive ins sent w) = Some (Ok ()) \<longrightarrow> Quit \<in> set ins) \<and>
   (Quit \<in> set ins' \<longrightarrow> fst (produce_incoming_message_events K sh read alive ins' sent) \<noteq> None) \<and>
   (fst (produce_incoming_message_events K sh read alive ins' sent) = Some (Ok ()) \<longrightarrow> Quit \<in> set ins') \<and>
   (Quit \<in> set ticks \<longrightarrow> fst (produce_outgoing_message_events alive ticks sent) \<noteq> None) \<and>
   (fst (produce_outgoing_message_events alive ticks sent) = Some (Ok ()) \<longrightarrow> Quit \<in> set ticks)"
  using peers_producer.quit_stops [where K = K and sh = sh and support = support and alive = alive
      and ins = ins and sent = sent and w = w]
    messages_producer.quit_stops [where K = K and sh = sh and read = read and alive = alive
      and ins = ins' and sent = sent and w = "()"]
    outgoing_producer.quit_stops [where alive = alive and ins = ticks and sent = sent and w = "()"]
  by (auto simp: case_prod_beta)

theorem producers_obey_quit_witness:
  "fst (produce_outgoing_message_events (\<lambda>_. True) [Received (), Quit] []) \<noteq> None \<and>
   fst (produce_peer_events sample_secp (\<lambda>_. '''') (\<lambda>_ w. (True, w)) (\<lambda>_. True) [Quit] [] (0 :: nat)) \<noteq> None \<and>
   fst (produce_incoming_message_events sample_secp (\<lambda>_. '''') (\<lambda>bs. Some (OnionMessage bs)) (\<lambda>_. True) [Quit] []) \<noteq> None"
  using producers_obey_quit [of "[Quit]" sample_secp "\<lambda>_. ''''" "\<lambda>_ w. (True, w)" "\<lambda>_. True" "[]" "0 :: nat"
      "[Quit]" "\<lambda>bs. Some (OnionMessage bs)" "[Received (), Quit]"] by simp

text \<open>The event a received message becomes.\<close>

definition message_event ::
  "secp \<Rightarrow> (u8 list \<Rightarrow> onion_message option) \<Rightarrow> custom_message \<Rightarrow> messenger_event option" where
  "message_event K read m =
     (if cm_type m \<noteq> ONION_MESSAGE_TYPE then None
      else case pk_from_slice K (cm_peer m) of
        None \<Rightarrow> None
      | Some k \<Rightarrow> map_option (IncomingMessage k) (read (cm_data m)))"

text \<open>
  From LND's custom messages exactly the well-formed onion messages reach the consumer, in
  order and with the peer they came from: other message types and messages that do not parse
  are dropped, and nothing else is made up.
\<close>

theorem incoming_messages_forwarded:
  assumes "\<forall>m\<in>set ms. cm_type m = ONION_MESSAGE_TYPE \<longrightarrow> pk_from_slice K (cm_peer m) \<noteq> None"
    and "\<forall>n. alive n"
  shows "produce_incoming_message_events K sh read alive (map (\<lambda>m. Received (Inr m)) ms) sent =
    (None, sent @ List.map_filter (message_event K read) ms)"
  using assms
proof (induction ms arbitrary: sent)
  case (Cons m ms)
  show ?case
  proof (cases "cm_type m = ONION_MESSAGE_TYPE")
    case True
    with Cons.prems obtain k where "pk_from_slice K (cm_peer m) = Some k" by auto
    with True Cons show ?thesis
      by (cases "read (cm_data m)") (simp_all add: send_event_def message_event_def List.map_filter_simps)
  next
    case False
    with Cons show ?thesis by (simp add: message_event_def List.map_filter_simps)
  qed
qed (simp add: List.map_filter_simps)

theorem incoming_messages_forwarded_witness:
  "snd (produce_incoming_message_events sample_secp (\<lambda>_. '''') (\<lambda>bs. Some (OnionMessage bs)) (\<lambda>_. True)
     (map (\<lambda>m. Received (Inr m)) [\<lparr>cm_peer = [], cm_type = 512, cm_data = [1]\<rparr>,
        \<lparr>cm_peer = pk_serialize sample_secp (PublicKey 7), cm_type = 513, cm_data = [2]\<rparr>]) []) =
   [IncomingMessage (PublicKey 7) (OnionMessage [2])]"
proof -
  have k: "pk_from_slice sample_secp (pk_serialize sample_secp k) = Some k" for k
    using sample_secp_documented by (simp add: secp_documented_def)
  show ?thesis
    by (subst incoming_messages_forwarded)
      (simp_all add: k message_event_def ONION_MESSAGE_TYPE_def List.map_filter_simps)
qed

text \<open>
  The lookup rust-lightning uses to forward along a channel never finds the next node: it
  hands the hexadecimal key to \<open>from_slice\<close>, which takes raw bytes.
\<close>

theorem next_node_id_never_found:
  assumes "secp_documented K"
    and "\<And>r w e w'. lc_get_chan_info c r w = (Inr e, w') \<Longrightarrow>
      \<exists>a b. edge_node1_pub e = pk_to_string K a \<and> edge_node2_pub e = pk_to_string K b"
  shows "fst (next_node_id K c us scid w) = None"
proof (cases "lc_get_chan_info c \<lparr>cir_chan_id = scid, cir_chan_point = ''''\<rparr> w")
  case (Pair r w')
  show ?thesis
  proof (cases r)
    case (Inr e)
    with Pair assms(2) obtain a b where
      "edge_node1_pub e = pk_to_string K a" "edge_node2_pub e = pk_to_string K b" by blast
    moreover have "pk_from_slice K (as_bytes (pk_to_string K k)) = None" for k
      using assms(1) by (simp add: secp_documented_def)
    ultimately show ?thesis using Pair Inr by (simp add: next_node_id_def Let_def)
  qed (use Pair in \<open>simp add: next_node_id_def\<close>)
qed

theorem next_node_id_never_found_witness:
  "fst (next_node_id sample_secp (offline_client\<lparr>lc_get_chan_info := (\<lambda>_ w.
     (Inr \<lparr>edge_channel_id = 1, edge_node1_pub = pk_to_string sample_secp (PublicKey 5),
        edge_node2_pub = pk_to_string sample_secp (PublicKey 6)\<rparr>, w))\<rparr>) (PublicKey 5) 1 (0 :: nat)) = None"
  by (rule next_node_id_never_found [OF sample_secp_documented]) auto

lemma find_member: "find P xs = Some x \<Longrightarrow> x \<in> set xs \<and> P x"
  by (induction xs) (auto split: if_splits)

lemma check_empty_features_sound:
  "check_empty_features K n c k w = (Some fs, w') \<Longrightarrow>
   \<exists>w1 ps w2 peer. lc_list_peers c False w1 = (Inr ps, w2) \<and> peer \<in> set ps \<and>
     peer_pub_key peer = pk_to_string K k \<and> peer_features peer = fs"
  by (induction n arbitrary: w) (auto split: prod.splits sum.splits option.splits dest!: find_member)

text \<open>A peer is reported to support onion messages only if LND listed it with a feature bit that
  says so.\<close>

lemma lookup_onion_support_sound:
  assumes "lookup_onion_support K n c k w = (True, w')"
  shows "\<exists>w1 ps w2 peer. lc_list_peers c False w1 = (Inr ps, w2) \<and> peer \<in> set ps \<and>
    peer_pub_key peer = pk_to_string K k \<and> features_support_onion_messages (peer_features peer)"
  using assms
  by (auto simp: lookup_onion_support_def split: prod.splits sum.splits option.splits
      dest!: check_empty_features_sound find_member)

end
