(* ===== verification/Tls_Files.thy ===== *)
theory Tls_Files
  imports Lnd
begin

text \<open>
  \<open>src/lib.rs\<close> and \<open>src/main.rs\<close>: the logger, the checks \<open>LndkOnionMessenger::run\<close> makes of LND
  before it runs the messenger, the TLS files of the gRPC server, and the start of the daemon.
  Files are a map from paths to their text and mode; every system call may fail.
\<close>

section \<open>Constants and paths\<close>

definition DEFAULT_SERVER_HOST :: string where "DEFAULT_SERVER_HOST = ''127.0.0.1''"
definition DEFAULT_SERVER_PORT :: "16 word" where "DEFAULT_SERVER_PORT = 7000"
definition LDK_LOGGER_NAME :: string where "LDK_LOGGER_NAME = ''ldk''"
definition DEFAULT_DATA_DIR :: string where "DEFAULT_DATA_DIR = ''data''"
definition DEFAULT_LNDK_DIR :: string where "DEFAULT_LNDK_DIR = ''.lndk''"
definition DEFAULT_LOG_FILE :: string where "DEFAULT_LOG_FILE = ''lndk.log''"
definition DEFAULT_CONFIG_FILE_NAME :: string where "DEFAULT_CONFIG_FILE_NAME = ''lndk.conf''"
definition TLS_CERT_FILENAME :: string where "TLS_CERT_FILENAME = ''tls-cert.pem''"
definition TLS_KEY_FILENAME :: string where "TLS_KEY_FILENAME = ''tls-key.pem''"

text \<open>\<open>Path::join\<close> with a relative path.\<close>

definition path_join :: "string \<Rightarrow> string \<Rightarrow> string" where
  "path_join p q = (if p = '''' \<or> last p = CHR ''/'' then p @ q else p @ ''/'' @ q)"

definition get_default_lnkd_dir_path :: "string option \<Rightarrow> ('e, string) res" where
  "get_default_lnkd_dir_path home_dir =
     res_bind (unwrap home_dir) (\<lambda>home. Ok (path_join home DEFAULT_LNDK_DIR))"

definition get_conf_file_paths :: "string option \<Rightarrow> ('e, string list) res" where
  "get_conf_file_paths home_dir =
     res_bind (get_default_lnkd_dir_path home_dir) (\<lambda>dir.
     let default_lndk_config_path = path_join dir DEFAULT_CONFIG_FILE_NAME;
         current_dir_conf_file = path_join ''./'' DEFAULT_CONFIG_FILE_NAME
     in Ok [current_dir_conf_file, default_lndk_config_path])"

section \<open>Files\<close>

type_synonym path = string

record disk_file =
  f_content :: string
  f_mode :: nat

type_synonym file_map = "path \<rightharpoonup> disk_file"

text \<open>The files, and those of before each system call that changed them, the latest first.\<close>

record disk =
  d_files :: file_map
  d_past :: "file_map list"

datatype syscall =
    SysOpenNew path | SysStat path | SysChmod path nat | SysWrite path string | SysRead path | SysMkdir path

text \<open>
  The operating system: which calls fail, and with what error; how much of a failing write has
  reached the file; and the mode it gives to a new file.
\<close>

record os =
  os_fails :: "syscall \<Rightarrow> file_map \<Rightarrow> string option"
  os_written :: "path \<Rightarrow> nat"
  os_new_mode :: nat

definition put_file :: "path \<Rightarrow> disk_file \<Rightarrow> disk \<Rightarrow> disk" where
  "put_file p f d = \<lparr>d_files = (d_files d)(p \<mapsto> f), d_past = d_files d # d_past d\<rparr>"

definition syscall :: "os \<Rightarrow> syscall \<Rightarrow> (disk \<Rightarrow> (string, 'a) res \<times> disk) \<Rightarrow> (disk, string, 'a) io" where
  "syscall os sc k = (\<lambda>d. case os_fails os sc (d_files d) of Some e \<Rightarrow> (Err e, d) | None \<Rightarrow> k d)"

text \<open>\<open>exists\<close> answers no when the file cannot be looked at.\<close>

definition path_exists :: "os \<Rightarrow> path \<Rightarrow> disk \<Rightarrow> bool" where
  "path_exists os p d \<longleftrightarrow> os_fails os (SysStat p) (d_files d) = None \<and> d_files d p \<noteq> None"

text \<open>\<open>File::create\<close> empties a file that exists, and keeps its mode.\<close>

definition file_create :: "os \<Rightarrow> path \<Rightarrow> (disk, string, unit) io" where
  "file_create os p = syscall os (SysOpenNew p) (\<lambda>d.
     (Ok (), put_file p \<lparr>f_content = '''', f_mode = (case d_files d p of Some f \<Rightarrow> f_mode f | None \<Rightarrow> os_new_mode os)\<rparr> d))"

definition file_metadata :: "os \<Rightarrow> path \<Rightarrow> (disk, string, nat) io" where
  "file_metadata os p = syscall os (SysStat p) (\<lambda>d.
     (case d_files d p of Some f \<Rightarrow> Ok (f_mode f) | None \<Rightarrow> Err ''NotFound'', d))"

definition set_permissions :: "os \<Rightarrow> path \<Rightarrow> nat \<Rightarrow> (disk, string, unit) io" where
  "set_permissions os p perm = syscall os (SysChmod p perm) (\<lambda>d.
     case d_files d p of Some f \<Rightarrow> (Ok (), put_file p (f\<lparr>f_mode := perm\<rparr>) d) | None \<Rightarrow> (Err ''NotFound'', d))"

text \<open>Writing to a file that was just created; a write that fails may have written a part.\<close>

definition write_all :: "os \<Rightarrow> path \<Rightarrow> string \<Rightarrow> (disk, string, unit) io" where
  "write_all os p s = (\<lambda>d.
     case d_files d p of
       None \<Rightarrow> (Err ''NotFound'', d)
     | Some f \<Rightarrow> (case os_fails os (SysWrite p s) (d_files d) of
           None \<Rightarrow> (Ok (), put_file p (f\<lparr>f_content := s\<rparr>) d)
         | Some e \<Rightarrow> (Err e, put_file p (f\<lparr>f_content := take (os_written os p) s\<rparr>) d)))"

definition fs_write :: "os \<Rightarrow> path \<Rightarrow> string \<Rightarrow> (disk, string, unit) io" where
  "fs_write os p s = io_bind (file_create os p) (\<lambda>_. write_all os p s)"

definition read_to_string :: "os \<Rightarrow> path \<Rightarrow> (disk, string, string) io" where
  "read_to_string os p = syscall os (SysRead p) (\<lambda>d.
     (case d_files d p of Some f \<Rightarrow> Ok (f_content f) | None \<Rightarrow> Err ''NotFound'', d))"

definition create_dir_all :: "os \<Rightarrow> path \<Rightarrow> (disk, string, unit) io" where
  "create_dir_all os p = syscall os (SysMkdir p) (\<lambda>d. (Ok (), d))"

lemmas disk_defs = syscall_def file_create_def file_metadata_def set_permissions_def write_all_def
  fs_write_def read_to_string_def put_file_def

section \<open>TLS credentials\<close>

datatype certificate_gen_failure = RcgenError string | IoError string

fun certificate_gen_failure_display :: "certificate_gen_failure \<Rightarrow> string" where
  "certificate_gen_failure_display (RcgenError e) = ''Error generating TLS certificate: '' @ e"
| "certificate_gen_failure_display (IoError e) = ''IO error: '' @ e"

text \<open>\<open>split(',')\<close>: a text with \<open>n\<close> commas has \<open>n + 1\<close> parts.\<close>

fun split_comma :: "string \<Rightarrow> string list" where
  "split_comma [] = [[]]"
| "split_comma (c # s) =
     (if c = CHR '','' then [] # split_comma s
      else (case split_comma s of part # parts \<Rightarrow> (c # part) # parts | [] \<Rightarrow> [[c]]))"

definition collect_tls_ips :: "string option \<Rightarrow> string list option" where
  "collect_tls_ips tls_ips_str = map_option split_comma tls_ips_str"

record certified_key =
  cert_pem :: string
  key_pem :: string

text \<open>\<open>0o600\<close>.\<close>

definition USER_ONLY :: nat where "USER_ONLY = 384"

definition generate_tls_creds ::
  "os \<Rightarrow> (string list \<Rightarrow> string + certified_key) \<Rightarrow> path \<Rightarrow> string option \<Rightarrow>
   (disk, certificate_gen_failure, unit) io" where
  "generate_tls_creds os generate_simple_self_signed data_dir tls_ips_string = (\<lambda>d.
     let cert_path = path_join data_dir TLS_CERT_FILENAME;
         key_path = path_join data_dir TLS_KEY_FILENAME;
         tls_ips = collect_tls_ips tls_ips_string
     in
     if \<not> path_exists os key_path d \<or> \<not> path_exists os cert_path d then
       (let subject_alt_names = ''localhost'' # (case tls_ips of Some ips \<Rightarrow> ips | None \<Rightarrow> [])
        in
        io_bind (io_lift (map_err RcgenError (res_of_sum (generate_simple_self_signed subject_alt_names)))) (\<lambda>ck.
        io_bind (io_map_err IoError (file_create os key_path)) (\<lambda>_.
        io_bind (io_map_err IoError (file_metadata os key_path)) (\<lambda>perms.
        io_bind (io_map_err IoError (set_permissions os key_path USER_ONLY)) (\<lambda>_.
        io_bind (io_map_err IoError (write_all os key_path (key_pem ck))) (\<lambda>_.
        io_map_err IoError (fs_write os cert_path (cert_pem ck))))))) d)
     else (Ok (), d))"

record identity =
  id_cert :: string
  id_key :: string

definition read_tls :: "os \<Rightarrow> path \<Rightarrow> (disk, string, identity) io" where
  "read_tls os data_dir =
     io_bind (read_to_string os (path_join data_dir TLS_CERT_FILENAME)) (\<lambda>cert.
     io_bind (read_to_string os (path_join data_dir TLS_KEY_FILENAME)) (\<lambda>key.
     io_return \<lparr>id_cert = cert, id_key = key\<rparr>))"

definition create_data_dir :: "os \<Rightarrow> string option \<Rightarrow> string option \<Rightarrow> (disk, string, path) io" where
  "create_data_dir os home_dir data_dir =
     io_bind (case data_dir of
         Some dir \<Rightarrow> io_return dir
       | None \<Rightarrow> io_lift (res_bind (get_default_lnkd_dir_path home_dir) (\<lambda>dir. Ok (path_join dir DEFAULT_DATA_DIR))))
       (\<lambda>p.
     io_bind (create_dir_all os p) (\<lambda>_.
     io_return p))"


section \<open>TLS credentials: properties\<close>

lemma take_rev_path_join: "5 \<le> length q \<Longrightarrow> take 5 (rev (path_join p q)) = take 5 (rev q)"
  by (simp add: path_join_def)

text \<open>No key file is a certificate file, in whatever directories.\<close>

lemma tls_key_not_cert: "path_join a TLS_KEY_FILENAME \<noteq> path_join b TLS_CERT_FILENAME"
  using take_rev_path_join [of TLS_KEY_FILENAME a] take_rev_path_join [of TLS_CERT_FILENAME b]
  by (auto simp: TLS_KEY_FILENAME_def TLS_CERT_FILENAME_def)

text \<open>A file that holds anything but what it held at first is for its user only.\<close>

definition guarded :: "path \<Rightarrow> file_map \<Rightarrow> file_map \<Rightarrow> bool" where
  "guarded p fs0 fs \<longleftrightarrow>
     (case fs p of None \<Rightarrow> True | Some f \<Rightarrow> f_content f = '''' \<or> f_mode f = USER_ONLY \<or> fs0 p = Some f)"

definition always_guarded :: "path \<Rightarrow> file_map \<Rightarrow> disk \<Rightarrow> bool" where
  "always_guarded p fs0 d \<longleftrightarrow> list_all (guarded p fs0) (d_files d # d_past d)"

lemma always_guardedD:
  "always_guarded p fs0 d \<Longrightarrow> \<forall>fs\<in>set (d_files d # d_past d). \<forall>f. fs p = Some f \<longrightarrow>
     f_content f = '''' \<or> f_mode f = USER_ONLY \<or> fs0 p = Some f"
  by (auto simp: always_guarded_def guarded_def list_all_iff split: option.splits)

lemma always_guarded_init: "d_past d = [] \<Longrightarrow> always_guarded p (d_files d) d"
  by (simp add: always_guarded_def guarded_def split: option.split)

lemma always_guarded_put:
  "always_guarded p fs0 (put_file q f d) \<longleftrightarrow>
     always_guarded p fs0 d \<and> (q = p \<longrightarrow> f_content f = '''' \<or> f_mode f = USER_ONLY \<or> fs0 p = Some f)"
  by (auto simp: always_guarded_def put_file_def guarded_def)

lemma put_file_lookup [simp]: "d_files (put_file q f d) p = (if p = q then Some f else d_files d p)"
  by (simp add: put_file_def)

text \<open>\<open>triple P m Q G\<close>: run from a state in \<open>P\<close>, the call ends in \<open>G\<close>, and also in \<open>Q\<close> when it
  succeeds.\<close>

definition triple :: "('w \<Rightarrow> bool) \<Rightarrow> ('w, 'e, 'a) io \<Rightarrow> ('w \<Rightarrow> bool) \<Rightarrow> ('w \<Rightarrow> bool) \<Rightarrow> bool" where
  "triple P m Q G \<longleftrightarrow> (\<forall>w. P w \<longrightarrow> G (snd (m w)) \<and> (is_ok (fst (m w)) \<longrightarrow> Q (snd (m w))))"

lemma tripleD: "triple P m Q G \<Longrightarrow> P w \<Longrightarrow> m w = (r, w') \<Longrightarrow> G w'"
  by (metis snd_conv triple_def)

lemma triple_bind: "triple P m Q G \<Longrightarrow> (\<And>a. triple Q (k a) R G) \<Longrightarrow> triple P (io_bind m k) R G"
  by (auto simp: triple_def io_bind_def split: prod.split res.split)

lemma is_ok_map_err [simp]: "is_ok (map_err f r) = is_ok r"
  by (cases r) auto

lemma triple_map_err: "triple P m Q G \<Longrightarrow> triple P (io_map_err f m) Q G"
  by (simp add: triple_def io_map_err_def case_prod_beta)

text \<open>The stages of writing the key: the file is empty, then for its user only.\<close>

definition emptied :: "path \<Rightarrow> file_map \<Rightarrow> disk \<Rightarrow> bool" where
  "emptied p fs0 d \<longleftrightarrow> always_guarded p fs0 d \<and> (\<exists>f. d_files d p = Some f \<and> f_content f = '''')"

definition locked_down :: "path \<Rightarrow> file_map \<Rightarrow> disk \<Rightarrow> bool" where
  "locked_down p fs0 d \<longleftrightarrow> always_guarded p fs0 d \<and> (\<exists>f. d_files d p = Some f \<and> f_mode f = USER_ONLY)"

lemma key_stages:
  "triple (always_guarded p fs0) (file_create os p) (emptied p fs0) (always_guarded p fs0)"
  "triple (emptied p fs0) (file_metadata os p) (emptied p fs0) (always_guarded p fs0)"
  "triple (emptied p fs0) (set_permissions os p USER_ONLY) (locked_down p fs0) (always_guarded p fs0)"
  "triple (locked_down p fs0) (write_all os p s) (always_guarded p fs0) (always_guarded p fs0)"
  unfolding triple_def
  by (auto simp: file_create_def file_metadata_def set_permissions_def write_all_def syscall_def
      emptied_def locked_down_def always_guarded_put split: option.split)

lemma other_stages:
  assumes "q \<noteq> p"
  shows "triple (always_guarded p fs0) (file_create os q) (always_guarded p fs0) (always_guarded p fs0)"
    and "triple (always_guarded p fs0) (file_metadata os q) (always_guarded p fs0) (always_guarded p fs0)"
    and "triple (always_guarded p fs0) (set_permissions os q m) (always_guarded p fs0) (always_guarded p fs0)"
    and "triple (always_guarded p fs0) (write_all os q s) (always_guarded p fs0) (always_guarded p fs0)"
    and "triple (always_guarded p fs0) (fs_write os q s) (always_guarded p fs0) (always_guarded p fs0)"
proof -
  show c: "triple (always_guarded p fs0) (file_create os q) (always_guarded p fs0) (always_guarded p fs0)"
    and w: "triple (always_guarded p fs0) (write_all os q s) (always_guarded p fs0) (always_guarded p fs0)"
    using assms by (auto simp: triple_def file_create_def write_all_def syscall_def always_guarded_put split: option.split)
  show "triple (always_guarded p fs0) (fs_write os q s) (always_guarded p fs0) (always_guarded p fs0)"
    unfolding fs_write_def by (rule triple_bind [OF c w])
qed (use assms in \<open>auto simp: triple_def file_metadata_def set_permissions_def syscall_def always_guarded_put
  split: option.split\<close>)

lemma generate_guarded:
  assumes "p = path_join dir TLS_KEY_FILENAME"
  shows "triple (always_guarded p fs0) (generate_tls_creds os gen dir' ips) (always_guarded p fs0) (always_guarded p fs0)"
proof -
  let ?G = "always_guarded p fs0"
  let ?p = "path_join dir' TLS_KEY_FILENAME" and ?c = "path_join dir' TLS_CERT_FILENAME"
  let ?stages = "\<lambda>ck :: certified_key. io_bind (io_map_err IoError (file_create os ?p)) (\<lambda>_.
      io_bind (io_map_err IoError (file_metadata os ?p)) (\<lambda>perms.
      io_bind (io_map_err IoError (set_permissions os ?p USER_ONLY)) (\<lambda>_.
      io_bind (io_map_err IoError (write_all os ?p (key_pem ck))) (\<lambda>_.
      io_map_err IoError (fs_write os ?c (cert_pem ck))))))"
  have c: "?c \<noteq> p" using tls_key_not_cert assms by metis
  have "triple ?G (?stages ck) ?G ?G" for ck
  proof (cases "?p = p")
    case True
    show ?thesis unfolding True
      by (intro triple_bind triple_map_err) (rule key_stages other_stages(5) c)+
  next
    case False
    show ?thesis
      by (intro triple_bind triple_map_err) (rule other_stages False c)+
  qed
  then have "triple ?G (io_bind (io_lift r) ?stages) ?G ?G" for r
    by (rule triple_bind [rotated]) (simp add: triple_def io_lift_def)
  then show ?thesis by (simp add: triple_def generate_tls_creds_def Let_def)
qed

text \<open>
  The private key is never exposed: at no moment while the TLS files are generated, and whichever
  system call fails, does the key file hold new text with a mode other than \<open>0o600\<close>.
\<close>

theorem tls_key_never_exposed:
  assumes "generate_tls_creds os gen dir ips d = (r, d')" and "d_past d = []"
  shows "\<forall>fs\<in>set (d_files d' # d_past d'). \<forall>f. fs (path_join dir TLS_KEY_FILENAME) = Some f \<longrightarrow>
    f_content f = '''' \<or> f_mode f = USER_ONLY \<or> d_files d (path_join dir TLS_KEY_FILENAME) = Some f"
proof -
  let ?p = "path_join dir TLS_KEY_FILENAME"
  have "always_guarded ?p (d_files d) d'"
    by (rule tripleD [OF generate_guarded [OF refl] always_guarded_init [OF assms(2)] assms(1)])
  then show ?thesis by (rule always_guardedD)
qed


text \<open>For witnesses: a system whose calls succeed, one on which writing certificates fails, and an
  empty disk.\<close>

definition sample_os :: os where
  "sample_os = \<lparr>os_fails = (\<lambda>_ _. None), os_written = (\<lambda>_. 0), os_new_mode = 420\<rparr>"

definition full_os :: os where
  "full_os = \<lparr>os_fails = (\<lambda>sc _. if sc = SysWrite ''/d/tls-cert.pem'' ''C'' then Some ''StorageFull'' else None),
     os_written = (\<lambda>_. 0), os_new_mode = 420\<rparr>"

definition empty_disk :: disk where
  "empty_disk = \<lparr>d_files = Map.empty, d_past = []\<rparr>"

definition sample_gen :: "string list \<Rightarrow> string + certified_key" where
  "sample_gen names = Inr \<lparr>cert_pem = ''C'', key_pem = ''K''\<rparr>"

lemmas tls_run_simps = generate_tls_creds_def read_tls_def path_exists_def disk_defs path_join_def
  TLS_KEY_FILENAME_def TLS_CERT_FILENAME_def USER_ONLY_def sample_os_def full_os_def empty_disk_def
  sample_gen_def io_simps Let_def

lemma sample_generate:
  "\<exists>d'. generate_tls_creds sample_os sample_gen ''/d'' None empty_disk = (Ok (), d') \<and>
     d_files d' = [''/d/tls-key.pem'' \<mapsto> \<lparr>f_content = ''K'', f_mode = 384\<rparr>,
       ''/d/tls-cert.pem'' \<mapsto> \<lparr>f_content = ''C'', f_mode = 420\<rparr>]"
  by (simp add: tls_run_simps)

theorem tls_key_never_exposed_witness:
  "\<exists>d'. generate_tls_creds sample_os sample_gen ''/d'' None empty_disk = (Ok (), d') \<and>
     f_mode (the (d_files d' ''/d/tls-key.pem'')) = USER_ONLY"
proof -
  from sample_generate obtain d' where run: "generate_tls_creds sample_os sample_gen ''/d'' None empty_disk = (Ok (), d')"
    and key: "d_files d' ''/d/tls-key.pem'' = Some \<lparr>f_content = ''K'', f_mode = 384\<rparr>" by auto
  have "d_past empty_disk = []" by (simp add: empty_disk_def)
  from tls_key_never_exposed [OF run this] key run show ?thesis
    by (auto simp: path_join_def TLS_KEY_FILENAME_def empty_disk_def)
qed

lemma generated_files:
  assumes "generate_tls_creds os gen dir ips d = (Ok (), d')"
    and "\<not> (path_exists os (path_join dir TLS_KEY_FILENAME) d \<and> path_exists os (path_join dir TLS_CERT_FILENAME) d)"
  shows "\<exists>ck m m'. gen (''localhost'' # (case ips of None \<Rightarrow> [] | Some s \<Rightarrow> split_comma s)) = Inr ck \<and>
    d_files d' (path_join dir TLS_KEY_FILENAME) = Some \<lparr>f_content = key_pem ck, f_mode = m\<rparr> \<and>
    d_files d' (path_join dir TLS_CERT_FILENAME) = Some \<lparr>f_content = cert_pem ck, f_mode = m'\<rparr>"
proof -
  let ?p = "path_join dir TLS_KEY_FILENAME" and ?c = "path_join dir TLS_CERT_FILENAME"
  let ?names = "''localhost'' # (case collect_tls_ips ips of Some ips \<Rightarrow> ips | None \<Rightarrow> [])"
  from assms obtain ck d1 d2 d3 where ck: "gen ?names = Inr ck"
    and s: "file_create os ?p d = (Ok (), d1)"
      "set_permissions os ?p USER_ONLY d1 = (Ok (), d2)" "write_all os ?p (key_pem ck) d2 = (Ok (), d3)"
      "fs_write os ?c (cert_pem ck) d3 = (Ok (), d')"
    by (auto simp: generate_tls_creds_def Let_def io_bind_Ok_iff file_metadata_def syscall_def
        split: option.splits)
  have d1: "\<exists>m. d_files d1 ?p = Some \<lparr>f_content = [], f_mode = m\<rparr>"
    using s(1) by (auto simp: file_create_def syscall_def split: option.splits)
  have d2: "\<exists>m. d_files d2 ?p = Some \<lparr>f_content = [], f_mode = m\<rparr>"
    using s(2) d1 by (auto simp: set_permissions_def syscall_def split: option.splits)
  have d3: "\<exists>m. d_files d3 ?p = Some \<lparr>f_content = key_pem ck, f_mode = m\<rparr>"
    using s(3) d2 by (auto simp: write_all_def split: option.splits)
  have d': "(\<exists>m. d_files d' ?c = Some \<lparr>f_content = cert_pem ck, f_mode = m\<rparr>) \<and> d_files d' ?p = d_files d3 ?p"
    using s(4) tls_key_not_cert [of dir dir]
    by (auto simp: fs_write_def io_bind_Ok_iff file_create_def write_all_def syscall_def split: option.splits)
  from ck d3 d' show ?thesis by (auto simp: collect_tls_ips_def split: option.splits)
qed

text \<open>
  C30. The server presents the pair it generated: when the TLS files are set up and then read, the
  identity is the pair of files that were there, if both were, and otherwise one freshly
  generated pair for \<open>localhost\<close> and the configured addresses, never a mix of the two.
\<close>

theorem tls_identity_is_one_pair:
  assumes "generate_tls_creds os gen dir ips d = (Ok (), d')" and "read_tls os' dir d' = (Ok i, d'')"
  shows "if path_exists os (path_join dir TLS_KEY_FILENAME) d \<and> path_exists os (path_join dir TLS_CERT_FILENAME) d
    then d' = d \<and> map_option f_content (d_files d (path_join dir TLS_CERT_FILENAME)) = Some (id_cert i) \<and>
      map_option f_content (d_files d (path_join dir TLS_KEY_FILENAME)) = Some (id_key i)
    else \<exists>ck. gen (''localhost'' # (case ips of None \<Rightarrow> [] | Some s \<Rightarrow> split_comma s)) = Inr ck \<and>
      i = \<lparr>id_cert = cert_pem ck, id_key = key_pem ck\<rparr>"
proof -
  from assms(2) have r: "map_option f_content (d_files d' (path_join dir TLS_CERT_FILENAME)) = Some (id_cert i)"
    "map_option f_content (d_files d' (path_join dir TLS_KEY_FILENAME)) = Some (id_key i)"
    by (auto simp: read_tls_def io_bind_Ok_iff read_to_string_def syscall_def split: option.splits)
  show ?thesis
  proof (cases "path_exists os (path_join dir TLS_KEY_FILENAME) d \<and> path_exists os (path_join dir TLS_CERT_FILENAME) d")
    case True
    with assms(1) have "d' = d" by (simp add: generate_tls_creds_def Let_def)
    with True r show ?thesis by simp
  next
    case False
    from generated_files [OF assms(1) False] r show ?thesis
      unfolding if_not_P [OF False] by (cases i) auto
  qed
qed

theorem tls_identity_is_one_pair_witness:
  "\<exists>i d'. read_tls sample_os ''/d'' (snd (generate_tls_creds sample_os sample_gen ''/d'' None empty_disk)) = (Ok i, d') \<and>
     i = \<lparr>id_cert = ''C'', id_key = ''K''\<rparr>"
proof -
  obtain d' where run: "generate_tls_creds sample_os sample_gen ''/d'' None empty_disk = (Ok (), d')"
    using sample_generate by blast
  then have read: "\<exists>i. read_tls sample_os ''/d'' d' = (Ok i, d')"
    by (auto simp: tls_run_simps)
  then obtain i where i: "read_tls sample_os ''/d'' d' = (Ok i, d')" by blast
  from tls_identity_is_one_pair [OF run i] i run show ?thesis
    by (simp add: path_exists_def empty_disk_def sample_gen_def)
qed

text \<open>
  An interrupted generation is not repaired: when writing the certificate fails, the files that
  are left make every later start succeed without touching them, with the part of the
  certificate that was written.
\<close>

theorem interrupted_certificate_kept:
  assumes "gen (''localhost'' # (case ips of None \<Rightarrow> [] | Some s \<Rightarrow> split_comma s)) = Inr ck"
    and "\<And>fs. os_fails os (SysWrite (path_join dir TLS_CERT_FILENAME) (cert_pem ck)) fs = Some e"
    and "\<And>sc fs. sc \<noteq> SysWrite (path_join dir TLS_CERT_FILENAME) (cert_pem ck) \<Longrightarrow> os_fails os sc fs = None"
    and "d_files d (path_join dir TLS_KEY_FILENAME) = None" and "\<And>p fs. os_fails os' (SysStat p) fs = None"
  shows "\<exists>d'. generate_tls_creds os gen dir ips d = (Err (IoError e), d') \<and>
    generate_tls_creds os' gen' dir ips' d' = (Ok (), d') \<and>
    map_option f_content (d_files d' (path_join dir TLS_CERT_FILENAME)) =
      Some (take (os_written os (path_join dir TLS_CERT_FILENAME)) (cert_pem ck))"
proof -
  have names: "(case collect_tls_ips ips of None \<Rightarrow> [] | Some ips \<Rightarrow> ips) =
      (case ips of None \<Rightarrow> [] | Some s \<Rightarrow> split_comma s)"
    by (simp add: collect_tls_ips_def split: option.split)
  show ?thesis
    using assms(2-5) tls_key_not_cert [of dir dir] tls_key_not_cert [of dir dir, symmetric]
    by (simp add: generate_tls_creds_def Let_def names assms(1) path_exists_def disk_defs io_simps
        split: option.split)
qed

theorem interrupted_certificate_kept_witness:
  "\<exists>d'. generate_tls_creds full_os sample_gen ''/d'' None empty_disk = (Err (IoError ''StorageFull''), d') \<and>
     generate_tls_creds sample_os sample_gen ''/d'' None d' = (Ok (), d') \<and>
     map_option f_content (d_files d' ''/d/tls-cert.pem'') = Some ''''"
  using interrupted_certificate_kept [of sample_gen None "\<lparr>cert_pem = ''C'', key_pem = ''K''\<rparr>" full_os "''/d''"
      "''StorageFull''" empty_disk sample_os sample_gen None]
  by (simp add: full_os_def sample_os_def sample_gen_def empty_disk_def path_join_def TLS_CERT_FILENAME_def)

end
