(* ===== verification/Messenger_Tasks.thy ===== *)
theory Messenger_Tasks
  imports Onion_Messenger Tls_Files
begin

text \<open>
  The tasks \<open>run_onion_messenger\<close> of \<open>src/onion_messenger.rs\<close> spawns around the producers, and how
  they end together: a task whose producer fails triggers the shutdown, which the others listen
  for. A step relation interleaves the ends of the tasks in any order. Also the logging of
  \<open>MessengerUtilities\<close>.
\<close>

section \<open>\<open>MessengerUtilities\<close>\<close>

datatype ldk_level = LvlGossip | LvlTrace | LvlDebug | LvlInfo | LvlWarn | LvlError

datatype log_macro = MacroTrace | MacroDebug | MacroInfo | MacroWarn | MacroError

text \<open>The macro, target and text a record of LDK is logged with, if it is.\<close>

fun MessengerUtilities_log :: "ldk_level \<Rightarrow> string \<Rightarrow> (log_macro \<times> string \<times> string) option" where
  "MessengerUtilities_log LvlGossip args = None"
| "MessengerUtilities_log LvlTrace args = Some (MacroTrace, LDK_LOGGER_NAME, args)"
| "MessengerUtilities_log LvlDebug args = Some (MacroDebug, LDK_LOGGER_NAME, args)"
| "MessengerUtilities_log LvlInfo args = Some (MacroInfo, LDK_LOGGER_NAME, args)"
| "MessengerUtilities_log LvlWarn args = Some (MacroWarn, LDK_LOGGER_NAME, args)"
| "MessengerUtilities_log LvlError args = Some (MacroError, LDK_LOGGER_NAME, args)"

text \<open>The generator of the lightning library is a stream of bytes for each seed; its state is the
  position in the stream. \<open>Default\<close> takes the seed from the system.\<close>

record messenger_utilities =
  mu_seed :: "u8 list"
  mu_position :: nat

definition MessengerUtilities_new :: "u8 list \<Rightarrow> messenger_utilities" where
  "MessengerUtilities_new seed = \<lparr>mu_seed = seed, mu_position = 0\<rparr>"

definition MessengerUtilities_default :: "('w \<Rightarrow> u8 list \<times> 'w) \<Rightarrow> 'w \<Rightarrow> messenger_utilities \<times> 'w" where
  "MessengerUtilities_default os_rng w = (case os_rng w of (chacha_bytes, w') \<Rightarrow> (MessengerUtilities_new chacha_bytes, w'))"

definition MessengerUtilities_get_secure_random_bytes ::
  "(u8 list \<Rightarrow> nat \<Rightarrow> u8 list) \<Rightarrow> messenger_utilities \<Rightarrow> u8 list \<times> messenger_utilities" where
  "MessengerUtilities_get_secure_random_bytes random_bytes mu =
     (random_bytes (mu_seed mu) (mu_position mu), mu\<lparr>mu_position := Suc (mu_position mu)\<rparr>)"

section \<open>The tasks\<close>

text \<open>How a task ends: whether it panicked, and whether it triggered the shutdown before.\<close>

datatype task_outcome = Clean | Panicked

definition task_end :: "('e, unit) res \<Rightarrow> task_outcome \<times> bool" where
  "task_end r = (case r of Ok _ \<Rightarrow> (Clean, False) | Err _ \<Rightarrow> (Clean, True) | Panic _ \<Rightarrow> (Panicked, False))"

definition reconnection_task ::
  "secp \<Rightarrow> 'w client \<Rightarrow> (nat \<Rightarrow> bool) \<Rightarrow> unit select list \<Rightarrow> messenger_event list \<Rightarrow> 'w \<Rightarrow>
   (task_outcome \<times> bool) option" where
  "reconnection_task K c alive ins sent w =
     map_option task_end (fst (receive_reconnection_event K c alive ins sent w))"

text \<open>The subscription is \<open>None\<close> while it is retried, and then a failure or a stream.\<close>

definition peers_task ::
  "secp \<Rightarrow> (status \<Rightarrow> string) \<Rightarrow> (public_key \<Rightarrow> 'w \<Rightarrow> bool \<times> 'w) \<Rightarrow> (nat \<Rightarrow> bool) \<Rightarrow>
   (status + (status + peer_event) select list) option \<Rightarrow> messenger_event list \<Rightarrow> 'w \<Rightarrow>
   (task_outcome \<times> bool) option" where
  "peers_task K sh support alive subscription sent w =
     (case subscription of
        None \<Rightarrow> None
      | Some (Inl e) \<Rightarrow> Some (Clean, True)
      | Some (Inr ins) \<Rightarrow> map_option task_end (fst (produce_peer_events K sh support alive ins sent w)))"

definition messages_task ::
  "secp \<Rightarrow> (status \<Rightarrow> string) \<Rightarrow> (u8 list \<Rightarrow> onion_message option) \<Rightarrow> (nat \<Rightarrow> bool) \<Rightarrow>
   subscription_round list \<Rightarrow> messenger_event list \<Rightarrow> (task_outcome \<times> bool) option" where
  "messages_task K sh read alive rounds sent =
     map_option task_end (fst (subscribe_custom_messages_with_retry K sh read alive rounds sent))"

definition outgoing_task ::
  "(nat \<Rightarrow> bool) \<Rightarrow> unit select list \<Rightarrow> messenger_event list \<Rightarrow> (task_outcome \<times> bool) option" where
  "outgoing_task alive ticks sent = map_option task_end (fst (produce_outgoing_message_events alive ticks sent))"

section \<open>Ending together\<close>

datatype task = Reconnection | PeerEvents | Messages | Outgoing

lemma task_UNIV: "UNIV = {Reconnection, PeerEvents, Messages, Outgoing}"
  by (auto intro: task.exhaust)

instance task :: finite
proof
  show "finite (UNIV :: task set)" unfolding task_UNIV by simp
qed

text \<open>What a task has seen so far.\<close>

datatype 'w task_input =
    InReconnection "'w client" "nat \<Rightarrow> bool" "unit select list" "messenger_event list" 'w
  | InPeers "nat \<Rightarrow> bool" "(status + (status + peer_event) select list) option" "messenger_event list" 'w
  | InMessages "nat \<Rightarrow> bool" "subscription_round list" "messenger_event list"
  | InOutgoing "nat \<Rightarrow> bool" "unit select list" "messenger_event list"

fun task_of :: "'w task_input \<Rightarrow> task" where
  "task_of (InReconnection _ _ _ _ _) = Reconnection"
| "task_of (InPeers _ _ _ _) = PeerEvents"
| "task_of (InMessages _ _ _) = Messages"
| "task_of (InOutgoing _ _ _) = Outgoing"

text \<open>Everything the tasks use that is not theirs.\<close>

record 'w task_env =
  te_secp :: secp
  te_show :: "status \<Rightarrow> string"
  te_support :: "public_key \<Rightarrow> 'w \<Rightarrow> bool \<times> 'w"
  te_read :: "u8 list \<Rightarrow> onion_message option"

fun run_task :: "'w task_env \<Rightarrow> 'w task_input \<Rightarrow> (task_outcome \<times> bool) option" where
  "run_task E (InReconnection c alive ins sent w) = reconnection_task (te_secp E) c alive ins sent w"
| "run_task E (InPeers alive sub sent w) = peers_task (te_secp E) (te_show E) (te_support E) alive sub sent w"
| "run_task E (InMessages alive rounds sent) = messages_task (te_secp E) (te_show E) (te_read E) alive rounds sent"
| "run_task E (InOutgoing alive ticks sent) = outgoing_task alive ticks sent"

text \<open>Whether the input has the signal in it, in some round for the messages.\<close>

fun round_quits :: "subscription_round \<Rightarrow> bool" where
  "round_quits ShutdownRound \<longleftrightarrow> True"
| "round_quits (SubscribeRound (Some (Inr ins))) \<longleftrightarrow> Quit \<in> set ins"
| "round_quits _ \<longleftrightarrow> False"

fun hears_quit :: "'w task_input \<Rightarrow> bool" where
  "hears_quit (InReconnection _ _ ins _ _) \<longleftrightarrow> Quit \<in> set ins"
| "hears_quit (InPeers _ sub _ _) \<longleftrightarrow> (case sub of Some (Inr ins) \<Rightarrow> Quit \<in> set ins | _ \<Rightarrow> False)"
| "hears_quit (InMessages _ rounds _) \<longleftrightarrow> list_ex round_quits rounds"
| "hears_quit (InOutgoing _ ticks _) \<longleftrightarrow> Quit \<in> set ticks"

text \<open>A subscription to the messages that LND refuses for good.\<close>

fun subscription_refused :: "'w task_input \<Rightarrow> bool" where
  "subscription_refused (InMessages _ rounds _) \<longleftrightarrow>
     list_ex (\<lambda>r. case r of SubscribeRound (Some (Inl _)) \<Rightarrow> True | _ \<Rightarrow> False) rounds"
| "subscription_refused _ \<longleftrightarrow> False"

record tasks_state =
  ts_ended :: "task \<Rightarrow> task_outcome option"
  ts_shutdown :: bool

definition tasks_init :: tasks_state where
  "tasks_init = \<lparr>ts_ended = (\<lambda>_. None), ts_shutdown = False\<rparr>"

text \<open>A step: the shutdown is triggered from outside, or a task ends on what it has seen; a
  listener has heard the signal only if it was given.\<close>

inductive task_step :: "'w task_env \<Rightarrow> tasks_state \<Rightarrow> tasks_state \<Rightarrow> bool" for E :: "'w task_env" where
  signalled: "task_step E s (s\<lparr>ts_shutdown := True\<rparr>)"
| ends: "ts_ended s (task_of i) = None \<Longrightarrow> run_task E i = Some (outcome, triggers) \<Longrightarrow>
    (hears_quit i \<Longrightarrow> ts_shutdown s) \<Longrightarrow>
    task_step E s \<lparr>ts_ended = (ts_ended s)(task_of i \<mapsto> outcome), ts_shutdown = ts_shutdown s \<or> triggers\<rparr>"

inductive_cases task_stepE: "task_step E s s'"


section \<open>Properties\<close>

lemma task_end_quiet [simp]: "task_end r = (Clean, False) \<longleftrightarrow> r = Ok ()"
  by (cases r) (simp_all add: task_end_def)

lemma reconnection_quiet:
  "fst (receive_reconnection_event K c alive ins sent w) = Some (Ok ()) \<Longrightarrow> Quit \<in> set ins"
  by (induction K c alive ins sent w rule: receive_reconnection_event.induct)
    (auto split: option.splits sum.splits res.splits prod.splits bool.splits)

lemma messages_quiet:
  "fst (subscribe_custom_messages_with_retry K sh read alive rounds sent) = Some (Ok ()) \<Longrightarrow>
   list_ex round_quits rounds \<or>
   list_ex (\<lambda>r. case r of SubscribeRound (Some (Inl _)) \<Rightarrow> True | _ \<Rightarrow> False) rounds"
proof (induction K sh read alive rounds sent rule: subscribe_custom_messages_with_retry.induct)
  case (5 K sh read alive ins rounds sent)
  obtain r sent' where p: "produce_incoming_message_events K sh read alive ins sent = (r, sent')" by fastforce
  have "Quit \<in> set ins" if "r = Some (Ok ())"
    using messages_producer.quit_stops [where K = K and sh = sh and read = read and alive = alive
        and ins = ins and sent = sent and w = "()"] p that by simp
  with 5 p show ?case by (auto split: option.splits res.splits)
qed auto

lemma quiet_end:
  assumes "run_task E i = Some (Clean, False)"
  shows "hears_quit i \<or> subscription_refused i"
proof (cases i)
  case (InReconnection c alive ins sent w)
  with assms show ?thesis by (auto simp: reconnection_task_def dest: reconnection_quiet)
next
  case (InPeers alive sub sent w)
  with assms show ?thesis
    using peers_producer.quit_stops [where K = "te_secp E" and sh = "te_show E" and support = "te_support E"
        and alive = alive and sent = sent and w = w]
    by (auto simp: peers_task_def split: option.splits sum.splits)
next
  case (InMessages alive rounds sent)
  with assms show ?thesis by (auto simp: messages_task_def dest: messages_quiet)
next
  case (InOutgoing alive ticks sent)
  with assms show ?thesis
    using outgoing_producer.quit_stops [where alive = alive and ins = ticks and sent = sent and w = "()"]
    by (auto simp: outgoing_task_def case_prod_beta)
qed

definition quiet_ends_explained :: "tasks_state \<Rightarrow> bool" where
  "quiet_ends_explained s \<longleftrightarrow> (\<forall>t. ts_ended s t = Some Clean \<longrightarrow> ts_shutdown s \<or> t = Messages)"

lemma step_explained:
  assumes "task_step E s s'" and "quiet_ends_explained s"
  shows "quiet_ends_explained s'"
  using assms(1)
proof cases
  case (ends i outcome triggers)
  have "ts_shutdown s \<or> triggers \<or> task_of i = Messages" if "outcome = Clean"
    using quiet_end [of E i] ends that by (cases i; cases triggers) auto
  with ends assms(2) show ?thesis by (auto simp: quiet_ends_explained_def)
qed (simp add: quiet_ends_explained_def)

text \<open>
  C26. No producer stops unnoticed: in every state the tasks can reach, in whatever order they end, a
  task that has ended without a panic leaves the shutdown triggered, so that the others stop
  too. The one exception is the task that receives messages.
\<close>

theorem no_task_stops_unnoticed:
  assumes "(task_step E)\<^sup>*\<^sup>* tasks_init s" and "ts_ended s t = Some Clean" and "t \<noteq> Messages"
  shows "ts_shutdown s"
proof -
  from assms(1) have "quiet_ends_explained s"
  proof (induction rule: rtranclp_induct)
    case base
    show ?case by (simp add: quiet_ends_explained_def tasks_init_def)
  qed (rule step_explained)
  with assms(2,3) show ?thesis by (auto simp: quiet_ends_explained_def)
qed

definition sample_env :: "nat task_env" where
  "sample_env = \<lparr>te_secp = sample_secp, te_show = (\<lambda>_. ''''), te_support = (\<lambda>_ w. (True, w)),
     te_read = (\<lambda>bs. Some (OnionMessage bs))\<rparr>"

lemma end_task:
  assumes "ts_ended s (task_of i) = None" and "run_task E i = Some (outcome, triggers)"
    and "hears_quit i \<Longrightarrow> ts_shutdown s"
  shows "(task_step E)\<^sup>*\<^sup>* s \<lparr>ts_ended = (ts_ended s)(task_of i \<mapsto> outcome), ts_shutdown = ts_shutdown s \<or> triggers\<rparr>"
  using task_step.ends [OF assms] by (rule r_into_rtranclp)

theorem no_task_stops_unnoticed_witness:
  "\<exists>s. (task_step sample_env)\<^sup>*\<^sup>* tasks_init s \<and> ts_ended s Outgoing = Some Clean \<and> ts_shutdown s"
proof -
  let ?i = "InOutgoing (\<lambda>_. False) [Received ()] [] :: nat task_input"
  let ?s = "\<lparr>ts_ended = (ts_ended tasks_init)(Outgoing \<mapsto> Clean), ts_shutdown = ts_shutdown tasks_init \<or> True\<rparr>"
  have r: "(task_step sample_env)\<^sup>*\<^sup>* tasks_init ?s"
    using end_task [of tasks_init ?i sample_env Clean True]
    by (simp add: tasks_init_def outgoing_task_def send_event_def task_end_def)
  have "ts_ended ?s Outgoing = Some Clean" by simp
  from no_task_stops_unnoticed [OF r this] r show ?thesis by (intro exI [of _ ?s]) simp
qed

text \<open>
  The exception is real: when LND refuses the subscription to messages for good, their task ends
  without a trigger, and the daemon runs on without receiving onion messages.
\<close>

theorem messages_task_stops_unnoticed:
  "\<exists>s. (task_step E)\<^sup>*\<^sup>* tasks_init s \<and> ts_ended s Messages = Some Clean \<and> \<not> ts_shutdown s \<and>
     ts_ended s = [Messages \<mapsto> Clean]"
proof -
  let ?i = "InMessages (\<lambda>_. True) [SubscribeRound (Some (Inl (Status_new CodeUnknown '''')))] []"
  let ?s = "\<lparr>ts_ended = (ts_ended tasks_init)(Messages \<mapsto> Clean), ts_shutdown = False\<rparr>"
  have "(task_step E)\<^sup>*\<^sup>* tasks_init ?s"
    using end_task [of tasks_init ?i E Clean False]
    by (simp add: tasks_init_def messages_task_def task_end_def)
  then show ?thesis by (intro exI [of _ ?s]) (simp add: tasks_init_def)
qed

text \<open>
  What the shutdown waits for: while LND cannot be reached, the reconnection task retries without
  listening for the signal, so it does not end, whatever signals come after.
\<close>

theorem shutdown_waits_for_lnd:
  assumes "\<forall>n. call_retries (lc_list_peers c) False n w"
  shows "reconnection_task K c alive (Received () # ins) sent w = None"
  by (rule infinite_retries_outcome [of "lc_list_peers c" False w False])
    (use assms in \<open>simp_all add: reconnection_task_def list_peers_with_retries_def\<close>)

lemma offline_retries: "call_retries (lc_list_peers offline_client) r n w"
proof -
  have "after_calls (lc_list_peers offline_client) r n w = w"
    by (induction n arbitrary: w) (simp_all add: offline_client_def unavailable_def)
  then show ?thesis
    by (simp add: call_retries_def offline_client_def unavailable_def Status_new_def is_retryable_error_def)
qed

theorem shutdown_waits_for_lnd_witness:
  "reconnection_task sample_secp offline_client (\<lambda>_. True) [Received (), Quit] [] (0 :: nat) = None"
  by (rule shutdown_waits_for_lnd) (simp add: offline_retries)

end
