(* ===== verification/Pipeline.thy ===== *)
theory Pipeline
  imports Messenger_Tasks "HOL-Library.Sublist"
begin

text \<open>
  The messenger as a whole (\<open>run_onion_messenger\<close> of \<open>src/onion_messenger.rs\<close>): the events of the four
  tasks meet in one channel, which keeps the order of each sender and nothing else, and the consumer
  takes them from there through the rate limiter to the messenger of the lightning library. Shown:
  what the messenger is handed are messages LND received, in order, and a peer that keeps to the rate limit
  loses none, subscriptions that break included.
\<close>

section \<open>The channel\<close>

text \<open>The orders in which a channel may deliver what its senders sent.\<close>

fun interleavings :: "'a list list \<Rightarrow> 'a list set" where
  "interleavings [] = {[]}"
| "interleavings (xs # xss) = (\<Union>ys\<in>interleavings xss. shuffles xs ys)"

text \<open>What a task sends, from the events it had sent before.\<close>

fun sent_by :: "'w task_env \<Rightarrow> 'w task_input \<Rightarrow> messenger_event list" where
  "sent_by E (InReconnection c alive ins sent w) = fst (snd (receive_reconnection_event (te_secp E) c alive ins sent w))"
| "sent_by E (InPeers alive sub sent w) =
     (case sub of
        Some (Inr ins) \<Rightarrow> fst (snd (produce_peer_events (te_secp E) (te_show E) (te_support E) alive ins sent w))
      | _ \<Rightarrow> sent)"
| "sent_by E (InMessages alive rounds sent) =
     snd (subscribe_custom_messages_with_retry (te_secp E) (te_show E) (te_read E) alive rounds sent)"
| "sent_by E (InOutgoing alive ticks sent) = snd (produce_outgoing_message_events alive ticks sent)"

text \<open>The onion messages among events, and among what the subscriptions to LND yielded.\<close>

fun message_of :: "messenger_event \<Rightarrow> (public_key \<times> onion_message) option" where
  "message_of (IncomingMessage k m) = Some (k, m)"
| "message_of _ = None"

definition messages_of :: "messenger_event list \<Rightarrow> (public_key \<times> onion_message) list" where
  "messages_of es = List.map_filter message_of es"

fun onion_message_of ::
  "'w task_env \<Rightarrow> (status + custom_message) select \<Rightarrow> (public_key \<times> onion_message) option" where
  "onion_message_of E (Received (Inr m)) = Option.bind (message_event (te_secp E) (te_read E) m) message_of"
| "onion_message_of E _ = None"

fun round_messages :: "'w task_env \<Rightarrow> subscription_round \<Rightarrow> (public_key \<times> onion_message) list" where
  "round_messages E (SubscribeRound (Some (Inr ins))) = List.map_filter (onion_message_of E) ins"
| "round_messages E _ = []"

definition received_messages :: "'w task_env \<Rightarrow> subscription_round list \<Rightarrow> (public_key \<times> onion_message) list" where
  "received_messages E rounds = concat (map (round_messages E) rounds)"

section \<open>Only the messages of LND\<close>

lemma messages_of_simps [simp]:
  "messages_of [] = []" "messages_of (es @ es') = messages_of es @ messages_of es'"
  "messages_of (e # es) = (case message_of e of Some x \<Rightarrow> [x] | None \<Rightarrow> []) @ messages_of es"
  by (simp_all add: messages_of_def List.map_filter_def split: option.split)

lemma messages_of_shuffles:
  "zs \<in> shuffles xs ys \<Longrightarrow> messages_of ys = [] \<Longrightarrow> messages_of zs = messages_of xs"
  by (induction xs ys arbitrary: zs rule: shuffles.induct) (auto split: option.splits)

lemma messages_of_send_event: "message_of e = None \<Longrightarrow> messages_of (snd (send_event alive e sent)) = messages_of sent"
  by (simp add: send_event_def)

text \<open>The other three tasks send no messages.\<close>

lemma messages_of_send_all:
  "(\<forall>e\<in>set es. message_of e = None) \<Longrightarrow> messages_of (snd (send_all alive es sent)) = messages_of sent"
  by (induction alive es sent rule: send_all.induct) (auto simp: send_event_def)

lemma reconnection_messages:
  "messages_of (fst (snd (receive_reconnection_event K c alive ins sent w))) = messages_of sent"
proof (induction K c alive ins sent w rule: receive_reconnection_event.induct)
  case (3 K c alive x ins sent w)
  have "messages_of (snd (send_all alive (connected_events ps) sent)) = messages_of sent" for ps
    by (rule messages_of_send_all) (auto simp: connected_events_def)
  then have "send_all alive (connected_events ps) sent = (b, sent') \<Longrightarrow> messages_of sent' = messages_of sent" for ps b sent'
    by (metis snd_conv)
  with 3 show ?case by (auto split: option.split prod.split sum.split res.split bool.split)
qed simp_all

lemma peers_messages:
  "messages_of (fst (snd (produce_peer_events K sh support alive ins sent w))) = messages_of sent"
  by (induction K sh support alive ins sent w rule: produce_peer_events.induct)
    (auto simp: send_event_def split: option.split prod.split peer_event_type.split)

lemma outgoing_messages: "messages_of (snd (produce_outgoing_message_events alive ticks sent)) = messages_of sent"
  by (induction alive ticks sent rule: produce_outgoing_message_events.induct) (auto simp: send_event_def)

text \<open>The messages task sends on some of what it receives, in order.\<close>

lemma map_filter_Cons [simp]:
  "List.map_filter f (x # xs) = (case f x of Some y \<Rightarrow> [y] | None \<Rightarrow> []) @ List.map_filter f xs"
  "List.map_filter f [] = []"
  by (simp_all add: List.map_filter_def split: option.split)

lemma produced_messages:
  "\<exists>ms. messages_of (snd (produce_incoming_message_events (te_secp E) sh (te_read E) alive ins sent)) = messages_of sent @ ms \<and>
     subseq ms (List.map_filter (onion_message_of E) ins)"
proof (induction ins arbitrary: sent)
  case (Cons i ins)
  have skip: ?case if "produce_incoming_message_events (te_secp E) sh (te_read E) alive (i # ins) sent =
      produce_incoming_message_events (te_secp E) sh (te_read E) alive ins sent"
    using Cons.IH [of sent] that by (auto split: option.split)
  have stop: ?case if "messages_of (snd (produce_incoming_message_events (te_secp E) sh (te_read E) alive (i # ins) sent)) =
      messages_of sent"
    using that by (intro exI [of _ "[]"]) simp
  show ?case
  proof (cases "\<exists>msg k m. i = Received (Inr msg) \<and> cm_type msg = ONION_MESSAGE_TYPE \<and>
      pk_from_slice (te_secp E) (cm_peer msg) = Some k \<and> te_read E (cm_data msg) = Some m \<and> alive (length sent)")
    case True
    then obtain msg k m where m: "i = Received (Inr msg)" "cm_type msg = ONION_MESSAGE_TYPE"
      "pk_from_slice (te_secp E) (cm_peer msg) = Some k" "te_read E (cm_data msg) = Some m" "alive (length sent)" by blast
    from Cons.IH [of "sent @ [IncomingMessage k m]"] obtain ms where
      "messages_of (snd (produce_incoming_message_events (te_secp E) sh (te_read E) alive ins
         (sent @ [IncomingMessage k m]))) = messages_of sent @ (k, m) # ms"
      "subseq ms (List.map_filter (onion_message_of E) ins)" by auto
    with m show ?thesis
      by (intro exI [of _ "(k, m) # ms"]) (simp add: send_event_def message_event_def)
  next
    case False
    then have "produce_incoming_message_events (te_secp E) sh (te_read E) alive (i # ins) sent =
          produce_incoming_message_events (te_secp E) sh (te_read E) alive ins sent \<or>
        messages_of (snd (produce_incoming_message_events (te_secp E) sh (te_read E) alive (i # ins) sent)) = messages_of sent"
      by (cases "(te_secp E, sh, te_read E, alive, i # ins, sent)" rule: produce_incoming_message_events.cases)
        (auto simp: send_event_def split: option.split)
    with skip stop show ?thesis by blast
  qed
qed simp

lemma subscribed_messages:
  "\<exists>ms. messages_of (snd (subscribe_custom_messages_with_retry (te_secp E) sh (te_read E) alive rounds sent)) =
      messages_of sent @ ms \<and> subseq ms (received_messages E rounds)"
proof (induction rounds arbitrary: sent)
  case (Cons round rounds)
  show ?case
  proof (cases "\<exists>ins. round = SubscribeRound (Some (Inr ins))")
    case True
    then obtain ins where round: "round = SubscribeRound (Some (Inr ins))" ..
    obtain r sent' where p: "produce_incoming_message_events (te_secp E) sh (te_read E) alive ins sent = (r, sent')" by fastforce
    with produced_messages [of E sh alive ins sent] obtain ms where
      ms: "messages_of sent' = messages_of sent @ ms" "subseq ms (List.map_filter (onion_message_of E) ins)" by auto
    obtain ms' where ms': "subseq ms' (received_messages E rounds)"
      "messages_of (snd (subscribe_custom_messages_with_retry (te_secp E) sh (te_read E) alive rounds sent')) =
        messages_of sent' @ ms'" using Cons.IH [of sent'] by blast
    have "messages_of (snd (subscribe_custom_messages_with_retry (te_secp E) sh (te_read E) alive (round # rounds) sent)) =
        messages_of sent @ ms @ (case r of Some (Err e) \<Rightarrow> ms' | _ \<Rightarrow> [])"
    proof (cases r)
      case (Some x)
      with round p ms(1) ms'(2) show ?thesis by (cases x) (simp_all add: case_unit_Unity)
    qed (use round p ms(1) in simp)
    moreover have "subseq (ms @ (case r of Some (Err e) \<Rightarrow> ms' | _ \<Rightarrow> [])) (received_messages E (round # rounds))"
      unfolding received_messages_def round
      using ms(2) ms'(1) by (simp add: received_messages_def list_emb_append_mono split: option.split res.split)
    ultimately show ?thesis by blast
  next
    case False
    then have "snd (subscribe_custom_messages_with_retry (te_secp E) sh (te_read E) alive (round # rounds) sent) = sent"
      by (cases "(te_secp E, sh, te_read E, alive, round # rounds, sent)"
          rule: subscribe_custom_messages_with_retry.cases) auto
    then show ?thesis by (intro exI [of _ "[]"]) simp
  qed
qed simp

lemma consumed_messages:
  "consume_loop K M R send nets es st = (r, st') \<Longrightarrow>
   \<exists>ds. cs_delivered st' = cs_delivered st @ ds \<and> subseq ds (messages_of es)"
proof (induction es arbitrary: st)
  case (Cons e es)
  obtain r1 st1 where e: "consume_event K M R send nets e st = (r1, st1)" by fastforce
  then have "cs_delivered st1 = cs_delivered st \<or>
      cs_delivered st1 = cs_delivered st @ (case message_of e of Some x \<Rightarrow> [x] | None \<Rightarrow> [])"
    by (cases e) (auto simp: consume_event_def split: prod.splits bool.splits)
  then obtain d where d: "cs_delivered st1 = cs_delivered st @ d"
    "subseq d (case message_of e of Some x \<Rightarrow> [x] | None \<Rightarrow> [])"
    by (metis append_Nil2 list_emb_Nil subseq_order.order_refl)
  show ?case
  proof (cases "r1 = Ok ()")
    case True
    with Cons.prems e have "consume_loop K M R send nets es st1 = (r, st')" by simp
    from Cons.IH [OF this] obtain ds where "cs_delivered st' = cs_delivered st1 @ ds" "subseq ds (messages_of es)" by blast
    with d show ?thesis by (intro exI [of _ "d @ ds"]) (auto intro: list_emb_append_mono)
  next
    case False
    with Cons.prems e have "st' = st1" by (cases r1) auto
    with d show ?thesis by (intro exI [of _ d]) auto
  qed
qed simp

text \<open>What the four tasks of \<open>run_onion_messenger\<close> send, each from its start.\<close>

definition channel_events ::
  "'w task_env \<Rightarrow> 'w client \<Rightarrow> (task \<Rightarrow> nat \<Rightarrow> bool) \<Rightarrow> unit select list \<Rightarrow>
   (status + (status + peer_event) select list) option \<Rightarrow> subscription_round list \<Rightarrow> unit select list \<Rightarrow> 'w \<Rightarrow>
   messenger_event list set" where
  "channel_events E c alive reconnects peer_sub rounds ticks w =
     interleavings (map (sent_by E)
       [InReconnection c (alive Reconnection) reconnects [] w, InPeers (alive PeerEvents) peer_sub [] w,
        InMessages (alive Messages) rounds [], InOutgoing (alive Outgoing) ticks []])"

lemma channel_messages:
  assumes "events \<in> channel_events E c alive reconnects peer_sub rounds ticks w"
  shows "messages_of events = messages_of (sent_by E (InMessages (alive Messages) rounds []))"
proof -
  have peers: "messages_of (sent_by E (InPeers a sub [] w)) = []" for a sub
    by (auto simp: peers_messages split: option.split sum.split)
  from assms obtain xs ys zs where "events \<in> shuffles (sent_by E (InReconnection c (alive Reconnection) reconnects [] w)) xs"
    "xs \<in> shuffles (sent_by E (InPeers (alive PeerEvents) peer_sub [] w)) ys"
    "ys \<in> shuffles (sent_by E (InMessages (alive Messages) rounds [])) zs"
    "zs = sent_by E (InOutgoing (alive Outgoing) ticks [])"
    unfolding channel_events_def by auto
  then show ?thesis
    using messages_of_shuffles [of events xs] messages_of_shuffles [of xs ys] messages_of_shuffles [of ys _ zs] peers
    by (metis messages_of_simps(1) outgoing_messages reconnection_messages sent_by.simps(1,4) shuffles_commutes)
qed

lemma connected_events_messages [simp]: "messages_of (connected_events ps) = []"
  by (induction ps) (auto simp: connected_events_def)

lemma run_onion_messenger_runs:
  assumes "run_onion_messenger K ch M clk c m net cfg events tasks w = (r, Some st')"
  obtains ps w' r' where "get_current_peers K c w = (Ok ps, w')"
    "consume_loop K M token_limiter_ops (CustomMessenger_send c) [ch net] (connected_events ps @ events)
       \<lparr>cs_messenger = m, cs_limiter = TokenLimiter_new (keys_of ps) (cfg_call_count cfg) (cfg_call_period_secs cfg) clk,
        cs_world = w', cs_spawned = [], cs_delivered = []\<rparr> = (r', st')"
    "r = Ok () \<Longrightarrow> r' = Ok ()"
  using assms
  by (auto simp: run_onion_messenger_def consume_messenger_events_def Let_def split: prod.splits res.splits if_splits)

text \<open>A subscription that yields messages until its stream breaks.\<close>

definition stream_round :: "custom_message list \<times> status \<Rightarrow> subscription_round" where
  "stream_round p = SubscribeRound (Some (Inr (map (\<lambda>m. Received (Inr m)) (fst p) @ [Received (Inl (snd p))])))"

text \<open>A run for witnesses: one peer sends one message, and then the subscription breaks.\<close>

definition sample_peer_client :: "nat client" where
  "sample_peer_client = offline_client\<lparr>lc_list_peers := (\<lambda>_ w.
     (Inr [\<lparr>peer_pub_key = pk_to_string sample_secp (PublicKey 7), peer_features = []\<rparr>], w))\<rparr>"

definition sample_streams :: "(custom_message list \<times> status) list" where
  "sample_streams = [([\<lparr>cm_peer = pk_serialize sample_secp (PublicKey 7), cm_type = 513, cm_data = [2]\<rparr>],
       Status_new CodeUnknown ''''),
     ([\<lparr>cm_peer = pk_serialize sample_secp (PublicKey 7), cm_type = 513, cm_data = [3]\<rparr>], Status_new CodeUnknown '''')]"

definition sample_events :: "messenger_event list" where
  "sample_events = [IncomingMessage (PublicKey 7) (OnionMessage [2]), ProducerExit IncomingMessageProducerExit,
     IncomingMessage (PublicKey 7) (OnionMessage [3]), ProducerExit IncomingMessageProducerExit]"

definition sample_limit :: rate_limiter_cfg where
  "sample_limit = \<lparr>cfg_call_count = 1, cfg_call_period_secs = 100\<rparr>"

lemma sample_secp_keys [simp]:
  "pk_from_slice sample_secp (pk_serialize sample_secp k) = Some k"
  "pk_from_str sample_secp (pk_to_string sample_secp k) = Some k"
  using sample_secp_documented by (simp_all add: secp_documented_def)

lemma sample_env_secp: "te_secp sample_env = sample_secp"
  by (simp add: sample_env_def)

lemma sample_channel:
  "sample_events \<in> channel_events sample_env sample_peer_client (\<lambda>_ _. True) [] None (map stream_round sample_streams) [] 0"
  by (simp add: channel_events_def sample_streams_def sample_events_def stream_round_def sample_env_def
      send_event_def ONION_MESSAGE_TYPE_def)

lemma sample_received:
  "received_messages sample_env (map stream_round sample_streams) = [(PublicKey 7, OnionMessage [2]), (PublicKey 7, OnionMessage [3])]"
  by (simp add: received_messages_def sample_streams_def stream_round_def message_event_def sample_env_def
      ONION_MESSAGE_TYPE_def)

lemma sample_current_peers:
  obtains b where "get_current_peers sample_secp sample_peer_client 0 = (Ok [(PublicKey 7, b)], 0)"
  by (simp add: get_current_peers_def sample_peer_client_def io_simps)

lemma sample_messenger_accepts: "\<exists>st'. consume_loop K sample_messenger R send nets es st = (Ok (), st')"
proof (induction es arbitrary: st)
  case (Cons e es)
  have "\<exists>st1. consume_event K sample_messenger R send nets e st = (Ok (), st1)"
    by (cases e) (auto simp: consume_event_def sample_messenger_def split: prod.split bool.split)
  with Cons.IH show ?case by fastforce
qed simp

lemma sample_pipeline:
  obtains st' where "run_onion_messenger sample_secp (\<lambda>_. []) sample_messenger (\<lambda>i. 200 * i) sample_peer_client () Bitcoin
     sample_limit sample_events [] 0 = (Ok (), Some st')"
proof (rule sample_current_peers)
  fix b assume ps: "get_current_peers sample_secp sample_peer_client 0 = (Ok [(PublicKey 7, b)], 0)"
  obtain st' where "consume_messenger_events sample_secp (\<lambda>_. []) sample_messenger token_limiter_ops
      (CustomMessenger_send sample_peer_client) Bitcoin (connected_events [(PublicKey 7, b)] @ sample_events)
      \<lparr>cs_messenger = (), cs_limiter = TokenLimiter_new [PublicKey 7] (cfg_call_count sample_limit)
         (cfg_call_period_secs sample_limit) (\<lambda>i. 200 * i), cs_world = 0, cs_spawned = [], cs_delivered = []\<rparr> = (Ok (), st')"
    unfolding consume_messenger_events_def using sample_messenger_accepts by blast
  with ps that show thesis by (simp add: run_onion_messenger_def)
qed

text \<open>
  C17. Only what LND received: whatever the four tasks do and however the channel interleaves what
  they send, the messages handed to the messenger are onion messages LND yielded to a subscription,
  each with the peer LND named, in the order received over all subscriptions and no oftener.
\<close>

theorem delivered_messages_received:
  assumes "events \<in> channel_events E c alive reconnects peer_sub rounds ticks w1"
    and "run_onion_messenger (te_secp E) ch M clk c m net cfg events tasks w = (r, Some st')"
  shows "subseq (cs_delivered st') (received_messages E rounds)"
proof -
  obtain ps w' r' where "consume_loop (te_secp E) M token_limiter_ops (CustomMessenger_send c) [ch net]
       (connected_events ps @ events)
       \<lparr>cs_messenger = m, cs_limiter = TokenLimiter_new (keys_of ps) (cfg_call_count cfg) (cfg_call_period_secs cfg) clk,
        cs_world = w', cs_spawned = [], cs_delivered = []\<rparr> = (r', st')"
    by (rule run_onion_messenger_runs [OF assms(2)])
  from consumed_messages [OF this] have "subseq (cs_delivered st') (messages_of events)" by simp
  also have "subseq (messages_of events) (received_messages E rounds)"
    using channel_messages [OF assms(1)] subscribed_messages [of E "te_show E" "alive Messages" rounds "[]"] by auto
  finally show ?thesis .
qed

theorem delivered_messages_received_witness:
  "\<exists>st'. run_onion_messenger sample_secp (\<lambda>_. []) sample_messenger (\<lambda>i. 200 * i) sample_peer_client () Bitcoin
       sample_limit sample_events [] 0 = (Ok (), Some st') \<and>
     subseq (cs_delivered st') [(PublicKey 7, OnionMessage [2]), (PublicKey 7, OnionMessage [3])]"
proof (rule sample_pipeline)
  fix st' assume run: "run_onion_messenger sample_secp (\<lambda>_. []) sample_messenger (\<lambda>i. 200 * i) sample_peer_client ()
      Bitcoin sample_limit sample_events [] 0 = (Ok (), Some st')"
  from delivered_messages_received [OF sample_channel, unfolded sample_env_secp, OF run] run sample_received
  show ?thesis by auto
qed

section \<open>Nothing lost within the rate limit\<close>

text \<open>LND names the peers of onion messages by their keys.\<close>

definition senders_valid :: "secp \<Rightarrow> (custom_message list \<times> status) list \<Rightarrow> bool" where
  "senders_valid K streams \<longleftrightarrow> list_all (\<lambda>p. list_all (\<lambda>m. cm_type m = ONION_MESSAGE_TYPE \<longrightarrow>
     pk_from_slice K (cm_peer m) \<noteq> None) (fst p)) streams"

lemma stream_forwarded:
  assumes "\<forall>n. alive n" and "list_all (\<lambda>m. cm_type m = ONION_MESSAGE_TYPE \<longrightarrow>
     pk_from_slice (te_secp E) (cm_peer m) \<noteq> None) ms"
  shows "\<exists>e sent'. produce_incoming_message_events (te_secp E) sh (te_read E) alive
      (map (\<lambda>m. Received (Inr m)) ms @ [Received (Inl s)]) sent = (Some (Err e), sent') \<and>
    messages_of sent' = messages_of sent @ List.map_filter (onion_message_of E) (map (\<lambda>m. Received (Inr m)) ms)"
  using assms(2)
proof (induction ms arbitrary: sent)
  case (Cons m ms)
  from Cons.prems have "list_all (\<lambda>m. cm_type m = ONION_MESSAGE_TYPE \<longrightarrow>
     pk_from_slice (te_secp E) (cm_peer m) \<noteq> None) ms" by simp
  note IH = Cons.IH [OF this]
  show ?case
  proof (cases "message_event (te_secp E) (te_read E) m")
    case None
    with Cons.prems IH [of sent] show ?thesis
      by (auto simp: message_event_def split: option.splits if_splits)
  next
    case (Some e)
    then obtain k om where "cm_type m = ONION_MESSAGE_TYPE" "pk_from_slice (te_secp E) (cm_peer m) = Some k"
      "te_read E (cm_data m) = Some om" "e = IncomingMessage k om"
      by (auto simp: message_event_def split: option.splits if_splits)
    with Some IH [of "sent @ [e]"] assms(1) show ?thesis by (auto simp: send_event_def)
  qed
qed (simp add: send_event_def assms(1))

lemma streams_forwarded:
  assumes "\<forall>n. alive n" and "senders_valid (te_secp E) streams"
  shows "messages_of (snd (subscribe_custom_messages_with_retry (te_secp E) sh (te_read E) alive
      (map stream_round streams) sent)) = messages_of sent @ received_messages E (map stream_round streams)"
  using assms(2)
proof (induction streams arbitrary: sent)
  case (Cons p streams)
  obtain ms s where p: "p = (ms, s)" by fastforce
  with Cons.prems have v: "list_all (\<lambda>m. cm_type m = ONION_MESSAGE_TYPE \<longrightarrow> pk_from_slice (te_secp E) (cm_peer m) \<noteq> None) ms"
    "senders_valid (te_secp E) streams" by (simp_all add: senders_valid_def)
  from stream_forwarded [where sh = sh and s = s and sent = sent, OF assms(1) v(1)] obtain e sent' where
    "produce_incoming_message_events (te_secp E) sh (te_read E) alive
      (map (\<lambda>m. Received (Inr m)) ms @ [Received (Inl s)]) sent = (Some (Err e), sent')"
    "messages_of sent' = messages_of sent @ List.map_filter (onion_message_of E) (map (\<lambda>m. Received (Inr m)) ms)" by blast
  moreover have "List.map_filter (onion_message_of E) (xs @ [Received (Inl s)]) = List.map_filter (onion_message_of E) xs" for xs
    by (induction xs) (auto split: option.split)
  ultimately show ?case
    using Cons.IH [OF v(2), of sent'] by (simp add: p stream_round_def received_messages_def)
qed (simp add: received_messages_def)

lemma queries_of:
  "count_list (concat (map limiter_ops_of es)) (OpQuery k) = length (filter (\<lambda>d. fst d = k) (messages_of es))"
  "OpDisconnected k \<in> set (concat (map limiter_ops_of es)) \<longleftrightarrow> PeerDisconnected k \<in> set es"
proof -
  show "count_list (concat (map limiter_ops_of es)) (OpQuery k) = length (filter (\<lambda>d. fst d = k) (messages_of es))"
  proof (induction es)
    case (Cons e es)
    then show ?case by (cases e) auto
  qed simp
  show "OpDisconnected k \<in> set (concat (map limiter_ops_of es)) \<longleftrightarrow> PeerDisconnected k \<in> set es"
  proof (induction es)
    case (Cons e es)
    then show ?case by (cases e) auto
  qed simp
qed

context serving_limiter begin

lemma consumed_when_paced:
  assumes "consume_loop K M R send nets es st = (Ok (), st')" and "invar (cs_limiter st)" and "cs_delivered st = []"
    and "k \<in> set (rl_peers R (cs_limiter st))" and "PeerDisconnected k \<notin> set es"
    and "0 < quota (cs_limiter st)" and "budget (cs_limiter st) k = quota (cs_limiter st)"
    and "paced (quota (cs_limiter st)) (period (cs_limiter st))
      (query_times R stamp time k (concat (map limiter_ops_of es)) (cs_limiter st))"
  shows "filter (\<lambda>d. fst d = k) (cs_delivered st') = filter (\<lambda>d. fst d = k) (messages_of es)"
proof (rule subseq_same_length)
  have "run_ops R k (concat (map limiter_ops_of es)) (cs_limiter st) =
      (length (filter (\<lambda>d. fst d = k) (cs_delivered st')), cs_limiter st')"
    using consume_loop_runs [OF assms(1), of k] assms(3) by (auto simp: delivered_from_def)
  from run_ops_serves [OF assms(2,4) _ assms(6), of _ "[]", OF _ _ _ _ this] assms(5,7,8)
  show "length (filter (\<lambda>d. fst d = k) (cs_delivered st')) = length (filter (\<lambda>d. fst d = k) (messages_of es))"
    unfolding queries_of by simp
  show "subseq (filter (\<lambda>d. fst d = k) (cs_delivered st')) (filter (\<lambda>d. fst d = k) (messages_of es))"
    using consumed_messages [OF assms(1)] assms(3) by (auto intro: subseq_filter)
qed

end

lemma new_limiter:
  assumes "k \<in> set ps"
  shows "k \<in> set (peers (TokenLimiter_new ps n freq c))" and "limiter_budget (TokenLimiter_new ps n freq c) k = unat n"
proof -
  have "map_of (fold (\<lambda>p. AList.update p (PeerRecord_new True n)) ps xs) =
      (\<lambda>k. if k \<in> set ps then Some (PeerRecord_new True n) else map_of xs k)" for xs
    by (induction ps arbitrary: xs) auto
  then have m: "map_of (peer_map (TokenLimiter_new ps n freq c)) k = Some (PeerRecord_new True n)"
    using assms by (simp add: TokenLimiter_new_def)
  from map_of_SomeD [OF m] show "k \<in> set (peers (TokenLimiter_new ps n freq c))"
    by (force simp: peers_def PeerRecord_new_def)
  from m show "limiter_budget (TokenLimiter_new ps n freq c) k = unat n"
    by (simp add: limiter_budget_def PeerRecord_new_def)
qed

text \<open>
  When the messages of peer \<open>k\<close> are put to the limiter the messenger starts with, for each the time at which it is
  and the time at which it was. The clock is read for every message of any peer, so they are found by running the limiter.
\<close>

definition message_times ::
  "(nat \<Rightarrow> instant) \<Rightarrow> rate_limiter_cfg \<Rightarrow> (public_key \<times> bool) list \<Rightarrow> messenger_event list \<Rightarrow> public_key \<Rightarrow>
   (instant \<times> instant) list" where
  "message_times clk cfg ps events k =
     query_times token_limiter_ops last_update limiter_time k (concat (map limiter_ops_of (connected_events ps @ events)))
       (TokenLimiter_new (keys_of ps) (cfg_call_count cfg) (cfg_call_period_secs cfg) clk)"

text \<open>
  C15. Nothing is lost within the rate limit: take a peer that is connected when the messenger starts and does
  not disconnect, and that, for as long as the daemon runs, sends no more than \<open>call_count\<close> messages in a
  call period (the message that comes \<open>call_count\<close> places after another is put to the limiter a full period after
  the other was). Then the messenger is handed exactly the onion messages of LND from that peer, in order, however
  many they are in all, although the subscription breaks and is renewed any number of times and other peers send what they like.
\<close>

theorem messages_within_quota_delivered:
  assumes "events \<in> channel_events E c alive reconnects peer_sub (map stream_round streams) ticks w1"
    and "\<forall>n. alive Messages n" and "senders_valid (te_secp E) streams" and "mono clk"
    and "run_onion_messenger (te_secp E) ch M clk c m net cfg events tasks w = (Ok (), Some st')"
    and "get_current_peers (te_secp E) c w = (Ok ps, w')" and "k \<in> set (keys_of ps)"
    and "PeerDisconnected k \<notin> set events" and "0 < cfg_call_count cfg"
    and "paced (unat (cfg_call_count cfg)) (cfg_call_period_secs cfg) (message_times clk cfg ps events k)"
  shows "filter (\<lambda>d. fst d = k) (cs_delivered st') =
    filter (\<lambda>d. fst d = k) (received_messages E (map stream_round streams))"
proof -
  let ?l = "TokenLimiter_new (keys_of ps) (cfg_call_count cfg) (cfg_call_period_secs cfg) clk"
  have run: "consume_loop (te_secp E) M token_limiter_ops (CustomMessenger_send c) [ch net] (connected_events ps @ events)
       \<lparr>cs_messenger = m, cs_limiter = ?l, cs_world = w', cs_spawned = [], cs_delivered = []\<rparr> = (Ok (), st')"
    by (rule run_onion_messenger_runs [OF assms(5)]) (use assms(6) in auto)
  have msgs: "messages_of events = received_messages E (map stream_round streams)"
    using channel_messages [OF assms(1)] streams_forwarded [OF assms(2,3), of "te_show E" "[]"] by simp
  have "PeerDisconnected k \<notin> set (connected_events ps @ events)"
    using assms(8) by (auto simp: connected_events_def)
  moreover have "limiter_quota ?l = unat (cfg_call_count cfg)" "call_frequency ?l = cfg_call_period_secs cfg"
    by (simp_all add: limiter_quota_def TokenLimiter_new_def)
  moreover have "0 < unat (cfg_call_count cfg)" using assms(9) by (simp add: unat_gt_0 word_neq_0_conv)
  ultimately show ?thesis
    using serving_tokens.consumed_when_paced [OF run, of k] assms(10) msgs limiter_invar_new [OF assms(4)]
      new_limiter [OF assms(7)]
    by (simp add: token_limiter_ops_def message_times_def)
qed

theorem messages_within_quota_delivered_witness:
  "\<exists>st'. run_onion_messenger sample_secp (\<lambda>_. []) sample_messenger (\<lambda>i. 200 * i) sample_peer_client () Bitcoin
       sample_limit sample_events [] 0 = (Ok (), Some st') \<and>
     filter (\<lambda>d. fst d = PublicKey 7) (cs_delivered st') = [(PublicKey 7, OnionMessage [2]), (PublicKey 7, OnionMessage [3])]"
proof (rule sample_pipeline, rule sample_current_peers)
  fix st' b assume run: "run_onion_messenger sample_secp (\<lambda>_. []) sample_messenger (\<lambda>i. 200 * i) sample_peer_client ()
      Bitcoin sample_limit sample_events [] 0 = (Ok (), Some st')"
    and ps: "get_current_peers sample_secp sample_peer_client 0 = (Ok [(PublicKey 7, b)], 0)"
  have v: "senders_valid sample_secp sample_streams"
    by (simp add: senders_valid_def sample_streams_def)
  have t: "message_times (\<lambda>i. 200 * i) sample_limit [(PublicKey 7, b)] sample_events (PublicKey 7) = [(200, 400), (600, 800)]"
    by (simp add: message_times_def sample_limit_def sample_events_def connected_events_def TokenLimiter_new_def
        token_limiter_ops_def limiter_time_def query_peer_def needs_update_def update_buckets_def now_def hit_def
        peer_connected_def PeerRecord_new_def map_values_def Let_def)
  from messages_within_quota_delivered [OF sample_channel, unfolded sample_env_secp, OF _ v _ run ps, of "PublicKey 7"]
    run sample_received
  show ?thesis by (auto simp: mono_def sample_events_def [symmetric] t paced_def) (auto simp: sample_events_def sample_limit_def)
qed

end
