(* ===== verification/Server.thy ===== *)
theory Server
  imports Payments
begin

text \<open>
  \<open>src/server.rs\<close>, with the reading of invoice strings from \<open>src/lib.rs\<close>: the gRPC service of
  LNDK. Every call but \<open>decode_invoice\<close> takes the macaroon from the metadata of the request,
  connects to LND with it and then uses the offer handler; an error becomes the gRPC status of
  its type. The encoders of the libraries (hexadecimal digits, BOLT 12 strings) are parameters.
\<close>

section \<open>Requests, responses and parameters\<close>

record codec =
  hex_encode :: "u8 list \<Rightarrow> string"
  hex_decode :: "string \<Rightarrow> u8 list option"
  invoice_write :: "bolt12_invoice \<Rightarrow> string + u8 list"
  invoice_try_from :: "u8 list \<Rightarrow> bolt12_invoice option"
  offer_to_string :: "offer \<Rightarrow> string"
  show_payment_id :: "payment_id \<Rightarrow> string"

text \<open>A metadata value is text, or \<open>Inl\<close> of the error that it is none.\<close>

type_synonym metadata = "(string \<times> (string + string)) list"

record pay_offer_request =
  por_offer :: string
  por_amount :: "u64 option"
  por_payer_note :: "string option"
  por_response_invoice_timeout :: "u32 option"
  por_fee_limit :: "u32 option"
  por_fee_limit_percent :: "u32 option"

record get_invoice_request =
  gir_offer :: string
  gir_amount :: "u64 option"
  gir_payer_note :: "string option"
  gir_response_invoice_timeout :: "u32 option"

record pay_invoice_request =
  pir_invoice :: string
  pir_amount :: "u64 option"
  pir_fee_limit :: "u32 option"
  pir_fee_limit_percent :: "u32 option"

record create_offer_request =
  cor_amount :: "u64 option"
  cor_description :: "string option"
  cor_issuer :: "string option"
  cor_quantity :: "u64 option"
  cor_expiry :: "u64 option"

record rpc_blinded_pay_info =
  rpi_fee_base_msat :: u32
  rpi_fee_proportional_millionths :: u32
  rpi_cltv_expiry_delta :: u32
  rpi_htlc_minimum_msat :: u64
  rpi_htlc_maximum_msat :: u64
  rpi_features :: "i32 list"

record rpc_introduction_node =
  rin_node_id :: "u8 list option"
  rin_directed_short_channel_id :: "(i32 \<times> u64) option"

record rpc_blinded_hop =
  rbh_blinded_node_id :: "u8 list option"
  rbh_encrypted_payload :: "u8 list"

record rpc_blinded_path =
  rbp_introduction_node :: "rpc_introduction_node option"
  rbp_blinding_point :: "u8 list option"
  rbp_blinded_hops :: "rpc_blinded_hop list"

record payment_paths =
  pp_blinded_pay_info :: "rpc_blinded_pay_info option"
  pp_blinded_path :: "rpc_blinded_path option"

record invoice_contents =
  ic_chain :: string
  ic_quantity :: "u64 option"
  ic_amount_msats :: u64
  ic_description :: "string option"
  ic_payment_hash :: "u8 list option"
  ic_created_at :: i64
  ic_relative_expiry :: u64
  ic_node_id :: "u8 list option"
  ic_signature :: string
  ic_payment_paths :: "payment_paths list"
  ic_features :: "i32 list"
  ic_payer_note :: "string option"

record lndk_server =
  srv_node_id :: public_key
  srv_lnd_cert :: string
  srv_address :: string

definition LNDKServer_new :: "secp \<Rightarrow> string \<Rightarrow> string \<Rightarrow> string \<Rightarrow> ('e, lndk_server) res" where
  "LNDKServer_new K node_id lnd_cert address =
     res_bind (unwrap (pk_from_str K node_id)) (\<lambda>k.
     Ok \<lparr>srv_node_id = k, srv_lnd_cert = lnd_cert, srv_address = address\<rparr>)"

section \<open>Conversions\<close>

definition parse_quantity :: "u64 option \<Rightarrow> quantity option" where
  "parse_quantity rpc_quantity =
     (case rpc_quantity of
        None \<Rightarrow> None
      | Some n \<Rightarrow> if n = 0 then Some QuantityUnbounded else if n = 1 then Some QuantityOne
          else Some (QuantityBounded n))"

definition check_auth_metadata :: "metadata \<Rightarrow> (status, string) res" where
  "check_auth_metadata md =
     (case map_of md ''macaroon'' of
        Some (Inr macaroon_hex) \<Rightarrow> Ok macaroon_hex
      | Some (Inl e) \<Rightarrow> Err (auth_error_to_status (InvalidMacaroon e))
      | None \<Rightarrow> Err (auth_error_to_status MissingMacaroon))"

definition create_fee_limit :: "u32 option \<Rightarrow> u32 option \<Rightarrow> fee_limit option" where
  "create_fee_limit fl fee_limit_percent =
     (case (fl, fee_limit_percent) of
        (Some fixed, None) \<Rightarrow> Some (FeeFixedMsat (ucast fixed))
      | (None, Some percent) \<Rightarrow> Some (FeePercent (ucast percent))
      | _ \<Rightarrow> None)"

definition convert_public_key :: "secp \<Rightarrow> public_key \<Rightarrow> u8 list" where
  "convert_public_key K k = pk_serialize K k"

definition convert_invoice_features :: "'f \<Rightarrow> i32 list" where
  "convert_invoice_features features = [17]"

definition convert_blinded_pay_info :: "blinded_pay_info \<Rightarrow> rpc_blinded_pay_info" where
  "convert_blinded_pay_info i =
     \<lparr>rpi_fee_base_msat = pi_fee_base_msat i,
      rpi_fee_proportional_millionths = pi_fee_proportional_millionths i,
      rpi_cltv_expiry_delta = ucast (pi_cltv_expiry_delta i),
      rpi_htlc_minimum_msat = pi_htlc_minimum_msat i,
      rpi_htlc_maximum_msat = pi_htlc_maximum_msat i,
      rpi_features = []\<rparr>"

definition convert_blinded_path :: "secp \<Rightarrow> blinded_payment_path \<Rightarrow> rpc_blinded_path" where
  "convert_blinded_path K p =
     (let introduction_node = (case bpp_introduction_node p of
            NodeId pubkey \<Rightarrow> \<lparr>rin_node_id = Some (convert_public_key K pubkey), rin_directed_short_channel_id = None\<rparr>
          | DirectedShortChannelId dir scid \<Rightarrow>
              \<lparr>rin_node_id = None,
               rin_directed_short_channel_id = Some ((case dir of NodeOne \<Rightarrow> 0 | NodeTwo \<Rightarrow> 1), scid)\<rparr>)
      in \<lparr>rbp_introduction_node = Some introduction_node,
          rbp_blinding_point = Some (convert_public_key K (bpp_blinding_point p)),
          rbp_blinded_hops = map (\<lambda>hop. \<lparr>rbh_blinded_node_id = Some (convert_public_key K (bh_node_id hop)),
            rbh_encrypted_payload = bh_encrypted_payload hop\<rparr>) (bpp_hops p)\<rparr>)"

definition extract_payment_paths :: "secp \<Rightarrow> bolt12_invoice \<Rightarrow> payment_paths list" where
  "extract_payment_paths K invoice =
     map (\<lambda>path. \<lparr>pp_blinded_pay_info = Some (convert_blinded_pay_info (bpp_payinfo path)),
       pp_blinded_path = Some (convert_blinded_path K path)\<rparr>) (inv_payment_paths invoice)"

definition generate_bolt12_invoice_contents :: "secp \<Rightarrow> bolt12_invoice \<Rightarrow> invoice_contents" where
  "generate_bolt12_invoice_contents K invoice =
     \<lparr>ic_chain = inv_chain invoice,
      ic_quantity = inv_quantity invoice,
      ic_amount_msats = inv_amount_msats invoice,
      ic_description = inv_description invoice,
      ic_payment_hash = Some (case inv_payment_hash invoice of PaymentHash h \<Rightarrow> h),
      ic_created_at = ucast (inv_created_at_secs invoice),
      ic_relative_expiry = inv_relative_expiry_secs invoice,
      ic_node_id = Some (convert_public_key K (inv_signing_pubkey invoice)),
      ic_signature = inv_signature invoice,
      ic_payment_paths = extract_payment_paths K invoice,
      ic_features = convert_invoice_features invoice,
      ic_payer_note = inv_payer_note invoice\<rparr>"

definition encode_invoice_as_hex :: "codec \<Rightarrow> bolt12_invoice \<Rightarrow> (offer_error, string) res" where
  "encode_invoice_as_hex D invoice =
     res_bind (map_err EncodeInvoiceFailure (res_of_sum (invoice_write D invoice))) (\<lambda>buffer.
     Ok (hex_encode D buffer))"

text \<open>\<open>Bolt12Invoice::try_from\<close> of a string.\<close>

definition invoice_from_string :: "codec \<Rightarrow> string \<Rightarrow> (offer_error, bolt12_invoice) res" where
  "invoice_from_string D s =
     res_bind (ok_or (ParseInvoiceFailure ''InvalidValue'') (hex_decode D s)) (\<lambda>bytes.
     ok_or (ParseInvoiceFailure ''InvalidValue'') (invoice_try_from D bytes))"

section \<open>The calls of the service\<close>

text \<open>\<open>connect_from_memory\<close> of the client library; \<open>raise\<close> makes a status of an offer error.\<close>

type_synonym 'w connect = "string \<Rightarrow> string \<Rightarrow> string \<Rightarrow> ('w sys, string, 'w sys client) stub"

definition raise :: "codec \<Rightarrow> ('s, offer_error, 'a) io \<Rightarrow> ('s, status, 'a) io" where
  "raise D m = io_map_err (offer_error_to_status (show_payment_id D)) m"

text \<open>The authentication and the connection every such call starts with.\<close>

definition connect_with_auth ::
  "'w connect \<Rightarrow> lndk_server \<Rightarrow> metadata \<Rightarrow> ('w sys, status, 'w sys client) io" where
  "connect_with_auth connect self md =
     io_bind (io_lift (check_auth_metadata md)) (\<lambda>macaroon.
     io_map_err lnd_error_to_status
       (get_lnd_client connect connect (LndCfg_new (srv_address self) (CredsString macaroon (srv_lnd_cert self)))))"

definition lnd_network :: "'w sys client \<Rightarrow> ('w sys, status, network) io" where
  "lnd_network c =
     io_bind (io_map_err (\<lambda>e. lnd_error_to_status (ServiceUnavailable (st_message e))) (rpc (lc_get_info c)))
       (\<lambda>info.
     io_lift (map_err lnd_error_to_status (get_network info)))"

definition server_pay_offer ::
  "secp \<Rightarrow> 'w sys ldk \<Rightarrow> codec \<Rightarrow> 'w connect \<Rightarrow> ('w sys \<Rightarrow> bool \<times> 'w sys) \<Rightarrow> lndk_server \<Rightarrow> metadata \<Rightarrow>
   pay_offer_request \<Rightarrow> ('w sys, status, string) io" where
  "server_pay_offer K L D connect sleep self md req =
     io_bind (connect_with_auth connect self md) (\<lambda>c.
     io_bind (raise D (io_lift (decode L (por_offer req)))) (\<lambda>o'.
     io_bind (raise D (io_lift (get_destination o'))) (\<lambda>destination.
     io_bind (lnd_network c) (\<lambda>net.
     let cfg = \<lparr>po_offer = o', po_amount = por_amount req, po_payer_note = por_payer_note req,
           po_network = net, po_client = c, po_destination = destination, po_reply_path = None,
           po_response_invoice_timeout = por_response_invoice_timeout req,
           po_fee_limit = create_fee_limit (por_fee_limit req) (por_fee_limit_percent req)\<rparr>
     in
     io_bind (raise D (pay_offer K L sleep cfg)) (\<lambda>payment.
     io_return (pay_preimage payment))))))"

definition server_decode_invoice ::
  "secp \<Rightarrow> codec \<Rightarrow> string \<Rightarrow> ('w sys, status, invoice_contents) io" where
  "server_decode_invoice K D invoice_string =
     io_bind (raise D (io_lift (invoice_from_string D invoice_string))) (\<lambda>invoice.
     io_return (generate_bolt12_invoice_contents K invoice))"

definition server_get_invoice ::
  "secp \<Rightarrow> 'w sys ldk \<Rightarrow> codec \<Rightarrow> 'w connect \<Rightarrow> ('w sys \<Rightarrow> bool \<times> 'w sys) \<Rightarrow> lndk_server \<Rightarrow> metadata \<Rightarrow>
   get_invoice_request \<Rightarrow> ('w sys, status, string \<times> invoice_contents option) io" where
  "server_get_invoice K L D connect sleep self md req =
     io_bind (connect_with_auth connect self md) (\<lambda>c.
     io_bind (raise D (io_lift (decode L (gir_offer req)))) (\<lambda>o'.
     io_bind (raise D (io_lift (get_destination o'))) (\<lambda>destination.
     io_bind (lnd_network c) (\<lambda>net.
     let cfg = \<lparr>po_offer = o', po_amount = gir_amount req, po_payer_note = gir_payer_note req,
           po_network = net, po_client = c, po_destination = destination, po_reply_path = None,
           po_response_invoice_timeout = gir_response_invoice_timeout req, po_fee_limit = None\<rparr>
     in
     io_bind (raise D (get_invoice K L sleep cfg)) (\<lambda>(invoice, _, pid).
     io_bind (locked (remove_active_payment pid)) (\<lambda>_.
     io_bind (raise D (io_lift (encode_invoice_as_hex D invoice))) (\<lambda>invoice_hex_str.
     io_return (invoice_hex_str, Some (generate_bolt12_invoice_contents K invoice)))))))))"

definition server_pay_invoice ::
  "secp \<Rightarrow> 'w sys ldk \<Rightarrow> codec \<Rightarrow> 'w connect \<Rightarrow> lndk_server \<Rightarrow> metadata \<Rightarrow> pay_invoice_request \<Rightarrow>
   ('w sys, status, string) io" where
  "server_pay_invoice K L D connect self md req =
     io_bind (connect_with_auth connect self md) (\<lambda>c.
     io_bind (raise D (io_lift (invoice_from_string D (pir_invoice req)))) (\<lambda>invoice.
     io_bind (raise D (io_lift (validate_amount (inv_amount invoice) (pir_amount req)))) (\<lambda>amount.
     io_bind (run_total (get_secure_random_bytes L)) (\<lambda>bytes.
     io_bind (raise D (pay_invoice K c amount invoice (PaymentId bytes)
       (create_fee_limit (pir_fee_limit req) (pir_fee_limit_percent req)))) (\<lambda>payment.
     io_return (pay_preimage payment))))))"

definition server_create_offer ::
  "secp \<Rightarrow> 'w sys ldk \<Rightarrow> codec \<Rightarrow> 'w connect \<Rightarrow> lndk_server \<Rightarrow> metadata \<Rightarrow> create_offer_request \<Rightarrow>
   ('w sys, status, string) io" where
  "server_create_offer K L D connect self md req =
     io_bind (connect_with_auth connect self md) (\<lambda>c.
     io_bind (lnd_network c) (\<lambda>net.
     let params = \<lparr>cop_client = c, cop_amount_msats = cor_amount req, cop_chain = net,
           cop_description = cor_description req, cop_issuer = cor_issuer req,
           cop_quantity = parse_quantity (cor_quantity req), cop_expiry = map_option from_secs (cor_expiry req)\<rparr>
     in
     io_bind (raise D (handler_create_offer K L params)) (\<lambda>o'.
     io_return (offer_to_string D o'))))"

section \<open>The authentication of a call\<close>

lemma check_auth_metadata_Ok [simp]:
  "check_auth_metadata md = Ok m \<longleftrightarrow> map_of md ''macaroon'' = Some (Inr m)"
  by (auto simp: check_auth_metadata_def split: option.split sum.split)

lemma check_auth_metadata_not_panic [simp]: "\<not> is_panic (check_auth_metadata md)"
  by (auto simp: check_auth_metadata_def split: option.split sum.split)

lemma connect_with_auth_Ok:
  "connect_with_auth connect self md s = (Ok c, s') \<longleftrightarrow>
   (\<exists>macaroon. map_of md ''macaroon'' = Some (Inr macaroon) \<and>
     connect (srv_address self) (srv_lnd_cert self) macaroon s = (Inr c, s'))"
  by (auto simp: connect_with_auth_def io_bind_Ok_iff get_lnd_client_def LndCfg_new_def)

text \<open>A call that starts by authenticating; \<open>refused\<close> is the status for bad metadata.\<close>

fun refused :: "(string + string) option \<Rightarrow> status" where
  "refused (Some (Inl e)) = auth_error_to_status (InvalidMacaroon e)"
| "refused _ = auth_error_to_status MissingMacaroon"

locale authenticated =
  fixes connect :: "'w connect" and self :: lndk_server
    and call :: "metadata \<Rightarrow> ('w sys, status, 'r) io"
  assumes authenticates: "\<exists>body. \<forall>md. call md = io_bind (connect_with_auth connect self md) body"
begin

lemma call_refused:
  assumes "\<nexists>m. map_of md ''macaroon'' = Some (Inr m)"
  shows "call md s = (Err (refused (map_of md ''macaroon'')), s)"
proof -
  obtain body where "call md = io_bind (connect_with_auth connect self md) body"
    using authenticates by blast
  with assms show ?thesis
    by (cases "map_of md ''macaroon''"; cases "the (map_of md ''macaroon'')")
      (auto simp: connect_with_auth_def check_auth_metadata_def io_simps)
qed

lemma call_connects:
  assumes "call md s = (Ok r, s')"
  shows "\<exists>m c s1. map_of md ''macaroon'' = Some (Inr m) \<and>
    connect (srv_address self) (srv_lnd_cert self) m s = (Inr c, s1)"
proof -
  obtain body where "call md = io_bind (connect_with_auth connect self md) body"
    using authenticates by blast
  with assms show ?thesis by (auto simp: io_bind_Ok_iff connect_with_auth_Ok)
qed

end

interpretation pay_offer_call: authenticated connect self
  "\<lambda>md. server_pay_offer K L D connect sleep self md req" for K L D connect sleep self req
  by unfold_locales (unfold server_pay_offer_def, rule exI, rule allI, rule refl)

interpretation get_invoice_call: authenticated connect self
  "\<lambda>md. server_get_invoice K L D connect sleep self md req" for K L D connect sleep self req
  by unfold_locales (unfold server_get_invoice_def, rule exI, rule allI, rule refl)

interpretation pay_invoice_call: authenticated connect self
  "\<lambda>md. server_pay_invoice K L D connect self md req" for K L D connect self req
  by unfold_locales (unfold server_pay_invoice_def, rule exI, rule allI, rule refl)

interpretation create_offer_call: authenticated connect self
  "\<lambda>md. server_create_offer K L D connect self md req" for K L D connect self req
  by unfold_locales (unfold server_create_offer_def, rule exI, rule allI, rule refl)

text \<open>
  C11. No call that acts on the node runs without a macaroon: where the metadata hold none that
  is text, each of them answers with the authentication error and nothing has changed, neither
  the handler nor the world outside.
\<close>

theorem calls_require_macaroon:
  assumes "\<nexists>m. map_of md ''macaroon'' = Some (Inr m)"
  shows "server_pay_offer K L D connect sleep self md por s = (Err (refused (map_of md ''macaroon'')), s) \<and>
    server_get_invoice K L D connect sleep self md gir s = (Err (refused (map_of md ''macaroon'')), s) \<and>
    server_pay_invoice K L D connect self md pir s = (Err (refused (map_of md ''macaroon'')), s) \<and>
    server_create_offer K L D connect self md cor s = (Err (refused (map_of md ''macaroon'')), s)"
  by (intro conjI pay_offer_call.call_refused get_invoice_call.call_refused
      pay_invoice_call.call_refused create_offer_call.call_refused assms)

section \<open>What the calls return\<close>

lemma raise_Ok [simp]: "raise D m s = (Ok a, s') \<longleftrightarrow> m s = (Ok a, s')"
  by (simp add: raise_def)

lemma lnd_network_Ok:
  "lnd_network c s = (Ok net, s') \<longleftrightarrow> (\<exists>info. lc_get_info c s = (Inr info, s') \<and> get_network info = Ok net)"
  by (auto simp: lnd_network_def io_bind_Ok_iff)

text \<open>What is relied on of connecting: it lets the handler move by its own steps only, and so does
  the client it returns.\<close>

definition connect_moves :: "('w sys \<Rightarrow> 'w sys \<Rightarrow> bool) \<Rightarrow> 'w connect \<Rightarrow> bool" where
  "connect_moves R connect \<longleftrightarrow> (\<forall>a cert mac s r s'. connect a cert mac s = (r, s') \<longrightarrow>
     R s s' \<and> (\<forall>c. r = Inr c \<longrightarrow> client_moves R c))"

text \<open>The part of a call before the handler is used.\<close>

lemma before_handler:
  assumes "connect_moves (sys_steps L) connect" and "invoices_verified L (fst s)"
    and "connect_with_auth connect self md s = (Ok c, s1)" and "lnd_network c s1 = (Ok net, s2)"
  shows "client_moves (sys_steps L) c \<and> invoices_verified L (fst s2) \<and> handler_key (fst s2) = handler_key (fst s)"
proof -
  from assms(3) obtain mac where con: "connect (srv_address self) (srv_lnd_cert self) mac s = (Inr c, s1)"
    by (auto simp: connect_with_auth_Ok)
  with assms(1) have c: "sys_steps L s s1" "client_moves (sys_steps L) c"
    unfolding connect_moves_def by blast+
  from assms(4) obtain info where "lc_get_info c s1 = (Inr info, s2)" by (auto simp: lnd_network_Ok)
  moreover from c(2) have "moves (sys_steps L) (lc_get_info c)" by (simp add: client_moves_def)
  ultimately have "sys_steps L s1 s2" by (metis movesD)
  with c show ?thesis using assms(2) steps_verified steps_key by metis
qed


lemma server_pay_offer_outcome:
  assumes "ldk_moves (sys_steps L) L" and "moves (sys_steps L) sleep"
    and "connect_moves (sys_steps L) connect" and "invoices_verified L (fst s)"
    and run: "server_pay_offer K L D connect sleep self md req s = (Ok preimage, s')"
  shows "\<exists>mac c s1 o' amt invoice pid p. map_of md ''macaroon'' = Some (Inr mac) \<and>
    connect (srv_address self) (srv_lnd_cert self) mac s = (Inr c, s1) \<and>
    decode L (por_offer req) = Ok o' \<and> validate_amount (offer_amount o') (por_amount req) = Ok amt \<and>
    (\<exists>pid' nonce. verify_using_payer_data L invoice pid' nonce (handler_key (fst s)) = Some pid) \<and>
    paid_through K c amt (create_fee_limit (por_fee_limit req) (por_fee_limit_percent req)) invoice p \<and>
    pay_preimage p = preimage \<and> active_payments (fst s') pid = None"
proof -
  let ?cfg = "\<lambda>o' net c dest. \<lparr>po_offer = o', po_amount = por_amount req, po_payer_note = por_payer_note req,
      po_network = net, po_client = c, po_destination = dest, po_reply_path = None,
      po_response_invoice_timeout = por_response_invoice_timeout req,
      po_fee_limit = create_fee_limit (por_fee_limit req) (por_fee_limit_percent req)\<rparr>"
  from run obtain c s1 o' dest net s3 p where
    con: "connect_with_auth connect self md s = (Ok c, s1)"
    and dec: "decode L (por_offer req) = Ok o'"
    and net: "lnd_network c s1 = (Ok net, s3)"
    and pay: "pay_offer K L sleep (?cfg o' net c dest) s3 = (Ok p, s')" "pay_preimage p = preimage"
    unfolding server_pay_offer_def Let_def by (auto simp: io_bind_Ok_iff)
  define cfg where "cfg = ?cfg o' net c dest"
  then have cfg: "po_offer cfg = o'" "po_amount cfg = por_amount req" "po_client cfg = c"
    "po_fee_limit cfg = create_fee_limit (por_fee_limit req) (por_fee_limit_percent req)" by simp_all
  from pay(1) obtain invoice amt pid s4 where
    get: "get_invoice K L sleep cfg s3 = (Ok (invoice, amt, pid), s4)"
    and paid: "pay_invoice K c amt invoice pid (po_fee_limit cfg) s4 = (Ok p, s')"
    unfolding pay_offer_def cfg_def [symmetric] by (auto simp: io_bind_Ok_iff cfg)
  note b = before_handler [OF assms(3,4) con net]
  have "client_moves (sys_steps L) (po_client cfg)" and "invoices_verified L (fst s3)"
    using b by (simp_all add: cfg)
  from get_invoice_outcome [OF assms(1,2) this get, unfolded cfg] b
  have v: "validate_amount (offer_amount o') (por_amount req) = Ok amt"
    "\<exists>pid' nonce. verify_using_payer_data L invoice pid' nonce (handler_key (fst s)) = Some pid" by auto
  from con obtain mac where "map_of md ''macaroon'' = Some (Inr mac)"
    "connect (srv_address self) (srv_lnd_cert self) mac s = (Inr c, s1)" by (auto simp: connect_with_auth_Ok)
  with v dec pay(2) pay_invoice_Ok [OF paid] pay_invoice_paid_through [OF paid, unfolded cfg] show ?thesis by blast
qed

text \<open>
  C2. A successful \<open>pay_offer\<close> call: with a client connected with the caller's macaroon, an invoice
  verified for a payment id was paid: LND was asked for a route along one of its paths with an
  amount that covers the decoded offer and with the fee limit of the request, sent the payment
  for its hash along that route and reported it as settled. The preimage returned is that of
  the settled payment, and the id is no longer tracked.
\<close>

theorem server_pay_offer_settled:
  assumes "ldk_moves (sys_steps L) L" and "moves (sys_steps L) sleep"
    and "connect_moves (sys_steps L) connect" and "invoices_verified L (fst s)"
    and "server_pay_offer K L D connect sleep self md req s = (Ok preimage, s')"
  shows "\<exists>mac c s1 o' amt invoice pid p. map_of md ''macaroon'' = Some (Inr mac) \<and>
    connect (srv_address self) (srv_lnd_cert self) mac s = (Inr c, s1) \<and>
    decode L (por_offer req) = Ok o' \<and> validate_amount (offer_amount o') (por_amount req) = Ok amt \<and>
    (\<exists>pid' nonce. verify_using_payer_data L invoice pid' nonce (handler_key (fst s)) = Some pid) \<and>
    paid_through K c amt (create_fee_limit (por_fee_limit req) (por_fee_limit_percent req)) invoice p \<and>
    pay_preimage p = preimage \<and> active_payments (fst s') pid = None"
  using server_pay_offer_outcome [OF assms] .

text \<open>What is documented of the encoders: decoding undoes encoding.\<close>

definition codec_documented :: "codec \<Rightarrow> bool" where
  "codec_documented D \<longleftrightarrow>
     (\<forall>bytes. hex_decode D (hex_encode D bytes) = Some bytes) \<and>
     (\<forall>invoice bytes. invoice_write D invoice = Inr bytes \<longrightarrow> invoice_try_from D bytes = Some invoice)"

lemma invoice_string_roundtrip:
  "codec_documented D \<Longrightarrow> encode_invoice_as_hex D invoice = Ok str \<Longrightarrow> invoice_from_string D str = Ok invoice"
  by (auto simp: codec_documented_def encode_invoice_as_hex_def invoice_from_string_def res_bind_Ok_iff)

lemma server_get_invoice_Ok:
  assumes "server_get_invoice K L D connect sleep self md req s = (Ok (str, contents), s')"
  shows "\<exists>c s1 net s3 o' dest invoice amt pid s4. connect_with_auth connect self md s = (Ok c, s1) \<and>
    lnd_network c s1 = (Ok net, s3) \<and>
    get_invoice K L sleep \<lparr>po_offer = o', po_amount = gir_amount req, po_payer_note = gir_payer_note req,
        po_network = net, po_client = c, po_destination = dest, po_reply_path = None,
        po_response_invoice_timeout = gir_response_invoice_timeout req, po_fee_limit = None\<rparr> s3 =
      (Ok (invoice, amt, pid), s4) \<and> s' = (remove_active_payment pid (fst s4), snd s4) \<and>
    encode_invoice_as_hex D invoice = Ok str \<and> contents = Some (generate_bolt12_invoice_contents K invoice)"
  using assms unfolding server_get_invoice_def Let_def
  by (clarsimp simp: io_bind_Ok_iff locked_def case_prod_unfold)
    (intro exI conjI, assumption, simp_all)

text \<open>
  C29. The invoice a \<open>get_invoice\<close> call returns: it was verified with the handler's key, its payment
  is no longer tracked when the call returns, and the string returned is read back as that
  invoice, so that \<open>decode_invoice\<close> answers it with the very contents \<open>get_invoice\<close> returned.
\<close>

theorem server_get_invoice_roundtrip:
  assumes "ldk_moves (sys_steps L) L" and "moves (sys_steps L) sleep"
    and "connect_moves (sys_steps L) connect" and "invoices_verified L (fst s)" and "codec_documented D"
    and run: "server_get_invoice K L D connect sleep self md req s = (Ok (str, contents), s')"
  shows "\<exists>invoice pid ic. (\<exists>pid' nonce. verify_using_payer_data L invoice pid' nonce (handler_key (fst s)) = Some pid) \<and>
    active_payments (fst s') pid = None \<and> invoice_from_string D str = Ok invoice \<and>
    contents = Some ic \<and> (\<forall>t. server_decode_invoice K D str t = (Ok ic, t))"
proof -
  let ?cfg = "\<lambda>o' net c dest. \<lparr>po_offer = o', po_amount = gir_amount req, po_payer_note = gir_payer_note req,
      po_network = net, po_client = c, po_destination = dest, po_reply_path = None,
      po_response_invoice_timeout = gir_response_invoice_timeout req, po_fee_limit = None\<rparr>"
  from server_get_invoice_Ok [OF run] obtain c s1 net s3 o' dest invoice amt pid s4 where
    con: "connect_with_auth connect self md s = (Ok c, s1)" and net: "lnd_network c s1 = (Ok net, s3)"
    and get: "get_invoice K L sleep (?cfg o' net c dest) s3 = (Ok (invoice, amt, pid), s4)"
    and s': "s' = (remove_active_payment pid (fst s4), snd s4)" and enc: "encode_invoice_as_hex D invoice = Ok str"
    and ic: "contents = Some (generate_bolt12_invoice_contents K invoice)"
    by (elim exE conjE)
  note b = before_handler [OF assms(3,4) con net]
  have "client_moves (sys_steps L) (po_client (?cfg o' net c dest))" and "invoices_verified L (fst s3)"
    using b by simp_all
  note v = get_invoice_outcome [OF assms(1,2) this get]
  note rt = invoice_string_roundtrip [OF assms(5) enc]
  then have "server_decode_invoice K D str t = (Ok (generate_bolt12_invoice_contents K invoice), t)" for t
    by (simp add: server_decode_invoice_def raise_def io_simps)
  with v rt ic b s' show ?thesis by (auto simp: remove_active_payment_def)
qed

text \<open>A request with both fee limits is paid as one with none: without a limit.\<close>

lemma both_fee_limits_unlimited:
  "server_pay_offer K L D connect sleep self md
     (req\<lparr>por_fee_limit := Some f, por_fee_limit_percent := Some p\<rparr>) =
   server_pay_offer K L D connect sleep self md
     (req\<lparr>por_fee_limit := None, por_fee_limit_percent := None\<rparr>)"
  by (simp add: server_pay_offer_def create_fee_limit_def)


section \<open>Runs\<close>

text \<open>A caller with a macaroon, on the node of \<open>paying_client\<close>, and encoders that know one
  invoice.\<close>

definition sample_md :: metadata where
  "sample_md = [(''macaroon'', Inr ''0201'')]"

definition sample_connect :: "nat connect" where
  "sample_connect address cert macaroon = (\<lambda>s. (Inr paying_client, s))"

definition sample_server :: lndk_server where
  "sample_server = \<lparr>srv_node_id = PublicKey 8, srv_lnd_cert = ''pem'', srv_address = ''https://localhost:10009''\<rparr>"

definition sample_codec :: codec where
  "sample_codec =
     \<lparr>hex_encode = map (\<lambda>b. char_of (unat b)), hex_decode = (\<lambda>s. Some (map (\<lambda>c. of_nat (of_char c)) s)),
      invoice_write = (\<lambda>i. if i = payable_invoice then Inr [3] else Inl ''unknown''),
      invoice_try_from = (\<lambda>bs. if bs = [3] then Some payable_invoice else None),
      offer_to_string = (\<lambda>_. ''lno1''), show_payment_id = (\<lambda>_. '''')\<rparr>"

definition sample_pay_request :: pay_offer_request where
  "sample_pay_request = \<lparr>por_offer = ''lno1'', por_amount = Some 2000, por_payer_note = None,
     por_response_invoice_timeout = None, por_fee_limit = None, por_fee_limit_percent = None\<rparr>"

definition sample_get_request :: get_invoice_request where
  "sample_get_request = \<lparr>gir_offer = ''lno1'', gir_amount = Some 2000, gir_payer_note = None,
     gir_response_invoice_timeout = None\<rparr>"

lemma sample_codec_documented: "codec_documented sample_codec"
proof -
  have "of_nat (of_char (char_of (unat b) :: char)) = b" for b :: u8
    using unsigned_less [where ?'a = nat, of b] by simp
  then show ?thesis by (simp add: codec_documented_def sample_codec_def comp_def)
qed

lemma sample_connect_moves: "connect_moves (sys_steps L) sample_connect"
  by (auto simp: connect_moves_def sample_connect_def paying_client_moves sys_steps_def)

lemma sample_before:
  "connect_with_auth sample_connect sample_server sample_md s = (Ok paying_client, s)"
  "lnd_network paying_client s = (Ok Bitcoin, s)"
  "decode quiet_ldk ''lno1'' = Ok sample_offer" "get_destination sample_offer = Ok (DestNode (PublicKey 9))"
  by (simp_all add: connect_with_auth_Ok sample_md_def sample_connect_def lnd_network_Ok paying_client_def
      get_network_def string_to_network_def to_lowercase_def Let_def decode_def quiet_ldk_def sample_ldk_def
      get_destination_def sample_offer_def)

theorem calls_require_macaroon_witness:
  "server_pay_offer sample_secp quiet_ldk sample_codec sample_connect delivering_sleep sample_server []
     sample_pay_request (sample_handler, 7) = (Err (auth_error_to_status MissingMacaroon), sample_handler, 7)"
  using calls_require_macaroon [of "[]" sample_secp quiet_ldk sample_codec sample_connect delivering_sleep
      sample_server sample_pay_request "(sample_handler, 7)"] by simp

lemma sample_server_pay_offer:
  "\<exists>s'. server_pay_offer sample_secp quiet_ldk sample_codec sample_connect delivering_sleep sample_server sample_md
     sample_pay_request (sample_handler, 7) = (Ok ''00'', s')"
proof -
  obtain s' where "get_invoice sample_secp quiet_ldk delivering_sleep sample_pay_params (sample_handler, 7) =
     (Ok (payable_invoice, 2000, PaymentId [7]), s')" using sample_get_invoice_delivered by blast
  then show ?thesis
    by (cases s') (simp add: server_pay_offer_def Let_def io_bind_def sample_before sample_pay_request_def raise_def
        io_lift_def io_map_err_def io_return_def pay_offer_def create_fee_limit_def sample_pay_params_def
        sample_pay_invoice)
qed

theorem server_pay_offer_settled_witness:
  "\<exists>s' c invoice p. server_pay_offer sample_secp quiet_ldk sample_codec sample_connect delivering_sleep sample_server
     sample_md sample_pay_request (sample_handler, 7) = (Ok ''00'', s') \<and>
     paid_through sample_secp (c :: nat sys client) 2000 None invoice p \<and> pay_preimage p = ''00''"
proof -
  obtain s' where run: "server_pay_offer sample_secp quiet_ldk sample_codec sample_connect delivering_sleep
     sample_server sample_md sample_pay_request (sample_handler, 7) = (Ok ''00'', s')"
    using sample_server_pay_offer by blast
  have "invoices_verified quiet_ldk (fst (sample_handler, 7 :: nat))" by simp
  from server_pay_offer_settled [OF quiet_ldk_moves delivering_sleep_moves sample_connect_moves this run] run
  show ?thesis
    by (auto simp: sample_pay_request_def sample_before sample_offer_def validate_amount_def create_fee_limit_def)
qed

lemma sample_server_get_invoice:
  "\<exists>str contents s'. server_get_invoice sample_secp quiet_ldk sample_codec sample_connect delivering_sleep
     sample_server sample_md sample_get_request (sample_handler, 7) = (Ok (str, contents), s')"
proof -
  obtain s' where "get_invoice sample_secp quiet_ldk delivering_sleep sample_pay_params (sample_handler, 7) =
     (Ok (payable_invoice, 2000, PaymentId [7]), s')" using sample_get_invoice_delivered by blast
  then show ?thesis
    by (cases s') (simp add: server_get_invoice_def Let_def io_bind_def sample_before sample_get_request_def raise_def
        io_lift_def io_map_err_def io_return_def locked_def sample_pay_params_def encode_invoice_as_hex_def
        sample_codec_def)
qed

theorem server_get_invoice_roundtrip_witness:
  "\<exists>str ic s'. server_get_invoice sample_secp quiet_ldk sample_codec sample_connect delivering_sleep sample_server
     sample_md sample_get_request (sample_handler, 7) = (Ok (str, Some ic), s') \<and>
     server_decode_invoice sample_secp sample_codec str s' = (Ok ic, s')"
proof -
  obtain str contents s' where run: "server_get_invoice sample_secp quiet_ldk sample_codec sample_connect
     delivering_sleep sample_server sample_md sample_get_request (sample_handler, 7) = (Ok (str, contents), s')"
    using sample_server_get_invoice by blast
  have "invoices_verified quiet_ldk (fst (sample_handler, 7 :: nat))" by simp
  from server_get_invoice_roundtrip [OF quiet_ldk_moves delivering_sleep_moves sample_connect_moves this
      sample_codec_documented run] run
  show ?thesis by blast
qed


section \<open>What the calls keep\<close>

lemma get_lnd_client_moves:
  "connect_moves R connect \<Longrightarrow> moves R (get_lnd_client connect connect cfg)"
  by (auto simp: get_lnd_client_def connect_moves_def moves_def rpc_def io_map_err_def case_prod_beta
      split: creds.split) (metis prod.collapse)+

lemma connect_with_auth_moves:
  assumes "connect_moves (sys_steps L) connect"
  shows "moves (sys_steps L) (connect_with_auth connect self md)"
  unfolding connect_with_auth_def
  by (intro steps.moves_intros) (simp add: get_lnd_client_moves [OF assms])

lemma connected_client_moves:
  assumes "connect_moves (sys_steps L) connect" and "connect_with_auth connect self md s = (Ok c, s')"
  shows "client_moves (sys_steps L) c"
  using assms unfolding connect_with_auth_Ok connect_moves_def by blast

text \<open>A call is its body on a connected client.\<close>

lemma call_moves:
  assumes "connect_moves (sys_steps L) connect" and "\<And>c. client_moves (sys_steps L) c \<Longrightarrow> moves (sys_steps L) (body c)"
  shows "moves (sys_steps L) (io_bind (connect_with_auth connect self md) body)"
  by (rule steps.moves_bind_Ok [OF connect_with_auth_moves [OF assms(1)]])
    (rule assms(2) [OF connected_client_moves [OF assms(1)]])

lemma lnd_network_moves: "client_moves (sys_steps L) c \<Longrightarrow> moves (sys_steps L) (lnd_network c)"
  unfolding lnd_network_def by (intro steps.moves_intros) (simp add: client_moves_def)

lemma remove_moves: "moves (sys_steps L) (locked (remove_active_payment pid))"
  by (rule locked_moves [OF handler_step.remove])

lemma raise_moves [simp]: "moves R (raise D m) = moves R m"
  by (simp add: raise_def)

lemma server_calls_move:
  assumes "ldk_moves (sys_steps L) L" and "moves (sys_steps L) sleep" and "connect_moves (sys_steps L) connect"
  shows "moves (sys_steps L) (server_pay_offer K L D connect sleep self md por)"
    and "moves (sys_steps L) (server_get_invoice K L D connect sleep self md gir)"
    and "moves (sys_steps L) (server_pay_invoice K L D connect self md pir)"
    and "moves (sys_steps L) (server_create_offer K L D connect self md cor)"
    and "moves (sys_steps L) (server_decode_invoice K D str)"
proof -
  show "moves (sys_steps L) (server_pay_offer K L D connect sleep self md por)"
    unfolding server_pay_offer_def Let_def
    by (intro call_moves [OF assms(3)] steps.moves_intros)
      (auto intro: steps.moves_intros lnd_network_moves pay_offer_moves [OF _ assms(1,2)])
  show "moves (sys_steps L) (server_get_invoice K L D connect sleep self md gir)"
    unfolding server_get_invoice_def Let_def case_prod_unfold
    by (intro call_moves [OF assms(3)] steps.moves_intros)
      (auto intro: steps.moves_intros lnd_network_moves remove_moves get_invoice_moves [OF _ assms(1,2)])
  show "moves (sys_steps L) (server_pay_invoice K L D connect self md pir)"
    unfolding server_pay_invoice_def
    by (intro call_moves [OF assms(3)] steps.moves_intros)
      (use assms(1) in \<open>auto simp: ldk_moves_def intro: steps.moves_intros pay_invoice_moves\<close>)
  show "moves (sys_steps L) (server_create_offer K L D connect self md cor)"
    unfolding server_create_offer_def handler_create_offer_def Let_def raise_def
    by (intro call_moves [OF assms(3)] steps.moves_intros)
      (auto intro: steps.moves_intros lnd_network_moves get_handler_moves steps.create_offer_moves [OF _ assms(1)])
  show "moves (sys_steps L) (server_decode_invoice K D str)"
    unfolding server_decode_invoice_def by (intro steps.moves_intros) (simp add: steps.moves_lift)
qed

end
