(* ===== verification/Robustness.thy ===== *)
theory Robustness
  imports Server Payee Messenger_Tasks
begin

text \<open>
  Which panics the service can end in. The source unwraps what LND answers and what it computes in
  several places; here every such place is either excluded by what LND documents of its answers
  (\<open>lnd_documented\<close>) or named, with the condition under which it is reached. A panic ends the task of
  one call, and with it the sections that would have followed. The same for the tasks of the messenger, which
  all end once the shutdown is signalled, and what it means for the end of \<open>run_onion_messenger\<close>.
\<close>

section \<open>Operations and the panics they may end in\<close>

named_theorems panic_rules

definition panics_only :: "(string \<Rightarrow> bool) \<Rightarrow> ('w, 'e, 'a) io \<Rightarrow> bool" where
  "panics_only P m \<longleftrightarrow> (\<forall>w s w'. m w = (Panic s, w') \<longrightarrow> P s)"

lemma panics_only_total: "no_panic m \<Longrightarrow> panics_only P m"
  by (auto simp: panics_only_def dest: no_panicD)

lemma no_panic_iff: "no_panic m \<longleftrightarrow> panics_only (\<lambda>_. False) m"
  unfolding panics_only_def no_panic_def by (metis fst_conv is_panic.elims(2) is_panic.simps prod.collapse)

lemma panics_only_mono: "panics_only P m \<Longrightarrow> (\<And>s. P s \<Longrightarrow> Q s) \<Longrightarrow> panics_only Q m"
  by (auto simp: panics_only_def)

lemma panics_only_bind [panic_rules]:
  "panics_only P m \<Longrightarrow> (\<And>a w w'. m w = (Ok a, w') \<Longrightarrow> panics_only P (k a)) \<Longrightarrow> panics_only P (io_bind m k)"
  by (auto simp: panics_only_def io_bind_def split: prod.splits res.splits)

lemma panics_only_match [panic_rules]:
  "panics_only P m \<Longrightarrow> (\<And>a w w'. m w = (Ok a, w') \<Longrightarrow> panics_only P (f a)) \<Longrightarrow>
   (\<And>e. panics_only P (g e)) \<Longrightarrow> panics_only P (io_match m f g)"
  by (auto simp: panics_only_def io_match_def split: prod.splits res.splits)

lemma panics_only_lift [panic_rules]: "\<not> is_panic r \<Longrightarrow> panics_only P (io_lift r)"
  by (auto simp: panics_only_def)

lemma panics_only_lift_Panic [panic_rules]: "P s \<Longrightarrow> panics_only P (io_lift (Panic s))"
  by (auto simp: panics_only_def)

lemma map_err_Panic_iff [simp]: "map_err f r = Panic s \<longleftrightarrow> r = Panic s"
  by (cases r) auto

lemma res_of_sum_Panic [simp]: "res_of_sum r \<noteq> Panic s"
  by (cases r) auto

lemma panics_only_map_err [simp]: "panics_only P (io_map_err f m) = panics_only P m"
  by (simp add: panics_only_def io_map_err_def split: prod.split) (metis prod.inject)

lemma expect_Panic: "expect msg (res_of_sum r) = Panic s \<Longrightarrow> (\<And>e. r = Inl e \<Longrightarrow> s = msg \<Longrightarrow> Q) \<Longrightarrow> Q"
  by (cases r) auto

lemma panics_only_expect [panic_rules]:
  "(\<And>w e w'. f w = (Inl e, w') \<Longrightarrow> P msg) \<Longrightarrow> panics_only P (io_expect msg (rpc f))"
  by (auto simp: panics_only_def io_simps split: prod.splits elim!: expect_Panic)

lemma io_expect_Ok_iff: "io_expect msg (rpc f) w = (Ok a, w') \<longleftrightarrow> f w = (Inr a, w')"
  by (cases "f w"; cases "fst (f w)") (auto simp: io_simps)

lemma panics_only_simps [simp]:
  "panics_only P (io_return a)" "panics_only P (io_err e)" "panics_only P (rpc f)" "panics_only P (run_total g)"
  "panics_only P (locked h)" "panics_only P get_handler"
  by (auto simp: panics_only_def io_simps split: prod.splits sum.splits)

lemma is_panic_Ok_pair [simp]: "\<not> is_panic (fst (case p of (r, x) \<Rightarrow> (Ok r, x)))"
  by (simp split: prod.split)

lemma panics_only_locked_res [panic_rules]: "(\<And>h. \<not> is_panic (fst (f h))) \<Longrightarrow> panics_only P (locked_res f)"
  by (auto simp: panics_only_def locked_res_def split: prod.splits) (metis fst_conv is_panic.simps(1))

section \<open>What LND documents of its answers\<close>

text \<open>
  Keys are keys in hexadecimal, a route query that finds no route is an error, and the blinded paths
  of a payment request are complete.
\<close>

definition lnd_documented :: "secp \<Rightarrow> 'w client \<Rightarrow> bool" where
  "lnd_documented K c \<longleftrightarrow>
     (\<forall>w info w'. lc_get_info c w = (Inr info, w') \<longrightarrow> pk_from_str K (gi_identity_pubkey info) \<noteq> None) \<and>
     (\<forall>b w ps w'. lc_list_peers c b w = (Inr ps, w') \<longrightarrow> (\<forall>p\<in>set ps. pk_from_str K (peer_pub_key p) \<noteq> None)) \<and>
     (\<forall>r w cs w'. lc_list_channels c r w = (Inr cs, w') \<longrightarrow>
        (\<forall>ch\<in>set cs. pk_from_str K (chan_remote_pubkey ch) \<noteq> None)) \<and>
     (\<forall>r w rs w'. lc_query_routes c r w = (Inr rs, w') \<longrightarrow> rs \<noteq> []) \<and>
     (\<forall>p w r w'. lc_decode_pay_req c p w = (Inr r, w') \<longrightarrow> (\<forall>bp\<in>set (pr_blinded_paths r). lnd_path_wf K bp))"

lemma lnd_documentedD:
  assumes "lnd_documented K c"
  shows "lc_get_info c w = (Inr info, w') \<Longrightarrow> pk_from_str K (gi_identity_pubkey info) \<noteq> None"
    and "lc_list_peers c b w = (Inr ps, w') \<Longrightarrow> \<forall>p\<in>set ps. pk_from_str K (peer_pub_key p) \<noteq> None"
    and "lc_list_channels c r w = (Inr chs, w') \<Longrightarrow> \<forall>ch\<in>set chs. pk_from_str K (chan_remote_pubkey ch) \<noteq> None"
    and "lc_query_routes c q w = (Inr rs, w') \<Longrightarrow> rs \<noteq> []"
    and "lc_decode_pay_req c p w = (Inr pr, w') \<Longrightarrow> \<forall>bp\<in>set (pr_blinded_paths pr). lnd_path_wf K bp"
  subgoal using assms unfolding lnd_documented_def by meson
  subgoal using assms unfolding lnd_documented_def by meson
  subgoal using assms unfolding lnd_documented_def by meson
  subgoal using assms unfolding lnd_documented_def by metis
  subgoal using assms unfolding lnd_documented_def by meson
  done

text \<open>The two panics that are left, and when they are reached.\<close>

definition info_panic :: "'w client \<Rightarrow> string \<Rightarrow> bool" where
  "info_panic c s \<longleftrightarrow> s = ''failed to get info'' \<and> (\<exists>w e w'. lc_get_info c w = (Inl e, w'))"

definition expiry_panic :: "'w ldk \<Rightarrow> duration option \<Rightarrow> string \<Rightarrow> bool" where
  "expiry_panic L expiry s \<longleftrightarrow> s = ''overflow when adding duration to instant'' \<and>
     (\<exists>e w. expiry = Some e \<and> SYSTEM_TIME_END \<le> fst (system_time_now L w) + int e)"

section \<open>Paths\<close>

lemma unwrap_not_panic [simp]: "is_panic (unwrap x) \<longleftrightarrow> x = None"
  by (cases x) auto

context total_connector begin

lemma intro_channels_panics:
  assumes "\<forall>ch\<in>set chs. pk_from_str K (chan_remote_pubkey ch) \<noteq> None"
  shows "panics_only P (intro_channels_loop K C chs acc)"
  using assms
proof (induction chs arbitrary: acc)
  case (Cons ch chs)
  then have IH: "panics_only P (intro_channels_loop K C chs a)" for a by simp
  show ?case
    using Cons.prems IH
    by (auto simp: Let_def split: option.split
        intro!: panic_rules panics_only_total [OF get_node_info_total])
qed simp

lemma intro_node_panics:
  assumes "\<forall>p\<in>set ps. pk_from_str K (peer_pub_key p) \<noteq> None"
  shows "panics_only P (intro_node_loop K C ps)"
  using assms
  by (induction ps) (auto intro!: panic_rules panics_only_total [OF get_node_info_total])

lemma connect_panics: "panics_only P (connect_to_peer K C node_id)"
  by (rule panics_only_total) (rule connect_to_peer_total)

end

lemma paths_loop_panics: "panics_only P (paths_loop L node_id ctx ns)"
  by (induction ns) (auto intro!: panic_rules)

lemma reply_path_panics:
  assumes "lnd_documented K c"
  shows "panics_only P (create_reply_path_for_offer_creation K L (lightning_connector c) node_id ctx)"
    and "panics_only P (create_reply_path_for_outgoing_payments K L (lightning_connector c) node_id ctx)"
proof -
  have chs: "pc_list_active_public_channels (lightning_connector c) w = (Ok chs, w') \<Longrightarrow>
      \<forall>ch\<in>set chs. pk_from_str K (chan_remote_pubkey ch) \<noteq> None" for w chs w'
    using lnd_documentedD(3) [OF assms]
    by (simp add: lightning_connector_def lightning_list_active_public_channels_def)
  have ps: "pc_list_peers (lightning_connector c) w = (Ok ps, w') \<Longrightarrow>
      \<forall>p\<in>set ps. pk_from_str K (peer_pub_key p) \<noteq> None" for w ps w'
    using lnd_documentedD(2) [OF assms] by (simp add: lightning_connector_def lightning_list_peers_def)
  note total = panics_only_total [OF lightning.list_channels_total] panics_only_total [OF lightning.list_peers_total]
  show "panics_only P (create_reply_path_for_offer_creation K L (lightning_connector c) node_id ctx)"
    unfolding create_reply_path_for_offer_creation_def
    by (auto intro!: panic_rules total paths_loop_panics
        intro: lightning.intro_channels_panics [OF chs])
  show "panics_only P (create_reply_path_for_outgoing_payments K L (lightning_connector c) node_id ctx)"
    unfolding create_reply_path_for_outgoing_payments_def
    by (auto intro!: panic_rules total
        intro: lightning.intro_node_panics [OF ps] split: option.split)
qed

section \<open>The operations of the handler\<close>

lemma send_invoice_request_panics:
  assumes "lnd_documented K c"
  shows "panics_only (info_panic c) (send_invoice_request K L destination c ir ctx)"
  unfolding send_invoice_request_def
  by (intro panic_rules)
    (auto intro!: panic_rules lightning.connect_panics reply_path_panics [OF assms]
      panics_only_total [OF get_node_id_total] dest: lnd_documentedD(1) [OF assms]
      simp: info_panic_def io_expect_Ok_iff split: destination.split introduction_node.split)

lemma send_payment_panics:
  assumes "lnd_documented K c"
  shows "panics_only P (send_payment (client_payer K c) params)"
proof -
  have "ip_query_routes (client_payer K c) path cltv base ppm msats fl w = (Ok rs, w') \<Longrightarrow> rs \<noteq> []"
    for path cltv base ppm msats fl w rs w'
    using lnd_documentedD(4) [OF assms]
    by (auto simp: client_payer_def client_query_routes_def io_bind_Ok_iff)
  from this show ?thesis
    unfolding send_payment_def
    by (fastforce intro!: panic_rules panics_only_total [OF lnd_payer.query_routes_total]
        panics_only_total [OF lnd_payer.send_to_route_total] split: list.splits)
qed

lemma track_payment_panics: "panics_only P (track_payment (client_payer K c) hash)"
  by (simp add: track_payment_def panics_only_total [OF lnd_payer.track_payment_total])

lemma pay_invoice_panics:
  assumes "lnd_documented K c"
  shows "panics_only P (pay_invoice K c amount invoice pid fl)"
proof -
  have "panics_only P (pay_paths_loop K c amount hash pid fl paths last_error)" for hash paths last_error
    by (induction paths arbitrary: last_error)
      (auto intro!: panic_rules send_payment_panics [OF assms] track_payment_panics
        panics_only_total [OF get_node_id_from_scid_total] split: introduction_node.split option.split)
  then show ?thesis by (simp add: pay_invoice_def)
qed

lemma wait_for_invoice_panics: "panics_only P (wait_for_invoice sleep n pid)"
  using wait_for_invoice_outcome [of sleep n pid] by (fastforce simp: panics_only_def)

lemma register_payment_not_panic: "\<not> is_panic (fst (register_payment pid h))"
  by (simp add: register_payment_def split: option.split)

lemma get_invoice_panics:
  assumes "lnd_documented K (po_client cfg)"
  shows "panics_only (info_panic (po_client cfg)) (get_invoice K L sleep cfg)"
  unfolding get_invoice_def Let_def
  by (auto intro!: panic_rules send_invoice_request_panics [OF assms] wait_for_invoice_panics
      panics_only_total [OF create_invoice_request_total] register_payment_not_panic split: option.split prod.split)

lemma pay_offer_panics:
  assumes "lnd_documented K (po_client cfg)"
  shows "panics_only (info_panic (po_client cfg)) (pay_offer K L sleep cfg)"
  unfolding pay_offer_def
  by (auto intro!: panic_rules get_invoice_panics [OF assms] pay_invoice_panics [OF assms] split: prod.split)

lemma system_time_sum_panics:
  assumes "run_total (system_time_now L) w = (Ok t, w')" and "\<And>t. panics_only (expiry_panic L (Some e)) (k t)"
  shows "panics_only (expiry_panic L (Some e)) (if SYSTEM_TIME_END \<le> t + int e
    then io_lift (Panic ''overflow when adding duration to instant'') else k t)"
proof -
  have "fst (system_time_now L w) = t"
    using assms(1) by (simp add: run_total_def split: prod.splits)
  then show ?thesis
    using assms(2) by (auto intro!: panic_rules simp: expiry_panic_def)
qed

lemma create_offer_panics:
  assumes "lnd_documented K c"
  shows "panics_only (expiry_panic L (co_expiry args))
    (create_offer K L (lightning_offer_creator c) (lightning_connector c) args key)"
  unfolding create_offer_def lightning_offer_creator_def Let_def
  by (auto intro!: panics_only_bind panics_only_lift reply_path_panics [OF assms] split: option.split
      elim!: system_time_sum_panics simp del: if_split)

lemma create_invoice_panics:
  assumes "lnd_documented K c"
  shows "panics_only P (create_invoice K L c ir)"
proof -
  have "bic_decode_payment_request (client_invoice_creator c) p w = (Ok pr, w') \<Longrightarrow>
      \<not> is_panic (parse_blinded_paths K (pr_blinded_paths pr))" for p w pr w'
    using lnd_documentedD(5) [OF assms] parse_blinded_paths_total [of "pr_blinded_paths pr" K]
    by (cases "parse_blinded_paths K (pr_blinded_paths pr)")
      (auto simp: client_invoice_creator_def client_decode_payment_request_def split: if_splits)
  then show ?thesis
    unfolding create_invoice_def create_invoice_info_from_request_def
    by (auto intro!: panic_rules simp: client_invoice_creator_def client_add_invoice_def
        client_decode_payment_request_def Let_def)
qed

lemma handle_message_panics:
  assumes "\<And>c. client_opt = Some c \<Longrightarrow> lnd_documented K c"
  shows "panics_only P (handle_message K L client_opt message ctx resp)"
  unfolding handle_message_def handle_invoice_request_message_def
  by (auto intro!: panic_rules create_invoice_panics assms
      split: offers_message.split option.split offers_context.split sum.split prod.split)

section \<open>The calls of the service\<close>

text \<open>Connecting gives clients of an LND that keeps to its documentation.\<close>

definition connect_documented :: "secp \<Rightarrow> 'w connect \<Rightarrow> bool" where
  "connect_documented K connect \<longleftrightarrow>
     (\<forall>a cert m s c s'. connect a cert m s = (Inr c, s') \<longrightarrow> lnd_documented K c)"

lemma raise_panics [simp]: "panics_only P (raise D m) = panics_only P m"
  by (simp add: raise_def)

lemma connect_with_auth_panics: "panics_only P (connect_with_auth connect self md)"
  unfolding connect_with_auth_def get_lnd_client_def
  by (auto intro!: panic_rules simp: LndCfg_new_def)

lemma lnd_network_panics: "panics_only P (lnd_network c)"
proof -
  have "\<not> is_panic (get_network info)" for info
    by (cases "last_bitcoin_network (gi_chains info) None") (auto simp: get_network_def string_to_network_def Let_def)
  then show ?thesis unfolding lnd_network_def by (auto intro!: panic_rules)
qed

text \<open>The client of a call: what connecting with the macaroon of the metadata gave.\<close>

definition call_client :: "'w connect \<Rightarrow> lndk_server \<Rightarrow> metadata \<Rightarrow> 'w sys client \<Rightarrow> bool" where
  "call_client connect self md c \<longleftrightarrow> (\<exists>s s'. connect_with_auth connect self md s = (Ok c, s'))"

lemma connected_panics:
  assumes "connect_documented K connect"
    and "\<And>c. call_client connect self md c \<Longrightarrow> lnd_documented K c \<Longrightarrow> panics_only P (k c)"
  shows "panics_only P (io_bind (connect_with_auth connect self md) k)"
proof (rule panics_only_bind)
  fix c s s' assume run: "connect_with_auth connect self md s = (Ok c, s')"
  then have "lnd_documented K c"
    using assms(1) unfolding connect_documented_def connect_with_auth_Ok by blast
  moreover have "call_client connect self md c" using run unfolding call_client_def by blast
  ultimately show "panics_only P (k c)" by (rule assms(2) [rotated])
qed (rule connect_with_auth_panics)

lemma is_panic_res_bind_iff: "is_panic (res_bind r f) \<longleftrightarrow> is_panic r \<or> (\<exists>a. r = Ok a \<and> is_panic (f a))"
  by (cases r) auto

lemma parsers_not_panic [simp]:
  "\<not> is_panic (decode L str)" "\<not> is_panic (get_destination o')" "\<not> is_panic (invoice_from_string D str)"
  "\<not> is_panic (encode_invoice_as_hex D invoice)" "\<not> is_panic (validate_amount a b)"
  by (auto simp: is_panic_res_bind_iff decode_def get_destination_def invoice_from_string_def encode_invoice_as_hex_def validate_amount_def
      split: option.splits sum.splits list.splits amount.splits)

text \<open>
  C16. Which panics a call can end in. With an LND that answers as documented, \<open>pay_invoice\<close>,
  \<open>decode_invoice\<close> and the handling of a message never panic; \<open>pay_offer\<close> and \<open>get_invoice\<close> panic only
  with the message of the \<open>expect\<close> on \<open>get_info\<close>, when the LND of the call fails that request;
  \<open>create_offer\<close> panics only when the expiry asked for is past the end of the system time.
\<close>

theorem calls_panic_only:
  assumes "connect_documented K connect" and "\<And>c. client_opt = Some c \<Longrightarrow> lnd_documented K c"
  shows "panics_only (\<lambda>s. \<exists>c. call_client connect self md c \<and> info_panic c s)
      (server_pay_offer K L D connect sleep self md pay) \<and>
    panics_only (\<lambda>s. \<exists>c. call_client connect self md c \<and> info_panic c s)
      (server_get_invoice K L D connect sleep self md get) \<and>
    panics_only (expiry_panic L (map_option from_secs (cor_expiry create)))
      (server_create_offer K L D connect self md create) \<and>
    no_panic (server_pay_invoice K L D connect self md payinv) \<and>
    no_panic (server_decode_invoice K D str) \<and>
    no_panic (handle_message K L client_opt message ctx resp)"
    (is "?pay \<and> ?get \<and> ?create \<and> ?payinv \<and> ?decode \<and> ?message")
proof (intro conjI)
  note connected = connected_panics [OF assms(1)]
  have info: "panics_only (\<lambda>s. \<exists>c. call_client connect self md c \<and> info_panic c s) m"
    if "panics_only (info_panic (po_client cfg)) m" "call_client connect self md (po_client cfg)" for cfg m
    using that by (blast intro: panics_only_mono)
  show ?pay unfolding server_pay_offer_def Let_def
    by (intro connected panics_only_bind)
      (auto intro!: panic_rules intro: info [OF pay_offer_panics] lnd_network_panics)
  show ?get unfolding server_get_invoice_def Let_def
    by (intro connected panics_only_bind)
      (auto intro!: panic_rules intro: info [OF get_invoice_panics] lnd_network_panics split: prod.split)
  show ?create unfolding server_create_offer_def handler_create_offer_def Let_def
    by (intro connected panics_only_bind)
      (auto intro!: panic_rules intro: panics_only_mono [OF create_offer_panics] lnd_network_panics simp: from_params_def)
  show ?payinv unfolding server_pay_invoice_def no_panic_iff
    by (intro connected panics_only_bind) (auto intro!: panic_rules pay_invoice_panics)
  show ?decode unfolding server_decode_invoice_def no_panic_iff
    by (auto intro!: panic_rules)
  show ?message unfolding no_panic_iff using assms(2) by (rule handle_message_panics)
qed

lemma sample_connect_documented: "connect_documented sample_secp sample_connect"
  by (simp add: connect_documented_def sample_connect_def lnd_documented_def paying_client_def offline_client_def
      unavailable_def)

theorem calls_panic_only_witness:
  "panics_only (\<lambda>s. \<exists>c. call_client sample_connect sample_server sample_md c \<and> info_panic c s)
     (server_pay_offer sample_secp quiet_ldk sample_codec sample_connect delivering_sleep sample_server sample_md
        sample_pay_request) \<and>
   no_panic (server_pay_invoice sample_secp quiet_ldk sample_codec sample_connect sample_server []
        \<lparr>pir_invoice = ''00'', pir_amount = None, pir_fee_limit = None, pir_fee_limit_percent = None\<rparr>)"
proof -
  note ok = calls_panic_only [OF sample_connect_documented, where client_opt = None]
  show ?thesis
    using ok [where self = sample_server and md = sample_md and pay = sample_pay_request and L = quiet_ldk
        and D = sample_codec and sleep = delivering_sleep]
      ok [where self = sample_server and md = "[]" and L = quiet_ldk and D = sample_codec]
    by blast
qed

section \<open>The tasks of the messenger\<close>

text \<open>LND names peers by their keys, in lists, in peer events and in messages.\<close>

fun round_valid :: "secp \<Rightarrow> subscription_round \<Rightarrow> bool" where
  "round_valid K (SubscribeRound (Some (Inr ins))) \<longleftrightarrow> (\<forall>m. Received (Inr m) \<in> set ins \<longrightarrow>
     cm_type m = ONION_MESSAGE_TYPE \<longrightarrow> pk_from_slice K (cm_peer m) \<noteq> None)"
| "round_valid K _ \<longleftrightarrow> True"

fun input_valid :: "'w task_env \<Rightarrow> 'w task_input \<Rightarrow> bool" where
  "input_valid E (InReconnection c _ _ _ _) \<longleftrightarrow> lnd_documented (te_secp E) c"
| "input_valid E (InPeers _ sub _ _) \<longleftrightarrow> (\<forall>ins e. sub = Some (Inr ins) \<longrightarrow> Received (Inr e) \<in> set ins \<longrightarrow>
     pk_from_str (te_secp E) (pe_pub_key e) \<noteq> None)"
| "input_valid E (InMessages _ rounds _) \<longleftrightarrow> list_all (round_valid (te_secp E)) rounds"
| "input_valid E (InOutgoing _ _ _) \<longleftrightarrow> True"

lemma peers_not_panic:
  "\<forall>e. Received (Inr e) \<in> set ins \<longrightarrow> pk_from_str K (pe_pub_key e) \<noteq> None \<Longrightarrow>
   fst (produce_peer_events K sh support alive ins sent w) \<noteq> Some (Panic s)"
  by (induction K sh support alive ins sent w rule: produce_peer_events.induct)
    (auto simp: send_event_def split: option.splits prod.splits peer_event_type.splits)

lemma messages_not_panic:
  "\<forall>m. Received (Inr m) \<in> set ins \<longrightarrow> cm_type m = ONION_MESSAGE_TYPE \<longrightarrow> pk_from_slice K (cm_peer m) \<noteq> None \<Longrightarrow>
   fst (produce_incoming_message_events K sh read alive ins sent) \<noteq> Some (Panic s)"
  by (induction K sh read alive ins sent rule: produce_incoming_message_events.induct)
    (auto simp: send_event_def split: option.splits)

lemma outgoing_not_panic: "fst (produce_outgoing_message_events alive ticks sent) \<noteq> Some (Panic s)"
  by (induction alive ticks sent rule: produce_outgoing_message_events.induct) (auto simp: send_event_def)

lemma subscribed_not_panic:
  "list_all (round_valid K) rounds \<Longrightarrow>
   fst (subscribe_custom_messages_with_retry K sh read alive rounds sent) \<noteq> Some (Panic s)"
proof (induction K sh read alive rounds sent rule: subscribe_custom_messages_with_retry.induct)
  case (5 K sh read alive ins rounds sent)
  obtain r sent' where p: "produce_incoming_message_events K sh read alive ins sent = (r, sent')" by fastforce
  have "r \<noteq> Some (Panic s)" for s
    using messages_not_panic [of ins K sh read alive sent s] 5(2) p by auto
  with 5 p show ?case by (auto split: option.split res.split simp: case_unit_Unity)
qed simp_all

lemma build_peer_support_not_panic:
  "(\<And>p. p \<in> set ps \<Longrightarrow> pk_from_str K (peer_pub_key p) \<noteq> None) \<Longrightarrow>
   \<not> is_panic (build_peer_support_from_response K ps acc)"
proof (induction ps arbitrary: acc)
  case (Cons p ps)
  from Cons.prems [of p] obtain k where "pk_from_str K (peer_pub_key p) = Some k" by auto
  with Cons show ?case by simp
qed simp

lemma reconnection_not_panic:
  assumes "lnd_documented K c"
  shows "fst (receive_reconnection_event K c alive ins sent w) \<noteq> Some (Panic s)"
  using assms
proof (induction K c alive ins sent w rule: receive_reconnection_event.induct)
  case (3 K c alive x ins sent w)
  have "\<not> is_panic (build_peer_support_from_response K ps [])" if "list_peers_with_retries c w = Some (Inr ps, w')" for ps w'
  proof -
    from that obtain n where "fst (lc_list_peers c False (after_calls (lc_list_peers c) False n w)) = Inr ps"
      by (cases rule: infinite_retries_outcome [of "lc_list_peers c" False w False])
        (auto simp: list_peers_with_retries_def)
    then show ?thesis
      by (intro build_peer_support_not_panic) (use lnd_documentedD(2) [OF 3(2)] in \<open>metis prod.collapse\<close>)
  qed
  with 3 show ?case by (auto split: option.split prod.split sum.split res.split bool.split)
qed simp_all

lemma task_end_panicked [simp]: "task_end r = (Panicked, triggers) \<longleftrightarrow> (\<exists>s. r = Panic s) \<and> \<not> triggers"
  by (cases r) (auto simp: task_end_def)

lemma tasks_never_panic: "input_valid E i \<Longrightarrow> run_task E i \<noteq> Some (Panicked, triggers)"
  by (cases i)
    (auto simp: reconnection_task_def peers_task_def messages_task_def outgoing_task_def reconnection_not_panic
      peers_not_panic subscribed_not_panic outgoing_not_panic split: option.splits sum.splits)

text \<open>
  So with such inputs, when all tasks have ended and the messenger of the lightning library accepts
  every connection, \<open>run_onion_messenger\<close> reports success, whatever events passed.
\<close>

lemma consume_accepted:
  assumes "\<And>k i b m. fst (om_peer_connected M k i b m)"
  shows "fst (consume_loop K M R send nets es st) = Ok ()"
proof (induction es arbitrary: st)
  case (Cons e es)
  have "fst (consume_event K M R send nets e st) = Ok ()"
    using assms by (cases e) (auto simp: consume_event_def split: prod.split bool.split, metis fst_conv)
  then obtain st' where "consume_event K M R send nets e st = (Ok (), st')" by (metis prod.collapse)
  with Cons.IH show ?case by simp
qed simp

lemma messenger_ends_ok:
  assumes "list_all (input_valid E) inputs" and "map (run_task E) inputs = map Some outcomes"
    and "\<And>k i b m. fst (om_peer_connected M k i b m)" and "get_current_peers K c w = (Ok ps, w')"
  shows "fst (run_onion_messenger K ch M clk c m net cfg events (map (\<lambda>r. fst r = Clean) outcomes) w) = Ok ()"
proof -
  have "list_all id (map (\<lambda>r. fst r = Clean) outcomes)"
    using assms(1,2)
  proof (induction inputs arbitrary: outcomes)
    case (Cons i inputs)
    then obtain r rs where "outcomes = r # rs" "run_task E i = Some r" by (cases outcomes) auto
    with Cons tasks_never_panic [of E i "snd r"] show ?case
      by (cases "fst r") (auto, metis prod.collapse)
  qed simp
  moreover obtain st' where "consume_messenger_events K ch M token_limiter_ops (CustomMessenger_send c) net
      (connected_events ps @ events)
      \<lparr>cs_messenger = m, cs_limiter = TokenLimiter_new (keys_of ps) (cfg_call_count cfg) (cfg_call_period_secs cfg) clk,
       cs_world = w', cs_spawned = [], cs_delivered = []\<rparr> = (Ok (), st')"
    unfolding consume_messenger_events_def using consume_accepted [OF assms(3)] by (metis prod.collapse)
  ultimately show ?thesis using assms(4) by (simp add: run_onion_messenger_def)
qed

section \<open>The shutdown\<close>

text \<open>
  What a task gets when the signal is given after it has seen its input: the signal comes next, in whatever stream
  it is reading from. The task of the messages reads one stream after the other, and a stream that ended by
  itself is not read to the signal.
\<close>

fun round_with_signal :: "subscription_round \<Rightarrow> subscription_round" where
  "round_with_signal (SubscribeRound (Some (Inr ins))) = SubscribeRound (Some (Inr (ins @ [Quit])))"
| "round_with_signal r = r"

fun with_signal :: "'w task_input \<Rightarrow> 'w task_input" where
  "with_signal (InReconnection c alive ins sent w) = InReconnection c alive (ins @ [Quit]) sent w"
| "with_signal (InPeers alive sub sent w) = InPeers alive (map_option (map_sum id (\<lambda>ins. ins @ [Quit])) sub) sent w"
| "with_signal (InMessages alive rounds sent) = InMessages alive (map round_with_signal rounds @ [ShutdownRound]) sent"
| "with_signal (InOutgoing alive ticks sent) = InOutgoing alive (ticks @ [Quit]) sent"

text \<open>LND is reached after some retries, whenever it is called.\<close>

fun retries_end :: "'w task_input \<Rightarrow> bool" where
  "retries_end (InReconnection c _ _ _ _) \<longleftrightarrow> (\<forall>w. \<exists>n. \<not> call_retries (lc_list_peers c) False n w)"
| "retries_end (InPeers _ sub _ _) \<longleftrightarrow> sub \<noteq> None"
| "retries_end (InMessages _ rounds _) \<longleftrightarrow> SubscribeRound None \<notin> set rounds"
| "retries_end (InOutgoing _ _ _) \<longleftrightarrow> True"

lemma round_with_signal_valid: "round_valid K r \<Longrightarrow> round_valid K (round_with_signal r)"
  by (cases r rule: round_with_signal.cases) auto

lemma with_signal_valid: "input_valid E i \<Longrightarrow> input_valid E (with_signal i)"
proof (cases i)
  case (InPeers alive sub sent w)
  then show "input_valid E i \<Longrightarrow> input_valid E (with_signal i)"
    by (cases sub rule: option.exhaust; cases "the sub") auto
qed (auto simp: list_all_iff round_with_signal_valid)

lemma list_peers_returns:
  assumes "\<forall>w. \<exists>n. \<not> call_retries (lc_list_peers c) False n w"
  shows "list_peers_with_retries c w \<noteq> None"
  by (rule infinite_retries_outcome [of "lc_list_peers c" False w False])
    (use assms in \<open>auto simp: list_peers_with_retries_def\<close>)

lemma build_peer_support_not_Err: "build_peer_support_from_response K ps acc \<noteq> Err e"
proof (induction ps arbitrary: acc)
  case (Cons p ps)
  then show ?case by (cases "pk_from_str K (peer_pub_key p)") auto
qed simp

lemma reconnection_ends:
  assumes "\<forall>w. list_peers_with_retries c w \<noteq> None"
  shows "fst (receive_reconnection_event K c alive (ins @ [Quit]) sent w) \<noteq> None"
proof (induction ins arbitrary: sent w)
  case (Cons x ins)
  show ?case
  proof (cases x)
    case (Received u)
    from assms obtain r w' where r: "list_peers_with_retries c w = Some (r, w')" by (metis not_Some_eq prod.collapse)
    show ?thesis
    proof (cases r)
      case (Inr ps)
      then show ?thesis
        using r Received Cons.IH
        by (cases "build_peer_support_from_response K ps []")
          (auto simp: build_peer_support_not_Err split: prod.split bool.split)
    qed (use r Received in simp)
  qed simp
qed simp

lemma subscribed_ends:
  assumes "SubscribeRound None \<notin> set rounds"
  shows "fst (subscribe_custom_messages_with_retry K sh read alive (map round_with_signal rounds @ [ShutdownRound]) sent) \<noteq> None"
  using assms
proof (induction rounds arbitrary: sent)
  case (Cons r rounds)
  show ?case
  proof (cases r rule: round_with_signal.cases)
    case (1 ins)
    obtain o' sent' where p: "produce_incoming_message_events K sh read alive (ins @ [Quit]) sent = (o', sent')" by fastforce
    have "o' \<noteq> None"
      using messages_producer.quit_stops [where K = K and sh = sh and read = read and alive = alive
          and ins = "ins @ [Quit]" and sent = sent and w = "()"] p by simp
    with 1 p Cons show ?thesis by (auto split: res.split simp: case_unit_Unity)
  qed (use Cons.prems in auto)
qed simp

lemma signalled_task_ends:
  assumes "retries_end i"
  shows "run_task E (with_signal i) \<noteq> None"
proof (cases i)
  case (InReconnection c alive ins sent w)
  with assms have "list_peers_with_retries c v \<noteq> None" for v using list_peers_returns [of c v] by simp
  with InReconnection reconnection_ends [of c "te_secp E" alive ins sent w] show ?thesis by (simp add: reconnection_task_def)
next
  case (InPeers alive sub sent w)
  have "fst (produce_peer_events (te_secp E) (te_show E) (te_support E) alive (ins @ [Quit]) sent w) \<noteq> None" for ins
    using peers_producer.quit_stops [where K = "te_secp E" and sh = "te_show E" and support = "te_support E"
        and alive = alive and ins = "ins @ [Quit]" and sent = sent and w = w] by simp
  moreover from assms InPeers obtain x where "sub = Some x" by auto
  ultimately show ?thesis using InPeers by (cases x) (simp_all add: peers_task_def)
next
  case (InMessages alive rounds sent)
  with assms subscribed_ends show ?thesis by (simp add: messages_task_def)
next
  case (InOutgoing alive ticks sent)
  then show ?thesis
    using outgoing_producer.quit_stops [where alive = alive and ins = "ticks @ [Quit]" and sent = sent and w = "()"]
    by (auto simp: outgoing_task_def case_prod_beta)
qed

text \<open>
  C27. A shutdown completes: whatever the tasks have seen when the signal is given, if their calls to LND come to
  an end (a task that retries does not listen meanwhile) and LND names peers by valid keys, every one of them ends,
  none of them with a panic, and then \<open>run_onion_messenger\<close> returns success, whatever
  events passed, if it could start and the messenger of the lightning library refuses no connection.
\<close>

theorem shutdown_completes:
  assumes "list_all (input_valid E) inputs" and "list_all retries_end inputs"
    and "\<forall>k init inbound m. fst (om_peer_connected M k init inbound m)" and "get_current_peers K c w = (Ok ps, w')"
  shows "\<exists>outcomes. map (\<lambda>i. run_task E (with_signal i)) inputs = map Some outcomes \<and>
    list_all (\<lambda>r. fst r = Clean) outcomes \<and>
    fst (run_onion_messenger K ch M clk c m net cfg events (map (\<lambda>r. fst r = Clean) outcomes) w) = Ok ()"
proof -
  define outcomes where "outcomes = map (\<lambda>i. the (run_task E (with_signal i))) inputs"
  have o: "map (run_task E) (map with_signal inputs) = map Some outcomes"
    using assms(2) signalled_task_ends [of _ E] by (simp add: outcomes_def list_all_iff)
  have v: "list_all (input_valid E) (map with_signal inputs)"
    using assms(1) by (auto simp: list_all_iff with_signal_valid)
  have "fst (the (run_task E (with_signal i))) = Clean" if "i \<in> set inputs" for i
  proof -
    from that assms have i: "input_valid E (with_signal i)" "run_task E (with_signal i) \<noteq> None"
      by (auto simp: list_all_iff with_signal_valid signalled_task_ends simp del: not_None_eq)
    then obtain out triggers where "run_task E (with_signal i) = Some (out, triggers)" by auto
    with tasks_never_panic [OF i(1), of triggers] show ?thesis by (cases out) auto
  qed
  then have "list_all (\<lambda>r. fst r = Clean) outcomes" by (auto simp: outcomes_def list_all_iff)
  moreover have "fst (run_onion_messenger K ch M clk c m net cfg events (map (\<lambda>r. fst r = Clean) outcomes) w) = Ok ()"
    by (rule messenger_ends_ok [OF v o _ assms(4)]) (use assms(3) in blast)
  ultimately show ?thesis using o by (auto simp: comp_def)
qed

definition reachable_client :: "nat client" where
  "reachable_client = offline_client\<lparr>lc_list_peers := (\<lambda>_ w.
     (Inr [\<lparr>peer_pub_key = pk_to_string sample_secp (PublicKey 7), peer_features = []\<rparr>], w))\<rparr>"

lemma reachable_valid:
  "lnd_documented sample_secp reachable_client" "\<not> call_retries (lc_list_peers reachable_client) r 0 w"
  "\<exists>ps. get_current_peers sample_secp reachable_client 0 = (Ok ps, 0)"
proof -
  have k: "pk_from_str sample_secp (pk_to_string sample_secp k) = Some k" for k
    using sample_secp_documented by (simp add: secp_documented_def)
  show "lnd_documented sample_secp reachable_client"
    by (simp add: lnd_documented_def reachable_client_def offline_client_def unavailable_def k)
  show "\<not> call_retries (lc_list_peers reachable_client) r 0 w"
    by (simp add: call_retries_def reachable_client_def)
  show "\<exists>ps. get_current_peers sample_secp reachable_client 0 = (Ok ps, 0)"
    by (simp add: get_current_peers_def reachable_client_def io_simps k)
qed

theorem shutdown_completes_witness:
  "\<exists>outcomes. map (\<lambda>i. run_task sample_env (with_signal i))
      [InReconnection reachable_client (\<lambda>_. True) [Received ()] [] 0, InPeers (\<lambda>_. True) (Some (Inr [])) [] 0,
       InMessages (\<lambda>_. True) [SubscribeRound (Some (Inr [Received (Inl (Status_new CodeUnknown ''''))]))] [],
       InOutgoing (\<lambda>_. True) [Received ()] []] = map Some outcomes \<and>
    fst (run_onion_messenger sample_secp (\<lambda>_. []) sample_messenger (\<lambda>i. i) reachable_client () Bitcoin
      \<lparr>cfg_call_count = 1, cfg_call_period_secs = 100\<rparr> [SendOutgoing] (map (\<lambda>r. fst r = Clean) outcomes) 0) = Ok ()"
proof -
  let ?inputs = "[InReconnection reachable_client (\<lambda>_. True) [Received ()] [] 0, InPeers (\<lambda>_. True) (Some (Inr [])) [] 0,
       InMessages (\<lambda>_. True) [SubscribeRound (Some (Inr [Received (Inl (Status_new CodeUnknown ''''))]))] [],
       InOutgoing (\<lambda>_. True) [Received ()] []]"
  obtain ps where ps: "get_current_peers sample_secp reachable_client 0 = (Ok ps, 0)"
    using reachable_valid(3) by blast
  have v: "list_all (input_valid sample_env) ?inputs"
    by (simp add: reachable_valid sample_env_def)
  have r: "list_all retries_end ?inputs"
    using reachable_valid(2) by auto
  have m: "\<forall>k init inbound m. fst (om_peer_connected sample_messenger k init inbound m)"
    by (simp add: sample_messenger_def)
  from shutdown_completes [OF v r m ps] show ?thesis by blast
qed

end
