(* ===== verification/Daemon.thy ===== *)
theory Daemon
  imports Server Onion_Messenger Tls_Files
begin

text \<open>
  \<open>src/lib.rs\<close> and \<open>src/main.rs\<close>: the logger, the checks \<open>LndkOnionMessenger::run\<close> makes of LND
  before it runs the messenger, and the start of the daemon up to the point where the messenger
  and the gRPC server run side by side. The libraries for logging, configuration, TLS and
  signals are parameters.
\<close>

section \<open>The machine the daemon starts on\<close>

datatype level_filter = LevelOff | LevelError | LevelWarn | LevelInfo | LevelDebug | LevelTrace

record log_config =
  lg_file :: path
  lg_loggers :: "(string \<times> level_filter) list"
  lg_root :: level_filter

record 'w machine =
  mc_disk :: disk
  mc_logger :: "log_config option"
  mc_net :: 'w

definition on_disk :: "(disk, 'e, 'a) io \<Rightarrow> ('w machine, 'e, 'a) io" where
  "on_disk m = (\<lambda>s. case m (mc_disk s) of (r, d) \<Rightarrow> (r, s\<lparr>mc_disk := d\<rparr>))"

definition on_net :: "('w, 'e, 'a) io \<Rightarrow> ('w machine, 'e, 'a) io" where
  "on_net m = (\<lambda>s. case m (mc_net s) of (r, w) \<Rightarrow> (r, s\<lparr>mc_net := w\<rparr>))"

section \<open>The logger\<close>

text \<open>\<open>init_config\<close> tells with which error the logging library refuses a configuration.\<close>

definition init_logger :: "(log_config \<Rightarrow> string option) \<Rightarrow> log_config \<Rightarrow> ('w machine, 'e, unit) io" where
  "init_logger init_config config = (\<lambda>s.
     case mc_logger s of
       Some _ \<Rightarrow> (Ok (), s)
     | None \<Rightarrow> (case init_config config of
           None \<Rightarrow> (Ok (), s\<lparr>mc_logger := Some config\<rparr>)
         | Some e \<Rightarrow> (Panic ''failed to initialize logger'', s)))"

definition setup_logger ::
  "(string \<Rightarrow> level_filter option) \<Rightarrow> (path \<Rightarrow> string option) \<Rightarrow> (log_config \<Rightarrow> string option) \<Rightarrow> string option \<Rightarrow>
   string option \<Rightarrow> path option \<Rightarrow> ('w machine, unit, unit) io" where
  "setup_logger level_from_str open_log init_config home_dir log_level log_file =
     io_bind (case log_level of
         Some level_str \<Rightarrow> io_lift (ok_or () (level_from_str level_str))
       | None \<Rightarrow> io_return LevelTrace) (\<lambda>level.
     io_bind (case log_file of
         Some f \<Rightarrow> io_return f
       | None \<Rightarrow> io_bind (io_lift (unwrap home_dir)) (\<lambda>home.
           io_return (path_join (path_join (path_join home DEFAULT_LNDK_DIR) DEFAULT_DATA_DIR) DEFAULT_LOG_FILE)))
       (\<lambda>f.
     io_bind (case open_log f of None \<Rightarrow> io_return () | Some e \<Rightarrow> io_lift (Panic ''unwrap'')) (\<lambda>_.
     init_logger init_config
       \<lparr>lg_file = f,
        lg_loggers = [(''h2'', LevelInfo), (''hyper'', LevelInfo), (''rustls'', LevelInfo),
          (''tokio_util'', LevelInfo), (''tracing'', LevelInfo), (LDK_LOGGER_NAME, level)],
        lg_root = level\<rparr>)))"

section \<open>Running the messenger\<close>

text \<open>The signals of the configuration reach the messenger through its events and tasks.\<close>

record run_cfg =
  run_lnd :: lnd_cfg
  run_skip_version_check :: bool
  run_rate_limit_count :: u8
  run_rate_limit_period_secs :: u64

type_synonym ('w, 'c) connector = "string \<Rightarrow> string \<Rightarrow> string \<Rightarrow> ('w, string, 'c) stub"

text \<open>The part of \<open>run\<close> before the messenger is made.\<close>

definition check_node ::
  "secp \<Rightarrow> ('w, 'w client) connector \<Rightarrow> ('w, 'w client) connector \<Rightarrow> run_cfg \<Rightarrow>
   ('w, unit, 'w client \<times> network \<times> public_key) io" where
  "check_node K connect connect_from_memory args =
     io_bind (io_expect ''failed to connect'' (get_lnd_client connect connect_from_memory (run_lnd args))) (\<lambda>c.
     io_bind (io_expect ''failed to get info'' (rpc (lc_get_info c))) (\<lambda>info.
     io_bind (io_expect ''failed to get network'' (io_lift (get_network info))) (\<lambda>net.
     io_bind (io_lift (unwrap (pk_from_str K (gi_identity_pubkey info)))) (\<lambda>pubkey.
     if \<not> features_support_onion_messages (gi_features info) then io_err ()
     else
     io_bind (io_expect ''failed to get version'' (rpc (lc_get_version c))) (\<lambda>version.
     if \<not> has_build_tags version None then io_err ()
     else if \<not> run_skip_version_check args \<and> \<not> has_version version None then io_err ()
     else io_return (c, net, pubkey))))))"

text \<open>\<open>M\<close> makes the messenger of LDK from the node's client, network and key.\<close>

definition LndkOnionMessenger_run ::
  "secp \<Rightarrow> (network \<Rightarrow> u8 list) \<Rightarrow> ('w client \<Rightarrow> network \<Rightarrow> public_key \<Rightarrow> 'm onion_messenger) \<Rightarrow> 'm \<Rightarrow>
   (nat \<Rightarrow> instant) \<Rightarrow> ('w, 'w client) connector \<Rightarrow> ('w, 'w client) connector \<Rightarrow> run_cfg \<Rightarrow>
   messenger_event list \<Rightarrow> bool list \<Rightarrow> 'w \<Rightarrow> (unit, unit) res \<times> ('m, token_limiter, 'w) consumer option" where
  "LndkOnionMessenger_run K chain_hash M m clk connect connect_from_memory args events tasks w =
     (case check_node K connect connect_from_memory args w of
        (Ok (c, net, pubkey), w') \<Rightarrow>
          run_onion_messenger K chain_hash (M c net pubkey) clk c m net
            \<lparr>cfg_call_count = run_rate_limit_count args,
             cfg_call_period_secs = from_secs (run_rate_limit_period_secs args)\<rparr> events tasks w'
      | (Err e, w') \<Rightarrow> (Err (), None)
      | (Panic msg, w') \<Rightarrow> (Panic msg, None))"

section \<open>Starting the daemon\<close>

record config =
  c_address :: string
  c_cert_path :: "string option"
  c_cert_pem :: "string option"
  c_tls_ip :: "string option"
  c_macaroon_path :: "string option"
  c_macaroon_hex :: "string option"
  c_data_dir :: "string option"
  c_log_file :: "string option"
  c_log_level :: "string option"
  c_grpc_host :: "string option"
  c_grpc_port :: "16 word option"
  c_skip_version_check :: bool
  c_response_invoice_timeout :: "u32 option"
  c_rate_limit_count :: u8
  c_rate_limit_period_secs :: u64

datatype main_exit = MainErr | ExitCode nat

text \<open>What the daemon runs with once it is up.\<close>

record ('w, 'a) daemon =
  dm_handler :: offer_handler
  dm_client :: "'w client"
  dm_server :: lndk_server
  dm_identity :: identity
  dm_addr :: 'a
  dm_args :: run_cfg

text \<open>
  The libraries the start relies on: reading the configuration files (or the code the process
  exits with), logging, the handlers of signals, parsing a socket address, making certificates
  and taking a TLS identity.
\<close>

record ('w, 'a) platform =
  pf_home_dir :: "string option"
  pf_load_config :: "path list \<Rightarrow> nat + config"
  pf_level_from_str :: "string \<Rightarrow> level_filter option"
  pf_open_log :: "path \<Rightarrow> string option"
  pf_init_config :: "log_config \<Rightarrow> string option"
  pf_signal :: "string \<Rightarrow> ('w, string, unit) stub"
  pf_connect :: "('w, 'w client) connector"
  pf_connect_from_memory :: "('w, 'w client) connector"
  pf_parse_addr :: "string \<Rightarrow> string + 'a"
  pf_generate :: "string list \<Rightarrow> string + certified_key"
  pf_tls_config :: "identity \<Rightarrow> string option"

definition as_stub :: "('w, string, 'a) io \<Rightarrow> ('w, string, 'a) stub" where
  "as_stub m = (\<lambda>w. case m w of (Ok a, w') \<Rightarrow> (Inr a, w') | (Err e, w') \<Rightarrow> (Inl e, w') | (Panic s, w') \<Rightarrow> (Inl s, w'))"

text \<open>The error of a step becomes the error of \<open>main\<close>, after a line in the log.\<close>

definition or_fail :: "('s, 'e, 'a) io \<Rightarrow> ('s, main_exit, 'a) io" where
  "or_fail m = io_map_err (\<lambda>_. MainErr) m"

definition log_file_of :: "config \<Rightarrow> path option" where
  "log_file_of cfg =
     (case c_log_file cfg of
        Some f \<Rightarrow> Some f
      | None \<Rightarrow> map_option (\<lambda>dir. path_join dir DEFAULT_LOG_FILE) (c_data_dir cfg))"

definition args_of :: "config \<Rightarrow> creds \<Rightarrow> run_cfg" where
  "args_of cfg cr =
     \<lparr>run_lnd = LndCfg_new (c_address cfg) cr, run_skip_version_check = c_skip_version_check cfg,
      run_rate_limit_count = c_rate_limit_count cfg,
      run_rate_limit_period_secs = c_rate_limit_period_secs cfg\<rparr>"

definition grpc_address :: "config \<Rightarrow> string" where
  "grpc_address cfg =
     (case c_grpc_host cfg of Some host \<Rightarrow> host | None \<Rightarrow> DEFAULT_SERVER_HOST) @ '':'' @
     decimal (unat (case c_grpc_port cfg of Some port \<Rightarrow> port | None \<Rightarrow> DEFAULT_SERVER_PORT))"

definition startup ::
  "secp \<Rightarrow> 'w ldk \<Rightarrow> os \<Rightarrow> ('w, 'a) platform \<Rightarrow> ('w machine, main_exit, ('w, 'a) daemon) io" where
  "startup K L os P =
     io_bind (io_lift (get_conf_file_paths (pf_home_dir P))) (\<lambda>paths.
     io_bind (io_lift (map_err ExitCode (res_of_sum (pf_load_config P paths)))) (\<lambda>cfg.
     io_bind (or_fail (on_disk (create_data_dir os (pf_home_dir P) (c_data_dir cfg)))) (\<lambda>data_dir.
     io_bind (or_fail (setup_logger (pf_level_from_str P) (pf_open_log P) (pf_init_config P) (pf_home_dir P)
       (c_log_level cfg) (log_file_of cfg))) (\<lambda>_.
     io_bind (or_fail (io_lift (validate_lnd_creds (c_cert_path cfg) (c_cert_pem cfg)
       (c_macaroon_path cfg) (c_macaroon_hex cfg)))) (\<lambda>cr.
     let args = args_of cfg cr in
     io_bind (or_fail (on_net (rpc (pf_signal P ''terminate'')))) (\<lambda>_.
     io_bind (or_fail (on_net (rpc (pf_signal P ''interrupt'')))) (\<lambda>_.
     if c_response_invoice_timeout cfg = Some 0 then io_err (ExitCode 1)
     else
     io_bind (on_net (io_expect ''failed to connect to lnd''
       (get_lnd_client (pf_connect P) (pf_connect_from_memory P) (run_lnd args)))) (\<lambda>c.
     io_bind (on_net (io_expect ''failed to get info'' (rpc (lc_get_info c)))) (\<lambda>info.
     io_bind (or_fail (io_lift (res_of_sum (pf_parse_addr P (grpc_address cfg))))) (\<lambda>addr.
     io_bind (or_fail (on_disk (get_certificate_string (\<lambda>p. as_stub (read_to_string os p)) cr))) (\<lambda>lnd_tls_str.
     io_bind (or_fail (on_disk (generate_tls_creds os (pf_generate P) data_dir (c_tls_ip cfg)))) (\<lambda>_.
     io_bind (or_fail (on_disk (read_tls os data_dir))) (\<lambda>ident.
     io_bind (or_fail (on_net (build_seed_from_lnd_node L (client_signer c)))) (\<lambda>seed.
     let handler = OfferHandler_new (c_response_invoice_timeout cfg) (Some seed) [] in
     io_bind (io_lift (LNDKServer_new K (gi_identity_pubkey info) lnd_tls_str (c_address cfg))) (\<lambda>server.
     io_bind (case pf_tls_config P ident of None \<Rightarrow> io_return () | Some e \<Rightarrow> io_lift (Panic ''configure tls''))
       (\<lambda>_.
     io_return \<lparr>dm_handler = handler, dm_client = c, dm_server = server, dm_identity = ident,
       dm_addr = addr, dm_args = args\<rparr>))))))))))))))))"

text \<open>The messenger and the server then run until one of them is done, however it ends.\<close>

datatype ('m, 'e) first_done = MessengerDone 'm | ApiDone "'e + unit"

definition main_select :: "('m, 'e) first_done \<Rightarrow> (main_exit, unit) res" where
  "main_select done_first = (case done_first of MessengerDone r \<Rightarrow> Ok () | ApiDone r \<Rightarrow> Ok ())"


section \<open>What the messenger runs on\<close>

lemma expect_Ok [simp]: "expect msg r = Ok a \<longleftrightarrow> r = Ok a"
  by (cases r) auto

lemma io_expect_Ok [simp]: "io_expect msg m w = (Ok a, w') \<longleftrightarrow> m w = (Ok a, w')"
  by (cases "m w") (simp add: io_expect_def)

lemma check_node_Ok:
  "check_node K con con_mem args w = (Ok (c, net, k), w') \<Longrightarrow>
   \<exists>info version w1 w2. get_lnd_client con con_mem (run_lnd args) w = (Ok c, w1) \<and>
     lc_get_info c w1 = (Inr info, w2) \<and> get_network info = Ok net \<and>
     pk_from_str K (gi_identity_pubkey info) = Some k \<and> features_support_onion_messages (gi_features info) \<and>
     lc_get_version c w2 = (Inr version, w') \<and> set BUILD_TAGS_REQUIRED \<subseteq> set (build_tags version) \<and>
     (run_skip_version_check args \<or> has_version version None)"
  by (auto simp: check_node_def io_bind_Ok_iff has_build_tags_subset split: if_splits)

lemma run_Some:
  assumes "LndkOnionMessenger_run K chain_hash M m clk con con_mem args events tasks w = (r, Some st)"
  obtains c net k w' where "check_node K con con_mem args w = (Ok (c, net, k), w')"
    and "run_onion_messenger K chain_hash (M c net k) clk c m net
      \<lparr>cfg_call_count = run_rate_limit_count args,
       cfg_call_period_secs = from_secs (run_rate_limit_period_secs args)\<rparr> events tasks w' = (r, Some st)"
  using assms unfolding LndkOnionMessenger_run_def by (auto split: prod.splits res.splits)

text \<open>
  C31. The messenger handles events only on a node that can carry them: LND answers, knows its
  network, announces support for onion messages, has the build tags LNDK needs and, unless the
  check is skipped, at least the minimal version.
\<close>

theorem run_requires_compatible_node:
  assumes "LndkOnionMessenger_run K chain_hash M m clk con con_mem args events tasks w = (r, Some st)"
  shows "\<exists>c info version w1 w2 w3. get_lnd_client con con_mem (run_lnd args) w = (Ok c, w1) \<and>
    lc_get_info c w1 = (Inr info, w2) \<and> is_ok (get_network info) \<and>
    features_support_onion_messages (gi_features info) \<and> lc_get_version c w2 = (Inr version, w3) \<and>
    set BUILD_TAGS_REQUIRED \<subseteq> set (build_tags version) \<and>
    (run_skip_version_check args \<or> has_version version None)"
proof -
  obtain c net k w' where "check_node K con con_mem args w = (Ok (c, net, k), w')"
    using assms by (rule run_Some)
  from check_node_Ok [OF this] show ?thesis by fastforce
qed

lemma messenger_run_limited:
  assumes "run_onion_messenger K chain_hash M clk c m net cfg events tasks w = (r, Some st)"
    and "mono clk" and "0 < cfg_call_period_secs cfg"
  shows "delivered_from k (cs_delivered st) \<le> unat (cfg_call_count cfg) *
    (2 + (limiter_time (cs_limiter st) - clk 1) div cfg_call_period_secs cfg)"
proof -
  from assms(1) obtain ps w' r' where
    run: "consume_messenger_events K chain_hash M token_limiter_ops (CustomMessenger_send c) net
      (connected_events ps @ events)
      \<lparr>cs_messenger = m, cs_limiter = TokenLimiter_new (keys_of ps) (cfg_call_count cfg) (cfg_call_period_secs cfg) clk,
       cs_world = w', cs_spawned = [], cs_delivered = []\<rparr> = (r', st)"
    unfolding run_onion_messenger_def by (auto simp: Let_def split: prod.splits res.splits)
  let ?l = "TokenLimiter_new (keys_of ps) (cfg_call_count cfg) (cfg_call_period_secs cfg) clk"
  have "limiter_time ?l = clk 1" "call_count ?l = cfg_call_count cfg"
    "call_frequency ?l = cfg_call_period_secs cfg"
    by (simp_all add: limiter_time_def TokenLimiter_new_def)
  then show ?thesis
    using tokens.consumed_within_limit [OF run [unfolded consume_messenger_events_def], of k]
      limiter_invar_new [OF assms(2)] assms(3) by (simp add: limiter_quota_def)
qed

text \<open>
  C10. The configured rate limit holds for the whole run: from start to end, the messenger is handed
  at most \<open>rate_limit_count\<close> messages of a peer for each period of \<open>rate_limit_period_secs\<close> that
  passes, plus two further quotas.
\<close>

theorem run_rate_limited:
  assumes "LndkOnionMessenger_run K chain_hash M m clk con con_mem args events tasks w = (r, Some st)"
    and "mono clk" and "run_rate_limit_period_secs args \<noteq> 0"
  shows "delivered_from k (cs_delivered st) \<le> unat (run_rate_limit_count args) *
    (2 + (limiter_time (cs_limiter st) - clk 1) div from_secs (run_rate_limit_period_secs args))"
proof -
  obtain c net k' w' where run: "run_onion_messenger K chain_hash (M c net k') clk c m net
      \<lparr>cfg_call_count = run_rate_limit_count args,
       cfg_call_period_secs = from_secs (run_rate_limit_period_secs args)\<rparr> events tasks w' = (r, Some st)"
    using assms(1) by (rule run_Some)
  have "0 < from_secs (run_rate_limit_period_secs args)"
    using assms(3) by (simp add: from_secs_def unat_gt_0)
  then show ?thesis using messenger_run_limited [OF run assms(2), of k] by simp
qed

text \<open>A node to run on.\<close>

definition compatible_client :: "nat client" where
  "compatible_client = offline_client
     \<lparr>lc_get_info := (\<lambda>w. (Inr \<lparr>gi_identity_pubkey = pk_to_string sample_secp (PublicKey 8),
        gi_chains = [\<lparr>chain_name = ''bitcoin'', chain_network = ''mainnet''\<rparr>], gi_features = [39]\<rparr>, w)),
      lc_get_version := (\<lambda>w. (Inr \<lparr>app_major = 0, app_minor = 19, app_patch = 0, app_pre_release = '''',
        build_tags = BUILD_TAGS_REQUIRED\<rparr>, w)),
      lc_list_peers := (\<lambda>_ w. (Inr [], w)),
      lc_sign_message := (\<lambda>_ w. (Inr [5], w))\<rparr>"

definition sample_args :: run_cfg where
  "sample_args = \<lparr>run_lnd = LndCfg_new ''https://localhost:10009'' (CredsString ''0201'' ''pem''),
     run_skip_version_check = False, run_rate_limit_count = 10, run_rate_limit_period_secs = 1\<rparr>"

lemma sample_key [simp]: "pk_from_str sample_secp (pk_to_string sample_secp k) = Some k"
  using sample_secp_documented by (simp add: secp_documented_def)

lemma mainnet [simp]: "get_network \<lparr>gi_identity_pubkey = k,
    gi_chains = [\<lparr>chain_name = ''bitcoin'', chain_network = ''mainnet''\<rparr>], gi_features = fs\<rparr> = Ok Bitcoin"
  by (simp add: get_network_def string_to_network_def to_lowercase_def Let_def)

lemma sample_check_node:
  "check_node sample_secp (\<lambda>_ _ _ w. (Inr compatible_client, w)) (\<lambda>_ _ _ w. (Inr compatible_client, w)) sample_args 0 =
     (Ok (compatible_client, Bitcoin, PublicKey 8), 0)"
  by (simp add: check_node_def sample_args_def get_lnd_client_def LndCfg_new_def compatible_client_def
      features_support_onion_messages_def ONION_MESSAGES_OPTIONAL_def has_build_tags_subset has_version_def
      MIN_LND_VERSION_def io_simps)

lemma sample_run:
  "\<exists>r st. LndkOnionMessenger_run sample_secp (\<lambda>_. []) (\<lambda>_ _ _. sample_messenger) () (\<lambda>i. i)
     (\<lambda>_ _ _ w. (Inr compatible_client, w)) (\<lambda>_ _ _ w. (Inr compatible_client, w)) sample_args [] [] 0 = (r, Some st)"
  unfolding LndkOnionMessenger_run_def sample_check_node
  by (simp add: run_onion_messenger_def get_current_peers_def compatible_client_def io_simps
      consume_messenger_events_def connected_events_def)

theorem run_requires_compatible_node_witness:
  "\<exists>info w1 w2. lc_get_info compatible_client w1 = (Inr info, w2) \<and> features_support_onion_messages (gi_features info)"
proof -
  from sample_run obtain r st where "LndkOnionMessenger_run sample_secp (\<lambda>_. []) (\<lambda>_ _ _. sample_messenger) () (\<lambda>i. i)
     (\<lambda>_ _ _ w. (Inr compatible_client, w)) (\<lambda>_ _ _ w. (Inr compatible_client, w)) sample_args [] [] 0 = (r, Some st)"
    by blast
  from run_requires_compatible_node [OF this] show ?thesis
    by (auto simp: sample_args_def get_lnd_client_def LndCfg_new_def)
qed

theorem run_rate_limited_witness:
  "\<exists>r st. LndkOnionMessenger_run sample_secp (\<lambda>_. []) (\<lambda>_ _ _. sample_messenger) () (\<lambda>i. i)
     (\<lambda>_ _ _ w. (Inr compatible_client, w)) (\<lambda>_ _ _ w. (Inr compatible_client, w)) sample_args [] [] 0 = (r, Some st) \<and>
     delivered_from (PublicKey 7) (cs_delivered st) \<le> 10 * (2 + (limiter_time (cs_limiter st) - 1) div 1000000000)"
proof -
  from sample_run obtain r st where run: "LndkOnionMessenger_run sample_secp (\<lambda>_. []) (\<lambda>_ _ _. sample_messenger) () (\<lambda>i. i)
     (\<lambda>_ _ _ w. (Inr compatible_client, w)) (\<lambda>_ _ _ w. (Inr compatible_client, w)) sample_args [] [] 0 = (r, Some st)"
    by blast
  have "run_rate_limit_period_secs sample_args \<noteq> 0" and "mono (\<lambda>i :: nat. i)"
    by (simp_all add: sample_args_def mono_def)
  from run_rate_limited [OF run this(2,1), of "PublicKey 7"] run show ?thesis
    by (auto simp: sample_args_def from_secs_def)
qed


section \<open>What the daemon starts with\<close>

lemma or_fail_Ok [simp]: "or_fail m s = (Ok a, s') \<longleftrightarrow> m s = (Ok a, s')"
  by (simp add: or_fail_def)

lemma on_disk_Ok: "on_disk m s = (r, s') \<longleftrightarrow> (\<exists>d. m (mc_disk s) = (r, d) \<and> s' = s\<lparr>mc_disk := d\<rparr>)"
  by (auto simp: on_disk_def split: prod.splits)

text \<open>
  The daemon comes up only with valid settings: the credentials are accepted, the timeout for
  invoices is not zero, and the TLS library takes the identity; then the handler tracks no
  payment, waits the configured time for invoices, and derives its keys from the seed; and the
  server and the messenger work on the configured node.
\<close>

theorem startup_ready:
  assumes "startup K L os P s = (Ok dm, s')"
  shows "\<exists>paths cfg cr seed. get_conf_file_paths (pf_home_dir P) = (Ok paths :: (main_exit, string list) res) \<and>
    pf_load_config P paths = Inr cfg \<and>
    validate_lnd_creds (c_cert_path cfg) (c_cert_pem cfg) (c_macaroon_path cfg) (c_macaroon_hex cfg) = Ok cr \<and>
    c_response_invoice_timeout cfg \<noteq> Some 0 \<and> pf_tls_config P (dm_identity dm) = None \<and>
    dm_handler dm = OfferHandler_new (c_response_invoice_timeout cfg) (Some seed) [] \<and>
    0 < response_invoice_timeout (dm_handler dm) \<and> srv_address (dm_server dm) = c_address cfg \<and>
    dm_args dm = args_of cfg cr"
proof -
  have "\<exists>paths cfg cr seed. get_conf_file_paths (pf_home_dir P) = (Ok paths :: (main_exit, string list) res) \<and>
    pf_load_config P paths = Inr cfg \<and>
    validate_lnd_creds (c_cert_path cfg) (c_cert_pem cfg) (c_macaroon_path cfg) (c_macaroon_hex cfg) = Ok cr \<and>
    c_response_invoice_timeout cfg \<noteq> Some 0 \<and> pf_tls_config P (dm_identity dm) = None \<and>
    dm_handler dm = OfferHandler_new (c_response_invoice_timeout cfg) (Some seed) [] \<and>
    srv_address (dm_server dm) = c_address cfg \<and> dm_args dm = args_of cfg cr"
    using assms unfolding startup_def Let_def
    by (clarsimp simp: io_bind_Ok_iff LNDKServer_new_def res_bind_Ok_iff split: if_splits option.splits)
      (rule exI, rule refl)
  moreover have "0 < response_invoice_timeout (OfferHandler_new t seed rnd)" if "t \<noteq> Some 0" for t seed rnd
    using that by (auto simp: OfferHandler_new_def DEFAULT_RESPONSE_INVOICE_TIMEOUT_def word_gt_0
        split: option.split)
  ultimately show ?thesis by metis
qed

text \<open>What the start keeps of the disk: that a key file is guarded.\<close>

definition key_kept :: "path \<Rightarrow> file_map \<Rightarrow> 'w machine \<Rightarrow> 'w machine \<Rightarrow> bool" where
  "key_kept p fs0 s s' \<longleftrightarrow> (always_guarded p fs0 (mc_disk s) \<longrightarrow> always_guarded p fs0 (mc_disk s'))"

interpretation kept: rely "key_kept p fs0" for p fs0
  by unfold_locales (auto simp: key_kept_def)

lemma net_kept: "moves (key_kept p fs0) (on_net m)"
  by (simp add: moves_def key_kept_def on_net_def case_prod_beta)

lemma disk_kept: "triple (always_guarded p fs0) m Q (always_guarded p fs0) \<Longrightarrow> moves (key_kept p fs0) (on_disk m)"
  by (simp add: moves_def key_kept_def on_disk_def triple_def case_prod_beta)

lemma logger_kept: "moves (key_kept p fs0) (setup_logger lv ol ic home l f)"
  unfolding setup_logger_def
  by (intro kept.moves_intros)
    (auto simp: moves_def key_kept_def init_logger_def io_simps split: option.split res.split prod.split)

lemma reading_kept:
  "triple G (create_data_dir os home dir) G G" "triple G (read_tls os d) G G"
  "triple G (get_certificate_string (\<lambda>p. as_stub (read_to_string os p)) cr) G G"
  by (auto simp: triple_def create_data_dir_def create_dir_all_def read_tls_def get_certificate_string_def
      as_stub_def read_to_string_def syscall_def io_simps split: option.split creds.split res.split)

lemma startup_kept:
  assumes "p = path_join dir TLS_KEY_FILENAME"
  shows "moves (key_kept p fs0) (startup K L os P)"
  unfolding startup_def Let_def or_fail_def
  by (intro kept.moves_intros)
    (auto intro!: kept.moves_intros net_kept logger_kept disk_kept reading_kept generate_guarded [OF assms]
      split: option.split)


text \<open>A platform on which the daemon starts.\<close>

definition sample_config :: config where
  "sample_config = \<lparr>c_address = ''https://localhost:10009'', c_cert_path = None, c_cert_pem = Some ''pem'',
     c_tls_ip = None, c_macaroon_path = None, c_macaroon_hex = Some ''0201'', c_data_dir = Some ''/d'',
     c_log_file = None, c_log_level = None, c_grpc_host = None, c_grpc_port = None,
     c_skip_version_check = False, c_response_invoice_timeout = None, c_rate_limit_count = 10,
     c_rate_limit_period_secs = 1\<rparr>"

definition sample_platform :: "(nat, string) platform" where
  "sample_platform = \<lparr>pf_home_dir = Some ''/home/u'', pf_load_config = (\<lambda>_. Inr sample_config),
     pf_level_from_str = (\<lambda>_. Some LevelInfo), pf_open_log = (\<lambda>_. None), pf_init_config = (\<lambda>_. None),
     pf_signal = (\<lambda>_ w. (Inr (), w)), pf_connect = (\<lambda>_ _ _ w. (Inr compatible_client, w)),
     pf_connect_from_memory = (\<lambda>_ _ _ w. (Inr compatible_client, w)), pf_parse_addr = Inr,
     pf_generate = sample_gen, pf_tls_config = (\<lambda>_. None)\<rparr>"

definition sample_machine :: "nat machine" where
  "sample_machine = \<lparr>mc_disk = empty_disk, mc_logger = None, mc_net = 0\<rparr>"

lemma sample_startup:
  "\<exists>dm s' m. startup sample_secp sample_ldk sample_os sample_platform sample_machine = (Ok dm, s') \<and>
     d_files (mc_disk s') ''/d/tls-key.pem'' = Some \<lparr>f_content = ''K'', f_mode = m\<rparr>"
proof -
  obtain d' where g: "generate_tls_creds sample_os sample_gen ''/d'' None empty_disk = (Ok (), d')"
    and k: "\<exists>m. d_files d' ''/d/tls-key.pem'' = Some \<lparr>f_content = ''K'', f_mode = m\<rparr>"
    and r: "\<exists>i. read_tls sample_os ''/d'' d' = (Ok i, d')"
    using sample_generate by (auto simp: tls_run_simps)
  from r obtain i where i: "read_tls sample_os ''/d'' d' = (Ok i, d')" by blast
  show ?thesis
    by (simp add: startup_def Let_def sample_platform_def sample_config_def sample_machine_def io_bind_def or_fail_def
        io_map_err_def io_lift_def io_return_def io_expect_def rpc_def on_disk_def on_net_def g i k get_conf_file_paths_def
        get_default_lnkd_dir_path_def create_data_dir_def create_dir_all_def syscall_def sample_os_def [THEN arg_cong, of os_fails]
        log_file_of_def setup_logger_def init_logger_def validate_lnd_creds_def args_of_def get_lnd_client_def
        LndCfg_new_def compatible_client_def get_certificate_string_def build_seed_from_lnd_node_def
        client_signer_def client_sign_message_def LNDKServer_new_def)
qed

theorem startup_ready_witness:
  "\<exists>dm s'. startup sample_secp sample_ldk sample_os sample_platform sample_machine = (Ok dm, s') \<and>
     0 < response_invoice_timeout (dm_handler dm)"
  using sample_startup startup_ready by meson

end
