(* ===== verification/Cli.thy ===== *)
theory Cli
  imports Server Tls_Files
begin

text \<open>
  \<open>src/cli.rs\<close>: \<open>lndk-cli\<close>, which decodes offers and invoices itself and sends everything else to
  the gRPC server, with the certificate and the macaroon its options name. Each run prints
  lines and ends normally or with exit code 1.
\<close>

section \<open>Runs of the program\<close>

record 'w cli_world =
  cw_out :: "string list"
  cw_disk :: disk
  cw_net :: 'w

text \<open>The error of a run is that the process has exited with code 1.\<close>

type_synonym ('w, 'a) cli = "('w cli_world, unit, 'a) io"

definition println :: "string \<Rightarrow> ('w, unit) cli" where
  "println line = (\<lambda>s. (Ok (), s\<lparr>cw_out := cw_out s @ [line]\<rparr>))"

definition exit_gracefully :: "string \<Rightarrow> ('w, 'a) cli" where
  "exit_gracefully line = io_bind (println line) (\<lambda>_. io_err ())"

text \<open>\<open>unwrap_or_else\<close> with an exit, on files, on the network and on values.\<close>

definition or_exit :: "('e \<Rightarrow> string) \<Rightarrow> ('w cli_world, 'e, 'a) io \<Rightarrow> ('w, 'a) cli" where
  "or_exit line m = io_match m io_return (\<lambda>e. exit_gracefully (line e))"

definition on_files :: "(disk, 'e, 'a) io \<Rightarrow> ('w cli_world, 'e, 'a) io" where
  "on_files m = (\<lambda>s. case m (cw_disk s) of (r, d) \<Rightarrow> (r, s\<lparr>cw_disk := d\<rparr>))"

definition on_wire :: "('w, 'e, 'a) io \<Rightarrow> ('w cli_world, 'e, 'a) io" where
  "on_wire m = (\<lambda>s. case m (cw_net s) of (r, w) \<Rightarrow> (r, s\<lparr>cw_net := w\<rparr>))"

text \<open>The stub of the gRPC service, and the libraries of the program.\<close>

record 'w offers_client =
  of_pay_offer :: "metadata \<Rightarrow> pay_offer_request \<Rightarrow> ('w, status, string) io"
  of_get_invoice :: "metadata \<Rightarrow> get_invoice_request \<Rightarrow> ('w, status, string \<times> invoice_contents option) io"
  of_pay_invoice :: "metadata \<Rightarrow> pay_invoice_request \<Rightarrow> ('w, status, string) io"
  of_create_offer :: "metadata \<Rightarrow> create_offer_request \<Rightarrow> ('w, status, string) io"

record client_tls_config =
  ct_ca_certificate :: string
  ct_domain_name :: string

record 'w cli_lib =
  cl_home_dir :: "string option"
  cl_from_shared :: "string \<Rightarrow> string option"
  cl_tls_config :: "client_tls_config \<Rightarrow> string option"
  cl_connect :: "string \<Rightarrow> client_tls_config \<Rightarrow> ('w, string, 'w offers_client) stub"
  cl_parse_metadata :: "string \<Rightarrow> string + string"
  cl_show_offer :: "offer \<Rightarrow> string"
  cl_show_invoice :: "bolt12_invoice \<Rightarrow> string"
  cl_show_invoice_response :: "string \<times> invoice_contents option \<Rightarrow> string"
  cl_show_offer_response :: "string \<Rightarrow> string"

section \<open>Options\<close>

datatype commands =
    DecodeOffer (offer_string: string)
  | DecodeInvoice (invoice_string: string)
  | PayOffer (offer_string: string) (amount: "u64 option") (payer_note: "string option")
      (response_timeout: "u32 option") (fee_limit: "u32 option") (fee_limit_percent: "u32 option")
  | GetInvoice (offer_string: string) (amount: "u64 option") (payer_note: "string option")
      (response_timeout: "u32 option")
  | PayInvoice (invoice_string: string) (amount: "u64 option") (fee_limit: "u32 option")
      (fee_limit_percent: "u32 option")
  | CreateOffer (amount: "u64 option") (description: "string option") (issuer: "string option")
      (expiry: "u64 option") (quantity: "u64 option")

record cli_args =
  ca_network :: string
  ca_macaroon_path :: "path option"
  ca_macaroon_hex :: "string option"
  ca_cert_pem :: "string option"
  ca_cert_path :: "path option"
  ca_grpc_host :: string
  ca_grpc_port :: u16
  ca_command :: commands

text \<open>The default of the option \<open>response_invoice_timeout\<close>.\<close>

definition timeout_option :: "u32 option \<Rightarrow> u32 option" where
  "timeout_option given = Some (case given of Some t \<Rightarrow> t | None \<Rightarrow> DEFAULT_RESPONSE_INVOICE_TIMEOUT)"

section \<open>Certificate and macaroon\<close>

definition get_macaroon_path_default :: "string option \<Rightarrow> string \<Rightarrow> ('e, path) res" where
  "get_macaroon_path_default home_dir network =
     res_bind (unwrap home_dir) (\<lambda>home.
     Ok (path_join home (''.lnd/data/chain/bitcoin/'' @ network @ ''/admin.macaroon'')))"

definition read_macaroon_from_file :: "codec \<Rightarrow> os \<Rightarrow> path \<Rightarrow> (disk, string, string) io" where
  "read_macaroon_from_file D os p =
     io_bind (read_to_string os p) (\<lambda>buffer. io_return (hex_encode D (as_bytes buffer)))"

definition read_cert_from_args ::
  "os \<Rightarrow> string option \<Rightarrow> string option \<Rightarrow> path option \<Rightarrow> (disk, string, client_tls_config) io" where
  "read_cert_from_args os home_dir cert_pem_arg cert_path_arg =
     (if cert_path_arg \<noteq> None \<and> cert_pem_arg \<noteq> None
      then io_err ''ERROR: Only one of `cert_path` or `cert_pem` should be set.''
      else
      io_bind (case (cert_pem_arg, cert_path_arg) of
          (Some pem, _) \<Rightarrow> io_return pem
        | (None, Some cert_path) \<Rightarrow>
            io_map_err (\<lambda>e. ''ERROR: failed to read cert: '' @ e) (read_to_string os cert_path)
        | (None, None) \<Rightarrow>
            io_bind (io_lift (unwrap home_dir)) (\<lambda>home.
            let data_dir = path_join (path_join home DEFAULT_LNDK_DIR) DEFAULT_DATA_DIR in
            io_map_err (\<lambda>e. ''ERROR: failed to read cert: '' @ e)
              (read_to_string os (path_join data_dir TLS_CERT_FILENAME)))) (\<lambda>pem.
      io_return \<lparr>ct_ca_certificate = pem, ct_domain_name = ''localhost''\<rparr>))"

definition read_cert_from_args_or_exit ::
  "os \<Rightarrow> string option \<Rightarrow> string option \<Rightarrow> path option \<Rightarrow> ('w, client_tls_config) cli" where
  "read_cert_from_args_or_exit os home_dir cert_pem_arg cert_path_arg =
     or_exit (\<lambda>err. err) (on_files (read_cert_from_args os home_dir cert_pem_arg cert_path_arg))"

definition read_macaroon_from_args ::
  "codec \<Rightarrow> os \<Rightarrow> string option \<Rightarrow> path option \<Rightarrow> string option \<Rightarrow> string \<Rightarrow> ('w, string) cli" where
  "read_macaroon_from_args D os home_dir macaroon_path macaroon_hex network =
     (if macaroon_path \<noteq> None \<and> macaroon_hex \<noteq> None
      then exit_gracefully ''ERROR: Only one of `macaroon_path` or `macaroon_hex` should be set.''
      else case macaroon_path of
        Some p \<Rightarrow> or_exit (\<lambda>e. ''ERROR: failed to read macaroon from file '' @ e)
            (on_files (read_macaroon_from_file D os p))
      | None \<Rightarrow> (case macaroon_hex of
            Some macaroon \<Rightarrow> io_return macaroon
          | None \<Rightarrow>
              io_bind (io_lift (get_macaroon_path_default home_dir network)) (\<lambda>p.
              or_exit (\<lambda>e. ''ERROR: failed to read macaroon from file '' @ e)
                (on_files (read_macaroon_from_file D os p)))))"

section \<open>The connection\<close>

definition create_grpc_channel ::
  "'w cli_lib \<Rightarrow> string \<Rightarrow> u16 \<Rightarrow> client_tls_config \<Rightarrow> ('w, 'w offers_client) cli" where
  "create_grpc_channel B grpc_host grpc_port tls =
     (let endpoint = grpc_host @ '':'' @ decimal (unat grpc_port)
      in
      io_bind (case cl_from_shared B endpoint of
          Some e \<Rightarrow> exit_gracefully (''ERROR: failed to create endpoint '' @ e) | None \<Rightarrow> io_return ()) (\<lambda>_.
      io_bind (case cl_tls_config B tls of
          Some e \<Rightarrow> exit_gracefully (''ERROR: failed to configure tls '' @ e) | None \<Rightarrow> io_return ()) (\<lambda>_.
      or_exit (\<lambda>e. ''ERROR: failed to connect '' @ e) (on_wire (rpc (cl_connect B endpoint tls))))))"

definition create_authenticated_client ::
  "codec \<Rightarrow> os \<Rightarrow> string option \<Rightarrow> 'w offers_client \<Rightarrow> path option \<Rightarrow> string option \<Rightarrow> string \<Rightarrow>
   ('w, 'w offers_client \<times> string) cli" where
  "create_authenticated_client D os home_dir channel macaroon_path macaroon_hex network =
     io_bind (read_macaroon_from_args D os home_dir macaroon_path macaroon_hex network) (\<lambda>macaroon.
     io_return (channel, macaroon))"

definition add_metadata :: "'w cli_lib \<Rightarrow> metadata \<Rightarrow> string \<Rightarrow> ('w, metadata) cli" where
  "add_metadata B md macaroon =
     (case cl_parse_metadata B macaroon of
        Inl e \<Rightarrow> exit_gracefully (''ERROR: failed to parse provided macaroon string into tonic metadata '' @ e)
      | Inr m \<Rightarrow> io_return (AList.update ''macaroon'' (Inr m) md))"

text \<open>How every command that uses the server begins.\<close>

definition connect_cli ::
  "codec \<Rightarrow> os \<Rightarrow> 'w cli_lib \<Rightarrow> cli_args \<Rightarrow> ('w, 'w offers_client \<times> string) cli" where
  "connect_cli D os B args =
     io_bind (read_cert_from_args_or_exit os (cl_home_dir B) (ca_cert_pem args) (ca_cert_path args)) (\<lambda>tls.
     io_bind (create_grpc_channel B (ca_grpc_host args) (ca_grpc_port args) tls) (\<lambda>channel.
     create_authenticated_client D os (cl_home_dir B) channel (ca_macaroon_path args) (ca_macaroon_hex args)
       (ca_network args)))"

text \<open>The macaroon is put into the metadata of the request, which is sent.\<close>

definition send_with ::
  "'w cli_lib \<Rightarrow> string \<Rightarrow> (metadata \<Rightarrow> ('w, status, 'r) io) \<Rightarrow> ('w, 'r) cli" where
  "send_with B macaroon request =
     io_bind (add_metadata B [] macaroon) (\<lambda>md. or_exit status_exit_line (on_wire (request md)))"

section \<open>The commands\<close>

definition decode_or_exit :: "'l ldk \<Rightarrow> codec \<Rightarrow> string \<Rightarrow> ('w, offer) cli" where
  "decode_or_exit L D s = or_exit (offer_error_exit_line (show_payment_id D)) (io_lift (decode L s))"

definition cli_main ::
  "'l ldk \<Rightarrow> codec \<Rightarrow> os \<Rightarrow> 'w cli_lib \<Rightarrow> cli_args \<Rightarrow> ('w, unit) cli" where
  "cli_main L D os B args =
     (case ca_command args of
        DecodeOffer s \<Rightarrow>
          io_bind (println (''Decoding offer: '' @ s @ ''.'')) (\<lambda>_.
          io_bind (decode_or_exit L D s) (\<lambda>o'.
          println (''Decoded offer: '' @ cl_show_offer B o' @ ''.'')))
      | DecodeInvoice s \<Rightarrow>
          io_bind (println (''Decoding invoice: '' @ s @ ''.'')) (\<lambda>_.
          io_bind (or_exit (offer_error_exit_line (show_payment_id D)) (io_lift (invoice_from_string D s))) (\<lambda>invoice.
          println (''Decoded invoice: '' @ cl_show_invoice B invoice @ ''.'')))
      | PayOffer s a note t f fp \<Rightarrow>
          io_bind (connect_cli D os B args) (\<lambda>(client, macaroon).
          io_bind (decode_or_exit L D s) (\<lambda>o'.
          io_bind (send_with B macaroon (\<lambda>md. of_pay_offer client md
            \<lparr>por_offer = offer_to_string D o', por_amount = a, por_payer_note = note,
             por_response_invoice_timeout = t, por_fee_limit = f, por_fee_limit_percent = fp\<rparr>)) (\<lambda>_.
          println ''Successfully paid for offer!'')))
      | GetInvoice s a note t \<Rightarrow>
          io_bind (connect_cli D os B args) (\<lambda>(client, macaroon).
          io_bind (decode_or_exit L D s) (\<lambda>o'.
          io_bind (send_with B macaroon (\<lambda>md. of_get_invoice client md
            \<lparr>gir_offer = offer_to_string D o', gir_amount = a, gir_payer_note = note,
             gir_response_invoice_timeout = t\<rparr>)) (\<lambda>response.
          println (''Invoice: '' @ cl_show_invoice_response B response @ ''.''))))
      | PayInvoice s a f fp \<Rightarrow>
          io_bind (connect_cli D os B args) (\<lambda>(client, macaroon).
          io_bind (send_with B macaroon (\<lambda>md. of_pay_invoice client md
            \<lparr>pir_invoice = s, pir_amount = a, pir_fee_limit = f, pir_fee_limit_percent = fp\<rparr>)) (\<lambda>_.
          println ''Successfully paid for offer!''))
      | CreateOffer a desc iss ex q \<Rightarrow>
          io_bind (connect_cli D os B args) (\<lambda>(client, macaroon).
          io_bind (send_with B macaroon (\<lambda>md. of_create_offer client md
            \<lparr>cor_amount = a, cor_description = desc, cor_issuer = iss, cor_quantity = q, cor_expiry = ex\<rparr>)) (\<lambda>response.
          println (''Offer: '' @ cl_show_offer_response B response @ ''.''))))"


section \<open>Failures are reported\<close>

definition reports :: "('w, 'a) cli \<Rightarrow> bool" where
  "reports m \<longleftrightarrow> (\<forall>s. fst (m s) = Err () \<longrightarrow>
     cw_out (snd (m s)) \<noteq> [] \<and> take 5 (last (cw_out (snd (m s)))) = ''ERROR'')"

lemma reports_bind: "reports m \<Longrightarrow> (\<And>a. reports (k a)) \<Longrightarrow> reports (io_bind m k)"
  by (auto simp: reports_def io_bind_def split: prod.split res.split) (metis fst_conv snd_conv)+

lemma reports_exit: "take 5 line = ''ERROR'' \<Longrightarrow> reports (exit_gracefully line)"
  by (simp add: reports_def exit_gracefully_def println_def io_simps)

lemma reports_or_exit: "(\<And>e. take 5 (line e) = ''ERROR'') \<Longrightarrow> reports (or_exit line m)"
  by (auto simp: reports_def or_exit_def exit_gracefully_def println_def io_simps split: prod.split res.split)

lemma reports_simple [simp]: "reports (io_return a)" "reports (println line)" "reports (io_lift (Ok a))"
    "reports (io_lift (Panic msg))"
  by (simp_all add: reports_def println_def io_simps)


lemma exit_lines [simp]: "take 5 (status_exit_line st) = ''ERROR''" "take 5 (offer_error_exit_line sh e) = ''ERROR''"
  by (simp_all add: status_exit_line_def offer_error_exit_line_def split: option.split)

lemma unwrap_not_Err [simp]: "unwrap x \<noteq> Err e"
  by (cases x) simp_all

lemma cert_error_line:
  "read_cert_from_args os home pem p d = (Err e, d') \<Longrightarrow> take 5 e = ''ERROR''"
  by (auto simp: read_cert_from_args_def io_bind_Err_iff io_map_err_Err_iff Let_def
      split: if_splits option.splits)

lemma reports_cert: "reports (read_cert_from_args_or_exit os home pem p)"
  unfolding reports_def read_cert_from_args_or_exit_def
  by (auto simp: or_exit_def on_files_def io_match_def exit_gracefully_def println_def io_simps
      split: prod.split res.split dest: cert_error_line)

lemma reports_macaroon: "reports (read_macaroon_from_args D os home p h network)"
proof -
  have "reports (io_lift (get_macaroon_path_default home network))"
    by (cases home) (simp_all add: get_macaroon_path_default_def)
  then show ?thesis
    unfolding read_macaroon_from_args_def
    by (auto intro!: reports_exit reports_bind reports_or_exit split: option.split)
qed

lemma reports_connect: "reports (connect_cli D os B args)"
  unfolding connect_cli_def create_grpc_channel_def create_authenticated_client_def Let_def
  by (auto intro!: reports_bind reports_cert reports_macaroon reports_exit reports_or_exit split: option.split)

lemma reports_send: "reports (send_with B macaroon request)"
  unfolding send_with_def add_metadata_def
  by (auto intro!: reports_bind reports_exit reports_or_exit split: sum.split)

lemma reports_main: "reports (cli_main L D os B args)"
  unfolding cli_main_def decode_or_exit_def
  by (auto intro!: reports_bind reports_or_exit reports_connect reports_send split: commands.split)

text \<open>
  C37. A failed run of \<open>lndk-cli\<close> says so: whenever the program exits with code 1, the last line it has
  printed starts with \<open>ERROR\<close>.
\<close>

theorem cli_failure_reported:
  assumes "cli_main L D os B args s = (Err (), s')"
  shows "cw_out s' \<noteq> [] \<and> take 5 (last (cw_out s')) = ''ERROR''"
  using reports_main [of L D os B args] assms by (metis reports_def fst_conv snd_conv)

text \<open>For witnesses: a program without a server.\<close>

definition sample_lib :: "'w cli_lib" where
  "sample_lib = \<lparr>cl_home_dir = Some ''/home/u'', cl_from_shared = (\<lambda>_. None), cl_tls_config = (\<lambda>_. None),
     cl_connect = (\<lambda>_ _ w. (Inl ''refused'', w)), cl_parse_metadata = Inr, cl_show_offer = (\<lambda>_. ''''),
     cl_show_invoice = (\<lambda>_. ''''), cl_show_invoice_response = (\<lambda>_. ''''), cl_show_offer_response = id\<rparr>"

definition sample_cli_args :: "commands \<Rightarrow> cli_args" where
  "sample_cli_args cmd = \<lparr>ca_network = ''regtest'', ca_macaroon_path = None, ca_macaroon_hex = Some ''0201'',
     ca_cert_pem = Some ''C'', ca_cert_path = None, ca_grpc_host = ''https://127.0.0.1'', ca_grpc_port = 7000,
     ca_command = cmd\<rparr>"

definition sample_cli_world :: "nat cli_world" where
  "sample_cli_world = \<lparr>cw_out = [], cw_disk = empty_disk, cw_net = 0\<rparr>"

theorem cli_failure_reported_witness:
  "\<exists>s'. cli_main sample_ldk sample_codec sample_os sample_lib (sample_cli_args (DecodeOffer '''')) sample_cli_world =
     (Err (), s') \<and> take 5 (last (cw_out s')) = ''ERROR''"
proof -
  have "\<exists>s'. cli_main sample_ldk sample_codec sample_os sample_lib (sample_cli_args (DecodeOffer '''')) sample_cli_world =
     (Err (), s')"
    by (simp add: cli_main_def sample_cli_args_def decode_or_exit_def decode_def sample_ldk_def or_exit_def
        exit_gracefully_def println_def io_simps)
  then obtain s' where run: "cli_main sample_ldk sample_codec sample_os sample_lib (sample_cli_args (DecodeOffer ''''))
      sample_cli_world = (Err (), s')" by blast
  from cli_failure_reported [OF run] run show ?thesis by blast
qed

section \<open>Successful runs\<close>

lemma or_exit_Ok [simp]: "or_exit line m s = (Ok a, s') \<longleftrightarrow> m s = (Ok a, s')"
  by (auto simp: or_exit_def io_match_Ok_iff exit_gracefully_def io_bind_Ok_iff)

lemma exit_not_Ok [simp]: "exit_gracefully line s \<noteq> (Ok a, s')"
  by (simp add: exit_gracefully_def io_bind_Ok_iff)

lemma on_wire_Ok [simp]: "on_wire m s = (r, s') \<longleftrightarrow> (\<exists>w. m (cw_net s) = (r, w) \<and> s' = s\<lparr>cw_net := w\<rparr>)"
  by (auto simp: on_wire_def split: prod.splits)

lemma on_files_net: "on_files m s = (r, s') \<Longrightarrow> cw_net s' = cw_net s"
  by (auto simp: on_files_def split: prod.splits)

lemma read_macaroon_net:
  "read_macaroon_from_args D os home p h network s = (Ok m, s') \<Longrightarrow> cw_net s' = cw_net s"
  by (auto simp: read_macaroon_from_args_def io_bind_Ok_iff dest: on_files_net split: if_splits option.splits)

lemma connect_cli_Ok:
  assumes "connect_cli D os B args s = (Ok (client, macaroon), s')"
  shows "\<exists>e t. cl_connect B e t (cw_net s) = (Inr client, cw_net s')"
  using assms
  by (auto simp: connect_cli_def read_cert_from_args_or_exit_def create_grpc_channel_def
      create_authenticated_client_def Let_def io_bind_Ok_iff dest!: on_files_net read_macaroon_net split: option.splits)
    blast

lemma send_with_Ok:
  "send_with B macaroon request s = (Ok r, s') \<longleftrightarrow>
     (\<exists>m w. cl_parse_metadata B macaroon = Inr m \<and> request [(''macaroon'', Inr m)] (cw_net s) = (Ok r, w) \<and>
        s' = s\<lparr>cw_net := w\<rparr>)"
  by (auto simp: send_with_def add_metadata_def io_bind_Ok_iff split: sum.splits)

lemma decode_or_exit_Ok [simp]: "decode_or_exit L D str s = (Ok o', s') \<longleftrightarrow> decode L str = Ok o' \<and> s' = s"
  by (auto simp: decode_or_exit_def)

lemma cli_pay_offer_Ok:
  assumes "ca_command args = PayOffer str a note t f fp" and "cli_main L D os B args s = (Ok (), s')"
  shows "\<exists>o' client e tls w m preimage. decode L str = Ok o' \<and> cl_connect B e tls (cw_net s) = (Inr client, w) \<and>
    of_pay_offer client [(''macaroon'', Inr m)] \<lparr>por_offer = offer_to_string D o', por_amount = a, por_payer_note = note,
      por_response_invoice_timeout = t, por_fee_limit = f, por_fee_limit_percent = fp\<rparr> w = (Ok preimage, cw_net s')"
proof -
  from assms obtain client macaroon s1 o' preimage s2 where
    c: "connect_cli D os B args s = (Ok (client, macaroon), s1)" and d: "decode L str = Ok o'"
    and r: "send_with B macaroon (\<lambda>md. of_pay_offer client md
      \<lparr>por_offer = offer_to_string D o', por_amount = a, por_payer_note = note,
       por_response_invoice_timeout = t, por_fee_limit = f, por_fee_limit_percent = fp\<rparr>) s1 = (Ok preimage, s2)"
    and p: "println ''Successfully paid for offer!'' s2 = (Ok () :: (unit, unit) res, s')"
    by (auto simp: cli_main_def io_bind_Ok_iff)
  from p have "cw_net s' = cw_net s2" by (auto simp: println_def)
  with connect_cli_Ok [OF c] d r show ?thesis by (auto simp: send_with_Ok) blast
qed

section \<open>The timeout\<close>

text \<open>The program always states a timeout, so that the one the server is configured with is not
  used for it.\<close>

lemma cli_timeout_overrides_server:
  "timeout_of (cfg\<lparr>po_response_invoice_timeout := timeout_option given\<rparr>) h =
     timeout_of (cfg\<lparr>po_response_invoice_timeout := timeout_option given\<rparr>) h'"
  by (simp add: timeout_of_def timeout_option_def)

end
