(* ===== verification/Unit_Tests.thy ===== *)
theory Unit_Tests
  imports Rate_Limit Grpc_Retry Payments Cli
begin

text \<open>
  The unit tests of \<open>rate_limit.rs\<close>, \<open>grpc.rs\<close>, \<open>lnd.rs\<close>, \<open>offers/parse.rs\<close>, \<open>offers/handler.rs\<close>,
  \<open>main.rs\<close> and \<open>cli.rs\<close>, run on the definitions of this development. A test is a truth value
  that says whether all its assertions hold. What a test takes from outside the repository (keys,
  credentials, the libraries, a temporary directory) is an argument, so a test is shown to pass for every
  choice that has the documented behaviour. A mock object is a stub that keeps a log of
  its calls, and the number of calls a test expects is the length of that log.
\<close>

section \<open>\<open>rate_limit.rs\<close>\<close>

definition TEST_COUNT :: u8 where "TEST_COUNT = 2"

definition TEST_FREQUENCY :: duration where "TEST_FREQUENCY = from_secs 1"

text \<open>A sequence of queries for one peer, with the answers the test expects.\<close>

fun queries :: "public_key \<Rightarrow> bool list \<Rightarrow> token_limiter \<Rightarrow> bool \<times> token_limiter" where
  "queries k [] l = (True, l)"
| "queries k (b # bs) l =
     (case query_peer k l of (r, l1) \<Rightarrow> case queries k bs l1 of (ok, l2) \<Rightarrow> (r = b \<and> ok, l2))"

text \<open>\<open>sort\<close> returns nothing, so the second assertion of the source compares two units; here it compares
  the peers themselves, in any order.\<close>

definition test_peer_connection :: "public_key \<Rightarrow> public_key \<Rightarrow> instant \<Rightarrow> bool" where
  "test_peer_connection pk_0 pk_1 t \<longleftrightarrow>
     (let l = TokenLimiter_new [pk_0] TEST_COUNT TEST_FREQUENCY (\<lambda>_. t) in
      peers l = [pk_0] \<and>
      (let l = peer_connected pk_1 l in
       (peers l = [pk_0, pk_1] \<or> peers l = [pk_1, pk_0]) \<and>
       (let l = peer_disconnected pk_0 l in
        peers l = [pk_1])))"

text \<open>The clock stands still but for the one step of the test, which falls between the seventh and
  the eighth reading.\<close>

definition advanced_clock :: "instant \<Rightarrow> nat \<Rightarrow> instant" where
  "advanced_clock t n = (if n < 7 then t else t + TEST_FREQUENCY)"

definition test_rate_limiting :: "public_key \<Rightarrow> public_key \<Rightarrow> instant \<Rightarrow> bool" where
  "test_rate_limiting pk_0 pk_1 t \<longleftrightarrow>
     (let l = TokenLimiter_new [pk_0] TEST_COUNT TEST_FREQUENCY (advanced_clock t) in
      peers l = [pk_0] \<and>
      (case queries pk_0 (replicate (unat TEST_COUNT) True @ [False]) l of (ok1, l) \<Rightarrow>
      case queries pk_1 [True] (peer_connected pk_1 l) of (ok2, l) \<Rightarrow>
      case queries pk_1 [True, False] (peer_connected pk_1 (peer_disconnected pk_1 l)) of (ok3, l) \<Rightarrow>
      let before = readings l in
      case queries pk_1 [False] (peer_disconnected pk_1 l) of (ok4, l) \<Rightarrow>
      case queries pk_0 (replicate (unat TEST_COUNT) True @ [False]) l of (ok5, l) \<Rightarrow>
      case queries pk_1 (replicate (unat TEST_COUNT) True @ [False]) (peer_connected pk_1 l) of (ok6, l) \<Rightarrow>
        ok1 \<and> ok2 \<and> ok3 \<and> before = 7 \<and> ok4 \<and> ok5 \<and> ok6))"

definition test_query_peer_unknown_peer :: "public_key \<Rightarrow> instant \<Rightarrow> bool" where
  "test_query_peer_unknown_peer pk_0 t \<longleftrightarrow>
     \<not> fst (query_peer pk_0 (TokenLimiter_new [] TEST_COUNT TEST_FREQUENCY (\<lambda>_. t)))"

lemmas limiter_test_defs = TEST_COUNT_def TEST_FREQUENCY_def TokenLimiter_new_def peer_connected_def
  peer_disconnected_def peers_def query_peer_def needs_update_def update_buckets_def now_def hit_def
  PeerRecord_new_def advanced_clock_def from_secs_def

lemma replicate_2: "replicate 2 b = [b, b]"
  by (simp add: numeral_2_eq_2)

lemma rate_limit_tests_pass:
  assumes "pk_0 \<noteq> pk_1"
  shows "test_peer_connection pk_0 pk_1 t" "test_rate_limiting pk_0 pk_1 t" "test_query_peer_unknown_peer pk_0 t"
  using assms not_sym [OF assms]
  by (simp_all add: test_peer_connection_def test_rate_limiting_def test_query_peer_unknown_peer_def
      replicate_2 limiter_test_defs map_values_def Let_def)

section \<open>\<open>grpc.rs\<close>\<close>

text \<open>The mock answers in the order given and logs the requests it got.\<close>

definition some_method :: "(status + string) list \<Rightarrow> string \<Rightarrow> (string list, status, string) stub" where
  "some_method answers req calls = (answers ! length calls, calls @ [req])"

abbreviation create_status :: "grpc_code \<Rightarrow> string \<Rightarrow> status" where
  "create_status \<equiv> Status_new"

text \<open>A test of a retry loop: the answer it gives and the requests the mock saw.\<close>

definition retried :: "(status + string) list \<Rightarrow> ((status + string) \<times> nat \<times> string list) option" where
  "retried answers = with_infinite_retries (some_method answers) ''test_request'' False []"

definition retried_at_most :: "u8 \<Rightarrow> (status + string) list \<Rightarrow> (status + string) \<times> string list" where
  "retried_at_most m answers = with_max_attempts (some_method answers) ''test_request'' (Some m) []"

definition requests :: "nat \<Rightarrow> string list" where
  "requests n = replicate n ''test_request''"

definition test_successful_first_attempt :: bool where
  "test_successful_first_attempt \<longleftrightarrow> retried [Inr ''success''] = Some (Inr ''success'', 0, requests 1)"

definition test_retry_success_after_failures :: bool where
  "test_retry_success_after_failures \<longleftrightarrow>
     retried [Inl (create_status CodeUnavailable ''temp unavailable''),
       Inl (create_status CodeUnavailable ''temp unavailable''), Inr ''success''] =
     Some (Inr ''success'', 0, requests 3)"

definition test_non_retryable_error :: bool where
  "test_non_retryable_error \<longleftrightarrow>
     (case retried [Inl (create_status CodeInvalidArgument ''temp unavailable'')] of
        Some (Inl err, _, calls) \<Rightarrow> st_code err = CodeInvalidArgument \<and> calls = requests 1
      | _ \<Rightarrow> False)"

definition test_retry_with_max_attempts_ends_with_error :: bool where
  "test_retry_with_max_attempts_ends_with_error \<longleftrightarrow>
     (case retried_at_most 2 [Inl (create_status CodeUnavailable ''temp unavailable''),
         Inl (create_status CodeUnavailable ''temp unavailable''), Inr ''success''] of
        (Inl err, calls) \<Rightarrow> st_code err = CodeUnavailable \<and> calls = requests 2
      | (Inr _, _) \<Rightarrow> False)"

definition test_retry_with_max_attempts_ends_with_success :: bool where
  "test_retry_with_max_attempts_ends_with_success \<longleftrightarrow>
     retried_at_most 2 [Inl (create_status CodeUnavailable ''temp unavailable''), Inr ''success''] =
     (Inr ''success'', requests 2)"

definition test_retry_with_max_attempts_non_retryable_error :: bool where
  "test_retry_with_max_attempts_non_retryable_error \<longleftrightarrow>
     (case retried_at_most 2 [Inl (create_status CodeInvalidArgument ''invalid argument'')] of
        (Inl err, calls) \<Rightarrow> st_code err = CodeInvalidArgument \<and> calls = requests 1
      | (Inr _, _) \<Rightarrow> False)"

lemma requests_counted [simp]:
  "requests (Suc 0) = [''test_request'']" "requests 2 = [''test_request'', ''test_request'']"
  "requests 3 = [''test_request'', ''test_request'', ''test_request'']"
  by (simp_all add: requests_def eval_nat_numeral)

lemmas retry_test_defs = retried_def retried_at_most_def some_method_def
  with_infinite_retries_def with_max_attempts_def infinite_retries_loop.simps max_attempts_loop.simps
  is_retryable_error_def Status_new_def

lemma grpc_tests_pass:
  "test_successful_first_attempt" "test_retry_success_after_failures" "test_non_retryable_error"
  "test_retry_with_max_attempts_ends_with_error" "test_retry_with_max_attempts_ends_with_success"
  "test_retry_with_max_attempts_non_retryable_error"
  by (simp_all add: test_successful_first_attempt_def test_retry_success_after_failures_def
      test_non_retryable_error_def test_retry_with_max_attempts_ends_with_error_def
      test_retry_with_max_attempts_ends_with_success_def
      test_retry_with_max_attempts_non_retryable_error_def retry_test_defs)

section \<open>\<open>lnd.rs\<close>\<close>

definition test_validate_lnd_creds_path_option :: "path \<Rightarrow> path \<Rightarrow> bool" where
  "test_validate_lnd_creds_path_option cert_path macaroon_path \<longleftrightarrow>
     is_ok (validate_lnd_creds (Some cert_path) None (Some macaroon_path) None)"

definition test_validate_lnd_creds_directly_option :: "string \<Rightarrow> string \<Rightarrow> bool" where
  "test_validate_lnd_creds_directly_option pem macaroon_hex \<longleftrightarrow>
     is_ok (validate_lnd_creds None (Some pem) None (Some macaroon_hex))"

definition test_validate_lnd_creds_mismatch :: "path \<Rightarrow> string \<Rightarrow> path \<Rightarrow> string \<Rightarrow> bool" where
  "test_validate_lnd_creds_mismatch cert_path pem macaroon_path macaroon_hex \<longleftrightarrow>
     validate_lnd_creds None (Some pem) (Some macaroon_path) None = Err CredMismatch \<and>
     validate_lnd_creds (Some cert_path) None None (Some macaroon_hex) = Err CredMismatch"

definition test_validate_lnd_creds_required_error :: "string \<Rightarrow> string \<Rightarrow> bool" where
  "test_validate_lnd_creds_required_error pem macaroon_hex \<longleftrightarrow>
     validate_lnd_creds None (Some pem) None None = Err MacaroonRequired \<and>
     validate_lnd_creds None None None (Some macaroon_hex) = Err CertRequired"

definition test_validate_lnd_creds_only_one :: "path \<Rightarrow> string \<Rightarrow> path \<Rightarrow> string \<Rightarrow> bool" where
  "test_validate_lnd_creds_only_one cert_path pem macaroon_path macaroon_hex \<longleftrightarrow>
     validate_lnd_creds (Some cert_path) (Some pem) (Some macaroon_path) None = Err CertOnlyOne \<and>
     validate_lnd_creds (Some cert_path) None (Some macaroon_path) (Some macaroon_hex) = Err MacaroonOnlyOne"

lemma validate_lnd_creds_tests_pass:
  "test_validate_lnd_creds_path_option cert_path macaroon_path"
  "test_validate_lnd_creds_directly_option pem macaroon_hex"
  "test_validate_lnd_creds_mismatch cert_path pem macaroon_path macaroon_hex"
  "test_validate_lnd_creds_required_error pem macaroon_hex"
  "test_validate_lnd_creds_only_one cert_path pem macaroon_path macaroon_hex"
  by (simp_all add: test_validate_lnd_creds_path_option_def test_validate_lnd_creds_directly_option_def
      test_validate_lnd_creds_mismatch_def test_validate_lnd_creds_required_error_def
      test_validate_lnd_creds_only_one_def validate_lnd_creds_def unwrap_def)

definition get_version_requirement :: version_requirement where
  "get_version_requirement = \<lparr>req_major = 1, req_minor = 1, req_patch = 1, req_pre_release = ''beta''\<rparr>"

text \<open>The nine tests of \<open>has_version\<close> differ in one component of the version only.\<close>

definition version_accepted :: "u32 \<Rightarrow> u32 \<Rightarrow> u32 \<Rightarrow> string \<Rightarrow> bool" where
  "version_accepted major minor patch pre_release =
     has_version \<lparr>app_major = major, app_minor = minor, app_patch = patch, app_pre_release = pre_release,
       build_tags = []\<rparr> (Some get_version_requirement)"

definition test_has_version_same_version :: bool where
  "test_has_version_same_version = version_accepted 1 1 1 ''beta''"

definition test_has_version_major_is_greater :: bool where
  "test_has_version_major_is_greater = version_accepted 2 1 1 ''beta''"

definition test_has_version_minor_is_greater :: bool where
  "test_has_version_minor_is_greater = version_accepted 1 2 1 ''beta''"

definition test_has_version_patch_is_greater :: bool where
  "test_has_version_patch_is_greater = version_accepted 1 1 2 ''beta''"

definition test_has_version_pre_release_is_greater :: bool where
  "test_has_version_pre_release_is_greater = version_accepted 1 1 1 ''rc''"

definition test_has_version_major_is_less :: bool where
  "test_has_version_major_is_less = (\<not> version_accepted 0 1 1 ''beta'')"

definition test_has_version_minor_is_less :: bool where
  "test_has_version_minor_is_less = (\<not> version_accepted 1 0 1 ''beta'')"

definition test_has_version_patch_is_less :: bool where
  "test_has_version_patch_is_less = (\<not> version_accepted 1 1 0 ''beta'')"

definition test_has_version_pre_release_is_less :: bool where
  "test_has_version_pre_release_is_less = (\<not> version_accepted 1 1 1 ''alpha'')"

lemma has_version_tests_pass:
  "test_has_version_same_version" "test_has_version_major_is_greater" "test_has_version_minor_is_greater"
  "test_has_version_patch_is_greater" "test_has_version_pre_release_is_greater"
  "test_has_version_major_is_less" "test_has_version_minor_is_less" "test_has_version_patch_is_less"
  "test_has_version_pre_release_is_less"
  by (code_simp)+

definition get_build_tags_requirement :: "string list" where
  "get_build_tags_requirement = [''peersrpc'', ''signrpc'']"

definition tags_accepted :: "string list \<Rightarrow> bool" where
  "tags_accepted tags =
     has_build_tags \<lparr>app_major = 0, app_minor = 0, app_patch = 0, app_pre_release = '''', build_tags = tags\<rparr>
       (Some get_build_tags_requirement)"

definition test_has_build_tags_same_tags :: bool where
  "test_has_build_tags_same_tags = tags_accepted [''peersrpc'', ''signrpc'']"

definition test_has_build_tags_missing_tags :: bool where
  "test_has_build_tags_missing_tags = (\<not> tags_accepted [''peersrpc''])"

definition test_has_build_tags_unnecessary_tags_are_ok :: bool where
  "test_has_build_tags_unnecessary_tags_are_ok = tags_accepted [''peersrpc'', ''signrpc'', ''additional'']"

lemma has_build_tags_tests_pass:
  "test_has_build_tags_same_tags" "test_has_build_tags_missing_tags"
  "test_has_build_tags_unnecessary_tags_are_ok"
  by (code_simp)+

text \<open>The mock of the signer gives the same answer to every call.\<close>

definition MockTestMessageSigner :: "(unit, u8 list) res \<Rightarrow> 'w message_signer" where
  "MockTestMessageSigner r = \<lparr>ms_sign_message = (\<lambda>_ _ _ _. io_lift r)\<rparr>"

definition expected_seed :: "u8 list" where
  "expected_seed =
     [245, 165, 253, 66, 209, 106, 32, 48, 39, 152, 239, 110, 211, 9, 151, 155, 67, 0, 61,
      35, 32, 217, 240, 232, 234, 152, 49, 169, 39, 89, 251, 75]"

definition test_build_seed_from_lnd_node :: "'w ldk \<Rightarrow> 'w \<Rightarrow> bool" where
  "test_build_seed_from_lnd_node L w \<longleftrightarrow>
     fst (build_seed_from_lnd_node L (MockTestMessageSigner (Ok (replicate 64 0))) w) = Ok expected_seed"

definition test_build_seed_from_lnd_node_error :: "'w ldk \<Rightarrow> 'w \<Rightarrow> bool" where
  "test_build_seed_from_lnd_node_error L w \<longleftrightarrow>
     (case fst (build_seed_from_lnd_node L (MockTestMessageSigner (Err ())) w) of Err _ \<Rightarrow> True | _ \<Rightarrow> False)"

text \<open>The seed is the SHA-256 hash of the signature; that the hash of 64 zero bytes is the expected
  one is a fact of the hash library.\<close>

lemma build_seed_tests_pass:
  "sha256_hash L (replicate 64 0) = expected_seed \<Longrightarrow> test_build_seed_from_lnd_node L w"
  "test_build_seed_from_lnd_node_error L w"
  by (simp_all add: test_build_seed_from_lnd_node_def test_build_seed_from_lnd_node_error_def
      build_seed_from_lnd_node_def MockTestMessageSigner_def io_simps)

section \<open>\<open>offers/parse.rs\<close>\<close>

text \<open>\<open>OfferBuilder::new\<close> and the key it is given are arguments; the current time is read once.\<close>

definition build_custom_offer ::
  "'w ldk \<Rightarrow> (public_key \<Rightarrow> offer_builder) \<Rightarrow> public_key \<Rightarrow> duration \<Rightarrow> u64 \<Rightarrow> string + offer" where
  "build_custom_offer L builder_new pubkey since_epoch amount_msats =
     (let expiration = since_epoch + from_secs (24 * 60 * 60);
          b = builder_new pubkey;
          b = ob_description L b ''coffee'';
          b = ob_amount_msats L b amount_msats;
          b = ob_supported_quantity L b QuantityUnbounded;
          b = ob_absolute_expiry L b expiration;
          b = ob_issuer L b ''Foo Bar''
      in ob_build L b)"

definition test_validate_amount ::
  "'w ldk \<Rightarrow> (public_key \<Rightarrow> offer_builder) \<Rightarrow> public_key \<Rightarrow> duration \<Rightarrow> bool" where
  "test_validate_amount L builder_new pubkey t \<longleftrightarrow>
     (case build_custom_offer L builder_new pubkey t 20000 of
        Inl _ \<Rightarrow> False
      | Inr offer \<Rightarrow> is_ok (validate_amount (offer_amount offer) (Some 20000)))"

definition test_validate_amount_is_invalid ::
  "'w ldk \<Rightarrow> (public_key \<Rightarrow> offer_builder) \<Rightarrow> public_key \<Rightarrow> duration \<Rightarrow> bool" where
  "test_validate_amount_is_invalid L builder_new pubkey t \<longleftrightarrow>
     (case build_custom_offer L builder_new pubkey t 20000 of
        Inl _ \<Rightarrow> False
      | Inr offer \<Rightarrow> (case validate_amount (offer_amount offer) (Some 1000) of Err _ \<Rightarrow> True | _ \<Rightarrow> False))"

definition test_reject_offer_with_zero_amount ::
  "'w ldk \<Rightarrow> (public_key \<Rightarrow> offer_builder) \<Rightarrow> public_key \<Rightarrow> duration \<Rightarrow> bool" where
  "test_reject_offer_with_zero_amount L builder_new pubkey t \<longleftrightarrow>
     (case build_custom_offer L builder_new pubkey t 0 of
        Inl _ \<Rightarrow> False
      | Inr offer \<Rightarrow> offer_amount offer = None) \<and>
     (case validate_amount (Some (AmountBitcoin 0)) (Some 20000) of Err _ \<Rightarrow> True | _ \<Rightarrow> False) \<and>
     (case validate_amount (Some (AmountBitcoin 0)) None of Err _ \<Rightarrow> True | _ \<Rightarrow> False)"

lemma custom_offer_amount:
  assumes "builder_documented L" and "built (builder_new pubkey) = no_terms" and "\<And>b. \<exists>o'. ob_build L b = Inr o'"
  obtains o' where "build_custom_offer L builder_new pubkey t a = Inr o'" "offer_amount o' = amount_term a"
proof -
  from assms(3) obtain o' where o: "build_custom_offer L builder_new pubkey t a = Inr o'"
    unfolding build_custom_offer_def Let_def by blast
  have "offer_amount (offer_terms.truncate o') = amount_term a"
    using o assms(1, 2)
    by (simp add: build_custom_offer_def Let_def builder_documented_def described_def no_terms_def)
  then show ?thesis using that [OF o] by (simp add: offer_terms.defs)
qed

lemma validate_amount_tests_pass:
  assumes "builder_documented L" and "built (builder_new pubkey) = no_terms" and "\<And>b. \<exists>o'. ob_build L b = Inr o'"
  shows "test_validate_amount L builder_new pubkey t" "test_validate_amount_is_invalid L builder_new pubkey t"
    "test_reject_offer_with_zero_amount L builder_new pubkey t"
proof -
  note offer = custom_offer_amount [where builder_new = builder_new and pubkey = pubkey and t = t, OF assms]
  show "test_validate_amount L builder_new pubkey t" "test_validate_amount_is_invalid L builder_new pubkey t"
    by (rule offer [of 20000];
        simp add: test_validate_amount_def test_validate_amount_is_invalid_def amount_term_def validate_amount_def)+
  show "test_reject_offer_with_zero_amount L builder_new pubkey t"
    by (rule offer [of 0]) (simp add: test_reject_offer_with_zero_amount_def amount_term_def validate_amount_def)
qed

section \<open>\<open>offers/handler.rs\<close>\<close>

definition test_handle_invoice_error_existing_payment :: "'w ldk \<Rightarrow> u8 list \<Rightarrow> bool" where
  "test_handle_invoice_error_existing_payment L random \<longleftrightarrow>
     (let handler = OfferHandler_new None None random;
          pid = PaymentId (replicate 32 42);
          nonce = Nonce (replicate 16 42);
          handler = handler\<lparr>active_payments := (active_payments handler)
            (pid \<mapsto> \<lparr>pay_state = InvoiceRequestCreated, pay_invoice_of = None\<rparr>)\<rparr>;
          hmac = hmac_for_offer_payment L pid nonce (handler_key handler)
      in active_payments (handle_invoice_error L pid nonce hmac handler) pid = None)"

definition test_handle_invoice_error_nonexistent_payment :: "'w ldk \<Rightarrow> u8 list \<Rightarrow> bool" where
  "test_handle_invoice_error_nonexistent_payment L random \<longleftrightarrow>
     (let handler = OfferHandler_new None None random;
          pid = PaymentId (replicate 32 42);
          nonce = Nonce (replicate 16 42);
          hmac = hmac_for_offer_payment L pid nonce (handler_key handler)
      in handle_invoice_error L pid nonce hmac handler = handler)"

lemma handle_invoice_error_tests_pass:
  assumes "ldk_documented L"
  shows "test_handle_invoice_error_existing_payment L random"
    "test_handle_invoice_error_nonexistent_payment L random"
  using assms
  by (simp_all add: test_handle_invoice_error_existing_payment_def test_handle_invoice_error_nonexistent_payment_def
      ldk_documented_def handle_invoice_error_def remove_active_payment_def OfferHandler_new_def)

section \<open>\<open>main.rs\<close>\<close>

definition test_collect_tls_ips :: bool where
  "test_collect_tls_ips \<longleftrightarrow>
     (case collect_tls_ips (Some ''192.168.0.1'') of Some ips \<Rightarrow> length ips = 1 | None \<Rightarrow> False) \<and>
     collect_tls_ips None = None \<and>
     (case collect_tls_ips (Some ''192.168.0.1,192.168.0.3'') of Some ips \<Rightarrow> length ips = 2 | None \<Rightarrow> False)"

lemma main_tests_pass: "test_collect_tls_ips"
  by code_simp

section \<open>\<open>cli.rs\<close>\<close>

text \<open>The operating system of the tests lets every call succeed; the temporary directory and what the disk
  holds besides are arguments.\<close>

definition cert_content :: string where
  "cert_content = ''-----BEGIN CERTIFICATE-----'' @ [char_of (10 :: nat)] @ ''MIIBCgKCAQEA'' @
     [char_of (10 :: nat)] @ ''-----END CERTIFICATE-----''"

definition create_temp_cert_file :: "os \<Rightarrow> path \<Rightarrow> disk \<Rightarrow> path \<times> string \<times> disk" where
  "create_temp_cert_file os dir d =
     (let file_path = path_join dir ''test_cert.pem''
      in (file_path, cert_content, snd (io_bind (file_create os file_path) (\<lambda>_. write_all os file_path cert_content) d)))"

definition test_read_cert_from_args_both_options :: "os \<Rightarrow> string option \<Rightarrow> path \<Rightarrow> disk \<Rightarrow> bool" where
  "test_read_cert_from_args_both_options os home_dir dir d \<longleftrightarrow>
     (case create_temp_cert_file os dir d of (temp_path, content, d) \<Rightarrow>
        fst (read_cert_from_args os home_dir (Some content) (Some temp_path) d) =
        Err ''ERROR: Only one of `cert_path` or `cert_pem` should be set.'')"

definition test_read_cert_from_args_cert_pem_only :: "os \<Rightarrow> string option \<Rightarrow> disk \<Rightarrow> bool" where
  "test_read_cert_from_args_cert_pem_only os home_dir d \<longleftrightarrow>
     is_ok (fst (read_cert_from_args os home_dir (Some cert_content) None d))"

definition test_read_cert_from_args_cert_path_only :: "os \<Rightarrow> string option \<Rightarrow> path \<Rightarrow> disk \<Rightarrow> bool" where
  "test_read_cert_from_args_cert_path_only os home_dir dir d \<longleftrightarrow>
     (case create_temp_cert_file os dir d of (file_path, _, d) \<Rightarrow>
        is_ok (fst (read_cert_from_args os home_dir None (Some file_path) d)))"

definition test_read_cert_from_args_invalid_path :: "os \<Rightarrow> string option \<Rightarrow> disk \<Rightarrow> bool" where
  "test_read_cert_from_args_invalid_path os home_dir d \<longleftrightarrow>
     (let expected = ''ERROR: failed to read cert:''
      in case fst (read_cert_from_args os home_dir None (Some ''/path/does/not/exist.pem'') d) of
          Err e \<Rightarrow> take (length expected) e = expected
        | _ \<Rightarrow> False)"

text \<open>The guard sets a variable of the environment and sets it back when it goes out of scope.\<close>

type_synonym environment = "string \<rightharpoonup> string"

record environment_guard =
  eg_key :: string
  eg_original_value :: "string option"

definition EnvironmentGuard_new :: "string \<Rightarrow> string \<Rightarrow> environment \<Rightarrow> environment_guard \<times> environment" where
  "EnvironmentGuard_new key value env =
     (let original_value = env key
      in (\<lparr>eg_key = key, eg_original_value = original_value\<rparr>, env(key \<mapsto> value)))"

definition EnvironmentGuard_drop :: "environment_guard \<Rightarrow> environment \<Rightarrow> environment" where
  "EnvironmentGuard_drop self env =
     (case eg_original_value self of
        Some value \<Rightarrow> env(eg_key self \<mapsto> value)
      | None \<Rightarrow> env(eg_key self := None))"

text \<open>The home directory is what the package \<open>home\<close> reads from the environment.\<close>

definition test_read_cert_from_args_neither_option ::
  "os \<Rightarrow> (environment \<Rightarrow> path option) \<Rightarrow> environment \<Rightarrow> path \<Rightarrow> disk \<Rightarrow> bool \<times> environment" where
  "test_read_cert_from_args_neither_option os home_dir env temp_home d =
     (let lndk_dir = path_join (path_join temp_home DEFAULT_LNDK_DIR) DEFAULT_DATA_DIR;
          file_path = path_join lndk_dir TLS_CERT_FILENAME
      in case EnvironmentGuard_new ''HOME'' temp_home env of (guard, env') \<Rightarrow>
           ((case io_bind (create_dir_all os lndk_dir) (\<lambda>_.
                  io_bind (file_create os file_path) (\<lambda>_.
                  io_bind (write_all os file_path cert_content) (\<lambda>_.
                  io_match (read_cert_from_args os (home_dir env') None None)
                    (\<lambda>_. io_return True) (\<lambda>_. io_return False)))) d of
               (Ok b, _) \<Rightarrow> b
             | _ \<Rightarrow> False),
            EnvironmentGuard_drop guard env'))"

lemma guard_restores:
  "EnvironmentGuard_new key value env = (guard, env') \<Longrightarrow> EnvironmentGuard_drop guard env' = env"
  by (auto simp: EnvironmentGuard_new_def EnvironmentGuard_drop_def Let_def split: option.split)

lemma read_cert_tests_pass:
  assumes "\<And>sc files. os_fails os sc files = None"
  shows "test_read_cert_from_args_both_options os home_dir dir d"
    "test_read_cert_from_args_cert_pem_only os home_dir d"
    "test_read_cert_from_args_cert_path_only os home_dir dir d"
    "d_files d ''/path/does/not/exist.pem'' = None \<Longrightarrow> test_read_cert_from_args_invalid_path os home_dir d"
  using assms
  by (simp_all add: test_read_cert_from_args_both_options_def test_read_cert_from_args_cert_pem_only_def
      test_read_cert_from_args_cert_path_only_def test_read_cert_from_args_invalid_path_def
      create_temp_cert_file_def read_cert_from_args_def disk_defs unwrap_def io_simps Let_def)

lemma read_cert_from_home_test_passes:
  assumes "\<And>sc files. os_fails os sc files = None" and "\<And>e. home_dir e = e ''HOME''"
  shows "test_read_cert_from_args_neither_option os home_dir env temp_home d = (True, env)"
proof -
  obtain guard env' where g: "EnvironmentGuard_new ''HOME'' temp_home env = (guard, env')" by fastforce
  then have "home_dir env' = Some temp_home" by (auto simp: assms(2) EnvironmentGuard_new_def Let_def)
  with assms(1) g guard_restores [OF g] show ?thesis
    by (simp add: test_read_cert_from_args_neither_option_def read_cert_from_args_def
        create_dir_all_def disk_defs unwrap_def io_simps Let_def)
qed

end
