(* ===== verification/Messenger_Tests.thy ===== *)
theory Messenger_Tests
  imports Onion_Messenger Request_Tests
begin

text \<open>
  The unit tests of \<open>onion_messenger.rs\<close>, run on the definitions of this development. Keys, the onion
  message and its encoding are arguments. A mock is a stub whose state counts or logs its calls; a
  trigger that was fired before a producer starts is an input that begins with \<open>Quit\<close>. The source
  discards the results of its \<open>matches!\<close> checks; here they are part of the test.
\<close>

section \<open>The consumer\<close>

text \<open>
  The mock of the onion messenger logs its calls; \<open>supports\<close> is the library's test of the feature bit.
  It has a message for \<open>pk_1\<close> and none for other peers.
\<close>

definition MockOnionHandler ::
  "(u8 list \<Rightarrow> bool) \<Rightarrow> bool \<Rightarrow> public_key \<Rightarrow> onion_message \<Rightarrow> u8 list \<Rightarrow> string list onion_messenger" where
  "MockOnionHandler supports connects pk_1 msg buf =
     \<lparr>om_peer_connected = (\<lambda>_ init _ calls. (connects, calls @
        [if supports (init_features init) then ''peer_connected'' else ''peer_connected, no onion messages''])),
      om_peer_disconnected = (\<lambda>_ calls. calls @ [''peer_disconnected'']),
      om_handle_onion_message = (\<lambda>_ _ calls. calls @ [''handle_onion_message'']),
      om_process_pending_events = (\<lambda>calls. ([], calls)),
      om_next_onion_message_for_peer = (\<lambda>k calls. (if k = pk_1 then Some msg else None, calls)),
      om_write = (\<lambda>_. Some buf)\<rparr>"

definition MockRateLimiter :: "public_key \<Rightarrow> public_key \<Rightarrow> unit rate_limiter_ops" where
  "MockRateLimiter pk_1 pk_2 =
     \<lparr>rl_peer_connected = (\<lambda>_ s. s), rl_peer_disconnected = (\<lambda>_ s. s), rl_peers = (\<lambda>_. [pk_1, pk_2]),
      rl_query_peer = (\<lambda>k s. (k = pk_1, s))\<rparr>"

definition MockSendCustomMessenger :: "custom_message \<Rightarrow> (custom_message list, status, unit) stub" where
  "MockSendCustomMessenger request sent = (Inr (), sent @ [request])"

definition fresh_consumer :: "(string list, unit, custom_message list) consumer" where
  "fresh_consumer = \<lparr>cs_messenger = [], cs_limiter = (), cs_world = [], cs_spawned = [], cs_delivered = []\<rparr>"

definition test_consume_messenger_events ::
  "secp \<Rightarrow> (network \<Rightarrow> u8 list) \<Rightarrow> (u8 list \<Rightarrow> bool) \<Rightarrow> public_key \<Rightarrow> public_key \<Rightarrow> onion_message \<Rightarrow> u8 list \<Rightarrow> bool" where
  "test_consume_messenger_events K chain_hash supports pk_1 pk_2 msg buf \<longleftrightarrow>
     (case consume_messenger_events K chain_hash (MockOnionHandler supports True pk_1 msg buf)
        (MockRateLimiter pk_1 pk_2) MockSendCustomMessenger Regtest
        [PeerConnected pk_2 True, SendOutgoing, SendOutgoing, PeerConnected pk_1 False, PeerDisconnected pk_1,
         IncomingMessage pk_1 msg, IncomingMessage pk_2 msg, ProducerExit PeerProducerExit] fresh_consumer of
        (consume_resp, st) \<Rightarrow> is_ok consume_resp \<and> length (cs_world st) = 2 \<and>
          cs_messenger st = [''peer_connected'', ''peer_connected, no onion messages'', ''peer_disconnected'',
            ''handle_onion_message''])"

definition test_consumer_exit_onion_messenger_failure ::
  "secp \<Rightarrow> (network \<Rightarrow> u8 list) \<Rightarrow> (u8 list \<Rightarrow> bool) \<Rightarrow> public_key \<Rightarrow> onion_message \<Rightarrow> u8 list \<Rightarrow> bool" where
  "test_consumer_exit_onion_messenger_failure K chain_hash supports pk msg buf \<longleftrightarrow>
     fst (consume_messenger_events K chain_hash (MockOnionHandler supports False pk msg buf)
       (MockRateLimiter pk pk) MockSendCustomMessenger Regtest [PeerConnected pk True] fresh_consumer) =
     Err OnionMessengerFailure"

definition test_consumer_clean_exit ::
  "secp \<Rightarrow> (network \<Rightarrow> u8 list) \<Rightarrow> (u8 list \<Rightarrow> bool) \<Rightarrow> public_key \<Rightarrow> onion_message \<Rightarrow> u8 list \<Rightarrow> bool" where
  "test_consumer_clean_exit K chain_hash supports pk msg buf \<longleftrightarrow>
     is_ok (fst (consume_messenger_events K chain_hash (MockOnionHandler supports True pk msg buf)
       (MockRateLimiter pk pk) MockSendCustomMessenger Regtest [] fresh_consumer))"

lemmas consumer_test_defs = consume_messenger_events_def consume_event_def MockOnionHandler_def MockRateLimiter_def
  MockSendCustomMessenger_def fresh_consumer_def relay_outgoing_msg_event_def init_features_for_def

lemma consumer_tests_pass:
  "\<lbrakk>supports (init_features_for True); \<not> supports (init_features_for False); pk_1 \<noteq> pk_2\<rbrakk> \<Longrightarrow>
    test_consume_messenger_events K chain_hash supports pk_1 pk_2 msg buf"
  "test_consumer_exit_onion_messenger_failure K chain_hash supports pk msg buf"
  "test_consumer_clean_exit K chain_hash supports pk msg buf"
  by (simp_all add: test_consume_messenger_events_def test_consumer_exit_onion_messenger_failure_def
      test_consumer_clean_exit_def consumer_test_defs)

section \<open>The handler of events\<close>

text \<open>
  A task is spawned for the node a connection is needed to; it runs \<open>connect_to_peer_with_retry\<close>, and
  nobody triggers the shutdown. The world counts the attempts, each of which works on its own
  clone of the client and begins by listing the peers; and the connections that were made.
\<close>

definition connecting_mock :: "(nat \<Rightarrow> bool) \<Rightarrow> (nat \<times> nat) peer_connector" where
  "connecting_mock fails = MockTestPeerConnector
     \<lparr>pc_list_peers := (\<lambda>(counter, made). (Ok [], (Suc counter, made))),
      pc_get_node_info := (\<lambda>_ _. io_return
        \<lparr>ni_node = Some (default_node\<lparr>ln_addresses := [''127.0.0.1:9735'']\<rparr>), ni_channels = []\<rparr>),
      pc_connect_peer := (\<lambda>_ _ (counter, made).
        if fails counter then (Err (Status_new CodeUnavailable ''Connection failed''), (counter, made))
        else (Ok (), (counter, Suc made)))\<rparr>"

definition handled ::
  "secp \<Rightarrow> (nat \<times> nat) peer_connector \<Rightarrow> ldk_event \<Rightarrow> ((offer_error, unit) res \<times> nat \<times> nat) list" where
  "handled K connector_mock e =
     map (\<lambda>node_id. connect_to_peer_with_retry (\<lambda>_ w. (False, w)) K connector_mock node_id (0, 0)) (handle_event e [])"

definition test_lndk_event_handler_connection_needed :: "secp \<Rightarrow> public_key \<Rightarrow> bool" where
  "test_lndk_event_handler_connection_needed K expected_node_id \<longleftrightarrow>
     handled K (connecting_mock (\<lambda>_. False)) (ConnectionNeeded expected_node_id) = [(Ok (), 1, 1)]"

definition test_lndk_event_handler_other_events :: "secp \<Rightarrow> bool" where
  "test_lndk_event_handler_other_events K \<longleftrightarrow>
     handled K MockTestPeerConnector OnionMessageIntercepted = [] \<and>
     handled K MockTestPeerConnector OnionMessagePeerConnected = []"

definition test_lndk_event_handler_connection_needed_success_with_retry :: "secp \<Rightarrow> public_key \<Rightarrow> bool" where
  "test_lndk_event_handler_connection_needed_success_with_retry K expected_node_id \<longleftrightarrow>
     handled K (connecting_mock (\<lambda>counter. counter \<le> 5)) (ConnectionNeeded expected_node_id) = [(Ok (), 6, 1)]"

lemma connecting_mock_attempt:
  "connect_to_peer K (connecting_mock fails) k (counter, made) =
     (if fails (Suc counter) then (Err (PeerConnectError ''Connection failed''), (Suc counter, made))
      else (Ok (), (Suc counter, Suc made)))"
  by (simp add: connect_to_peer_def connecting_mock_def io_simps Status_new_def)

lemma event_handler_tests_pass:
  "test_lndk_event_handler_connection_needed K k" "test_lndk_event_handler_other_events K"
  "test_lndk_event_handler_connection_needed_success_with_retry K k"
  by (simp_all add: test_lndk_event_handler_connection_needed_def test_lndk_event_handler_other_events_def
      test_lndk_event_handler_connection_needed_success_with_retry_def handled_def handle_event_def
      connect_to_peer_with_retry_def connect_retry_loop.simps connecting_mock_attempt MAX_ATTEMPTS_def)

section \<open>The producers\<close>

text \<open>The channel has room for all events of a test and its receiver is there.\<close>

definition MockReconnectionClient :: "lnrpc_peer list \<Rightarrow> nat client" where
  "MockReconnectionClient mock_peers = offline_client\<lparr>lc_list_peers := (\<lambda>_ calls. (Inr mock_peers, Suc calls))\<rparr>"

definition test_receive_reconection_event :: "secp \<Rightarrow> public_key \<Rightarrow> public_key \<Rightarrow> bool" where
  "test_receive_reconection_event K pubkey1 pubkey2 \<longleftrightarrow>
     (case receive_reconnection_event K
        (MockReconnectionClient [\<lparr>peer_pub_key = pk_to_string K pubkey1, peer_features = []\<rparr>,
          \<lparr>peer_pub_key = pk_to_string K pubkey2, peer_features = [ONION_MESSAGES_OPTIONAL]\<rparr>])
        (\<lambda>_. True) [Received ()] [] 0 of
        (_, received_events, calls) \<Rightarrow> length received_events = 2 \<and>
          PeerConnected pubkey1 False \<in> set received_events \<and> PeerConnected pubkey2 True \<in> set received_events \<and>
          calls = 1)"

lemma reconnection_test_passes:
  assumes "secp_documented K" and "pubkey1 \<noteq> pubkey2"
  shows "test_receive_reconection_event K pubkey1 pubkey2"
  using assms
  by (simp add: test_receive_reconection_event_def MockReconnectionClient_def list_peers_with_retries_def
      with_infinite_retries_def infinite_retries_loop.simps secp_documented_def connected_events_def
      send_event_def features_support_onion_messages_def ONION_MESSAGES_REQUIRED_def ONION_MESSAGES_OPTIONAL_def)

text \<open>The two answers about the support of onion messages are given in turn.\<close>

definition test_produce_peer_events :: "secp \<Rightarrow> (status \<Rightarrow> string) \<Rightarrow> public_key \<Rightarrow> bool" where
  "test_produce_peer_events K sh k \<longleftrightarrow>
     (case produce_peer_events K sh (\<lambda>_ calls. (calls = (0 :: nat), Suc calls)) (\<lambda>_. True)
        [Received (Inr \<lparr>pe_type = PeerOnline, pe_pub_key = pk_to_string K k\<rparr>),
         Received (Inr \<lparr>pe_type = PeerOnline, pe_pub_key = pk_to_string K k\<rparr>),
         Received (Inr \<lparr>pe_type = PeerOffline, pe_pub_key = pk_to_string K k\<rparr>),
         Received (Inl (Status_new CodeUnknown ''mock stream err''))] [] 0 of
        (result, sent, _) \<Rightarrow>
          (case result of Some (Err (StreamError _)) \<Rightarrow> True | _ \<Rightarrow> False) \<and>
          sent = [PeerConnected k True, PeerConnected k False, PeerDisconnected k, ProducerExit PeerProducerExit])"

definition test_produce_peer_events_exit :: "secp \<Rightarrow> (status \<Rightarrow> string) \<Rightarrow> (status + peer_event) select list \<Rightarrow> bool" where
  "test_produce_peer_events_exit K sh ins \<longleftrightarrow>
     fst (produce_peer_events K sh (\<lambda>_ w. (True, w)) (\<lambda>_. True) (Quit # ins) [] ()) = Some (Ok ())"

text \<open>\<open>buf\<close> is the encoding of the onion message, which \<open>read\<close> decodes.\<close>

definition test_produce_incoming_message_events ::
  "secp \<Rightarrow> (status \<Rightarrow> string) \<Rightarrow> (u8 list \<Rightarrow> onion_message option) \<Rightarrow> public_key \<Rightarrow> u8 list \<Rightarrow> onion_message \<Rightarrow> bool" where
  "test_produce_incoming_message_events K sh read k buf msg \<longleftrightarrow>
     (case produce_incoming_message_events K sh read (\<lambda>_. True)
        [Received (Inr \<lparr>cm_peer = pk_serialize K k, cm_type = 3, cm_data = [1, 2, 3]\<rparr>),
         Received (Inr \<lparr>cm_peer = pk_serialize K k, cm_type = ONION_MESSAGE_TYPE, cm_data = buf\<rparr>),
         Received (Inl (Status_new CodeUnknown ''mock stream err''))] [] of
        (result, sent) \<Rightarrow>
          (case result of Some (Err (StreamError _)) \<Rightarrow> True | _ \<Rightarrow> False) \<and>
          sent = [IncomingMessage k msg, ProducerExit IncomingMessageProducerExit])"

definition test_produce_incoming_message_exit ::
  "secp \<Rightarrow> (status \<Rightarrow> string) \<Rightarrow> (u8 list \<Rightarrow> onion_message option) \<Rightarrow> (status + custom_message) select list \<Rightarrow> bool" where
  "test_produce_incoming_message_exit K sh read ins \<longleftrightarrow>
     fst (produce_incoming_message_events K sh read (\<lambda>_. True) (Quit # ins) []) = Some (Ok ())"

definition test_produce_outgoing_message_events_exit :: "unit select list \<Rightarrow> bool" where
  "test_produce_outgoing_message_events_exit ins \<longleftrightarrow>
     fst (produce_outgoing_message_events (\<lambda>_. False) (Quit # ins) []) = Some (Ok ())"

lemma producer_tests_pass:
  assumes "secp_documented K"
  shows "test_produce_peer_events K sh k" "test_produce_peer_events_exit K sh peer_ins"
    "read buf = Some msg \<Longrightarrow> test_produce_incoming_message_events K sh read k buf msg"
    "test_produce_incoming_message_exit K sh read message_ins" "test_produce_outgoing_message_events_exit ins"
  using assms
  by (simp_all add: test_produce_peer_events_def test_produce_peer_events_exit_def
      test_produce_incoming_message_events_def test_produce_incoming_message_exit_def
      test_produce_outgoing_message_events_exit_def secp_documented_def send_event_def ONION_MESSAGE_TYPE_def)

end
