(* ===== verification/Spec2Isabelle.thy ===== *)
theory Spec2Isabelle
  imports Rate_Limit Errors Grpc_Retry Parse Client_Impls Lnd_Requests Interference Offer_Handler
    Payments Payee Exchange Fresh_Keys Message_Router Onion_Messenger Messenger_Tasks Pipeline Server Robustness
    Tls_Files Daemon Cli Unit_Tests Request_Tests Messenger_Tests
begin

text \<open>
  LNDK, a daemon that brings BOLT 12 offers to the Lightning node LND, as a library of HOL
  definitions and theorems. LND can neither build nor read offers: LNDK connects to it over
  gRPC, runs the onion messenger of rust-lightning (LDK) on top of LND's custom messages, and
  offers its own gRPC service to decode, request, pay and create offers and invoices, which the
  program \<open>lndk-cli\<close> uses.

  \<^bold>\<open>The parts and their theories\<close> (paths below \<open>src/src\<close>; each theory opens with what it holds, and
  its definitions follow the order of its source file and carry its names, with a suffix or prefix
  where a name is taken).

  \<^item> \<open>Prelude\<close>: machine integers as words; \<open>Result\<close> with panics as a third outcome (\<open>res\<close>); calls as
    functions on the state of the world (\<open>io\<close>, with \<open>io_bind\<close> for \<open>?\<close> and \<open>.await\<close>); association
    lists for hash maps whose order of iteration shows. \<open>Ldk_Types\<close>, \<open>Lnd_Types\<close>: the types of the
    libraries; what the program calls of rust-lightning, secp256k1 and the LND client is a
    record of functions (\<open>ldk\<close>, \<open>secp\<close>, \<open>client\<close>), and the traits of \<open>lnd.rs\<close> are records too.
    \<open>secp_documented\<close>, \<open>ldk_documented\<close>, \<open>builder_documented\<close> and \<open>answer_documented\<close> name the
    documented laws some theorems use.
  \<^item> \<open>Errors\<close> (\<open>offers/mod.rs\<close>, the error types of \<open>lnd.rs\<close> and \<open>server.rs\<close>): codes, texts and gRPC
    statuses; the locale \<open>status_error\<close> holds for all three error types.
  \<^item> \<open>Rate_Limit\<close> (\<open>rate_limit.rs\<close>, \<open>clock.rs\<close>): the token limiter; the trait is the locale
    \<open>rate_limiter\<close>, with the limiter as its interpretation \<open>tokens\<close>; \<open>serving_limiter\<close> extends it by the
    promises that no call within the budget is refused and that the budgets are refilled once a period has passed, so
    that calls that are \<open>paced\<close> are all served. Shown: how many calls a peer gets in any
    stretch of time, the peers it reports, its well-formedness.
  \<^item> \<open>Grpc_Retry\<close> (\<open>grpc.rs\<close>): both retry loops; the unbounded one is a partial function.
  \<^item> \<open>Lnd\<close> (\<open>lnd.rs\<close>): credentials, node checks, signer, network, blinded paths. \<open>Parse\<close>
    (\<open>offers/parse.rs\<close>): offers and amounts. \<open>Client_Impls\<close> (\<open>offers/client_impls.rs\<close>): the traits on
    LND's client. \<open>Lnd_Requests\<close> (\<open>offers/lnd_requests.rs\<close>): what LNDK asks LND and its peers, with
    the locales \<open>total_connector\<close> and \<open>total_payer\<close> for the traits it relies on. An invoice request states
    what is paid (\<open>asking\<close>; \<open>requests_documented\<close> is what rust-lightning's getters then read).
  \<^item> \<open>Interference\<close>: while a task waits for LND, others change the shared state. The locale \<open>rely\<close>
    bounds what a call may do by a relation and lifts that to every operation of \<open>Lnd_Requests\<close>.
  \<^item> \<open>Offer_Handler\<close> (\<open>offers/handler.rs\<close>): the payments in flight and the messages to send. Each
    section that holds the lock is a function on \<open>offer_handler\<close>; \<open>handler_step\<close> is one such section,
    \<open>sys_steps\<close> any number of them, and the operations run on \<open>sys\<close>, the handler beside the world.
    Shown: the invoice paid was verified, settled means settled, what is untracked when.
  \<^item> \<open>Payments\<close>: the handler against an abstract ledger of payments (\<open>ledger_step\<close>: an entry is opened, filled
    with a verified invoice, closed), through the locale \<open>payment_ledger\<close>; paying an invoice as a sequence of
    attempts along its paths, and exactly when paying an offer succeeds. \<open>Payee\<close>: what a created offer says
    (\<open>requested_terms\<close>), where it comes from (\<open>offer_origin\<close>) and through which nodes its paths lead
    (\<open>eligible_paths\<close>), and how a request is answered, which is only when it was verified. \<open>Exchange\<close>: a payer and a payee that both run this
    code; \<open>exchange_documented\<close> is what rust-lightning promises the two, and an answer in time is paid, when the payer's
    LND can settle along a path of the invoice (\<open>lnd_settles\<close>).
    \<open>Fresh_Keys\<close>: every request and every offer is made with a nonce of its own (\<open>entropy_fresh\<close>), so no two
    show the same key.
  \<^item> \<open>Message_Router\<close> (\<open>message_router.rs\<close>), \<open>Onion_Messenger\<close> and \<open>Messenger_Tasks\<close>
    (\<open>onion_messenger.rs\<close>): routing; the producers (locale \<open>event_producer\<close>) and the consumer of
    events; the tasks around the producers with a step relation for the order in which they end.
    \<open>Pipeline\<close> puts the tasks, the channel (\<open>channel_events\<close>, any interleaving of what they send) and the
    consumer together: what the messenger is handed was received, and from a peer that keeps to the rate limit
    nothing is lost. What the consumer polls and sends is read off an \<open>observed\<close> messenger and connection.
  \<^item> \<open>Server\<close> (\<open>server.rs\<close>, the invoice strings of \<open>lib.rs\<close>): the five calls of the service, four of
    which satisfy the locale \<open>authenticated\<close>. \<open>Robustness\<close>: the panics a call can end in (\<open>panics_only\<close>, with the
    rules collected in \<open>panic_rules\<close>), when LND answers as documented (\<open>lnd_documented\<close>); then the tasks
    of the messenger do not panic either, and once the shutdown is signalled they all end, and the messenger with
    success, unless a task still retries a call to LND.
  \<^item> \<open>Tls_Files\<close> and \<open>Daemon\<close> (\<open>main.rs\<close>, \<open>lib.rs\<close>): a file system in which every call may fail and
    every past state is kept; the TLS files; the logger; the checks before the messenger runs;
    the start of the daemon. \<open>Cli\<close> (\<open>cli.rs\<close>): the commands with what they print.
  \<^item> \<open>Unit_Tests\<close>, \<open>Request_Tests\<close>, \<open>Messenger_Tests\<close>: the unit tests of the repository on these definitions. A
    test is a truth value, shown to hold for all keys and for all libraries with the documented behaviour,
    so the tests check the definitions against what the authors expect of the code.
  \<^item> This theory: the properties that need several parts, on the daemon as one system.

  \<^bold>\<open>How state and concurrency are modelled.\<close> A stub of a library is an arbitrary function on the world;
  the handler is part of that world (\<open>sys\<close>), so a stub may change it, which is what the other tasks
  do in the meantime. Theorems about the handler assume that such changes are sequences of
  \<open>handler_step\<close> (\<open>client_moves\<close>, \<open>ldk_moves\<close>, \<open>connect_moves\<close>), and the same is proved of all operations
  themselves (\<open>server_calls_move\<close>, \<open>handle_message_moves\<close>). Channels between tasks are the lists of
  events they deliver, which keep the order of each sender (\<open>interleavings\<close>). Witnesses run the definitions on small instances of the parameters.

  \<^bold>\<open>Bounds and fuel.\<close> The wait for an invoice polls at most \<open>t div 2\<close> times in \<open>t\<close> seconds, one poll
  every two seconds; the retries of a connection are bounded by the code itself; retries without bound
  give \<open>None\<close> as long as they go on. The producers and the consumer recurse on their input, and
  an exhausted input of a producer means it still waits. Time is counted in nanoseconds, and the
  system clock ends where the 64 bits of its seconds do.

  \<^bold>\<open>Not modelled.\<close> The build script and the code it generates (configuration, protocol buffers), which
  appear as records; the argument parser, the transports and the debug printers of libraries,
  which are parameters; log lines, except where they are what a program prints. Of the tests, those of
  the argument parser are left out, and so are the integration tests, which start LND. \<open>split\<close>, \<open>Path::join\<close> and the file operations are modelled as far as the
  code uses them. The server runs beside the messenger until one of them ends
  (\<open>main_select\<close>); how the runtime interleaves them is covered by the interference above.
\<close>

section \<open>The daemon as one system\<close>

text \<open>What reaches the handler from outside: the calls of the service and the onion messages.\<close>

datatype request =
    ReqPayOffer metadata pay_offer_request
  | ReqDecodeInvoice string
  | ReqGetInvoice metadata get_invoice_request
  | ReqPayInvoice metadata pay_invoice_request
  | ReqCreateOffer metadata create_offer_request
  | ReqMessage offers_message "offers_context option" "responder option"

text \<open>The parts of a running daemon; \<open>rt_client\<close> is the client the handler was given.\<close>

record 'w runtime =
  rt_secp :: secp
  rt_ldk :: "'w sys ldk"
  rt_codec :: codec
  rt_connect :: "'w connect"
  rt_sleep :: "'w sys \<Rightarrow> bool \<times> 'w sys"
  rt_server :: lndk_server
  rt_client :: "'w sys client option"

definition serve :: "'w runtime \<Rightarrow> request \<Rightarrow> 'w sys \<Rightarrow> 'w sys" where
  "serve T r s =
     (case r of
        ReqPayOffer md q \<Rightarrow>
          snd (server_pay_offer (rt_secp T) (rt_ldk T) (rt_codec T) (rt_connect T) (rt_sleep T) (rt_server T) md q s)
      | ReqDecodeInvoice str \<Rightarrow> snd (server_decode_invoice (rt_secp T) (rt_codec T) str s)
      | ReqGetInvoice md q \<Rightarrow>
          snd (server_get_invoice (rt_secp T) (rt_ldk T) (rt_codec T) (rt_connect T) (rt_sleep T) (rt_server T) md q s)
      | ReqPayInvoice md q \<Rightarrow>
          snd (server_pay_invoice (rt_secp T) (rt_ldk T) (rt_codec T) (rt_connect T) (rt_server T) md q s)
      | ReqCreateOffer md q \<Rightarrow>
          snd (server_create_offer (rt_secp T) (rt_ldk T) (rt_codec T) (rt_connect T) (rt_server T) md q s)
      | ReqMessage m ctx resp \<Rightarrow> snd (handle_message (rt_secp T) (rt_ldk T) (rt_client T) m ctx resp s))"

text \<open>What is relied on of the outside world: it changes the handler by the handler's steps only.\<close>

definition runtime_moves :: "'w runtime \<Rightarrow> bool" where
  "runtime_moves T \<longleftrightarrow>
     ldk_moves (sys_steps (rt_ldk T)) (rt_ldk T) \<and> moves (sys_steps (rt_ldk T)) (rt_sleep T) \<and>
     connect_moves (sys_steps (rt_ldk T)) (rt_connect T) \<and>
     (\<forall>c. rt_client T = Some c \<longrightarrow> client_moves (sys_steps (rt_ldk T)) c)"

lemma moves_snd: "moves R m \<Longrightarrow> R s (snd (m s))"
  by (simp only: moves_def)

lemma serve_steps:
  assumes "runtime_moves T"
  shows "sys_steps (rt_ldk T) s (serve T r s)"
proof -
  have m: "ldk_moves (sys_steps (rt_ldk T)) (rt_ldk T)" "moves (sys_steps (rt_ldk T)) (rt_sleep T)"
    "connect_moves (sys_steps (rt_ldk T)) (rt_connect T)"
    and c: "rt_client T = Some c \<Longrightarrow> client_moves (sys_steps (rt_ldk T)) c" for c
    using assms by (auto simp: runtime_moves_def)
  show ?thesis
    by (cases r)
      (simp_all add: serve_def moves_snd [OF server_calls_move(1) [OF m]] moves_snd [OF server_calls_move(2) [OF m]]
        moves_snd [OF server_calls_move(3) [OF m]] moves_snd [OF server_calls_move(4) [OF m]]
        moves_snd [OF server_calls_move(5) [OF m]] moves_snd [OF handle_message_moves [OF c]])
qed

lemma served_steps: "runtime_moves T \<Longrightarrow> sys_steps (rt_ldk T) s (fold (serve T) rs s)"
proof (induction rs arbitrary: s)
  case (Cons r rs)
  from steps.R_trans [OF serve_steps [OF Cons.prems] Cons.IH [OF Cons.prems]] show ?case by simp
qed (simp add: steps.R_refl)

text \<open>
  C1. Only verified invoices, at all times: from the start of the daemon on, whatever calls are served
  and whatever messages arrive, in whatever order and with whatever interference while they wait
  for LND, every invoice the handler stores was verified with its key for the payment id it is
  stored under, and the key is the one of the start.
\<close>

theorem daemon_stores_verified_invoices:
  assumes "runtime_moves T"
  shows "let h = fst (fold (serve T) rs (OfferHandler_new timeout (Some seed) rnd, w)) in
    invoices_verified (rt_ldk T) h \<and> handler_key h = ExpandedKey seed"
proof -
  note s = served_steps [OF assms, of "(OfferHandler_new timeout (Some seed) rnd, w)" rs]
  have "handler_key (OfferHandler_new timeout (Some seed) rnd) = ExpandedKey seed"
    by (simp add: OfferHandler_new_def)
  with steps_key [OF s] steps_verified [OF s] show ?thesis by (simp add: Let_def)
qed

definition sample_runtime :: "nat runtime" where
  "sample_runtime = \<lparr>rt_secp = sample_secp, rt_ldk = quiet_ldk, rt_codec = sample_codec,
     rt_connect = sample_connect, rt_sleep = delivering_sleep, rt_server = sample_server,
     rt_client = Some paying_client\<rparr>"

lemma sample_runtime_moves: "runtime_moves sample_runtime"
  by (simp add: runtime_moves_def sample_runtime_def quiet_ldk_moves delivering_sleep_moves sample_connect_moves
      paying_client_moves)

theorem daemon_stores_verified_invoices_witness:
  "invoices_verified quiet_ldk (fst (fold (serve sample_runtime)
     [ReqMessage (MsgInvoiceError (InvoiceError '''')) None None, ReqPayOffer sample_md sample_pay_request]
     (OfferHandler_new None (Some [1]) [], 7)))"
proof -
  have "runtime_moves sample_runtime" by (rule sample_runtime_moves)
  from daemon_stores_verified_invoices [OF this] show ?thesis
    unfolding Let_def by (metis runtime.select_convs(2) sample_runtime_def)
qed



section \<open>From the command line to the payment\<close>

text \<open>The stub of \<open>lndk-cli\<close>, connected to the server.\<close>

definition server_client :: "'w runtime \<Rightarrow> 'w sys offers_client" where
  "server_client T =
     \<lparr>of_pay_offer = server_pay_offer (rt_secp T) (rt_ldk T) (rt_codec T) (rt_connect T) (rt_sleep T) (rt_server T),
      of_get_invoice = server_get_invoice (rt_secp T) (rt_ldk T) (rt_codec T) (rt_connect T) (rt_sleep T) (rt_server T),
      of_pay_invoice = server_pay_invoice (rt_secp T) (rt_ldk T) (rt_codec T) (rt_connect T) (rt_server T),
      of_create_offer = server_create_offer (rt_secp T) (rt_ldk T) (rt_codec T) (rt_connect T) (rt_server T)\<rparr>"

text \<open>Printing an offer that was read and reading it again gives it back.\<close>

definition offers_reparse :: "'l ldk \<Rightarrow> codec \<Rightarrow> bool" where
  "offers_reparse L D \<longleftrightarrow> (\<forall>str o'. decode L str = Ok o' \<longrightarrow> decode L (offer_to_string D o') = Ok o')"

text \<open>
  C5. What the user sees is what happened: when \<open>lndk-cli pay-offer\<close> ends normally against a server,
  the offer given on the command line was paid, with an amount that covers it and within the
  fee limit of the command line, by way of an invoice verified by the handler, and LND reports
  that payment as settled.
\<close>

theorem cli_payment_settled:
  assumes "runtime_moves T" and "offers_reparse (rt_ldk T) (rt_codec T)"
    and "\<And>e tls w. cl_connect B e tls w = (Inr (server_client T), w)"
    and "invoices_verified (rt_ldk T) (fst (cw_net s))"
    and "ca_command args = PayOffer str a note t f fp"
    and "cli_main (rt_ldk T) (rt_codec T) os B args s = (Ok (), s')"
  shows "\<exists>o' amt invoice pid c p. decode (rt_ldk T) str = Ok o' \<and> validate_amount (offer_amount o') a = Ok amt \<and>
    (\<exists>pid' nonce. verify_using_payer_data (rt_ldk T) invoice pid' nonce (handler_key (fst (cw_net s))) = Some pid) \<and>
    (\<exists>mac s1. rt_connect T (srv_address (rt_server T)) (srv_lnd_cert (rt_server T)) mac (cw_net s) = (Inr c, s1)) \<and>
    paid_through (rt_secp T) c amt (create_fee_limit f fp) invoice p"
proof -
  from cli_pay_offer_Ok [OF assms(5,6)] assms(3) obtain o' m preimage where d: "decode (rt_ldk T) str = Ok o'"
    and run: "server_pay_offer (rt_secp T) (rt_ldk T) (rt_codec T) (rt_connect T) (rt_sleep T) (rt_server T)
      [(''macaroon'', Inr m)] \<lparr>por_offer = offer_to_string (rt_codec T) o', por_amount = a, por_payer_note = note,
        por_response_invoice_timeout = t, por_fee_limit = f, por_fee_limit_percent = fp\<rparr> (cw_net s) =
      (Ok preimage, cw_net s')"
    by (auto simp: server_client_def)
  have "ldk_moves (sys_steps (rt_ldk T)) (rt_ldk T)" "moves (sys_steps (rt_ldk T)) (rt_sleep T)"
    "connect_moves (sys_steps (rt_ldk T)) (rt_connect T)" using assms(1) by (auto simp: runtime_moves_def)
  from server_pay_offer_outcome [OF this assms(4) run] d assms(2) show ?thesis
    by (auto simp: offers_reparse_def) blast
qed

definition served_lib :: "nat sys cli_lib" where
  "served_lib = sample_lib\<lparr>cl_connect := (\<lambda>_ _ w. (Inr (server_client sample_runtime), w))\<rparr>"

theorem cli_payment_settled_witness:
  "\<exists>s' c invoice p. cli_main quiet_ldk sample_codec sample_os served_lib
     (sample_cli_args (PayOffer ''lno1'' (Some 2000) None None None None))
     \<lparr>cw_out = [], cw_disk = empty_disk, cw_net = (sample_handler, 7)\<rparr> = (Ok (), s') \<and>
     paid_through sample_secp (c :: nat sys client) 2000 None invoice p"
proof -
  let ?args = "sample_cli_args (PayOffer ''lno1'' (Some 2000) None None None None)"
  let ?s = "\<lparr>cw_out = [], cw_disk = empty_disk, cw_net = (sample_handler, 7)\<rparr>"
  obtain w where "server_pay_offer sample_secp quiet_ldk sample_codec sample_connect delivering_sleep sample_server
      sample_md sample_pay_request (sample_handler, 7) = (Ok ''00'', w)" using sample_server_pay_offer by blast
  then have "\<exists>s'. cli_main quiet_ldk sample_codec sample_os served_lib ?args ?s = (Ok (), s')"
    by (simp add: cli_main_def sample_cli_args_def connect_cli_def read_cert_from_args_or_exit_def
        read_cert_from_args_def create_grpc_channel_def create_authenticated_client_def read_macaroon_from_args_def
        served_lib_def sample_lib_def server_client_def sample_runtime_def decode_or_exit_def send_with_def
        add_metadata_def sample_before sample_md_def sample_pay_request_def or_exit_def on_files_def on_wire_def
        println_def io_simps Let_def sample_codec_def [THEN arg_cong, of offer_to_string])
  then obtain s' where run: "cli_main quiet_ldk sample_codec sample_os served_lib ?args ?s = (Ok (), s')" by blast
  have T: "rt_ldk sample_runtime = quiet_ldk" "rt_codec sample_runtime = sample_codec"
    by (simp_all add: sample_runtime_def)
  note m = sample_runtime_moves
  have o: "offers_reparse (rt_ldk sample_runtime) (rt_codec sample_runtime)"
    by (auto simp: offers_reparse_def T decode_def quiet_ldk_def sample_ldk_def sample_codec_def split: if_splits)
  have "\<exists>c invoice p. paid_through sample_secp (c :: nat sys client) 2000 None invoice p"
    using cli_payment_settled [OF m o, of served_lib ?s ?args "''lno1''" "Some 2000" None None None None sample_os s'] run
    by (auto simp: T served_lib_def sample_cli_args_def sample_before sample_offer_def validate_amount_def
        create_fee_limit_def sample_runtime_def)
  with run show ?thesis by blast
qed

section \<open>The private key during the start\<close>

text \<open>
  C12. From the first step of the start to the last, and also when it fails, no key file of the daemon
  is readable by others with what the daemon wrote into it.
\<close>

theorem startup_key_never_exposed:
  assumes "startup K L os P s = (r, s')" and "d_past (mc_disk s) = []"
  shows "\<forall>fs\<in>set (d_files (mc_disk s') # d_past (mc_disk s')). \<forall>f. fs (path_join dir TLS_KEY_FILENAME) = Some f \<longrightarrow>
    f_content f = '''' \<or> f_mode f = USER_ONLY \<or> d_files (mc_disk s) (path_join dir TLS_KEY_FILENAME) = Some f"
proof -
  let ?p = "path_join dir TLS_KEY_FILENAME"
  have "key_kept ?p (d_files (mc_disk s)) s s'" by (rule movesD [OF startup_kept [OF refl] assms(1)])
  with always_guarded_init [OF assms(2)] have "always_guarded ?p (d_files (mc_disk s)) (mc_disk s')"
    by (simp only: key_kept_def)
  then show ?thesis by (rule always_guardedD)
qed

theorem startup_key_never_exposed_witness:
  "\<exists>f. d_files (mc_disk (snd (startup sample_secp sample_ldk sample_os sample_platform sample_machine)))
       ''/d/tls-key.pem'' = Some f \<and> f_mode f = USER_ONLY"
proof -
  obtain dm s' m where run: "startup sample_secp sample_ldk sample_os sample_platform sample_machine = (Ok dm, s')"
    and key: "d_files (mc_disk s') ''/d/tls-key.pem'' = Some \<lparr>f_content = ''K'', f_mode = m\<rparr>"
    using sample_startup by blast
  have "d_past (mc_disk sample_machine) = []" by (simp add: sample_machine_def empty_disk_def)
  from startup_key_never_exposed [OF run this, of "''/d''"] run key show ?thesis
    by (simp add: path_join_def TLS_KEY_FILENAME_def sample_machine_def empty_disk_def)
qed

end
